(* ===== verification/Prelude.thy ===== *)
theory Prelude
  imports Main "HOL-Library.AList" "HOL-Library.Multiset"
begin

text \<open>
  Shared vocabulary of the development.

  A Rust \<open>HashMap\<close> is an association list with pairwise distinct keys. The order of the list is
  the iteration order of the map, which Rust leaves unspecified: the theorems quantify over
  every list, and the step relations of the components add a step that permutes the list. A
  \<open>HashSet\<close> is a distinct list. A Rust \<open>Result\<close> is a sum with \<open>Inl\<close> for \<open>Err\<close>. Points in time
  (\<open>Instant\<close>, \<open>SystemTime\<close>) are natural numbers handed to the operation that reads the clock.

  The collection \<open>hm_simps\<close> holds the rewrite rules of the map operations.
\<close>

named_theorems hm_simps

type_synonym ('k, 'v) hashmap = "('k \<times> 'v) list"

abbreviation hm_get :: "('k, 'v) hashmap \<Rightarrow> 'k \<Rightarrow> 'v option" where
  "hm_get m k \<equiv> map_of m k"

abbreviation hm_insert :: "'k \<Rightarrow> 'v \<Rightarrow> ('k, 'v) hashmap \<Rightarrow> ('k, 'v) hashmap" where
  "hm_insert k v m \<equiv> AList.update k v m"

abbreviation hm_remove :: "'k \<Rightarrow> ('k, 'v) hashmap \<Rightarrow> ('k, 'v) hashmap" where
  "hm_remove k m \<equiv> AList.delete k m"

abbreviation hm_keys :: "('k, 'v) hashmap \<Rightarrow> 'k list" where
  "hm_keys m \<equiv> map fst m"

definition hm_ok :: "('k, 'v) hashmap \<Rightarrow> bool" where
  "hm_ok m \<longleftrightarrow> distinct (map fst m)"

text \<open>Modifying the value under a key in place (\<open>get_mut\<close>); a missing key changes nothing.\<close>

definition hm_modify :: "'k \<Rightarrow> ('v \<Rightarrow> 'v) \<Rightarrow> ('k, 'v) hashmap \<Rightarrow> ('k, 'v) hashmap" where
  "hm_modify k f m = (case map_of m k of None \<Rightarrow> m | Some v \<Rightarrow> AList.update k (f v) m)"

subsection \<open>Lookup laws\<close>

lemma hm_get_insert [hm_simps]: "map_of (hm_insert k v m) = (map_of m)(k \<mapsto> v)"
  by (rule update_conv')

lemma hm_get_remove [hm_simps]: "map_of (hm_remove k m) = (map_of m)(k := None)"
  by (rule delete_conv')

lemma hm_get_modify [hm_simps]:
  "map_of (hm_modify k f m) = (map_of m)(k := map_option f (map_of m k))"
  by (auto simp: hm_modify_def update_conv' fun_eq_iff split: option.split)

lemma hm_ok_Nil [simp]: "hm_ok []"
  by (simp add: hm_ok_def)

lemma hm_ok_Cons [simp]: "hm_ok ((k, v) # m) \<longleftrightarrow> map_of m k = None \<and> hm_ok m"
  by (simp add: hm_ok_def map_of_eq_None_iff)

lemma hm_ok_insert [simp]: "hm_ok m \<Longrightarrow> hm_ok (hm_insert k v m)"
  by (simp add: hm_ok_def distinct_update)

lemma hm_ok_remove [simp]: "hm_ok m \<Longrightarrow> hm_ok (hm_remove k m)"
  by (simp add: hm_ok_def distinct_delete)

lemma hm_ok_modify [simp]: "hm_ok m \<Longrightarrow> hm_ok (hm_modify k f m)"
  by (simp add: hm_modify_def split: option.split)

lemma hm_ok_filter [simp]: "hm_ok m \<Longrightarrow> hm_ok (filter P m)"
  by (auto simp: hm_ok_def intro: distinct_map_filter)

lemma hm_ok_perm: "mset m = mset m' \<Longrightarrow> hm_ok m' = hm_ok m"
  by (metis hm_ok_def mset_eq_imp_distinct_iff mset_map)

lemma hm_get_perm:
  assumes "mset m = mset m'" "hm_ok m"
  shows "map_of m' = map_of m"
proof
  fix k
  have "set m' = set m" using assms(1) by (metis set_mset_mset)
  moreover have "hm_ok m'" using assms hm_ok_perm by metis
  ultimately show "map_of m' k = map_of m k"
    using assms(2) map_of_eq_Some_iff[of m k] map_of_eq_Some_iff[of m' k]
    by (metis hm_ok_def not_None_eq)
qed

lemma hm_mem_iff: "hm_ok m \<Longrightarrow> (k, v) \<in> set m \<longleftrightarrow> map_of m k = Some v"
  by (simp add: hm_ok_def)

lemma hm_get_filter:
  "hm_ok m \<Longrightarrow>
   map_of (filter (\<lambda>(k, v). P k v) m) k =
     (case map_of m k of Some v \<Rightarrow> (if P k v then Some v else None) | None \<Rightarrow> None)"
  by (induction m) (auto split: option.splits)

lemma hm_keys_dom: "set (hm_keys m) = dom (map_of m)"
  by (simp add: dom_map_of_conv_image_fst)

lemma hm_insert_fresh: "map_of m k = None \<Longrightarrow> hm_insert k v m = m @ [(k, v)]"
  by (induction m) (auto split: if_splits)

lemma hm_remove_append: "hm_remove k (m @ m') = hm_remove k m @ hm_remove k m'"
  by (induction m) auto

lemma hm_remove_fresh: "map_of m k = None \<Longrightarrow> hm_remove k m = m"
  by (metis delete_id map_of_eq_None_iff)

subsection \<open>Weighted sums over a map\<close>

text \<open>
  \<open>hm_sum f m\<close> adds a weight over the entries. The counts and totals the code computes over
  \<open>values()\<close> are instances, so one law for insertion and one for removal serve all of them.
\<close>

definition hm_sum :: "('k \<Rightarrow> 'v \<Rightarrow> 'a :: comm_monoid_add) \<Rightarrow> ('k, 'v) hashmap \<Rightarrow> 'a" where
  "hm_sum f m = sum_list (map (\<lambda>(k, v). f k v) m)"

lemma hm_sum_Nil [simp]: "hm_sum f [] = 0"
  by (simp add: hm_sum_def)

lemma hm_sum_Cons [simp]: "hm_sum f ((k, v) # m) = f k v + hm_sum f m"
  by (simp add: hm_sum_def)

lemma hm_sum_append: "hm_sum f (m @ m') = hm_sum f m + hm_sum f m'"
  by (induction m) (auto simp: ac_simps)

definition hm_weight :: "('k \<Rightarrow> 'v \<Rightarrow> 'a :: comm_monoid_add) \<Rightarrow> ('k, 'v) hashmap \<Rightarrow> 'k \<Rightarrow> 'a" where
  "hm_weight f m k = (case map_of m k of None \<Rightarrow> 0 | Some v \<Rightarrow> f k v)"

lemma hm_sum_remove: "hm_ok m \<Longrightarrow> hm_sum f (hm_remove k m) + hm_weight f m k = hm_sum f m"
proof (induction m)
  case (Cons p m)
  obtain k' v' where p: "p = (k', v')" by (cases p)
  show ?case
  proof (cases "k' = k")
    case True
    with Cons.prems p have "hm_remove k m = m" by (simp add: hm_remove_fresh)
    with True p show ?thesis by (simp add: hm_weight_def ac_simps)
  next
    case False
    with Cons p show ?thesis by (auto simp: hm_weight_def ac_simps)
  qed
qed (simp add: hm_weight_def)

lemma hm_sum_insert: "hm_ok m \<Longrightarrow> hm_sum f (hm_insert k v m) + hm_weight f m k = hm_sum f m + f k v"
proof (induction m)
  case (Cons p m)
  obtain k' v' where p: "p = (k', v')" by (cases p)
  with Cons show ?case by (auto simp: hm_weight_def ac_simps)
qed (simp add: hm_weight_def)

lemma hm_sum_insert_fresh: "map_of m k = None \<Longrightarrow> hm_sum f (hm_insert k v m) = hm_sum f m + f k v"
  by (simp add: hm_insert_fresh hm_sum_append)

lemma hm_sum_remove_le:
  fixes f :: "'k \<Rightarrow> 'v \<Rightarrow> nat"
  shows "hm_ok m \<Longrightarrow> hm_sum f (hm_remove k m) \<le> hm_sum f m"
  using hm_sum_remove[of m f k] by simp

lemma hm_sum_perm: "mset m = mset m' \<Longrightarrow> hm_sum f m' = hm_sum f m"
  by (metis hm_sum_def mset_map sum_mset_sum_list)

lemma hm_length_sum: "length m = hm_sum (\<lambda>_ _. 1) m"
  by (induction m) auto

lemma hm_filter_sum: "length (filter (\<lambda>(k, v). P k v) m) = hm_sum (\<lambda>k v. if P k v then 1 else 0) m"
  by (induction m) auto

lemma hm_filter_map_sum:
  "sum_list (map (\<lambda>(k, v). f k v) (filter (\<lambda>(k, v). P k v) m)) =
   hm_sum (\<lambda>k v. if P k v then f k v else 0) m"
  by (induction m) auto

lemma hm_weight_le:
  fixes f :: "'k \<Rightarrow> 'v \<Rightarrow> nat"
  shows "hm_ok m \<Longrightarrow> map_of m k = Some v \<Longrightarrow> f k v \<le> hm_sum f m"
  using hm_sum_remove[of m f k] by (simp add: hm_weight_def)

lemma hm_length_remove: "hm_ok m \<Longrightarrow> map_of m k = Some v \<Longrightarrow> Suc (length (hm_remove k m)) = length m"
  using hm_sum_remove[of m "\<lambda>_ _. 1 :: nat" k] by (simp add: hm_length_sum hm_weight_def)

lemma hm_length_remove_le: "length (hm_remove k m) \<le> length m"
  by (rule length_delete_le)

lemma hm_length_insert_le: "length (hm_insert k v m) \<le> Suc (length m)"
  by (induction m) auto

lemma hm_length_remove_mem: "(k, v) \<in> set m \<Longrightarrow> length (hm_remove k m) < length m"
  by (induction m) (auto simp: less_Suc_eq_le hm_length_remove_le)

lemma hm_length_modify [simp]: "length (hm_modify k f m) = length m"
proof -
  have "map_of m k = Some v \<Longrightarrow> length (hm_insert k w m) = length m" for v w
    by (induction m) (auto split: if_splits)
  then show ?thesis by (auto simp: hm_modify_def split: option.split)
qed

lemma hm_keys_modify [simp]: "hm_keys (hm_modify k f m) = hm_keys m"
proof -
  have "map_of m k = Some v \<Longrightarrow> map fst (hm_insert k w m) = map fst m" for v w
    by (induction m) (auto split: if_splits)
  then show ?thesis by (auto simp: hm_modify_def split: option.split)
qed

lemma hm_sum_modify:
  assumes "hm_ok m" "map_of m k = Some v"
  shows "hm_sum f (hm_modify k g m) + f k v = hm_sum f m + f k (g v)"
  using hm_sum_insert[OF assms(1), of f k "g v"] assms(2)
  by (simp add: hm_modify_def hm_weight_def)

lemma hm_modify_none: "map_of m k = None \<Longrightarrow> hm_modify k f m = m"
  by (simp add: hm_modify_def)

subsection \<open>Distinct lists as sets\<close>

lemma length_removeAll_distinct:
  "distinct xs \<Longrightarrow> length (removeAll x xs) = (if x \<in> set xs then length xs - 1 else length xs)"
  by (metis distinct_remove1_removeAll length_remove1 removeAll_id)

lemma length_card_set: "distinct xs \<Longrightarrow> length xs = card (set xs)"
  by (simp add: distinct_card)

subsection \<open>Stable sorting\<close>

lemma sort_key_take_le_drop:
  assumes "x \<in> set (take n (sort_key f xs))" "y \<in> set (drop n (sort_key f xs))"
  shows "f x \<le> f y"
proof -
  have "sorted (map f (take n (sort_key f xs)) @ map f (drop n (sort_key f xs)))"
    by (metis append_take_drop_id map_append sorted_sort_key)
  then show ?thesis using assms by (auto simp: sorted_append)
qed

text \<open>The index of the first element that satisfies a predicate (\<open>Iterator::position\<close>).\<close>

fun position :: "('a \<Rightarrow> bool) \<Rightarrow> 'a list \<Rightarrow> nat option" where
  "position P [] = None"
| "position P (x # xs) = (if P x then Some 0 else map_option Suc (position P xs))"

lemma position_None: "position P xs = None \<longleftrightarrow> (\<forall>x \<in> set xs. \<not> P x)"
  by (induction xs) auto

lemma position_Some:
  "position P xs = Some i \<longleftrightarrow> i < length xs \<and> P (xs ! i) \<and> (\<forall>j < i. \<not> P (xs ! j))"
proof (induction xs arbitrary: i)
  case (Cons x xs)
  show ?case
  proof (cases i)
    case 0
    then show ?thesis by simp
  next
    case (Suc i')
    then show ?thesis
      using Cons.IH[of i'] by (auto simp: nth_Cons' less_Suc_eq_0_disj all_conj_distrib split: if_splits)
  qed
qed simp

text \<open>Removing the element at an index (\<open>Vec::remove\<close>).\<close>

definition remove_at :: "nat \<Rightarrow> 'a list \<Rightarrow> 'a list" where
  "remove_at i xs = take i xs @ drop (Suc i) xs"

lemma remove_at_mset: "i < length xs \<Longrightarrow> mset xs = add_mset (xs ! i) (mset (remove_at i xs))"
  by (metis remove_at_def id_take_nth_drop mset_append mset.simps(2) union_mset_add_mset_right)

lemma length_remove_at: "i < length xs \<Longrightarrow> length (remove_at i xs) = length xs - 1"
  by (auto simp: remove_at_def)

lemma set_remove_at: "set (remove_at i xs) \<subseteq> set xs"
  by (auto simp: remove_at_def dest: in_set_takeD in_set_dropD)

lemma sorted_remove_at: "sorted (map f xs) \<Longrightarrow> sorted (map f (remove_at i xs))"
proof -
  assume s: "sorted (map f xs)"
  have "sorted (map f (take i xs) @ map f (drop i xs))"
    by (metis s append_take_drop_id map_append)
  moreover have "set (drop (Suc i) xs) \<subseteq> set (drop i xs)"
    by (rule set_drop_subset_set_drop) simp
  moreover have "sorted (map f (drop (Suc i) xs))"
    using s by (metis drop_map sorted_wrt_drop)
  ultimately show ?thesis by (auto simp: remove_at_def sorted_append)
qed

subsection \<open>Sets as lists, and the first minimum\<close>

text \<open>A \<open>HashSet\<close> is a list without repetitions.\<close>

definition hs_insert :: "'a \<Rightarrow> 'a list \<Rightarrow> 'a list" where
  "hs_insert x xs = (if x \<in> set xs then xs else xs @ [x])"

abbreviation hs_remove :: "'a \<Rightarrow> 'a list \<Rightarrow> 'a list" where
  "hs_remove \<equiv> removeAll"

lemma hs_insert_set [simp]: "set (hs_insert x xs) = insert x (set xs)"
  by (auto simp: hs_insert_def)

lemma hs_insert_distinct [simp]: "distinct xs \<Longrightarrow> distinct (hs_insert x xs)"
  by (simp add: hs_insert_def)

text \<open>\<open>Iterator::min_by_key\<close> returns the first of several minima.\<close>

fun min_by_key :: "('a \<Rightarrow> 'b :: linorder) \<Rightarrow> 'a list \<Rightarrow> 'a option" where
  "min_by_key f [] = None"
| "min_by_key f (x # xs) =
     (case min_by_key f xs of
        None \<Rightarrow> Some x
      | Some y \<Rightarrow> if f y < f x then Some y else Some x)"

lemma min_by_key_None [simp]: "min_by_key f xs = None \<longleftrightarrow> xs = []"
  by (cases xs) (auto split: option.splits)

lemma min_by_key_Some:
  "min_by_key f xs = Some x \<Longrightarrow> x \<in> set xs \<and> (\<forall>y \<in> set xs. f x \<le> f y)"
  by (induction xs arbitrary: x) (force split: option.splits if_splits)+

text \<open>\<open>Option::unwrap_or\<close>.\<close>

definition unwrap_or :: "'a option \<Rightarrow> 'a \<Rightarrow> 'a" where
  "unwrap_or x d = (case x of Some v \<Rightarrow> v | None \<Rightarrow> d)"

end
