(* ===== verification/Rust_Text.thy ===== *)
theory Rust_Text
  imports Prelude
begin

text \<open>
  The part of Rust's \<open>str\<close>, number formatting and number parsing that the program uses, on byte
  strings. A \<open>string\<close> is a list of bytes, as a Rust \<open>str\<close> is, so \<open>length\<close> is \<open>str::len\<close>.
  White space and case are those of ASCII: the multi-byte white space characters of Unicode,
  which \<open>str::trim\<close> also strips, are outside the model.
\<close>

subsection \<open>Characters\<close>

definition code_of :: "char \<Rightarrow> nat" where
  "code_of c = of_char c"

definition is_whitespace :: "char \<Rightarrow> bool" where
  "is_whitespace c \<longleftrightarrow> (9 \<le> code_of c \<and> code_of c \<le> 13) \<or> code_of c = 32"

definition to_ascii_lower :: "char \<Rightarrow> char" where
  "to_ascii_lower c = (if 65 \<le> code_of c \<and> code_of c \<le> 90 then char_of (code_of c + 32) else c)"

definition to_ascii_lowercase :: "string \<Rightarrow> string" where
  "to_ascii_lowercase s = map to_ascii_lower s"

lemma code_of_char_of: "n < 256 \<Longrightarrow> code_of (char_of n) = n"
  by (simp add: code_of_def)

subsection \<open>Trimming, prefixes and substrings\<close>

definition trim_start :: "string \<Rightarrow> string" where
  "trim_start s = dropWhile is_whitespace s"

definition trim :: "string \<Rightarrow> string" where
  "trim s = rev (dropWhile is_whitespace (rev (dropWhile is_whitespace s)))"

definition starts_with :: "string \<Rightarrow> string \<Rightarrow> bool" where
  "starts_with p s \<longleftrightarrow> take (length p) s = p"

definition ends_with :: "string \<Rightarrow> string \<Rightarrow> bool" where
  "ends_with p s \<longleftrightarrow> length p \<le> length s \<and> drop (length s - length p) s = p"

definition strip_prefix :: "string \<Rightarrow> string \<Rightarrow> string option" where
  "strip_prefix p s = (if starts_with p s then Some (drop (length p) s) else None)"

fun contains :: "string \<Rightarrow> string \<Rightarrow> bool" where
  "contains [] p = (p = [])"
| "contains (c # cs) p = (starts_with p (c # cs) \<or> contains cs p)"

lemma starts_with_iff: "starts_with p s \<longleftrightarrow> (\<exists>t. s = p @ t)"
  by (auto simp: starts_with_def) (metis append_take_drop_id)

lemma strip_prefix_append [simp]: "strip_prefix p (p @ s) = Some s"
  by (simp add: strip_prefix_def starts_with_def)

lemma contains_iff: "contains s p \<longleftrightarrow> (\<exists>a b. s = a @ p @ b)"
proof (induction s)
  case Nil
  then show ?case by auto
next
  case (Cons c s)
  show ?case
  proof
    assume "contains (c # s) p"
    then consider "starts_with p (c # s)" | "contains s p" by auto
    then show "\<exists>a b. c # s = a @ p @ b"
    proof cases
      case 1
      then show ?thesis by (metis starts_with_iff append_Nil)
    next
      case 2
      then obtain a b where "s = a @ p @ b" using Cons.IH by blast
      then have "c # s = (c # a) @ p @ b" by simp
      then show ?thesis by blast
    qed
  next
    assume "\<exists>a b. c # s = a @ p @ b"
    then obtain a b where ab: "c # s = a @ p @ b" by blast
    show "contains (c # s) p"
    proof (cases a)
      case Nil
      with ab have "starts_with p (c # s)" by (simp add: starts_with_iff)
      then show ?thesis by simp
    next
      case (Cons x a')
      with ab have "s = a' @ p @ b" by simp
      then show ?thesis using Cons.IH by auto
    qed
  qed
qed

lemma trim_id:
  assumes "\<forall>c \<in> set s. \<not> is_whitespace c"
  shows "trim s = s"
proof -
  have *: "dropWhile is_whitespace t = t" if "\<forall>c \<in> set t. \<not> is_whitespace c" for t
    using that by (cases t) auto
  have "\<forall>c \<in> set (rev s). \<not> is_whitespace c" using assms by simp
  then show ?thesis using assms by (simp add: trim_def *)
qed

subsection \<open>Formatting a number in a radix\<close>

definition digit_char :: "nat \<Rightarrow> char" where
  "digit_char d = (if d < 10 then char_of (48 + d) else char_of (87 + d))"

fun radix_str :: "nat \<Rightarrow> nat \<Rightarrow> string" where
  "radix_str r n =
     (if n < r \<or> r < 2 then [digit_char n] else radix_str r (n div r) @ [digit_char (n mod r)])"

declare radix_str.simps [simp del]

text \<open>\<open>{}\<close>, \<open>{:x}\<close>, \<open>{:#x}\<close> and \<open>{:0wx}\<close>.\<close>

definition fmt_dec :: "nat \<Rightarrow> string" where
  "fmt_dec n = radix_str 10 n"

definition fmt_hex :: "nat \<Rightarrow> string" where
  "fmt_hex n = radix_str 16 n"

definition fmt_hex_alt :: "nat \<Rightarrow> string" where
  "fmt_hex_alt n = ''0x'' @ fmt_hex n"

definition zero_pad :: "nat \<Rightarrow> string \<Rightarrow> string" where
  "zero_pad w s = replicate (w - length s) (CHR ''0'') @ s"

text \<open>\<open>{:?}\<close> of a \<open>str\<close>: quoted, with the escapes of \<open>char::escape_debug\<close>.\<close>

definition debug_char :: "char \<Rightarrow> string" where
  "debug_char c =
     (let n = code_of c in
      if n = 0 then [char_of (92 :: nat), CHR ''0'']
      else if n = 9 then [char_of (92 :: nat), CHR ''t'']
      else if n = 10 then [char_of (92 :: nat), CHR ''n'']
      else if n = 13 then [char_of (92 :: nat), CHR ''r'']
      else if n = 34 \<or> n = 92 then [char_of (92 :: nat), c]
      else if n < 32 \<or> n = 127 then [char_of (92 :: nat)] @ ''u{'' @ fmt_hex n @ ''}''
      else [c])"

definition fmt_debug :: "string \<Rightarrow> string" where
  "fmt_debug s = char_of (34 :: nat) # concat (map debug_char s) @ [char_of (34 :: nat)]"

subsection \<open>Parsing a number in a radix\<close>

text \<open>\<open>char::to_digit\<close>.\<close>

definition to_digit :: "nat \<Rightarrow> char \<Rightarrow> nat option" where
  "to_digit r c =
     (let n = code_of c;
          d = (if 48 \<le> n \<and> n \<le> 57 then Some (n - 48)
               else if 97 \<le> n \<and> n \<le> 122 then Some (n - 87)
               else if 65 \<le> n \<and> n \<le> 90 then Some (n - 55)
               else None)
      in case d of None \<Rightarrow> None | Some v \<Rightarrow> if v < r then Some v else None)"

fun radix_loop :: "nat \<Rightarrow> nat \<Rightarrow> nat \<Rightarrow> string \<Rightarrow> nat option" where
  "radix_loop w r acc [] = Some acc"
| "radix_loop w r acc (c # cs) =
     (case to_digit r c of
        None \<Rightarrow> None
      | Some d \<Rightarrow> if acc * r + d < 2 ^ w then radix_loop w r (acc * r + d) cs else None)"

text \<open>
  \<open>from_str_radix\<close> for an unsigned type of \<open>w\<close> bits: one leading \<open>+\<close> is accepted, an empty
  digit string, a foreign digit and an overflow are errors.
\<close>

definition from_str_radix :: "nat \<Rightarrow> nat \<Rightarrow> string \<Rightarrow> nat option" where
  "from_str_radix w r s =
     (case s of
        [] \<Rightarrow> None
      | c # cs \<Rightarrow>
          if c = CHR ''+'' then (if cs = [] then None else radix_loop w r 0 cs)
          else radix_loop w r 0 s)"

lemma digit_char_cases: "d < 36 \<Longrightarrow> code_of (digit_char d) = (if d < 10 then 48 + d else 87 + d)"
  by (auto simp: digit_char_def code_of_char_of)

lemma to_digit_digit_char: "d < r \<Longrightarrow> r \<le> 36 \<Longrightarrow> to_digit r (digit_char d) = Some d"
  using digit_char_cases[of d] by (auto simp: to_digit_def Let_def)

lemma digit_char_not:
  assumes "d < 36" "code_of c < 48 \<or> (57 < code_of c \<and> code_of c < 97) \<or> 122 < code_of c"
  shows "digit_char d \<noteq> c"
  using digit_char_cases[OF assms(1)] assms by (auto split: if_splits)

lemma radix_str_chars:
  assumes "2 \<le> r" "r \<le> 36"
  shows "set (radix_str r n) \<subseteq> digit_char ` {..<r}"
proof (induction n rule: less_induct)
  case (less n)
  show ?case
  proof (cases "n < r")
    case True
    then show ?thesis using assms by (subst radix_str.simps) auto
  next
    case False
    then have "n div r < n" using assms by (simp add: div_less_dividend)
    then have "set (radix_str r (n div r)) \<subseteq> digit_char ` {..<r}" by (rule less.IH)
    moreover have "n mod r < r" using assms by simp
    ultimately show ?thesis using False assms by (subst radix_str.simps) auto
  qed
qed

lemma radix_str_not_mem:
  assumes "2 \<le> r" "r \<le> 36" "code_of c < 48 \<or> (57 < code_of c \<and> code_of c < 97) \<or> 122 < code_of c"
  shows "c \<notin> set (radix_str r n)"
proof
  assume "c \<in> set (radix_str r n)"
  then obtain d where "d < r" "c = digit_char d" using radix_str_chars[OF assms(1,2), of n] by blast
  then show False using digit_char_not[of d c] assms(2,3) by simp
qed

lemma radix_str_nonempty [simp]: "radix_str r n \<noteq> []"
  by (subst radix_str.simps) simp

lemma radix_loop_radix_str:
  assumes "2 \<le> r" "r \<le> 36" "n < 2 ^ w"
  shows "radix_loop w r 0 (radix_str r n @ cs) = radix_loop w r n cs"
  using assms(3)
proof (induction n arbitrary: cs rule: less_induct)
  case (less n)
  show ?case
  proof (cases "n < r")
    case True
    then show ?thesis
      using less.prems assms by (subst radix_str.simps) (simp add: to_digit_digit_char)
  next
    case False
    then have lt: "n div r < n" using assms by (simp add: div_less_dividend)
    with less.prems have "n div r < 2 ^ w" by simp
    then have "radix_loop w r 0 (radix_str r (n div r) @ digit_char (n mod r) # cs) =
               radix_loop w r (n div r) (digit_char (n mod r) # cs)"
      using less.IH[OF lt] by blast
    moreover have "n mod r < r" using assms by simp
    moreover have "n div r * r + n mod r = n" by simp
    ultimately show ?thesis
      using False less.prems assms by (subst radix_str.simps) (simp add: to_digit_digit_char)
  qed
qed

lemma from_str_radix_radix_str:
  assumes "2 \<le> r" "r \<le> 36" "n < 2 ^ w"
  shows "from_str_radix w r (radix_str r n) = Some n"
proof -
  obtain c cs where s: "radix_str r n = c # cs"
    by (cases "radix_str r n") auto
  have "CHR ''+'' \<notin> set (radix_str r n)"
    by (rule radix_str_not_mem[OF assms(1,2)]) (simp add: code_of_def)
  then have "c \<noteq> CHR ''+''" using s by auto
  then show ?thesis
    using radix_loop_radix_str[OF assms, of "[]"] s by (simp add: from_str_radix_def)
qed

lemma radix_str_inject:
  assumes "2 \<le> r" "r \<le> 36"
  shows "radix_str r m = radix_str r n \<longleftrightarrow> m = n"
proof
  assume eq: "radix_str r m = radix_str r n"
  let ?w = "m + n"
  have "?w < 2 ^ ?w" by (rule less_exp)
  then have "m < 2 ^ ?w" "n < 2 ^ ?w" by linarith+
  then show "m = n"
    using from_str_radix_radix_str[OF assms] eq by (metis option.inject)
qed simp

lemma fmt_dec_inject [simp]: "fmt_dec m = fmt_dec n \<longleftrightarrow> m = n"
  by (simp add: fmt_dec_def radix_str_inject)

lemma fmt_hex_inject [simp]: "fmt_hex m = fmt_hex n \<longleftrightarrow> m = n"
  by (simp add: fmt_hex_def radix_str_inject)

lemma fmt_hex_letters:
  assumes "102 < code_of c"
  shows "c \<notin> set (fmt_hex n)"
proof
  assume "c \<in> set (fmt_hex n)"
  then obtain d where "d < 16" "c = digit_char d"
    using radix_str_chars[of 16 n] by (auto simp: fmt_hex_def)
  then show False using digit_char_cases[of d] assms by (simp split: if_splits)
qed

lemma fmt_hex_no_dash: "CHR ''-'' \<notin> set (fmt_hex n)"
  unfolding fmt_hex_def by (rule radix_str_not_mem) (simp_all add: code_of_def)

lemma fmt_dec_no_dash: "CHR ''-'' \<notin> set (fmt_dec n)"
  unfolding fmt_dec_def by (rule radix_str_not_mem) (simp_all add: code_of_def)

subsection \<open>Separators\<close>

lemma append_sep_inject:
  assumes "c \<notin> set a" "c \<notin> set a'"
  shows "a @ c # b = a' @ c # b' \<longleftrightarrow> a = a' \<and> b = b'"
  using assms
proof (induction a arbitrary: a')
  case Nil
  then show ?case by (cases a') auto
next
  case (Cons x a)
  then show ?case by (cases a') auto
qed

lemma sep_append_inject:
  assumes "c \<notin> set b" "c \<notin> set b'"
  shows "a @ c # b = a' @ c # b' \<longleftrightarrow> a = a' \<and> b = b'"
proof -
  have "rev (a @ c # b) = rev (a' @ c # b') \<longleftrightarrow> rev b @ c # rev a = rev b' @ c # rev a'" by simp
  then show ?thesis
    using append_sep_inject[of c "rev b" "rev b'" "rev a" "rev a'"] assms
    by (metis rev_rev_ident set_rev)
qed

subsection \<open>Paths\<close>

text \<open>
  \<open>Path::file_stem\<close> of a name: the part before its last dot, unless that dot comes first.
  \<open>with_extension("")\<close> replaces the last component by its stem.
\<close>

definition file_stem :: "string \<Rightarrow> string" where
  "file_stem name =
     (let before = rev (tl (dropWhile (\<lambda>c. c \<noteq> CHR ''.'') (rev name))) in
      if name = ''..'' \<or> before = [] then name else before)"

text \<open>\<open>Path::join\<close>: an absolute second path replaces the first.\<close>

definition path_join :: "string \<Rightarrow> string \<Rightarrow> string" where
  "path_join a b =
     (if starts_with ''/'' b then b
      else if a = [] \<or> ends_with ''/'' a then a @ b
      else a @ ''/'' @ b)"

definition without_extension :: "string \<Rightarrow> string" where
  "without_extension p =
     rev (dropWhile (\<lambda>c. c \<noteq> CHR ''/'') (rev p)) @
     file_stem (rev (takeWhile (\<lambda>c. c \<noteq> CHR ''/'') (rev p)))"

end
