(* ===== verification/Json.thy ===== *)
theory Json
  imports Complex_Main Rust_Text
begin

text \<open>
  The JSON values of \<open>serde_json\<close> with the accessors the program calls, and the error type of
  \<open>src/error.rs\<close>. An object is an association list from key to value; \<open>json_insert\<close> replaces
  the value of a present key as \<open>Map::insert\<close> does. The three number classes of \<open>serde_json\<close>
  are unsigned (\<open>JNum\<close>), negative (\<open>JNeg\<close>) and floating (\<open>JFloat\<close>, an exact rational).
\<close>

datatype json =
    JNull
  | JBool bool
  | JNum nat
  | JNeg int
  | JFloat rat
  | JStr string
  | JArr "json list"
  | JObj "(string \<times> json) list"

fun as_u64 :: "json \<Rightarrow> nat option" where
  "as_u64 (JNum n) = Some n"
| "as_u64 _ = None"

fun as_str :: "json \<Rightarrow> string option" where
  "as_str (JStr s) = Some s"
| "as_str _ = None"

fun as_bool :: "json \<Rightarrow> bool option" where
  "as_bool (JBool b) = Some b"
| "as_bool _ = None"

fun as_array :: "json \<Rightarrow> json list option" where
  "as_array (JArr xs) = Some xs"
| "as_array _ = None"

fun as_object :: "json \<Rightarrow> (string \<times> json) list option" where
  "as_object (JObj kvs) = Some kvs"
| "as_object _ = None"

text \<open>\<open>Value::get\<close> with a string key: only an object has members.\<close>

definition json_get :: "json \<Rightarrow> string \<Rightarrow> json option" where
  "json_get v k = (case v of JObj kvs \<Rightarrow> map_of kvs k | _ \<Rightarrow> None)"

text \<open>Indexing \<open>v[k]\<close>: a missing member reads as \<open>null\<close>.\<close>

definition json_index :: "json \<Rightarrow> string \<Rightarrow> json" where
  "json_index v k = (case json_get v k of Some x \<Rightarrow> x | None \<Rightarrow> JNull)"

definition json_insert :: "string \<Rightarrow> json \<Rightarrow> json \<Rightarrow> json" where
  "json_insert k x v = (case v of JObj kvs \<Rightarrow> JObj (hm_insert k x kvs) | _ \<Rightarrow> v)"

fun json_opt :: "json option \<Rightarrow> json" where
  "json_opt None = JNull"
| "json_opt (Some v) = v"

lemma json_get_obj [simp]: "json_get (JObj kvs) k = map_of kvs k"
  by (simp add: json_get_def)

lemma json_get_insert:
  "json_get (json_insert k x (JObj kvs)) k' = (if k' = k then Some x else map_of kvs k')"
  by (simp add: json_insert_def hm_simps)

subsection \<open>Tool errors (\<open>src/error.rs\<close>)\<close>

datatype ToolError =
    NoDatabaseOpen
  | DatabaseAlreadyOpen string
  | OpenFailed string
  | DatabaseLocked string
  | InvalidAddress string
  | InvalidPath string
  | InvalidParams string
  | InvalidToolCategory string
  | InvalidToolName string
  | AddressOutOfRange nat
  | FunctionNotFound nat
  | FunctionNameNotFound string
  | DecompilerUnavailable
  | Timeout nat
  | Busy
  | IdaError string
  | NotSupported string
  | WorkerClosed

fun tool_error_to_string :: "ToolError \<Rightarrow> string" where
  "tool_error_to_string NoDatabaseOpen = ''No database is currently open''"
| "tool_error_to_string (DatabaseAlreadyOpen s) =
     ''A database is already open: '' @ s @ ''. Use close_idb first.''"
| "tool_error_to_string (OpenFailed s) = ''Failed to open database: '' @ s"
| "tool_error_to_string (DatabaseLocked s) =
     ''Database appears to be open in another instance: '' @ s"
| "tool_error_to_string (InvalidAddress s) = ''Invalid address format: '' @ s"
| "tool_error_to_string (InvalidPath s) = ''Invalid database path: '' @ s"
| "tool_error_to_string (InvalidParams s) = ''Invalid parameters: '' @ s"
| "tool_error_to_string (InvalidToolCategory s) = ''Invalid tool category: '' @ s"
| "tool_error_to_string (InvalidToolName s) = ''Invalid tool name: '' @ s"
| "tool_error_to_string (AddressOutOfRange a) =
     ''Address '' @ fmt_hex_alt a @ '' is outside valid range''"
| "tool_error_to_string (FunctionNotFound a) = ''Function not found at address '' @ fmt_hex_alt a"
| "tool_error_to_string (FunctionNameNotFound s) = ''Function not found: '' @ s"
| "tool_error_to_string DecompilerUnavailable = ''Decompiler not available''"
| "tool_error_to_string (Timeout n) = ''Operation timed out after '' @ fmt_dec n @ '' seconds''"
| "tool_error_to_string Busy = ''Server is busy (request queue full). Please retry.''"
| "tool_error_to_string (IdaError s) = ''IDA error: '' @ s"
| "tool_error_to_string (NotSupported s) = ''Not supported: '' @ s"
| "tool_error_to_string WorkerClosed = ''Worker channel closed''"

end
