(* ===== verification/Iso_Time.thy ===== *)
theory Iso_Time
  imports Rust_Text
begin

text \<open>
  The time stamps of \<open>src/server/task.rs\<close>: \<open>iso_now\<close> formats the seconds since the Unix epoch
  by hand, and \<open>epoch_days_to_ymd\<close> turns a day number into a calendar date. The reference is
  the Gregorian calendar itself, given as the successor function \<open>next_day\<close>: the closed
  formula yields the epoch day for 0 and the next calendar day for every successor.
\<close>

definition epoch_days_to_ymd :: "nat \<Rightarrow> nat \<times> nat \<times> nat" where
  "epoch_days_to_ymd days =
     (let z = days + 719468;
          era = z div 146097;
          doe = z - era * 146097;
          yoe = (doe - doe div 1460 + doe div 36524 - doe div 146096) div 365;
          y = yoe + era * 400;
          doy = doe - (365 * yoe + yoe div 4 - yoe div 100);
          mp = (5 * doy + 2) div 153;
          d = doy - (153 * mp + 2) div 5 + 1;
          m = (if mp < 10 then mp + 3 else mp - 9);
          year = (if m \<le> 2 then y + 1 else y)
      in (year, m, d))"

definition iso_now :: "nat \<Rightarrow> string" where
  "iso_now secs =
     (let days = secs div 86400;
          time_secs = secs mod 86400;
          hours = time_secs div 3600;
          minutes = (time_secs mod 3600) div 60;
          seconds = time_secs mod 60
      in case epoch_days_to_ymd days of (year, month, day) \<Rightarrow>
           zero_pad 4 (fmt_dec year) @ ''-'' @ zero_pad 2 (fmt_dec month) @ ''-'' @
           zero_pad 2 (fmt_dec day) @ ''T'' @ zero_pad 2 (fmt_dec hours) @ '':'' @
           zero_pad 2 (fmt_dec minutes) @ '':'' @ zero_pad 2 (fmt_dec seconds) @ ''Z'')"

subsection \<open>The Gregorian calendar\<close>

definition is_leap :: "nat \<Rightarrow> bool" where
  "is_leap y \<longleftrightarrow> y mod 4 = 0 \<and> (y mod 100 \<noteq> 0 \<or> y mod 400 = 0)"

definition days_in_month :: "nat \<Rightarrow> nat \<Rightarrow> nat" where
  "days_in_month y m =
     (if m = 2 then (if is_leap y then 29 else 28)
      else if m \<in> {4, 6, 9, 11} then 30 else 31)"

fun next_day :: "nat \<times> nat \<times> nat \<Rightarrow> nat \<times> nat \<times> nat" where
  "next_day (y, m, d) =
     (if d < days_in_month y m then (y, m, d + 1)
      else if m < 12 then (y, m + 1, 1)
      else (y + 1, 1, 1))"

subsection \<open>Years of an era\<close>

text \<open>
  An era is 400 years that start on the first of March. \<open>year_start y\<close> is the day of the era
  on which its year \<open>y\<close> starts; the last year ends with the era.
\<close>

definition year_start :: "nat \<Rightarrow> nat" where
  "year_start y = (if y < 400 then 365 * y + y div 4 - y div 100 else 146097)"

definition year_estimate :: "nat \<Rightarrow> nat" where
  "year_estimate doe = doe - doe div 1460 + doe div 36524 - doe div 146096"

definition year_of :: "nat \<Rightarrow> nat" where
  "year_of doe = year_estimate doe div 365"


lemma div_Suc_le: "Suc n div k \<le> Suc (n div k)"
  by (simp add: div_Suc)

lemma estimate_step_arith:
  fixes n a b c a' b' c' :: nat
  assumes "a \<le> n" "a' \<le> Suc a" "c \<le> b" "c' \<le> b'" "b + c' \<le> b' + c"
  shows "n - a + b - c \<le> Suc n - a' + b' - c'"
  using assms by linarith

lemma year_estimate_step: "year_estimate n \<le> year_estimate (Suc n)"
proof -
  have le: "k div 146096 \<le> k div 36524" for k :: nat by (rule div_le_mono2) simp_all
  have cent: "n div 36524 + Suc n div 146096 \<le> Suc n div 36524 + n div 146096"
  proof (cases "146096 dvd Suc n")
    case True
    have "(146096::nat) = 36524 * 4" by simp
    with True have "36524 dvd Suc n" by (metis dvd_mult_left)
    with True show ?thesis by (simp only: div_Suc dvd_eq_mod_eq_0 if_True refl)
  next
    case False
    then have "Suc n div 146096 = n div 146096" by (simp only: div_Suc dvd_eq_mod_eq_0 if_False)
    moreover have "n div 36524 \<le> Suc n div 36524" by (rule div_le_mono) simp
    ultimately show ?thesis by simp
  qed
  show ?thesis
    unfolding year_estimate_def
    by (rule estimate_step_arith[OF div_le_dividend div_Suc_le le le cent])
qed

lemma year_estimate_mono: "m \<le> n \<Longrightarrow> year_estimate m \<le> year_estimate n"
  by (rule lift_Suc_mono_le[of year_estimate]) (rule year_estimate_step)

lemma year_start_split:
  assumes "c < 4" "q < 25" "r < 4"
  shows "year_start (100 * c + 4 * q + r) = 36524 * c + 1461 * q + 365 * r"
proof -
  have "(100 * c + 4 * q + r) div 4 = 25 * c + q"
    by (rule div_nat_eqI) (use assms in auto)
  moreover have "(100 * c + 4 * q + r) div 100 = c"
    by (rule div_nat_eqI) (use assms in auto)
  ultimately show ?thesis using assms by (simp add: year_start_def)
qed

lemma year_split:
  fixes y :: nat
  assumes "y < 400"
  obtains c q r where "y = 100 * c + 4 * q + r" "c < 4" "q < 25" "r < 4"
proof
  have "y = 100 * (y div 100) + y mod 100" by simp
  moreover have "y mod 100 = 4 * (y mod 100 div 4) + y mod 100 mod 4" by presburger
  ultimately show "y = 100 * (y div 100) + 4 * (y mod 100 div 4) + y mod 100 mod 4" by linarith
  show "y div 100 < 4" using assms by auto
  show "y mod 100 div 4 < 25" by (rule less_mult_imp_div_less) simp
  show "y mod 100 mod 4 < 4" by simp
qed

lemma year_estimate_start:
  assumes "y < 400"
  shows "year_estimate (year_start y) = 365 * y"
proof -
  obtain c q r where y: "y = 100 * c + 4 * q + r" and b: "c < 4" "q < 25" "r < 4"
    using year_split[OF assms] .
  let ?s = "36524 * c + 1461 * q + 365 * r"
  have "?s div 1460 = 25 * c + q" "?s div 36524 = c" "?s div 146096 = 0"
    using b by (auto intro!: div_nat_eqI)
  then show ?thesis
    unfolding y year_start_split[OF b] year_estimate_def by simp
qed

lemma year_estimate_before:
  assumes "0 < y" "y < 400"
  shows "year_estimate (year_start y - 1) < 365 * y"
proof -
  obtain c q r where y: "y = 100 * c + 4 * q + r" and b: "c < 4" "q < 25" "r < 4"
    using year_split[OF assms(2)] .
  let ?s = "36524 * c + 1461 * q + 365 * r - 1"
  have pos: "c > 0 \<or> q > 0 \<or> r > 0" using assms y by auto
  have d1: "?s div 1460 = 25 * c + q" using b pos by (auto intro!: div_nat_eqI)
  have d2: "?s div 36524 \<le> c"
    using b div_le_mono[of ?s "36524 * c + 36523" 36524] by auto
  have "year_estimate ?s \<le> ?s - (25 * c + q) + c"
    unfolding year_estimate_def d1 by (rule order_trans[OF diff_le_self add_left_mono[OF d2]])
  also have "\<dots> < 365 * (100 * c + 4 * q + r)" using pos by auto
  finally show ?thesis unfolding y year_start_split[OF b] .
qed

lemma year_of_range:
  assumes "doe < 146097"
  shows "year_of doe < 400 \<and> year_start (year_of doe) \<le> doe \<and> doe < year_start (Suc (year_of doe))"
proof -
  have last: "year_estimate 146096 = 145999" by (simp add: year_estimate_def)
  have "year_estimate doe \<le> 145999"
    using year_estimate_mono[of doe 146096] assms last by simp
  then have y: "year_of doe < 400" by (simp add: year_of_def)
  have "year_start (year_of doe) \<le> doe"
  proof (rule ccontr)
    assume "\<not> ?thesis"
    then have lt: "doe \<le> year_start (year_of doe) - 1" "0 < year_start (year_of doe)" by auto
    then have "0 < year_of doe" by (auto simp: year_start_def intro: ccontr)
    then have "year_estimate doe < 365 * year_of doe"
      using year_estimate_before[of "year_of doe"] y year_estimate_mono[OF lt(1)] by simp
    then show False by (simp add: year_of_def)
  qed
  moreover have "doe < year_start (Suc (year_of doe))"
  proof (cases "Suc (year_of doe) < 400")
    case True
    show ?thesis
    proof (rule ccontr)
      assume "\<not> ?thesis"
      then have "365 * Suc (year_of doe) \<le> year_estimate doe"
        using year_estimate_mono[of "year_start (Suc (year_of doe))" doe]
          year_estimate_start[OF True] by simp
      then have "365 * Suc (year_of doe) div 365 \<le> year_estimate doe div 365" by (rule div_le_mono)
      then show False by (simp add: year_of_def)
    qed
  next
    case False
    then show ?thesis using assms by (simp add: year_start_def)
  qed
  ultimately show ?thesis using y by simp
qed


subsection \<open>Months of a year\<close>

text \<open>Month (counted from March) and day of a day of the year, as the code computes them.\<close>

definition month_of :: "nat \<Rightarrow> nat" where
  "month_of doy = (5 * doy + 2) div 153"

definition mday_of :: "nat \<Rightarrow> nat" where
  "mday_of doy = doy - (153 * month_of doy + 2) div 5 + 1"

definition civil :: "nat \<Rightarrow> nat \<Rightarrow> nat \<times> nat \<times> nat" where
  "civil y doy =
     (let mp = month_of doy; m = (if mp < 10 then mp + 3 else mp - 9)
      in (if m \<le> 2 then y + 1 else y, m, mday_of doy))"

definition year_length :: "nat \<Rightarrow> nat" where
  "year_length y = (if is_leap (y + 1) then 366 else 365)"



definition month_start :: "nat \<Rightarrow> nat" where
  "month_start mp = (153 * mp + 2) div 5"

definition month_length :: "nat \<Rightarrow> nat \<Rightarrow> nat" where
  "month_length y mp =
     (if mp = 11 then (if is_leap (y + 1) then 29 else 28)
      else if mp \<in> {1, 3, 6, 8} then 30 else 31)"

definition civil_month :: "nat \<Rightarrow> nat \<Rightarrow> nat" where
  "civil_month y mp = (if mp < 10 then mp + 3 else mp - 9)"

definition civil_year :: "nat \<Rightarrow> nat \<Rightarrow> nat" where
  "civil_year y mp = (if mp < 10 then y else y + 1)"

lemma less_12_cases:
  assumes "(mp::nat) < 12"
  obtains "mp = 0" | "mp = 1" | "mp = 2" | "mp = 3" | "mp = 4" | "mp = 5" | "mp = 6"
    | "mp = 7" | "mp = 8" | "mp = 9" | "mp = 10" | "mp = 11"
proof -
  have "mp = 0 \<or> mp = 1 \<or> mp = 2 \<or> mp = 3 \<or> mp = 4 \<or> mp = 5 \<or> mp = 6 \<or>
    mp = 7 \<or> mp = 8 \<or> mp = 9 \<or> mp = 10 \<or> mp = 11" using assms by arith
  then show thesis using that by blast
qed

lemma month_start_step: "mp < 11 \<Longrightarrow> month_start (Suc mp) = month_start mp + month_length y mp"
  by (rule less_12_cases[of mp]) (simp_all add: month_start_def month_length_def)

lemma month_length_calendar:
  "mp < 12 \<Longrightarrow> month_length y mp = days_in_month (civil_year y mp) (civil_month y mp)"
  by (rule less_12_cases[of mp])
    (simp_all add: month_length_def days_in_month_def civil_year_def civil_month_def)

lemma month_of_start:
  assumes "mp < 12" "k < month_length y mp"
  shows "month_of (month_start mp + k) = mp"
proof -
  have "k < 31" using assms(2) by (auto simp: month_length_def split: if_splits)
  moreover have "mp \<in> {1, 3, 6, 8} \<Longrightarrow> k < 30" "mp = 11 \<Longrightarrow> k < 29"
    using assms(2) by (auto simp: month_length_def split: if_splits)
  ultimately show ?thesis
    using assms(1) unfolding month_of_def month_start_def
    by (elim less_12_cases) (auto intro!: div_nat_eqI)
qed

lemma civil_start:
  assumes "mp < 12" "k < month_length y mp"
  shows "civil y (month_start mp + k) = (civil_year y mp, civil_month y mp, k + 1)"
  using month_of_start[OF assms] assms(1)
  by (auto simp: civil_def mday_of_def civil_year_def civil_month_def month_start_def Let_def)

lemma year_length_start: "year_length y = month_start 11 + month_length y 11"
  by (simp add: year_length_def month_start_def month_length_def)

lemma doy_split:
  assumes "doy < month_start n + month_length y n" "n < 12"
  shows "\<exists>mp < 12. \<exists>k < month_length y mp. doy = month_start mp + k"
  using assms
proof (induction n)
  case 0
  then show ?case by (intro exI[of _ 0]) (simp add: month_start_def)
next
  case (Suc n)
  show ?case
  proof (cases "doy < month_start (Suc n)")
    case True
    then show ?thesis using Suc month_start_step[of n y] by simp
  next
    case False
    then have "doy = month_start (Suc n) + (doy - month_start (Suc n))"
      "doy - month_start (Suc n) < month_length y (Suc n)" using Suc.prems by auto
    then show ?thesis using Suc.prems(2) by blast
  qed
qed

lemma month_length_pos: "0 < month_length y mp"
  by (simp add: month_length_def)

lemma next_day_within_year:
  assumes "Suc doy < year_length y"
  shows "next_day (civil y doy) = civil y (Suc doy)"
proof -
  obtain mp k where mp: "mp < 12" "k < month_length y mp" and doy: "doy = month_start mp + k"
    using doy_split[of doy 11 y] assms year_length_start[of y] by auto
  note here = civil_start[OF mp] month_length_calendar[OF mp(1), of y]
  show ?thesis
  proof (cases "Suc k < month_length y mp")
    case True
    then show ?thesis using here civil_start[OF mp(1) True] doy by simp
  next
    case False
    then have k: "Suc k = month_length y mp" using mp by simp
    then have m11: "mp < 11" using assms doy mp(1) year_length_start[of y]
      by (cases "mp = 11") auto
    then have nxt: "Suc doy = month_start (Suc mp) + 0"
      using month_start_step[of mp y] k doy by simp
    have "civil y (Suc doy) = (civil_year y (Suc mp), civil_month y (Suc mp), 1)"
      unfolding nxt using civil_start[of "Suc mp" 0 y] m11 month_length_pos by simp
    moreover have "next_day (civil y doy) = (civil_year y (Suc mp), civil_month y (Suc mp), 1)"
      using here k doy m11 by (auto simp: civil_year_def civil_month_def)
    ultimately show ?thesis by simp
  qed
qed

lemma next_day_year_end:
  assumes "Suc doy = year_length y"
  shows "next_day (civil y doy) = civil (Suc y) 0"
proof -
  have k: "month_length y 11 - 1 < month_length y 11" using month_length_pos[of y 11] by simp
  have doy: "doy = month_start 11 + (month_length y 11 - 1)"
    using assms month_length_pos[of y 11] by (simp add: year_length_start)
  have "civil y doy = (y + 1, 2, month_length y 11)"
    unfolding doy using civil_start[OF _ k] k by (simp add: civil_year_def civil_month_def)
  moreover have "civil (Suc y) 0 = (y + 1, 3, 1)"
    using civil_start[of 0 0 "Suc y"] by (simp add: month_start_def month_length_def
        civil_year_def civil_month_def)
  moreover have "month_length y 11 = days_in_month (y + 1) 2"
    by (simp add: month_length_def days_in_month_def)
  ultimately show ?thesis by simp
qed

subsection \<open>The formula is the calendar\<close>

lemma is_leap_era: "is_leap (y + 400 * era) = is_leap y"
proof -
  have "(y + 400 * era) mod 4 = y mod 4" "(y + 400 * era) mod 100 = y mod 100"
    using mod_mult_self2[of y 4 "100 * era"] mod_mult_self2[of y 100 "4 * era"] by simp_all
  then show ?thesis by (simp add: is_leap_def)
qed

lemma year_length_era: "year_length (y + 400 * era) = year_length y"
  using is_leap_era[of "y + 1" era] by (simp add: year_length_def)

lemma is_leap_split:
  assumes "c < 4" "q < 25" "r < 4"
  shows "is_leap (100 * c + 4 * q + r + 1) \<longleftrightarrow> r = 3 \<and> (q < 24 \<or> c = 3)"
proof -
  let ?y = "100 * c + 4 * q + r + 1"
  consider "r < 3" | "r = 3" "q < 24" | "r = 3" "q = 24" using assms by linarith
  then show ?thesis
  proof cases
    case 1
    have "?y mod 4 = (r + 1 + 4 * (25 * c + q)) mod 4" by (simp add: ac_simps)
    also have "\<dots> = r + 1" using 1 by (simp only: mod_mult_self2) simp
    finally show ?thesis using 1 by (simp add: is_leap_def)
  next
    case 2
    have "?y mod 4 = (4 * (25 * c + q + 1)) mod 4" using 2 by simp
    also have "\<dots> = 0" by (simp only: mod_mult_self1_is_0)
    finally have m4: "?y mod 4 = 0" .
    have "?y = 4 * q + 4 + 100 * c" using 2 by simp
    then have "?y mod 100 = (4 * q + 4 + 100 * c) mod 100" by (simp only:)
    also have "\<dots> = 4 * q + 4" using 2 by (simp only: mod_mult_self2) simp
    finally show ?thesis using 2 m4 unfolding is_leap_def by simp
  next
    case 3
    then have y: "?y = 100 * (c + 1)" by simp
    have "c = 0 \<or> c = 1 \<or> c = 2 \<or> c = 3" using assms by arith
    then show ?thesis using 3 unfolding is_leap_def y by auto
  qed
qed

lemma year_start_step: "y < 400 \<Longrightarrow> year_start (Suc y) = year_start y + year_length y"
proof -
  assume y: "y < 400"
  obtain c q r where yc: "y = 100 * c + 4 * q + r" and b: "c < 4" "q < 25" "r < 4"
    using year_split[OF y] .
  have leap: "is_leap (y + 1) \<longleftrightarrow> r = 3 \<and> (q < 24 \<or> c = 3)"
    unfolding yc by (rule is_leap_split[OF b])
  show ?thesis
  proof (cases "Suc y < 400")
    case True
    consider "r < 3" | "r = 3" "q < 24" | "r = 3" "q = 24" "c < 3" using b True yc by linarith
    then show ?thesis
    proof cases
      case 1
      then show ?thesis
        using year_start_split[of c q "Suc r"] year_start_split[OF b] b leap yc
        by (simp add: year_length_def)
    next
      case 2
      then have "Suc y = 100 * c + 4 * Suc q + 0" using yc by simp
      then have "year_start (Suc y) = 36524 * c + 1461 * Suc q"
        using year_start_split[of c "Suc q" 0] b 2 by (simp only:)
      then show ?thesis using year_start_split[OF b] b leap yc 2 by (simp add: year_length_def)
    next
      case 3
      then show ?thesis
        using year_start_split[of "Suc c" 0 0] year_start_split[OF b] b leap yc
        by (simp add: year_length_def)
    qed
  next
    case False
    then have "y = 399" using y by simp
    then show ?thesis by (simp add: year_start_def year_length_def is_leap_def)
  qed
qed

lemma year_start_mono: "y \<le> y' \<Longrightarrow> year_start y \<le> year_start y'"
proof (rule lift_Suc_mono_le[of year_start])
  show "year_start n \<le> year_start (Suc n)" for n
    by (cases "n < 400") (simp_all add: year_start_step, simp add: year_start_def)
qed

lemma year_of_unique:
  assumes "y < 400" "year_start y \<le> doe" "doe < year_start (Suc y)"
  shows "year_of doe = y"
proof -
  have "year_start (Suc y) \<le> 146097" using year_start_mono[of "Suc y" 400] assms(1)
    by (simp add: year_start_def)
  then have r: "year_start (year_of doe) \<le> doe" "doe < year_start (Suc (year_of doe))"
    using year_of_range[of doe] assms by auto
  have "\<not> Suc y \<le> year_of doe" using year_start_mono[of "Suc y" "year_of doe"] r assms by linarith
  moreover have "\<not> Suc (year_of doe) \<le> y"
    using year_start_mono[of "Suc (year_of doe)" y] r assms by linarith
  ultimately show ?thesis by linarith
qed

lemma epoch_days_civil:
  assumes "days + 719468 = era * 146097 + doe" "doe < 146097"
  shows "epoch_days_to_ymd days = civil (year_of doe + 400 * era) (doe - year_start (year_of doe))"
proof -
  have era: "(days + 719468) div 146097 = era" using assms by (auto intro: div_nat_eqI)
  have doe: "days + 719468 - era * 146097 = doe" using assms(1) by simp
  have yo: "(doe - doe div 1460 + doe div 36524 - doe div 146096) div 365 = year_of doe"
    by (simp only: year_of_def year_estimate_def)
  have ys: "365 * year_of doe + year_of doe div 4 - year_of doe div 100 = year_start (year_of doe)"
    using year_of_range[OF assms(2)] by (simp only: year_start_def if_True)
  show ?thesis
    unfolding epoch_days_to_ymd_def Let_def era doe yo ys civil_def month_of_def mday_of_def
    by (simp only: mult.commute[of era])
qed

lemma epoch_days_step: "epoch_days_to_ymd (Suc n) = next_day (epoch_days_to_ymd n)"
proof -
  define era where "era = (n + 719468) div 146097"
  define doe where "doe = (n + 719468) mod 146097"
  have z: "n + 719468 = era * 146097 + doe" and lt: "doe < 146097"
    by (simp_all add: era_def doe_def)
  let ?y = "year_of doe"
  note r = year_of_range[OF lt]
  let ?doy = "doe - year_start ?y"
  have doe: "doe = year_start ?y + ?doy" using r by simp
  have len: "?doy < year_length ?y" using r year_start_step[of ?y] by auto
  have here: "epoch_days_to_ymd n = civil (?y + 400 * era) ?doy"
    by (rule epoch_days_civil[OF z lt])
  show ?thesis
  proof (cases "Suc ?doy < year_length ?y")
    case True
    then have y: "year_of (Suc doe) = ?y"
      using r year_start_step[of ?y] doe by (intro year_of_unique) auto
    have "year_start (Suc ?y) \<le> 146097"
      using year_start_mono[of "Suc ?y" 400] r by (simp only: year_start_def[of 400]) simp
    then have "Suc doe < 146097" using True r year_start_step[of ?y] doe by linarith
    then have "epoch_days_to_ymd (Suc n) = civil (?y + 400 * era) (Suc ?doy)"
      using epoch_days_civil[of "Suc n" era "Suc doe"] z y r by (simp add: Suc_diff_le)
    then show ?thesis
      using next_day_within_year[of ?doy "?y + 400 * era"] True here by (simp add: year_length_era)
  next
    case False
    then have e: "Suc ?doy = year_length ?y" using len by simp
    then have s: "Suc doe = year_start (Suc ?y)" using r year_start_step[of ?y] doe by simp
    have nd: "next_day (epoch_days_to_ymd n) = civil (Suc (?y + 400 * era)) 0"
      using next_day_year_end[of ?doy "?y + 400 * era"] e here by (simp add: year_length_era)
    show ?thesis
    proof (cases "Suc ?y < 400")
      case True
      then have "year_of (Suc doe) = Suc ?y"
        using s year_start_step[of "Suc ?y"] by (intro year_of_unique) (auto simp: year_length_def)
      moreover have "year_start (Suc (Suc ?y)) \<le> 146097"
        using year_start_mono[of "Suc (Suc ?y)" 400] True by (simp only: year_start_def[of 400]) simp
      then have "Suc doe < 146097"
        using s year_start_step[OF True] by (simp add: year_length_def split: if_splits)
      ultimately show ?thesis
        using epoch_days_civil[of "Suc n" era "Suc doe"] z s nd by simp
    next
      case False
      then have y399: "?y = 399" using r by simp
      then have "Suc doe = 146097" using s by (simp add: year_start_def)
      moreover have "year_of 0 = 0" by (simp add: year_of_def year_estimate_def)
      ultimately show ?thesis
        using epoch_days_civil[of "Suc n" "Suc era" 0] z nd y399
        by (simp add: year_start_def)
    qed
  qed
qed

text \<open>
  C19. The closed formula agrees with the Gregorian calendar on every day: day \<open>n\<close> after the
  epoch is the \<open>n\<close>-th successor of the first of January 1970.
\<close>

theorem epoch_days_calendar: "epoch_days_to_ymd n = (next_day ^^ n) (1970, 1, 1)"
proof (induction n)
  case 0
  have y: "year_of 135080 = 369" by (rule year_of_unique) (simp_all add: year_start_def)
  have "epoch_days_to_ymd 0 = civil (year_of 135080 + 400 * 4) (135080 - year_start (year_of 135080))"
    by (rule epoch_days_civil) simp_all
  also have "\<dots> = (1970, 1, 1)"
    by (simp add: y year_start_def civil_def month_of_def mday_of_def)
  finally show ?case by simp
next
  case (Suc n)
  then show ?case by (simp add: epoch_days_step)
qed

end
