(* ===== verification/Tasks.thy ===== *)
theory Tasks
  imports Json Iso_Time
begin

text \<open>
  The task registry of \<open>src/server/task.rs\<close>. The state is the map of entries behind the mutex
  together with the process-wide counter of \<open>next_task_id\<close>; each method takes the lock for its
  whole body and is one state transformer. A reading of the clock is a pair of the monotonic
  instant and the Unix seconds. A \<open>JoinHandle\<close> is a number, and \<open>cancel\<close> returns the handle
  it aborts. The counter is an \<open>AtomicU64\<close> that is only ever incremented; it is a natural
  number here, so its wrap-around after \<open>2^64\<close> ids is not modelled.
\<close>

subsection \<open>State\<close>

definition TERMINAL_TASK_CAP :: nat where
  "TERMINAL_TASK_CAP = 256"

datatype TaskStatus = Running | Completed | Failed | Cancelled

record TaskState =
  ts_id :: string
  ts_status :: TaskStatus
  ts_message :: string
  ts_meta :: "json option"
  ts_result :: "json option"
  ts_created_at :: nat
  ts_updated_at :: nat
  ts_created_at_iso :: string
  ts_updated_at_iso :: string
  ts_key :: "string option"

type_synonym join_handle = nat

record TaskEntry =
  te_state :: TaskState
  te_handle :: "join_handle option"

record TaskRegistry =
  tr_entries :: "(string, TaskEntry) hashmap"
  tr_counter :: nat

type_synonym clock = "nat \<times> nat"

definition new_registry :: TaskRegistry where
  "new_registry = \<lparr>tr_entries = [], tr_counter = 1\<rparr>"

subsection \<open>Operations\<close>

definition next_task_id :: "string \<Rightarrow> nat \<Rightarrow> string \<times> nat" where
  "next_task_id prefix n = (prefix @ ''-'' @ fmt_dec n, n + 1)"

definition now_with_iso :: "clock \<Rightarrow> nat \<times> string" where
  "now_with_iso clk = (fst clk, iso_now (snd clk))"

definition refresh_updated :: "clock \<Rightarrow> TaskState \<Rightarrow> TaskState" where
  "refresh_updated clk st =
     (case now_with_iso clk of (updated_at, updated_at_iso) \<Rightarrow>
        st\<lparr>ts_updated_at := updated_at, ts_updated_at_iso := updated_at_iso\<rparr>)"

definition terminal_ids :: "(string, TaskEntry) hashmap \<Rightarrow> (string \<times> nat) list" where
  "terminal_ids entries =
     map (\<lambda>(tid, e). (tid, ts_updated_at (te_state e)))
       (filter (\<lambda>(tid, e). ts_status (te_state e) \<noteq> Running) entries)"

definition prune_terminal_tasks ::
  "(string, TaskEntry) hashmap \<Rightarrow> (string, TaskEntry) hashmap" where
  "prune_terminal_tasks entries =
     (let terminal = terminal_ids entries in
      if length terminal \<le> TERMINAL_TASK_CAP then entries
      else
        let ordered = sort_key snd terminal;
            remove_count = length ordered - TERMINAL_TASK_CAP
        in fold (\<lambda>(tid, _) es. hm_remove tid es) (take remove_count ordered) entries)"

definition find_running_key :: "(string, TaskEntry) hashmap \<Rightarrow> string \<Rightarrow> string option" where
  "find_running_key entries key =
     map_option (\<lambda>(_, e). ts_id (te_state e))
       (find (\<lambda>(_, e). ts_status (te_state e) = Running \<and> ts_key (te_state e) = Some key) entries)"

definition create_internal ::
  "clock \<Rightarrow> string \<Rightarrow> string option \<Rightarrow> string \<Rightarrow> json option \<Rightarrow> TaskRegistry \<Rightarrow>
   (string + string) \<times> TaskRegistry" where
  "create_internal clk prefix key message meta r =
     (case (case key of None \<Rightarrow> None | Some k \<Rightarrow> find_running_key (tr_entries r) k) of
        Some existing_id \<Rightarrow> (Inl existing_id, r)
      | None \<Rightarrow>
          (case next_task_id prefix (tr_counter r) of (tid, counter) \<Rightarrow>
           case now_with_iso clk of (now, created) \<Rightarrow>
             let state = \<lparr>ts_id = tid, ts_status = Running, ts_message = message, ts_meta = meta,
                   ts_result = None, ts_created_at = now, ts_updated_at = now,
                   ts_created_at_iso = created, ts_updated_at_iso = created, ts_key = key\<rparr>;
                 entries = hm_insert tid \<lparr>te_state = state, te_handle = None\<rparr> (tr_entries r)
             in (Inr tid, \<lparr>tr_entries = prune_terminal_tasks entries, tr_counter = counter\<rparr>)))"

definition create_keyed ::
  "clock \<Rightarrow> string \<Rightarrow> string \<Rightarrow> TaskRegistry \<Rightarrow> (string + string) \<times> TaskRegistry" where
  "create_keyed clk key message r = create_internal clk ''dsc'' (Some key) message None r"

text \<open>\<open>create\<close> unwraps the result: the \<open>expect\<close> that fails on an \<open>Err\<close> is \<open>None\<close> here.\<close>

definition task_create ::
  "clock \<Rightarrow> string \<Rightarrow> string \<Rightarrow> TaskRegistry \<Rightarrow> string option \<times> TaskRegistry" where
  "task_create clk prefix message r =
     (case create_internal clk prefix None message None r of
        (Inl _, r') \<Rightarrow> (None, r')
      | (Inr tid, r') \<Rightarrow> (Some tid, r'))"

definition create_with_key ::
  "clock \<Rightarrow> string \<Rightarrow> string option \<Rightarrow> string \<Rightarrow> TaskRegistry \<Rightarrow> (string + string) \<times> TaskRegistry"
  where
  "create_with_key clk prefix key message r = create_internal clk prefix key message None r"

definition create_with_meta ::
  "clock \<Rightarrow> string \<Rightarrow> string option \<Rightarrow> string \<Rightarrow> json \<Rightarrow> TaskRegistry \<Rightarrow>
   (string + string) \<times> TaskRegistry" where
  "create_with_meta clk prefix key message meta r =
     create_internal clk prefix key message (Some meta) r"

definition set_handle :: "string \<Rightarrow> join_handle \<Rightarrow> TaskRegistry \<Rightarrow> TaskRegistry" where
  "set_handle tid h r =
     r\<lparr>tr_entries := hm_modify tid (\<lambda>e. e\<lparr>te_handle := Some h\<rparr>) (tr_entries r)\<rparr>"

definition task_get :: "TaskRegistry \<Rightarrow> string \<Rightarrow> TaskState option" where
  "task_get r tid = map_option te_state (hm_get (tr_entries r) tid)"

definition list_all_tasks :: "TaskRegistry \<Rightarrow> TaskState list" where
  "list_all_tasks r = map (\<lambda>(_, e). te_state e) (tr_entries r)"

definition update_message :: "clock \<Rightarrow> string \<Rightarrow> string \<Rightarrow> TaskRegistry \<Rightarrow> TaskRegistry" where
  "update_message clk tid message r =
     r\<lparr>tr_entries := hm_modify tid
         (\<lambda>e. e\<lparr>te_state := refresh_updated clk ((te_state e)\<lparr>ts_message := message\<rparr>)\<rparr>)
         (tr_entries r)\<rparr>"

fun merged_meta :: "json option \<Rightarrow> json \<Rightarrow> json option" where
  "merged_meta (Some (JObj existing)) (JObj patch) =
     Some (JObj (fold (\<lambda>(k, v) m. hm_insert k v m) patch existing))"
| "merged_meta _ patch = Some patch"

definition merge_meta :: "clock \<Rightarrow> string \<Rightarrow> json \<Rightarrow> TaskRegistry \<Rightarrow> TaskRegistry" where
  "merge_meta clk tid meta_patch r =
     r\<lparr>tr_entries := hm_modify tid
         (\<lambda>e. e\<lparr>te_state := refresh_updated clk
                 ((te_state e)\<lparr>ts_meta := merged_meta (ts_meta (te_state e)) meta_patch\<rparr>)\<rparr>)
         (tr_entries r)\<rparr>"

definition task_complete :: "clock \<Rightarrow> string \<Rightarrow> json \<Rightarrow> TaskRegistry \<Rightarrow> TaskRegistry" where
  "task_complete clk tid result r =
     r\<lparr>tr_entries := prune_terminal_tasks (hm_modify tid
         (\<lambda>e. \<lparr>te_state = refresh_updated clk ((te_state e)
                 \<lparr>ts_status := Completed, ts_message := ''Completed'', ts_result := Some result\<rparr>),
               te_handle = None\<rparr>)
         (tr_entries r))\<rparr>"

definition task_fail :: "clock \<Rightarrow> string \<Rightarrow> string \<Rightarrow> TaskRegistry \<Rightarrow> TaskRegistry" where
  "task_fail clk tid error r =
     r\<lparr>tr_entries := prune_terminal_tasks (hm_modify tid
         (\<lambda>e. \<lparr>te_state = refresh_updated clk
                 ((te_state e)\<lparr>ts_status := Failed, ts_message := error\<rparr>),
               te_handle = None\<rparr>)
         (tr_entries r))\<rparr>"

text \<open>\<open>cancel\<close> returns whether the task was running, and the handle that was aborted.\<close>

definition task_cancel ::
  "clock \<Rightarrow> string \<Rightarrow> TaskRegistry \<Rightarrow> (bool \<times> join_handle option) \<times> TaskRegistry" where
  "task_cancel clk tid r =
     (case hm_get (tr_entries r) tid of
        Some e \<Rightarrow>
          if ts_status (te_state e) = Running then
            ((True, te_handle e),
             r\<lparr>tr_entries := prune_terminal_tasks (hm_insert tid
                 \<lparr>te_state = refresh_updated clk ((te_state e)
                    \<lparr>ts_status := Cancelled, ts_message := ''Cancelled by client''\<rparr>),
                  te_handle = None\<rparr>
                 (tr_entries r))\<rparr>)
          else ((False, None), r)
      | None \<Rightarrow> ((False, None), r))"

definition create_completed ::
  "clock \<Rightarrow> string \<Rightarrow> json \<Rightarrow> TaskRegistry \<Rightarrow> string \<times> TaskRegistry" where
  "create_completed clk message result r =
     (case next_task_id ''task'' (tr_counter r) of (tid, counter) \<Rightarrow>
      case now_with_iso clk of (now, created) \<Rightarrow>
        let state = \<lparr>ts_id = tid, ts_status = Completed, ts_message = message, ts_meta = None,
              ts_result = Some result, ts_created_at = now, ts_updated_at = now,
              ts_created_at_iso = created, ts_updated_at_iso = created, ts_key = None\<rparr>;
            entries = hm_insert tid \<lparr>te_state = state, te_handle = None\<rparr> (tr_entries r)
        in (tid, \<lparr>tr_entries = prune_terminal_tasks entries, tr_counter = counter\<rparr>))"


subsection \<open>Pruning\<close>

definition is_terminal :: "TaskEntry \<Rightarrow> bool" where
  "is_terminal e \<longleftrightarrow> ts_status (te_state e) \<noteq> Running"

definition pruned_ids :: "(string, TaskEntry) hashmap \<Rightarrow> string list" where
  "pruned_ids es =
     map fst (take (length (terminal_ids es) - TERMINAL_TASK_CAP) (sort_key snd (terminal_ids es)))"

lemma fold_hm_remove: "fold (\<lambda>(k, _) es. hm_remove k es) xs es = filter (\<lambda>p. fst p \<notin> fst ` set xs) es"
proof (induction xs arbitrary: es)
  case (Cons x xs)
  have "hm_remove (fst x) es = filter (\<lambda>p. fst p \<noteq> fst x) es"
    by (induction es) auto
  with Cons show ?case by (auto simp: case_prod_beta intro: filter_cong)
qed simp

lemma prune_filter: "prune_terminal_tasks es = filter (\<lambda>p. fst p \<notin> set (pruned_ids es)) es"
  by (auto simp: prune_terminal_tasks_def pruned_ids_def fold_hm_remove Let_def)

lemma terminal_ids_filter:
  "terminal_ids (filter (\<lambda>p. Q (fst p)) es) = filter (\<lambda>p. Q (fst p)) (terminal_ids es)"
  by (induction es) (auto simp: terminal_ids_def)

lemma terminal_ids_mem:
  "hm_ok es \<Longrightarrow> (k, t) \<in> set (terminal_ids es) \<longleftrightarrow>
     (\<exists>e. map_of es k = Some e \<and> is_terminal e \<and> t = ts_updated_at (te_state e))"
  by (force simp: terminal_ids_def is_terminal_def hm_mem_iff)

lemma terminal_ids_distinct: "hm_ok es \<Longrightarrow> distinct (map fst (terminal_ids es))"
proof -
  assume "hm_ok es"
  then have "distinct (map fst (filter (\<lambda>(k, e). ts_status (te_state e) \<noteq> Running) es))"
    by (simp add: hm_ok_def distinct_map_filter)
  moreover have "map fst (terminal_ids es) =
      map fst (filter (\<lambda>(k, e). ts_status (te_state e) \<noteq> Running) es)"
    by (simp add: terminal_ids_def case_prod_beta comp_def)
  ultimately show ?thesis by simp
qed

lemma pruned_ids_subset: "set (pruned_ids es) \<subseteq> fst ` set (terminal_ids es)"
proof -
  have "set (take n (sort_key snd (terminal_ids es))) \<subseteq> set (terminal_ids es)" for n
    using set_take_subset[of n "sort_key snd (terminal_ids es)"] by simp
  then show ?thesis unfolding pruned_ids_def by fastforce
qed

lemma pruned_ids_distinct: "hm_ok es \<Longrightarrow> distinct (pruned_ids es)"
proof -
  assume "hm_ok es"
  then have "distinct (map fst (terminal_ids es))" by (rule terminal_ids_distinct)
  then have "distinct (map fst (sort_key snd (terminal_ids es)))"
    by (metis mset_eq_imp_distinct_iff mset_map mset_sort)
  then show ?thesis unfolding pruned_ids_def by (simp add: take_map[symmetric] distinct_take)
qed

lemma prune_get:
  "map_of (prune_terminal_tasks es) k = (if k \<in> set (pruned_ids es) then None else map_of es k)"
proof -
  have "map_of (filter (\<lambda>p. fst p \<notin> X) m) k = (if k \<in> X then None else map_of m k)"
    for X and m :: "(string, TaskEntry) hashmap"
    by (induction m) auto
  then show ?thesis by (simp add: prune_filter)
qed

lemma hm_ok_prune [simp]: "hm_ok es \<Longrightarrow> hm_ok (prune_terminal_tasks es)"
  by (simp add: prune_filter)

lemma prune_keeps_running:
  assumes "hm_ok es" "map_of es k = Some e" "\<not> is_terminal e"
  shows "map_of (prune_terminal_tasks es) k = Some e"
proof -
  have "k \<notin> set (pruned_ids es)"
    using pruned_ids_subset[of es] terminal_ids_mem[OF assms(1)] assms by fastforce
  then show ?thesis using assms by (simp add: prune_get)
qed

lemma prune_count:
  assumes "hm_ok es"
  shows "length (terminal_ids (prune_terminal_tasks es)) =
         min TERMINAL_TASK_CAP (length (terminal_ids es))"
proof -
  let ?t = "terminal_ids es"
  have d: "distinct (map fst ?t)" by (rule terminal_ids_distinct[OF assms])
  have len: "length (pruned_ids es) = length ?t - TERMINAL_TASK_CAP"
    by (simp add: pruned_ids_def)
  have "map fst (terminal_ids (prune_terminal_tasks es)) =
        filter (\<lambda>k. k \<notin> set (pruned_ids es)) (map fst ?t)"
    unfolding prune_filter terminal_ids_filter[of "\<lambda>k. k \<notin> set (pruned_ids es)"]
    by (simp add: filter_map comp_def)
  then have "length (terminal_ids (prune_terminal_tasks es)) =
        length (filter (\<lambda>k. k \<notin> set (pruned_ids es)) (map fst ?t))"
    by (metis length_map)
  also have "\<dots> = card (set (map fst ?t) - set (pruned_ids es))"
    using distinct_card[of "filter (\<lambda>k. k \<notin> set (pruned_ids es)) (map fst ?t)"] d
    by (simp add: set_diff_eq)
  also have "\<dots> = length ?t - length (pruned_ids es)"
    using pruned_ids_subset[of es] distinct_card[OF d] distinct_card[OF pruned_ids_distinct[OF assms]]
    by (simp add: card_Diff_subset)
  finally show ?thesis by (simp add: len min_def)
qed

lemma prune_oldest:
  assumes "hm_ok es" "map_of es k = Some e" "map_of (prune_terminal_tasks es) k = None"
    and "map_of (prune_terminal_tasks es) k' = Some e'" "is_terminal e'"
  shows "ts_updated_at (te_state e) \<le> ts_updated_at (te_state e')"
proof -
  let ?n = "length (terminal_ids es) - TERMINAL_TASK_CAP" and ?s = "sort_key snd (terminal_ids es)"
  have "k \<in> set (pruned_ids es)" using assms(2,3) by (simp add: prune_get split: if_splits)
  then obtain t where t: "(k, t) \<in> set (take ?n ?s)" by (auto simp: pruned_ids_def)
  then have "(k, t) \<in> set (terminal_ids es)" by (metis in_set_takeD set_sort)
  then have te: "t = ts_updated_at (te_state e)" using terminal_ids_mem[OF assms(1)] assms(2) by auto
  have k': "k' \<notin> set (pruned_ids es)" "map_of es k' = Some e'"
    using assms(4) by (auto simp: prune_get split: if_splits)
  let ?p = "(k', ts_updated_at (te_state e'))"
  have "?p \<in> set ?s" using terminal_ids_mem[OF assms(1)] k'(2) assms(5) by simp
  then have "?p \<in> set (take ?n ?s) \<or> ?p \<in> set (drop ?n ?s)"
    by (metis Un_iff append_take_drop_id set_append)
  moreover have "?p \<notin> set (take ?n ?s)" using k'(1) by (force simp: pruned_ids_def)
  ultimately have "snd (k, t) \<le> snd ?p" using sort_key_take_le_drop[OF t] by blast
  then show ?thesis by (simp add: te)
qed

subsection \<open>The registry invariant\<close>

definition issued :: "nat \<Rightarrow> string \<Rightarrow> bool" where
  "issued n tid \<longleftrightarrow> (\<exists>p m. tid = p @ ''-'' @ fmt_dec m \<and> m < n)"

definition keys_unique :: "(string, TaskEntry) hashmap \<Rightarrow> bool" where
  "keys_unique es \<longleftrightarrow>
     (\<forall>k1 k2 e1 e2 key. map_of es k1 = Some e1 \<and> map_of es k2 = Some e2 \<and>
        \<not> is_terminal e1 \<and> \<not> is_terminal e2 \<and>
        ts_key (te_state e1) = Some key \<and> ts_key (te_state e2) = Some key \<longrightarrow> k1 = k2)"

definition registry_ok :: "TaskRegistry \<Rightarrow> bool" where
  "registry_ok r \<longleftrightarrow>
     hm_ok (tr_entries r) \<and>
     (\<forall>k e. map_of (tr_entries r) k = Some e \<longrightarrow> ts_id (te_state e) = k \<and> issued (tr_counter r) k) \<and>
     keys_unique (tr_entries r) \<and>
     length (terminal_ids (tr_entries r)) \<le> TERMINAL_TASK_CAP"

lemma next_id_fresh: "issued n (prefix @ ''-'' @ fmt_dec m) \<Longrightarrow> m < n"
  using sep_append_inject[of "CHR ''-''"] fmt_dec_no_dash by (fastforce simp: issued_def)

lemma issued_mono: "issued n k \<Longrightarrow> n \<le> n' \<Longrightarrow> issued n' k"
  unfolding issued_def using less_le_trans by blast

lemma registry_ok_fresh:
  "registry_ok r \<Longrightarrow> map_of (tr_entries r) (prefix @ ''-'' @ fmt_dec (tr_counter r)) = None"
  using next_id_fresh[of "tr_counter r" prefix "tr_counter r"]
  by (cases "map_of (tr_entries r) (prefix @ ''-'' @ fmt_dec (tr_counter r))")
    (auto simp: registry_ok_def)

lemma registry_ok_new: "registry_ok new_registry"
  by (simp add: registry_ok_def new_registry_def keys_unique_def terminal_ids_def)

lemma find_running_key_None:
  assumes "hm_ok es" "find_running_key es key = None" "map_of es k = Some e" "\<not> is_terminal e"
  shows "ts_key (te_state e) \<noteq> Some key"
proof -
  have "(k, e) \<in> set es" using assms by (simp add: hm_mem_iff)
  then show ?thesis using assms(2,4)
    by (auto simp: find_running_key_def find_None_iff is_terminal_def)
qed

lemma find_running_key_Some:
  assumes "registry_ok r" "find_running_key (tr_entries r) key = Some tid"
  shows "\<exists>e. map_of (tr_entries r) tid = Some e \<and> \<not> is_terminal e \<and> ts_key (te_state e) = Some key"
proof -
  from assms(2) obtain k e where f: "find (\<lambda>(_, e). ts_status (te_state e) = Running \<and>
      ts_key (te_state e) = Some key) (tr_entries r) = Some (k, e)" and tid: "tid = ts_id (te_state e)"
    by (auto simp: find_running_key_def)
  from f have "(k, e) \<in> set (tr_entries r)" "ts_status (te_state e) = Running"
    "ts_key (te_state e) = Some key"
    by (auto simp: find_Some_iff nth_mem) (metis nth_mem)
  then show ?thesis using assms(1) tid by (auto simp: registry_ok_def hm_mem_iff is_terminal_def)
qed

text \<open>
  Every method ends in one of two ways: it rewrites one entry without making a terminal task
  running again, or it inserts a fresh entry. The invariant is kept in both cases, with or
  without the final pruning.
\<close>

lemma keys_unique_prune: "keys_unique es \<Longrightarrow> keys_unique (prune_terminal_tasks es)"
  unfolding keys_unique_def by (auto simp: prune_get split: if_splits)

lemma terminal_ids_modify_same:
  assumes "hm_ok es" "\<And>e. map_of es k = Some e \<Longrightarrow> is_terminal (f e) = is_terminal e"
  shows "length (terminal_ids (hm_modify k f es)) = length (terminal_ids es)"
proof -
  have sum: "length (terminal_ids m) = hm_sum (\<lambda>_ e. if is_terminal e then 1 else 0) m" for m
    by (induction m) (auto simp: terminal_ids_def is_terminal_def)
  show ?thesis
  proof (cases "map_of es k")
    case None
    then show ?thesis by (simp add: hm_modify_none)
  next
    case (Some e)
    then show ?thesis
      using hm_sum_modify[OF assms(1) Some, of "\<lambda>_ e. if is_terminal e then 1 else (0 :: nat)" f] assms(2)
      by (simp add: sum)
  qed
qed

lemma registry_ok_modify_keep:
  assumes "registry_ok r"
    and "\<And>e. is_terminal (f e) = is_terminal e"
    and "\<And>e. ts_id (te_state (f e)) = ts_id (te_state e)"
    and "\<And>e. ts_key (te_state (f e)) = ts_key (te_state e)"
  shows "registry_ok (r\<lparr>tr_entries := hm_modify k f (tr_entries r)\<rparr>)"
  using assms terminal_ids_modify_same[of "tr_entries r" k f]
  by (auto simp: registry_ok_def keys_unique_def hm_simps split: if_splits)

lemma registry_ok_modify_prune:
  assumes "registry_ok r"
    and "\<And>e. is_terminal (f e)"
    and "\<And>e. ts_id (te_state (f e)) = ts_id (te_state e)"
  shows "registry_ok (r\<lparr>tr_entries := prune_terminal_tasks (hm_modify k f (tr_entries r))\<rparr>)"
proof -
  let ?es = "hm_modify k f (tr_entries r)"
  have ok: "hm_ok ?es" using assms(1) by (simp add: registry_ok_def)
  have "keys_unique ?es"
    using assms(1,2) unfolding registry_ok_def keys_unique_def
    by (auto simp: hm_simps split: if_splits)
  moreover have "\<forall>k e. map_of ?es k = Some e \<longrightarrow> ts_id (te_state e) = k \<and> issued (tr_counter r) k"
    using assms(1,3) by (auto simp: registry_ok_def hm_simps split: if_splits)
  ultimately show ?thesis
    using ok prune_count[OF ok] keys_unique_prune
    by (auto simp: registry_ok_def prune_get split: if_splits)
qed

lemma registry_ok_insert_prune:
  assumes "registry_ok r" "map_of (tr_entries r) tid = None"
    and "ts_id (te_state e) = tid" "issued (Suc (tr_counter r)) tid"
    and "\<And>key k' e'. ts_key (te_state e) = Some key \<Longrightarrow> \<not> is_terminal e \<Longrightarrow>
           map_of (tr_entries r) k' = Some e' \<Longrightarrow> \<not> is_terminal e' \<Longrightarrow> ts_key (te_state e') \<noteq> Some key"
  shows "registry_ok \<lparr>tr_entries = prune_terminal_tasks (hm_insert tid e (tr_entries r)),
            tr_counter = tr_counter r + 1\<rparr>"
proof -
  let ?es = "hm_insert tid e (tr_entries r)"
  have ok: "hm_ok ?es" using assms(1) by (simp add: registry_ok_def)
  have "keys_unique ?es"
    using assms(1,5) unfolding registry_ok_def keys_unique_def
    by (auto simp: hm_simps split: if_splits)
  moreover have "\<forall>k e. map_of ?es k = Some e \<longrightarrow> ts_id (te_state e) = k \<and> issued (tr_counter r + 1) k"
    using assms(1,3,4)
    by (auto simp: registry_ok_def hm_simps split: if_splits intro: issued_mono[OF _ le_SucI[OF order_refl]])
  ultimately show ?thesis
    using ok prune_count[OF ok] keys_unique_prune
    by (auto simp: registry_ok_def prune_get split: if_splits)
qed

subsection \<open>The registry as a state machine\<close>

text \<open>
  A step is one call of a method, with any arguments and any reading of the clock. The counter
  of \<open>next_task_id\<close> is a \<open>static\<close>, so another registry of the process may advance it, and a
  hash map may enumerate its entries in another order after any insertion.
\<close>

inductive task_step :: "TaskRegistry \<Rightarrow> TaskRegistry \<Rightarrow> bool" where
  step_create: "create_internal clk prefix key message meta r = (res, r') \<Longrightarrow> task_step r r'"
| step_completed: "create_completed clk message result r = (tid, r') \<Longrightarrow> task_step r r'"
| step_handle: "task_step r (set_handle tid h r)"
| step_message: "task_step r (update_message clk tid message r)"
| step_meta: "task_step r (merge_meta clk tid patch r)"
| step_complete: "task_step r (task_complete clk tid result r)"
| step_fail: "task_step r (task_fail clk tid error r)"
| step_cancel: "task_cancel clk tid r = (res, r') \<Longrightarrow> task_step r r'"
| step_tick: "tr_counter r \<le> n \<Longrightarrow> task_step r (r\<lparr>tr_counter := n\<rparr>)"
| step_rehash: "mset es = mset (tr_entries r) \<Longrightarrow> task_step r (r\<lparr>tr_entries := es\<rparr>)"

abbreviation task_steps :: "TaskRegistry \<Rightarrow> TaskRegistry \<Rightarrow> bool" where
  "task_steps \<equiv> task_step\<^sup>*\<^sup>*"

definition new_task_entry ::
  "clock \<Rightarrow> string \<Rightarrow> TaskStatus \<Rightarrow> string option \<Rightarrow> string \<Rightarrow> json option \<Rightarrow> json option \<Rightarrow> TaskEntry"
  where
  "new_task_entry clk tid status key message meta result =
     \<lparr>te_state = \<lparr>ts_id = tid, ts_status = status, ts_message = message, ts_meta = meta,
        ts_result = result, ts_created_at = fst clk, ts_updated_at = fst clk,
        ts_created_at_iso = iso_now (snd clk), ts_updated_at_iso = iso_now (snd clk),
        ts_key = key\<rparr>, te_handle = None\<rparr>"

lemma new_task_entry_simps [simp]:
  "ts_id (te_state (new_task_entry clk tid status key message meta result)) = tid"
  "ts_status (te_state (new_task_entry clk tid status key message meta result)) = status"
  "ts_key (te_state (new_task_entry clk tid status key message meta result)) = key"
  "is_terminal (new_task_entry clk tid status key message meta result) \<longleftrightarrow> status \<noteq> Running"
  by (simp_all add: new_task_entry_def is_terminal_def)

lemma create_internal_unfold:
  "create_internal clk prefix key message meta r =
     (case Option.bind key (find_running_key (tr_entries r)) of
        Some existing \<Rightarrow> (Inl existing, r)
      | None \<Rightarrow>
          let tid = prefix @ ''-'' @ fmt_dec (tr_counter r) in
          (Inr tid, \<lparr>tr_entries = prune_terminal_tasks
             (hm_insert tid (new_task_entry clk tid Running key message meta None) (tr_entries r)),
             tr_counter = tr_counter r + 1\<rparr>))"
  by (simp add: create_internal_def new_task_entry_def next_task_id_def now_with_iso_def Let_def
      split: option.splits)

lemma create_completed_unfold:
  "create_completed clk message result r =
     (let tid = ''task'' @ ''-'' @ fmt_dec (tr_counter r) in
      (tid, \<lparr>tr_entries = prune_terminal_tasks
         (hm_insert tid (new_task_entry clk tid Completed None message None (Some result)) (tr_entries r)),
         tr_counter = tr_counter r + 1\<rparr>))"
  by (simp add: create_completed_def new_task_entry_def next_task_id_def now_with_iso_def Let_def)

lemma issued_next: "issued (Suc n) (prefix @ ''-'' @ fmt_dec n)"
  by (auto simp: issued_def)

lemma refresh_updated_simps [simp]:
  "ts_id (refresh_updated clk st) = ts_id st"
  "ts_status (refresh_updated clk st) = ts_status st"
  "ts_key (refresh_updated clk st) = ts_key st"
  "ts_message (refresh_updated clk st) = ts_message st"
  "ts_result (refresh_updated clk st) = ts_result st"
  "ts_meta (refresh_updated clk st) = ts_meta st"
  "ts_updated_at (refresh_updated clk st) = fst clk"
  by (simp_all add: refresh_updated_def now_with_iso_def)

lemma task_cancel_modify:
  "task_cancel clk tid r =
     (case hm_get (tr_entries r) tid of
        Some e \<Rightarrow>
          if is_terminal e then ((False, None), r)
          else ((True, te_handle e),
             r\<lparr>tr_entries := prune_terminal_tasks (hm_modify tid
                 (\<lambda>e. \<lparr>te_state = refresh_updated clk ((te_state e)
                    \<lparr>ts_status := Cancelled, ts_message := ''Cancelled by client''\<rparr>),
                  te_handle = None\<rparr>)
                 (tr_entries r))\<rparr>)
      | None \<Rightarrow> ((False, None), r))"
  by (simp add: task_cancel_def is_terminal_def hm_modify_def split: option.splits)

lemma registry_ok_perm:
  "registry_ok r \<Longrightarrow> mset es = mset (tr_entries r) \<Longrightarrow> registry_ok (r\<lparr>tr_entries := es\<rparr>)"
proof -
  assume r: "registry_ok r" and m: "mset es = mset (tr_entries r)"
  then have g: "map_of es = map_of (tr_entries r)" and ok: "hm_ok es"
    using hm_get_perm[of es "tr_entries r"] hm_ok_perm[of es "tr_entries r"]
    by (auto simp: registry_ok_def)
  have "mset (terminal_ids es) = mset (terminal_ids (tr_entries r))"
    unfolding terminal_ids_def by (simp add: m)
  then have "length (terminal_ids es) = length (terminal_ids (tr_entries r))"
    by (rule mset_eq_length)
  with r g ok show ?thesis by (simp add: registry_ok_def keys_unique_def)
qed

lemma registry_ok_create:
  assumes "registry_ok r" "create_internal clk prefix key message meta r = (res, r')"
  shows "registry_ok r'"
proof (cases "Option.bind key (find_running_key (tr_entries r))")
  case None
  let ?tid = "prefix @ ''-'' @ fmt_dec (tr_counter r)"
  have "registry_ok \<lparr>tr_entries = prune_terminal_tasks
     (hm_insert ?tid (new_task_entry clk ?tid Running key message meta None) (tr_entries r)),
     tr_counter = tr_counter r + 1\<rparr>"
    using assms(1) None find_running_key_None
    by (intro registry_ok_insert_prune registry_ok_fresh issued_next)
      (auto simp: registry_ok_def)
  with None assms(2) show ?thesis by (auto simp: create_internal_unfold Let_def)
qed (use assms in \<open>auto simp: create_internal_unfold\<close>)

lemma registry_ok_completed:
  assumes "registry_ok r" "create_completed clk message result r = (tid, r')"
  shows "registry_ok r'"
proof -
  let ?tid = "''task'' @ ''-'' @ fmt_dec (tr_counter r)"
  have "registry_ok \<lparr>tr_entries = prune_terminal_tasks
     (hm_insert ?tid (new_task_entry clk ?tid Completed None message None (Some result)) (tr_entries r)),
     tr_counter = tr_counter r + 1\<rparr>"
    using assms(1) by (intro registry_ok_insert_prune registry_ok_fresh issued_next) simp_all
  with assms(2) show ?thesis by (auto simp: create_completed_unfold Let_def)
qed

lemma task_step_registry_ok: "task_step r r' \<Longrightarrow> registry_ok r \<Longrightarrow> registry_ok r'"
proof (induction rule: task_step.induct)
  case (step_tick r n)
  then show ?case unfolding registry_ok_def
    by (auto intro: issued_mono)
next
  case (step_cancel clk tid r res r')
  then show ?case
    by (auto simp: task_cancel_modify is_terminal_def split: option.splits if_splits
        intro!: registry_ok_modify_prune)
next
  case (step_create clk prefix key message meta r res r')
  then show ?case by (rule registry_ok_create[rotated])
next
  case (step_completed clk message result r tid r')
  then show ?case by (rule registry_ok_completed[rotated])
next
  case (step_rehash es r)
  then show ?case by (rule registry_ok_perm[rotated])
next
  case (step_handle r tid h)
  show ?case unfolding set_handle_def
    by (rule registry_ok_modify_keep[OF step_handle]) (simp_all add: is_terminal_def)
next
  case (step_message r clk tid message)
  show ?case unfolding update_message_def
    by (rule registry_ok_modify_keep[OF step_message]) (simp_all add: is_terminal_def)
next
  case (step_meta r clk tid patch)
  show ?case unfolding merge_meta_def
    by (rule registry_ok_modify_keep[OF step_meta]) (simp_all add: is_terminal_def)
next
  case (step_complete r clk tid result)
  show ?case unfolding task_complete_def
    by (rule registry_ok_modify_prune[OF step_complete]) (simp_all add: is_terminal_def)
next
  case (step_fail r clk tid error)
  show ?case unfolding task_fail_def
    by (rule registry_ok_modify_prune[OF step_fail]) (simp_all add: is_terminal_def)
qed


lemma task_steps_registry_ok: "task_steps r r' \<Longrightarrow> registry_ok r \<Longrightarrow> registry_ok r'"
  by (induction rule: rtranclp_induct) (auto intro: task_step_registry_ok)

subsection \<open>Settled tasks stay settled\<close>

text \<open>An id that was handed out is settled when its task is terminal or has been pruned.\<close>

definition settled :: "TaskRegistry \<Rightarrow> string \<Rightarrow> bool" where
  "settled r tid \<longleftrightarrow> issued (tr_counter r) tid \<and>
     (case task_get r tid of None \<Rightarrow> True | Some st \<Rightarrow> ts_status st \<noteq> Running)"

lemma settled_iff:
  "settled r tid \<longleftrightarrow> issued (tr_counter r) tid \<and>
     (\<forall>e. map_of (tr_entries r) tid = Some e \<longrightarrow> is_terminal e)"
  by (auto simp: settled_def task_get_def is_terminal_def split: option.splits)

lemma settled_modify:
  assumes "settled r tid" "\<And>e. is_terminal e \<Longrightarrow> is_terminal (f e)"
  shows "settled (r\<lparr>tr_entries := hm_modify k f (tr_entries r)\<rparr>) tid"
    and "settled (r\<lparr>tr_entries := prune_terminal_tasks (hm_modify k f (tr_entries r))\<rparr>) tid"
  using assms by (auto simp: settled_iff hm_simps prune_get split: if_splits)

lemma settled_insert:
  assumes "settled r tid" "k = prefix @ ''-'' @ fmt_dec (tr_counter r)"
  shows "settled \<lparr>tr_entries = prune_terminal_tasks (hm_insert k e (tr_entries r)),
           tr_counter = tr_counter r + 1\<rparr> tid"
proof -
  have "tid \<noteq> k" using assms next_id_fresh[of "tr_counter r" prefix "tr_counter r"]
    by (auto simp: settled_iff)
  then show ?thesis using assms(1)
    by (auto simp: settled_iff hm_simps prune_get split: if_splits intro: issued_mono[OF _ le_SucI[OF order_refl]])
qed

lemma task_step_settled: "task_step r r' \<Longrightarrow> registry_ok r \<Longrightarrow> settled r tid \<Longrightarrow> settled r' tid"
proof (induction rule: task_step.induct)
  case (step_create clk prefix key message meta r res r')
  then show ?case
    by (auto simp: create_internal_unfold Let_def settled_insert[simplified] split: option.splits)
next
  case (step_completed clk message result r tid' r')
  then show ?case
    using settled_insert[OF step_completed.prems(2) refl, of "''task''"]
    by (auto simp: create_completed_unfold Let_def)
next
  case (step_cancel clk tid r res r')
  then show ?case
    by (auto simp: task_cancel_modify is_terminal_def split: option.splits if_splits
        intro!: settled_modify(2))
next
  case (step_tick r n)
  then show ?case by (auto simp: settled_iff intro: issued_mono)
next
  case (step_rehash es r)
  then have "map_of es = map_of (tr_entries r)"
    using hm_get_perm[of es "tr_entries r"] hm_ok_perm[of es "tr_entries r"] by (auto simp: registry_ok_def)
  with step_rehash show ?case by (simp add: settled_iff)
qed (auto simp: set_handle_def update_message_def merge_meta_def task_complete_def task_fail_def
      is_terminal_def intro!: settled_modify)

lemma task_steps_settled:
  "task_steps r r' \<Longrightarrow> registry_ok r \<Longrightarrow> settled r tid \<Longrightarrow> settled r' tid"
proof (induction rule: rtranclp_induct)
  case (step y z)
  then show ?case using task_steps_registry_ok[of r y] task_step_settled[of y z] by blast
qed

lemma create_internal_result:
  assumes "registry_ok r" "create_internal clk prefix key message meta r = (res, r')"
  shows "case res of
     Inl tid \<Rightarrow> r' = r \<and> (\<exists>st. task_get r tid = Some st \<and> ts_status st = Running \<and>
                 key \<noteq> None \<and> ts_key st = key)
   | Inr tid \<Rightarrow> task_get r tid = None \<and>
       task_get r' tid = Some (te_state (new_task_entry clk tid Running key message meta None)) \<and>
       (\<forall>tid' st. task_get r tid' = Some st \<and> ts_status st = Running \<longrightarrow>
          task_get r' tid' = Some st \<and> (key = None \<or> ts_key st \<noteq> key))"
proof (cases "Option.bind key (find_running_key (tr_entries r))")
  case None
  let ?tid = "prefix @ ''-'' @ fmt_dec (tr_counter r)"
  let ?e = "new_task_entry clk ?tid Running key message meta None"
  let ?es = "hm_insert ?tid ?e (tr_entries r)"
  have ok: "hm_ok ?es" "hm_ok (tr_entries r)" using assms(1) by (simp_all add: registry_ok_def)
  have res: "res = Inr ?tid" "tr_entries r' = prune_terminal_tasks ?es"
    using assms(2) None by (auto simp: create_internal_unfold Let_def)
  have fresh: "map_of (tr_entries r) ?tid = None" by (rule registry_ok_fresh[OF assms(1)])
  have new: "map_of (prune_terminal_tasks ?es) ?tid = Some ?e"
    by (rule prune_keeps_running[OF ok(1)]) (simp_all add: hm_simps)
  have "map_of (prune_terminal_tasks ?es) k = Some e \<and> (key = None \<or> ts_key (te_state e) \<noteq> key)"
    if "map_of (tr_entries r) k = Some e" "\<not> is_terminal e" for k e
  proof -
    have "map_of ?es k = Some e" using that fresh by (auto simp: hm_simps)
    then show ?thesis using prune_keeps_running[OF ok(1)] that None find_running_key_None[OF ok(2)]
      by (cases key) auto
  qed
  then show ?thesis using fresh new by (auto simp: res task_get_def is_terminal_def)
next
  case (Some tid)
  then obtain k where "key = Some k" "find_running_key (tr_entries r) k = Some tid"
    by (cases key) auto
  then show ?thesis using find_running_key_Some[OF assms(1), of k tid] assms(2)
    by (auto simp: create_internal_unfold task_get_def is_terminal_def)
qed


subsection \<open>Correctness of the registry\<close>

text \<open>
  C17. In every registry that the methods can produce from an empty one, entries are stored under
  their own id, at most one running task holds a given deduplication key, and no more than
  \<open>TERMINAL_TASK_CAP\<close> finished tasks are kept.
\<close>

theorem reachable_registry_ok:
  assumes "task_steps new_registry r"
  shows "hm_ok (tr_entries r) \<and>
    (\<forall>tid st. task_get r tid = Some st \<longrightarrow> ts_id st = tid) \<and>
    (\<forall>t1 s1 t2 s2. task_get r t1 = Some s1 \<and> task_get r t2 = Some s2 \<and>
       ts_status s1 = Running \<and> ts_status s2 = Running \<and>
       ts_key s1 = ts_key s2 \<and> ts_key s1 \<noteq> None \<longrightarrow> t1 = t2) \<and>
    length (filter (\<lambda>st. ts_status st \<noteq> Running) (list_all_tasks r)) \<le> TERMINAL_TASK_CAP"
proof -
  have ok: "registry_ok r" by (rule task_steps_registry_ok[OF assms registry_ok_new])
  have "length (filter (\<lambda>st. ts_status st \<noteq> Running) (list_all_tasks r)) =
        length (terminal_ids (tr_entries r))"
    by (simp add: list_all_tasks_def terminal_ids_def filter_map comp_def split_def)
  moreover have "\<forall>t1 s1 t2 s2. task_get r t1 = Some s1 \<and> task_get r t2 = Some s2 \<and>
       ts_status s1 = Running \<and> ts_status s2 = Running \<and>
       ts_key s1 = ts_key s2 \<and> ts_key s1 \<noteq> None \<longrightarrow> t1 = t2"
    using ok by (clarsimp simp: registry_ok_def keys_unique_def task_get_def is_terminal_def) metis
  moreover have "\<forall>tid st. task_get r tid = Some st \<longrightarrow> ts_id st = tid"
    using ok by (auto simp: registry_ok_def task_get_def)
  moreover have "hm_ok (tr_entries r)" "length (terminal_ids (tr_entries r)) \<le> TERMINAL_TASK_CAP"
    using ok by (simp_all add: registry_ok_def)
  ultimately show ?thesis by (intro conjI) (assumption | linarith)+
qed

theorem reachable_registry_ok_witness:
  "task_steps new_registry (snd (create_keyed (5, 0) ''k'' ''m'' new_registry)) \<and>
   length (filter (\<lambda>st. ts_status st \<noteq> Running)
     (list_all_tasks (snd (create_keyed (5, 0) ''k'' ''m'' new_registry)))) \<le> 256"
proof -
  have s: "task_steps new_registry (snd (create_keyed (5, 0) ''k'' ''m'' new_registry))"
    unfolding create_keyed_def
    by (intro r_into_rtranclp step_create[of "(5, 0)" "''dsc''" "Some ''k''" "''m''" None _
          "fst (create_internal (5, 0) ''dsc'' (Some ''k'') ''m'' None new_registry)"]) simp
  show ?thesis using s reachable_registry_ok[OF s] by (simp add: TERMINAL_TASK_CAP_def)
qed

text \<open>
  Pruning never touches a running task, changes no entry that it keeps, leaves exactly
  \<open>min 256 n\<close> of the \<open>n\<close> terminal tasks, and every task it drops was last updated no later than
  every terminal task it keeps.
\<close>

lemma prune_terminal_tasks_spec:
  assumes "hm_ok es"
  shows "let es' = prune_terminal_tasks es in
    (\<forall>k e. hm_get es k = Some e \<and> ts_status (te_state e) = Running \<longrightarrow> hm_get es' k = Some e) \<and>
    (\<forall>k e. hm_get es' k = Some e \<longrightarrow> hm_get es k = Some e) \<and>
    length (filter (\<lambda>(_, e). ts_status (te_state e) \<noteq> Running) es') =
      min TERMINAL_TASK_CAP (length (filter (\<lambda>(_, e). ts_status (te_state e) \<noteq> Running) es)) \<and>
    (\<forall>k e k' e'. hm_get es k = Some e \<and> hm_get es' k = None \<and>
       hm_get es' k' = Some e' \<and> ts_status (te_state e') \<noteq> Running \<longrightarrow>
       ts_updated_at (te_state e) \<le> ts_updated_at (te_state e'))"
proof -
  have len: "length (filter (\<lambda>(_, e). ts_status (te_state e) \<noteq> Running) m) = length (terminal_ids m)" for m
    by (simp add: terminal_ids_def)
  have sub: "hm_get (prune_terminal_tasks es) k = Some e \<Longrightarrow> hm_get es k = Some e" for k e
    by (simp add: prune_get split: if_splits)
  show ?thesis unfolding Let_def len
    using prune_keeps_running[OF assms] prune_count[OF assms] prune_oldest[OF assms] sub
    unfolding is_terminal_def by blast
qed

theorem prune_terminal_tasks_spec_witness:
  "let e = new_task_entry (3, 0) ''dsc-1'' Running None ''m'' None None in
   hm_ok [(''dsc-1'', e)] \<and> hm_get (prune_terminal_tasks [(''dsc-1'', e)]) ''dsc-1'' = Some e"
proof -
  define e where "e = new_task_entry (3, 0) ''dsc-1'' Running None ''m'' None None"
  have ok: "hm_ok [(''dsc-1'', e)]" by (simp add: hm_ok_def)
  show ?thesis using ok prune_terminal_tasks_spec[OF ok] by (simp add: Let_def e_def)
qed

text \<open>
  C18. A task that is completed, failed, cancelled or pruned can never be seen running again under
  the same id, whatever methods are called afterwards.
\<close>

theorem settled_forever:
  assumes "task_steps new_registry r" "issued (tr_counter r) tid"
    and "\<forall>st. task_get r tid = Some st \<longrightarrow> ts_status st \<noteq> Running"
    and "task_steps r r'" "task_get r' tid = Some st'"
  shows "ts_status st' \<noteq> Running"
proof -
  have "settled r tid" using assms(2,3) by (auto simp: settled_def split: option.splits)
  then have "settled r' tid"
    using task_steps_settled[OF assms(4)] task_steps_registry_ok[OF assms(1) registry_ok_new] by blast
  then show ?thesis using assms(5) by (simp add: settled_def)
qed

theorem settled_forever_witness:
  "let r = snd (create_completed (5, 0) ''m'' JNull new_registry);
       r' = update_message (6, 0) ''task-1'' ''again'' r
   in task_get r' ''task-1'' \<noteq> None \<and> ts_status (the (task_get r' ''task-1'')) \<noteq> Running"
proof -
  define r where "r = snd (create_completed (5, 0) ''m'' JNull new_registry)"
  define r' where "r' = update_message (6, 0) ''task-1'' ''again'' r"
  have d: "fmt_dec (Suc 0) = ''1''" by code_simp
  have n: "task_steps new_registry r" unfolding r_def
    by (intro r_into_rtranclp step_completed[of "(5, 0)" "''m''" JNull _ "''task-1''"])
      (simp add: create_completed_unfold Let_def new_registry_def d)
  have i: "issued (tr_counter r) ''task-1''"
    using issued_next[of 1 "''task''"]
    by (simp add: r_def create_completed_unfold Let_def new_registry_def d numeral_2_eq_2)
  have g: "\<forall>st. task_get r ''task-1'' = Some st \<longrightarrow> ts_status st \<noteq> Running"
    by (auto simp: r_def create_completed_unfold Let_def new_registry_def d task_get_def prune_get
        split: if_splits)
  have "task_get r ''task-1'' \<noteq> None"
    by (simp add: r_def create_completed_unfold Let_def new_registry_def d task_get_def
        prune_terminal_tasks_def terminal_ids_def TERMINAL_TASK_CAP_def)
  then obtain st' where st': "task_get r' ''task-1'' = Some st'"
    by (auto simp: r'_def update_message_def task_get_def hm_simps)
  have "task_steps r r'" unfolding r'_def by (intro r_into_rtranclp step_message)
  then have "ts_status st' \<noteq> Running" by (rule settled_forever[OF n i g _ st'])
  then show ?thesis using st' by (simp add: r_def r'_def Let_def)
qed

text \<open>
  Creating a task with a key either finds the running task that holds the key, in which case
  nothing changes and its id is the error value, or no running task holds it and a new running
  task with a fresh id is stored, with every running task left as it was.
\<close>

lemma create_internal_dedupes:
  assumes "task_steps new_registry r"
    and "create_internal clk prefix key message meta r = (res, r')"
  shows "case res of
     Inl tid \<Rightarrow> r' = r \<and> (\<exists>st. task_get r tid = Some st \<and> ts_status st = Running \<and>
                 key \<noteq> None \<and> ts_key st = key)
   | Inr tid \<Rightarrow> task_get r tid = None \<and>
       (\<exists>st. task_get r' tid = Some st \<and> ts_status st = Running \<and> ts_key st = key \<and>
          ts_id st = tid \<and> ts_message st = message \<and> ts_meta st = meta \<and> ts_result st = None \<and>
          ts_created_at st = fst clk \<and> ts_updated_at st = fst clk) \<and>
       (\<forall>tid' st. task_get r tid' = Some st \<and> ts_status st = Running \<longrightarrow>
          task_get r' tid' = Some st \<and> (key = None \<or> ts_key st \<noteq> key))"
  using create_internal_result[OF task_steps_registry_ok[OF assms(1) registry_ok_new] assms(2)]
  by (auto simp: new_task_entry_def split: sum.splits)

theorem create_internal_dedupes_witness:
  "\<exists>st. task_get (snd (create_internal (7, 0) ''dsc'' (Some ''k'') ''m'' None new_registry)) ''dsc-1'' = Some st \<and>
     ts_status st = Running \<and> ts_key st = Some ''k''"
proof -
  have d: "fmt_dec (Suc 0) = ''1''" by code_simp
  have "fst (create_internal (7, 0) ''dsc'' (Some ''k'') ''m'' None new_registry) = Inr ''dsc-1''"
    by (simp add: create_internal_unfold Let_def new_registry_def find_running_key_def d)
  then obtain r' where "create_internal (7, 0) ''dsc'' (Some ''k'') ''m'' None new_registry = (Inr ''dsc-1'', r')"
    by (metis prod.collapse)
  with create_internal_dedupes[OF rtranclp.rtrancl_refl this] show ?thesis by auto
qed

end
