(* ===== verification/Runtime_Config.thy ===== *)
theory Runtime_Config
  imports Json
begin

text \<open>
  Configuration of the server process: the choice of a worker backend for an IDA runtime
  (\<open>src/ida/runtime.rs\<close>, \<open>src/ida/capabilities.rs\<close>, \<open>src/ida/backend.rs\<close>), the limits the
  router reads from the environment (\<open>RouterConfig::from_env\<close> of \<open>src/router/mod.rs\<close>), and
  the expansion of a leading \<open>~/\<close> (\<open>src/lib.rs\<close>). The environment is a function from variable
  names to values, and the number of processors is an argument. A \<open>usize\<close> has 64 bits.
\<close>

subsection \<open>Worker backends\<close>

record IdaRuntimeVersion =
  major :: int
  minor :: int
  build :: int

definition fmt_int :: "int \<Rightarrow> string" where
  "fmt_int i = (if i < 0 then ''-'' @ fmt_dec (nat (- i)) else fmt_dec (nat i))"

definition runtime_to_string :: "IdaRuntimeVersion \<Rightarrow> string" where
  "runtime_to_string v = fmt_int (major v) @ ''.'' @ fmt_int (minor v) @ ''.'' @ fmt_int (build v)"

datatype WorkerBackendKind = NativeLinked | IdatCompat

fun as_cli_arg :: "WorkerBackendKind \<Rightarrow> string" where
  "as_cli_arg NativeLinked = ''native-linked''"
| "as_cli_arg IdatCompat = ''idat-compat''"

definition IDAT_COMPAT_METHODS :: "string list" where
  "IDAT_COMPAT_METHODS =
     [''open'', ''close'', ''shutdown'', ''get_analysis_status'', ''get_database_info'',
      ''list_functions'', ''get_function_by_name'', ''get_function_at_address'',
      ''get_address_info'', ''disassemble'', ''disassemble_function'', ''disassemble_function_at'',
      ''decompile_function'', ''get_pseudocode_at'', ''batch_decompile'', ''search_pseudocode'',
      ''diff_pseudocode'', ''list_segments'', ''list_strings'', ''list_imports'', ''list_exports'',
      ''list_entry_points'', ''list_globals'', ''read_bytes'', ''read_string'', ''read_int'',
      ''search_text'', ''search_bytes'', ''get_xrefs_to'', ''get_xrefs_from'',
      ''get_xrefs_to_string'', ''get_callers'', ''get_callees'', ''run_script'']"

fun supported_methods_for :: "WorkerBackendKind \<Rightarrow> string list" where
  "supported_methods_for IdatCompat = IDAT_COMPAT_METHODS"
| "supported_methods_for NativeLinked = []"

record RuntimeProbeResult =
  rp_runtime :: "IdaRuntimeVersion option"
  rp_backend :: "WorkerBackendKind option"
  rp_supported :: bool
  rp_reason :: "string option"
  rp_supported_methods :: "string list option"

definition probe_supported :: "IdaRuntimeVersion \<Rightarrow> WorkerBackendKind \<Rightarrow> RuntimeProbeResult" where
  "probe_supported runtime backend =
     \<lparr>rp_runtime = Some runtime, rp_backend = Some backend, rp_supported = True,
      rp_reason = None, rp_supported_methods = Some (supported_methods_for backend)\<rparr>"

definition probe_unsupported :: "IdaRuntimeVersion \<Rightarrow> string \<Rightarrow> RuntimeProbeResult" where
  "probe_unsupported runtime reason =
     \<lparr>rp_runtime = Some runtime, rp_backend = None, rp_supported = False,
      rp_reason = Some reason, rp_supported_methods = None\<rparr>"

definition probe_error :: "string \<Rightarrow> RuntimeProbeResult" where
  "probe_error reason =
     \<lparr>rp_runtime = None, rp_backend = None, rp_supported = False,
      rp_reason = Some reason, rp_supported_methods = None\<rparr>"

definition select_worker_backend :: "IdaRuntimeVersion \<Rightarrow> RuntimeProbeResult" where
  "select_worker_backend runtime =
     (if major runtime = 9 \<and> minor runtime < 3 then probe_supported runtime IdatCompat
      else if major runtime < 9 then
        probe_unsupported runtime
          (''IDA runtime '' @ runtime_to_string runtime @ '' is unsupported'')
      else probe_supported runtime NativeLinked)"

text \<open>
  The native backend opens a database only when the probe reports support; \<open>idalib::version\<close> is
  an argument.
\<close>

definition ensure_runtime_can_open :: "(string + IdaRuntimeVersion) \<Rightarrow> string + unit" where
  "ensure_runtime_can_open version =
     (case version of
        Inl e \<Rightarrow> Inl e
      | Inr v \<Rightarrow>
          let probe = select_worker_backend v in
          if \<not> rp_supported probe then
            Inl (case rp_reason probe of Some r \<Rightarrow> r | None \<Rightarrow> ''native backend is not supported'')
          else Inr ())"

definition version_le :: "IdaRuntimeVersion \<Rightarrow> IdaRuntimeVersion \<Rightarrow> bool" where
  "version_le a b \<longleftrightarrow> major a < major b \<or> (major a = major b \<and> minor a \<le> minor b)"

subsection \<open>Limits from the environment\<close>

record RouterConfig =
  max_workers :: nat
  max_workers_per_tenant :: nat
  max_pending_per_worker :: nat
  max_pending_per_tenant :: nat
  max_concurrent_spawns :: nat
  max_warm_workers :: nat
  max_queued_prewarms :: nat
  max_active_prewarms :: nat
  max_prewarms_per_tenant :: nat
  max_idb_cache_bytes :: nat
  max_response_cache_bytes :: nat
  max_queued_tasks :: nat
  max_active_tasks :: nat
  max_tasks_per_tenant :: nat
  node_id :: string

type_synonym environment = "string \<Rightarrow> string option"

definition env_u64 :: "environment \<Rightarrow> string \<Rightarrow> nat option" where
  "env_u64 env var = Option.bind (env var) (from_str_radix 64 10)"

definition env_positive :: "environment \<Rightarrow> string \<Rightarrow> nat option" where
  "env_positive env var =
     (case env_u64 env var of Some v \<Rightarrow> if v > 0 then Some v else None | None \<Rightarrow> None)"

definition saturating_mul_u64 :: "nat \<Rightarrow> nat \<Rightarrow> nat" where
  "saturating_mul_u64 a b = min (a * b) (2 ^ 64 - 1)"

definition clamp :: "nat \<Rightarrow> nat \<Rightarrow> nat \<Rightarrow> nat" where
  "clamp v lo hi = (if v < lo then lo else if v > hi then hi else v)"

definition from_env :: "nat option \<Rightarrow> nat \<Rightarrow> environment \<Rightarrow> RouterConfig" where
  "from_env parallelism pid env =
     (let cpu_hint = unwrap_or parallelism 4;
          default_max_workers = max (saturating_mul_u64 cpu_hint 8) 16;
          workers = unwrap_or (env_positive env ''IDA_CLI_MAX_WORKERS'') default_max_workers
      in \<lparr>max_workers = workers,
          max_workers_per_tenant = unwrap_or (env_positive env ''IDA_CLI_MAX_WORKERS_PER_TENANT'')
            (max (default_max_workers div 4) 4),
          max_pending_per_worker = unwrap_or (env_positive env ''IDA_CLI_MAX_PENDING_PER_WORKER'') 64,
          max_pending_per_tenant = unwrap_or (env_positive env ''IDA_CLI_MAX_PENDING_PER_TENANT'') 512,
          max_concurrent_spawns = unwrap_or (env_positive env ''IDA_CLI_MAX_CONCURRENT_SPAWNS'')
            (clamp workers 1 4),
          max_warm_workers = unwrap_or (env_positive env ''IDA_CLI_MAX_WARM_WORKERS'') 16,
          max_queued_prewarms = unwrap_or (env_positive env ''IDA_CLI_MAX_QUEUED_PREWARMS'') 256,
          max_active_prewarms = unwrap_or (env_positive env ''IDA_CLI_MAX_ACTIVE_PREWARMS'') 4,
          max_prewarms_per_tenant = unwrap_or (env_positive env ''IDA_CLI_MAX_PREWARMS_PER_TENANT'') 2,
          max_idb_cache_bytes = unwrap_or (env_u64 env ''IDA_CLI_MAX_IDB_CACHE_BYTES'')
            (50 * 1024 * 1024 * 1024),
          max_response_cache_bytes = unwrap_or (env_u64 env ''IDA_CLI_MAX_RESPONSE_CACHE_BYTES'')
            (2 * 1024 * 1024 * 1024),
          max_queued_tasks = unwrap_or (env_positive env ''IDA_CLI_MAX_QUEUED_TASKS'') 512,
          max_active_tasks = unwrap_or (env_positive env ''IDA_CLI_MAX_ACTIVE_TASKS'') 16,
          max_tasks_per_tenant = unwrap_or (env_positive env ''IDA_CLI_MAX_TASKS_PER_TENANT'') 8,
          node_id = unwrap_or (env ''IDA_CLI_NODE_ID'')
            (unwrap_or (env ''HOSTNAME'') ''ida-cli'' @ ''-'' @ fmt_dec pid)\<rparr>)"

definition config_ok :: "RouterConfig \<Rightarrow> bool" where
  "config_ok c \<longleftrightarrow>
     0 < max_workers c \<and> 0 < max_workers_per_tenant c \<and> 0 < max_pending_per_worker c \<and>
     0 < max_pending_per_tenant c \<and> 0 < max_concurrent_spawns c \<and> 0 < max_warm_workers c \<and>
     0 < max_queued_prewarms c \<and> 0 < max_active_prewarms c \<and> 0 < max_prewarms_per_tenant c \<and>
     0 < max_queued_tasks c \<and> 0 < max_active_tasks c \<and> 0 < max_tasks_per_tenant c"

subsection \<open>Paths\<close>

definition expand_path :: "environment \<Rightarrow> string \<Rightarrow> string" where
  "expand_path env path =
     unwrap_or
       (Option.bind (strip_prefix ''~/'' path)
          (\<lambda>stripped. map_option (\<lambda>h. path_join h stripped) (env ''HOME'')))
       path"

subsection \<open>Correctness\<close>

lemma env_positive_pos: "env_positive env var = Some v \<Longrightarrow> 0 < v"
  by (auto simp: env_positive_def split: option.splits if_splits)

lemma unwrap_or_positive: "0 < d \<Longrightarrow> 0 < unwrap_or (env_positive env var) d"
  by (cases "env_positive env var") (auto simp: unwrap_or_def env_positive_pos)

text \<open>
  Whatever the environment holds, every limit of the configuration is positive, so no limit
  can shut a component down; in particular a value that does not parse, or is zero, falls back to
  the default.
\<close>

lemma from_env_limits_positive: "config_ok (from_env parallelism pid env)"
  by (auto simp: config_ok_def from_env_def Let_def clamp_def
      intro!: unwrap_or_positive)

text \<open>
  The backend is chosen by version alone: runtimes older than 9.0 are refused with a reason,
  9.0 to 9.2 get the compatibility backend, everything newer gets the native one, and support
  never disappears in a newer version.
\<close>

lemma select_worker_backend_spec:
  "(rp_backend (select_worker_backend v) =
      (if version_le \<lparr>major = 9, minor = 3, build = 0\<rparr> v then Some NativeLinked
       else if major v = 9 then Some IdatCompat else None)) \<and>
   (rp_supported (select_worker_backend v) = (rp_backend (select_worker_backend v) \<noteq> None)) \<and>
   (rp_reason (select_worker_backend v) = None) = rp_supported (select_worker_backend v) \<and>
   (rp_supported (select_worker_backend v) \<and> version_le v v' \<longrightarrow>
      rp_supported (select_worker_backend v'))"
  by (auto simp: select_worker_backend_def probe_supported_def probe_unsupported_def version_le_def)

theorem select_worker_backend_spec_witness:
  "rp_supported (select_worker_backend \<lparr>major = 9, minor = 1, build = 0\<rparr>) \<and>
   rp_supported (select_worker_backend \<lparr>major = 9, minor = 3, build = 1\<rparr>)"
  using select_worker_backend_spec[of "\<lparr>major = 9, minor = 1, build = 0\<rparr>" "\<lparr>major = 9, minor = 3, build = 1\<rparr>"]
  by (simp add: version_le_def)

lemma expand_path_keeps: "\<not> starts_with ''~/'' p \<Longrightarrow> expand_path env p = p"
  by (simp add: expand_path_def strip_prefix_def unwrap_or_def)

end
