(* ===== verification/Ref_Registry.thy ===== *)
theory Ref_Registry
  imports Rust_Text
begin

text \<open>
  Counting references with tokens. A client holds a database open by holding a token, and the
  last client to release one closes it. The interface is a registry of live tokens, each with
  an owner; the router's table and the worker's \<open>DbRefTracker\<close> (\<open>src/ida/worker.rs\<close>) provide
  it, and what the clients rely on is proved here once.
\<close>

definition token_string :: "nat \<Rightarrow> nat \<Rightarrow> nat \<Rightarrow> string" where
  "token_string now pid nonce = fmt_hex now @ ''-'' @ fmt_hex pid @ ''-'' @ fmt_hex nonce"

lemma token_string_inject [simp]:
  "token_string a b c = token_string a' b' c' \<longleftrightarrow> a = a' \<and> b = b' \<and> c = c'"
proof
  assume e: "token_string a b c = token_string a' b' c'"
  then have "fmt_hex a = fmt_hex a' \<and> fmt_hex b @ ''-'' @ fmt_hex c = fmt_hex b' @ ''-'' @ fmt_hex c'"
    unfolding token_string_def
    using append_sep_inject[of "CHR ''-''" "fmt_hex a" "fmt_hex a'"] fmt_hex_no_dash by simp
  moreover from this have "fmt_hex b = fmt_hex b' \<and> fmt_hex c = fmt_hex c'"
    using append_sep_inject[of "CHR ''-''" "fmt_hex b" "fmt_hex b'"] fmt_hex_no_dash by simp
  ultimately show "a = a' \<and> b = b' \<and> c = c'" by (simp add: fmt_hex_inject)
qed simp

locale ref_registry =
  fixes inv :: "'s \<Rightarrow> bool"
    and live :: "'s \<Rightarrow> 't \<Rightarrow> 'h option"
    and release :: "'t \<Rightarrow> 's \<Rightarrow> ('h \<times> nat) option \<times> 's"
  assumes live_finite: "inv s \<Longrightarrow> finite {t. live s t = Some h}"
    and release_unknown: "inv s \<Longrightarrow> live s t = None \<Longrightarrow> release t s = (None, s)"
    and release_live: "inv s \<Longrightarrow> live s t = Some h \<Longrightarrow>
      fst (release t s) = Some (h, card ({t'. live s t' = Some h} - {t})) \<and>
      live (snd (release t s)) = (live s)(t := None) \<and> inv (snd (release t s))"
begin

definition release_seq :: "'t list \<Rightarrow> 's \<Rightarrow> ('h \<times> nat) option list \<times> 's" where
  "release_seq ts s =
     fold (\<lambda>t (rs, s). case release t s of (r, s') \<Rightarrow> (rs @ [r], s')) ts ([], s)"

lemma release_fold_acc:
  "fold (\<lambda>t (rs, s). case release t s of (r, s') \<Rightarrow> (rs @ [r], s')) ts (acc, s) =
   (acc @ fst (release_seq ts s), snd (release_seq ts s))"
  unfolding release_seq_def
proof (induction ts arbitrary: acc s)
  case (Cons t ts)
  obtain r s' where r: "release t s = (r, s')" by fastforce
  show ?case using Cons[of "acc @ [r]" s'] Cons[of "[r]" s'] by (simp add: r)
qed simp

lemma release_seq_Cons:
  "release_seq (t # ts) s =
     (fst (release t s) # fst (release_seq ts (snd (release t s))),
      snd (release_seq ts (snd (release t s))))"
  using release_fold_acc[of ts "[fst (release t s)]" "snd (release t s)"]
  by (simp add: release_seq_def case_prod_beta)

lemma release_seq_counts:
  assumes "inv s" "distinct ts" "\<forall>t \<in> set ts. live s t = Some h"
    and "n = card ({t. live s t = Some h} - set ts)"
  shows "fst (release_seq ts s) = map (\<lambda>i. Some (h, n + i)) (rev [0..<length ts]) \<and>
    inv (snd (release_seq ts s)) \<and>
    (\<forall>t. live (snd (release_seq ts s)) t = (if t \<in> set ts then None else live s t))"
  using assms
proof (induction ts arbitrary: s)
  case Nil
  then show ?case by (simp add: release_seq_def)
next
  case (Cons t ts)
  let ?s = "snd (release t s)" and ?O = "\<lambda>s. {t. live s t = Some h}"
  have st: "inv ?s" "live ?s = (live s)(t := None)" "fst (release t s) = Some (h, card (?O s - {t}))"
    using release_live[OF Cons.prems(1), of t h] Cons.prems(3) by auto
  have own: "?O ?s = ?O s - {t}" using st(2) by (auto split: if_splits)
  have n: "n = card (?O ?s - set ts)"
    by (simp only: own Cons.prems(4) list.set Diff_insert2[of _ t "set ts"])
  have "?O ?s = (?O ?s - set ts) \<union> set ts" using own Cons.prems(2,3) by auto
  moreover have "card ((?O ?s - set ts) \<union> set ts) = card (?O ?s - set ts) + card (set ts)"
    using live_finite[OF st(1)] by (intro card_Un_disjoint) auto
  ultimately have c: "card (?O s - {t}) = n + length ts"
    using n own Cons.prems(2) by (simp add: distinct_card)
  have "\<forall>u \<in> set ts. live ?s u = Some h" using st(2) Cons.prems(2,3) by auto
  note IH = Cons.IH[OF st(1) _ this n]
  show ?case unfolding release_seq_Cons
    using IH Cons.prems(2) st(2,3) c by auto
qed

text \<open>Released in any order, the tokens of one owner count down to zero: only the last is last.\<close>

lemma release_all_counts_down:
  assumes "inv s" "distinct ts" "set ts = {t. live s t = Some h}"
  shows "fst (release_seq ts s) = map (\<lambda>i. Some (h, i)) (rev [0..<length ts])"
  using release_seq_counts[OF assms(1,2), of h 0] assms(3) by simp

lemma release_twice:
  assumes "inv s" "live s t = Some h"
  shows "fst (release t (snd (release t s))) = None"
  using release_live[OF assms] release_unknown[of "snd (release t s)" t] by simp

end

end
