(* ===== verification/Worker_Table.thy ===== *)
theory Worker_Table
  imports Runtime_Config Ref_Registry "HOL-Library.Word"
begin

unbundle bit_operations_syntax

text \<open>
  The worker table of the router, \<open>RouterInner\<close> of \<open>src/router/mod.rs\<close>, with one function for
  each section of code that runs under the table's lock. The operations of the router are
  compositions of these sections, and other tasks may run between two of them. Child processes
  and their pipes are not represented; whether a spawn or a write succeeds is an argument, and
  so are the clocks: \<open>now\<close> is \<open>SystemTime\<close> in nanoseconds, \<open>inst\<close> is \<open>Instant\<close>. A one-shot
  channel is a number, and a section returns the messages it sends.
\<close>

subsection \<open>State\<close>

record WorkerKey =
  wk_tenant_id :: string
  wk_path :: string

type_synonym channel = nat

record WorkerProcess =
  w_backend :: WorkerBackendKind
  w_tenant_id :: string
  w_pending :: "(string, channel) hashmap"
  w_close_token :: "string option"
  w_open_path :: "string option"
  w_last_active :: nat

record RouterInner =
  workers :: "(string, WorkerProcess) hashmap"
  active :: "string option"
  path_to_handle :: "(WorkerKey, string) hashmap"
  token_to_handle :: "(string, string) hashmap"
  ref_tokens :: "(string, string list) hashmap"
  req_counter :: nat
  exe_path :: string

record WarmLease =
  l_handle :: string
  l_token :: string
  l_path :: string
  l_cache_path :: "string option"
  l_tenant_id :: string
  l_pinned_at :: nat
  l_last_hit :: nat

type_synonym warm_pool = "(string, WarmLease) hashmap"

type_synonym reply = "string + json"
type_synonym sends = "(channel \<times> reply) list"

record RpcRequest =
  q_jsonrpc :: string
  q_id :: string
  q_method :: string
  q_params :: json

record RpcError =
  e_code :: int
  e_message :: string
  e_data :: "json option"

record RpcResponse =
  r_jsonrpc :: string
  r_id :: string
  r_result :: "json option"
  r_error :: "RpcError option"

definition rpc_request_new :: "string \<Rightarrow> string \<Rightarrow> json \<Rightarrow> RpcRequest" where
  "rpc_request_new i m params = \<lparr>q_jsonrpc = ''2.0'', q_id = i, q_method = m, q_params = params\<rparr>"

definition rpc_ok :: "string \<Rightarrow> json \<Rightarrow> RpcResponse" where
  "rpc_ok i result = \<lparr>r_jsonrpc = ''2.0'', r_id = i, r_result = Some result, r_error = None\<rparr>"

definition rpc_err :: "string \<Rightarrow> int \<Rightarrow> string \<Rightarrow> RpcResponse" where
  "rpc_err i code message =
     \<lparr>r_jsonrpc = ''2.0'', r_id = i, r_result = None,
      r_error = Some \<lparr>e_code = code, e_message = message, e_data = None\<rparr>\<rparr>"

definition new_inner :: "string \<Rightarrow> RouterInner" where
  "new_inner exe =
     \<lparr>workers = [], active = None, path_to_handle = [], token_to_handle = [], ref_tokens = [],
      req_counter = 0, exe_path = exe\<rparr>"

definition normalize_tenant :: "string option \<Rightarrow> string" where
  "normalize_tenant tenant_id =
     (case map_option trim tenant_id of
        Some value \<Rightarrow> if value \<noteq> [] then value else ''default''
      | None \<Rightarrow> ''default'')"

definition worker_key :: "string \<Rightarrow> string \<Rightarrow> WorkerKey" where
  "worker_key path tenant_id = \<lparr>wk_tenant_id = tenant_id, wk_path = path\<rparr>"

subsection \<open>Reference tokens\<close>

definition cli_token_string :: "nat \<Rightarrow> nat \<Rightarrow> string" where
  "cli_token_string now nonce = ''cli-'' @ fmt_hex now @ ''-'' @ fmt_hex nonce"

definition ref_count :: "RouterInner \<Rightarrow> string \<Rightarrow> nat" where
  "ref_count inner h = (case hm_get (ref_tokens inner) h of Some s \<Rightarrow> length s | None \<Rightarrow> 0)"

definition add_ref :: "string \<Rightarrow> string \<Rightarrow> RouterInner \<Rightarrow> RouterInner" where
  "add_ref h token inner =
     inner\<lparr>token_to_handle := hm_insert token h (token_to_handle inner),
           ref_tokens := hm_insert h
             (hs_insert token (case hm_get (ref_tokens inner) h of Some s \<Rightarrow> s | None \<Rightarrow> []))
             (ref_tokens inner)\<rparr>"

definition reuse_handle :: "nat \<Rightarrow> nat \<Rightarrow> string \<Rightarrow> RouterInner \<Rightarrow> string \<times> RouterInner" where
  "reuse_handle now pid h inner =
     (let nonce = req_counter inner;
          ref_token = token_string now pid nonce
      in (ref_token, add_ref h ref_token (inner\<lparr>req_counter := req_counter inner + 1\<rparr>)))"

definition issue_ref_for_handle :: "nat \<Rightarrow> string \<Rightarrow> RouterInner \<Rightarrow> string \<times> RouterInner" where
  "issue_ref_for_handle now h inner =
     (let nonce = req_counter inner;
          token = cli_token_string now nonce
      in (token, add_ref h token (inner\<lparr>req_counter := req_counter inner + 1\<rparr>)))"

definition release_ref_token ::
  "string \<Rightarrow> RouterInner \<Rightarrow> (string \<times> nat) option \<times> RouterInner" where
  "release_ref_token token inner =
     (case hm_get (token_to_handle inner) token of
        None \<Rightarrow> (None, inner)
      | Some h \<Rightarrow>
          let inner1 = inner\<lparr>token_to_handle := hm_remove token (token_to_handle inner)\<rparr> in
          (case hm_get (ref_tokens inner1) h of
             Some s \<Rightarrow>
               let s' = hs_remove token s in
               (Some (h, length s'), inner1\<lparr>ref_tokens := hm_insert h s' (ref_tokens inner1)\<rparr>)
           | None \<Rightarrow> (Some (h, 0), inner1)))"

definition handle_for_token :: "RouterInner \<Rightarrow> string \<Rightarrow> string option" where
  "handle_for_token inner token = hm_get (token_to_handle inner) token"

definition active_handle :: "RouterInner \<Rightarrow> string option" where
  "active_handle inner = active inner"

definition all_handles :: "RouterInner \<Rightarrow> string list" where
  "all_handles inner = hm_keys (workers inner)"

definition worker_count :: "RouterInner \<Rightarrow> nat" where
  "worker_count inner = length (workers inner)"

subsection \<open>Removing a worker\<close>

definition remove_path_key :: "WorkerProcess \<Rightarrow> RouterInner \<Rightarrow> RouterInner" where
  "remove_path_key w inner =
     (case w_open_path w of
        Some path \<Rightarrow>
          inner\<lparr>path_to_handle := hm_remove (worker_key path (w_tenant_id w)) (path_to_handle inner)\<rparr>
      | None \<Rightarrow> inner)"

definition remove_tokens :: "string \<Rightarrow> RouterInner \<Rightarrow> RouterInner" where
  "remove_tokens h inner =
     (case hm_get (ref_tokens inner) h of
        Some tokens \<Rightarrow>
          inner\<lparr>ref_tokens := hm_remove h (ref_tokens inner),
                token_to_handle := fold hm_remove tokens (token_to_handle inner)\<rparr>
      | None \<Rightarrow> inner)"

definition reset_active :: "string \<Rightarrow> RouterInner \<Rightarrow> RouterInner" where
  "reset_active h inner =
     (if active inner = Some h then
        inner\<lparr>active := (case hm_keys (workers inner) of [] \<Rightarrow> None | k # _ \<Rightarrow> Some k)\<rparr>
      else inner)"

definition drain_pending :: "string \<Rightarrow> WorkerProcess \<Rightarrow> sends" where
  "drain_pending message w = map (\<lambda>(_, sender). (sender, Inl message)) (w_pending w)"

definition close_worker ::
  "string \<Rightarrow> warm_pool \<times> RouterInner \<Rightarrow> sends \<times> warm_pool \<times> RouterInner" where
  "close_worker h st =
     (case st of (pool, inner) \<Rightarrow>
      let pool' = filter (\<lambda>(_, lease). l_handle lease \<noteq> h) pool in
      (case hm_get (workers inner) h of
         Some worker \<Rightarrow>
           (drain_pending (''Worker '' @ h @ '' closed'') worker,
            pool',
            reset_active h (remove_tokens h (remove_path_key worker
              (inner\<lparr>workers := hm_remove h (workers inner)\<rparr>))))
       | None \<Rightarrow> ([], pool', inner)))"

text \<open>The reader task of a worker: end of file, an I/O error, and one parsed response.\<close>

definition reader_eof :: "string \<Rightarrow> RouterInner \<Rightarrow> sends \<times> RouterInner" where
  "reader_eof h inner =
     (case hm_get (workers inner) h of
        Some dead \<Rightarrow>
          (drain_pending (''Worker '' @ h @ '' exited unexpectedly'') dead,
           reset_active h (remove_tokens h (remove_path_key dead
             (inner\<lparr>workers := hm_remove h (workers inner)\<rparr>))))
      | None \<Rightarrow> ([], inner))"

definition reader_error :: "string \<Rightarrow> string \<Rightarrow> RouterInner \<Rightarrow> sends \<times> RouterInner" where
  "reader_error h e inner =
     (case (case hm_get (workers inner) h of
        Some dead \<Rightarrow>
          (drain_pending (''Worker '' @ h @ '' I/O error: '' @ e) dead,
           remove_path_key dead (inner\<lparr>workers := hm_remove h (workers inner)\<rparr>))
      | None \<Rightarrow> ([], inner)) of (sent, inner1) \<Rightarrow>
      (sent, reset_active h (remove_tokens h inner1)))"

definition response_value :: "RpcResponse \<Rightarrow> reply" where
  "response_value resp =
     (case r_result resp of
        Some result \<Rightarrow> Inr result
      | None \<Rightarrow> (case r_error resp of Some err \<Rightarrow> Inl (e_message err) | None \<Rightarrow> Inr JNull))"

definition reader_response :: "string \<Rightarrow> RpcResponse \<Rightarrow> RouterInner \<Rightarrow> sends \<times> RouterInner" where
  "reader_response h resp inner =
     (case hm_get (workers inner) h of
        Some worker \<Rightarrow>
          (case hm_get (w_pending worker) (r_id resp) of
             Some sender \<Rightarrow>
               ([(sender, response_value resp)],
                inner\<lparr>workers := hm_insert h
                  (worker\<lparr>w_pending := hm_remove (r_id resp) (w_pending worker)\<rparr>) (workers inner)\<rparr>)
           | None \<Rightarrow> ([], inner))
      | None \<Rightarrow> ([], inner))"

subsection \<open>Spawning a worker\<close>

definition spawn_lookup ::
  "nat \<Rightarrow> nat \<Rightarrow> WorkerKey \<Rightarrow> RouterInner \<Rightarrow> (string \<times> string) option \<times> RouterInner" where
  "spawn_lookup now pid key inner =
     (case hm_get (path_to_handle inner) key of
        Some h \<Rightarrow> (case reuse_handle now pid h inner of (token, inner') \<Rightarrow> (Some (h, token), inner'))
      | None \<Rightarrow> (None, inner))"

definition evictable :: "RouterInner \<Rightarrow> string \<times> WorkerProcess \<Rightarrow> bool" where
  "evictable inner = (\<lambda>(h, worker).
     ref_count inner h = 0 \<and> w_pending worker = [] \<and> active inner \<noteq> Some h)"

definition maybe_evict :: "RouterConfig \<Rightarrow> RouterInner \<Rightarrow> string option" where
  "maybe_evict cfg inner =
     (if length (workers inner) < max_workers cfg then None
      else map_option fst
        (min_by_key (\<lambda>(_, worker). w_last_active worker) (filter (evictable inner) (workers inner))))"

lemma maybe_evict_mem: "maybe_evict cfg inner = Some h \<Longrightarrow> \<exists>w. (h, w) \<in> set (workers inner)"
  by (auto simp: maybe_evict_def split: if_splits dest!: min_by_key_Some)

lemma workers_remove_path_key [simp]: "workers (remove_path_key w inner) = workers inner"
  by (simp add: remove_path_key_def split: option.splits)

lemma workers_remove_tokens [simp]: "workers (remove_tokens h inner) = workers inner"
  by (simp add: remove_tokens_def split: option.splits)

lemma workers_reset_active [simp]: "workers (reset_active h inner) = workers inner"
  by (simp add: reset_active_def)

lemma close_worker_workers: "workers (snd (snd (close_worker h (pool, inner)))) = hm_remove h (workers inner)"
  by (auto simp: close_worker_def Let_def hm_remove_fresh split: option.splits)

function evict_loop ::
  "RouterConfig \<Rightarrow> warm_pool \<times> RouterInner \<Rightarrow> sends \<times> warm_pool \<times> RouterInner" where
  "evict_loop cfg (pool, inner) =
     (case maybe_evict cfg inner of
        Some h \<Rightarrow>
          (case close_worker h (pool, inner) of (sent, st) \<Rightarrow>
           case evict_loop cfg st of (sent', st') \<Rightarrow> (sent @ sent', st'))
      | None \<Rightarrow> ([], pool, inner))"
  by pat_completeness auto
termination
proof (relation "measure (\<lambda>(cfg, pool, inner). length (workers inner))")
  fix cfg pool inner h sent st
  assume "maybe_evict cfg inner = Some h" and c: "(sent, st) = close_worker h (pool, inner)"
  then obtain w where "(h, w) \<in> set (workers inner)" using maybe_evict_mem by blast
  then have "length (hm_remove h (workers inner)) < length (workers inner)"
    by (rule hm_length_remove_mem)
  moreover obtain p i where "st = (p, i)" by (cases st)
  ultimately show "((cfg, st), cfg, pool, inner) \<in> measure (\<lambda>(cfg, pool, inner). length (workers inner))"
    using close_worker_workers[of h pool inner] c by (metis case_prod_conv in_measure snd_conv)
qed simp

definition handle_word :: "nat \<Rightarrow> nat \<Rightarrow> nat \<Rightarrow> 64 word" where
  "handle_word now pid counter =
     word_of_nat now XOR push_bit 32 (word_of_nat pid) XOR word_of_nat counter"

definition handle_string :: "nat \<Rightarrow> nat \<Rightarrow> nat \<Rightarrow> string" where
  "handle_string now pid counter = zero_pad 16 (fmt_hex (unat (handle_word now pid counter)))"

definition tenant_worker_count :: "RouterInner \<Rightarrow> string \<Rightarrow> nat" where
  "tenant_worker_count inner tenant =
     length (filter (\<lambda>(_, worker). w_tenant_id worker = tenant) (workers inner))"

text \<open>
  The last section of \<open>spawn_worker\<close>, under one acquisition of the lock. \<open>spawned\<close> is the
  outcome of starting the child process; \<open>t1\<close> and \<open>t2\<close> are the two readings of the clock, for
  the handle (or the reused reference) and for the close token.
\<close>

definition spawn_commit ::
  "RouterConfig \<Rightarrow> nat \<Rightarrow> nat \<Rightarrow> nat \<Rightarrow> nat \<Rightarrow> string + unit \<Rightarrow> WorkerBackendKind \<Rightarrow> WorkerKey \<Rightarrow>
   RouterInner \<Rightarrow> (string + string \<times> string) \<times> RouterInner" where
  "spawn_commit cfg t1 t2 inst pid spawned backend key inner =
     (if tenant_worker_count inner (wk_tenant_id key) \<ge> max_workers_per_tenant cfg then
        (Inl (''tenant worker limit reached ('' @ fmt_dec (max_workers_per_tenant cfg) @
              '') for tenant '' @ wk_tenant_id key), inner)
      else if length (workers inner) \<ge> max_workers cfg then
        (Inl (''worker limit reached ('' @ fmt_dec (max_workers cfg) @
              '') and no idle worker was evictable''), inner)
      else
        (case hm_get (path_to_handle inner) key of
           Some h \<Rightarrow> (case reuse_handle t1 pid h inner of (token, inner') \<Rightarrow> (Inr (h, token), inner'))
         | None \<Rightarrow>
             let counter = req_counter inner;
                 inner1 = inner\<lparr>req_counter := counter + 1\<rparr>;
                 h = handle_string t1 pid counter
             in (case spawned of
                   Inl e \<Rightarrow> (Inl e, inner1)
                 | Inr _ \<Rightarrow>
                     let close_token = token_string t2 pid (req_counter inner1);
                         worker = \<lparr>w_backend = backend, w_tenant_id = wk_tenant_id key,
                           w_pending = [], w_close_token = Some close_token,
                           w_open_path = Some (wk_path key), w_last_active = inst\<rparr>
                     in (Inr (h, close_token),
                         inner1\<lparr>path_to_handle := hm_insert key h (path_to_handle inner1),
                           token_to_handle := hm_insert close_token h (token_to_handle inner1),
                           ref_tokens := hm_insert h [close_token] (ref_tokens inner1),
                           workers := hm_insert h worker (workers inner1),
                           active := Some h\<rparr>))))"

definition probe_backend :: "string + RuntimeProbeResult \<Rightarrow> string + WorkerBackendKind" where
  "probe_backend probe =
     (case probe of
        Inl e \<Rightarrow> Inl e
      | Inr p \<Rightarrow>
          (case rp_backend p of
             Some b \<Rightarrow> Inr b
           | None \<Rightarrow> Inl (unwrap_or (rp_reason p) ''runtime probe reported no usable worker backend'')))"

text \<open>\<open>spawn_worker\<close> without interference from other tasks between its sections.\<close>

definition spawn_worker ::
  "RouterConfig \<Rightarrow> nat \<Rightarrow> nat \<Rightarrow> nat \<Rightarrow> nat \<Rightarrow> string + RuntimeProbeResult \<Rightarrow> string + unit \<Rightarrow>
   string \<Rightarrow> string option \<Rightarrow> warm_pool \<times> RouterInner \<Rightarrow>
   (string + string \<times> string) \<times> sends \<times> warm_pool \<times> RouterInner" where
  "spawn_worker cfg t1 t2 inst pid probe spawned canonical_path tenant_id st =
     (case st of (pool, inner) \<Rightarrow>
      let key = worker_key canonical_path (normalize_tenant tenant_id) in
      (case spawn_lookup t1 pid key inner of
         (Some r, inner') \<Rightarrow> (Inr r, [], pool, inner')
       | (None, inner') \<Rightarrow>
           (case probe_backend probe of
              Inl e \<Rightarrow> (Inl e, [], pool, inner')
            | Inr backend \<Rightarrow>
                (case evict_loop cfg (pool, inner') of (sent, pool'', inner'') \<Rightarrow>
                 case spawn_commit cfg t1 t2 inst pid spawned backend key inner'' of
                   (r, inner3) \<Rightarrow> (r, sent, pool'', inner3)))))"

subsection \<open>Routing a request\<close>

definition select_target :: "string option \<Rightarrow> RouterInner \<Rightarrow> ToolError + string" where
  "select_target handle inner =
     (case handle of
        Some h \<Rightarrow>
          if hm_get (workers inner) h = None then
            Inl (InvalidParams (''Unknown db_handle: '' @ h))
          else Inr h
      | None \<Rightarrow>
          if length (workers inner) > 1 then
            Inl (InvalidParams (''db_handle is required when multiple databases are open. '' @
                                ''Provide the db_handle returned by open_idb.''))
          else (case active inner of Some h \<Rightarrow> Inr h | None \<Rightarrow> Inl NoDatabaseOpen))"

definition alloc_req_id :: "RouterInner \<Rightarrow> string \<times> RouterInner" where
  "alloc_req_id inner =
     (''r'' @ fmt_dec (req_counter inner), inner\<lparr>req_counter := req_counter inner + 1\<rparr>)"

definition route_timeout_secs :: "string \<Rightarrow> json \<Rightarrow> nat" where
  "route_timeout_secs meth params =
     (let max_timeout = (if meth = ''open'' then 3600 else 600) in
      min (unwrap_or (Option.bind (json_get params ''timeout_secs'') as_u64) 120) max_timeout)"

definition tenant_pending :: "RouterInner \<Rightarrow> string \<Rightarrow> nat" where
  "tenant_pending inner tenant =
     sum_list (map (\<lambda>(_, candidate). length (w_pending candidate))
       (filter (\<lambda>(_, candidate). w_tenant_id candidate = tenant) (workers inner)))"

text \<open>
  The dispatch section; \<open>serialized\<close> is the outcome of \<open>serde_json::to_string\<close> and \<open>written\<close>
  says whether the three writes to the worker's pipe succeed.
\<close>

definition dispatch_request ::
  "RouterConfig \<Rightarrow> nat \<Rightarrow> string + unit \<Rightarrow> bool \<Rightarrow> string \<Rightarrow> string \<Rightarrow> channel \<Rightarrow> RouterInner \<Rightarrow>
   (ToolError + unit) \<times> RouterInner" where
  "dispatch_request cfg inst serialized written target req_id tx inner =
     (case hm_get (workers inner) target of
        None \<Rightarrow> (Inl (InvalidParams (''Worker '' @ target @ '' not found'')), inner)
      | Some worker \<Rightarrow>
          if tenant_pending inner (w_tenant_id worker) \<ge> max_pending_per_tenant cfg then
            (Inl Busy, inner)
          else if length (w_pending worker) \<ge> max_pending_per_worker cfg then (Inl Busy, inner)
          else
            (case serialized of
               Inl e \<Rightarrow> (Inl (InvalidParams (''Serialize error: '' @ e)), inner)
             | Inr _ \<Rightarrow>
                 if \<not> written then (Inl WorkerClosed, inner)
                 else (Inr (), inner\<lparr>workers := hm_insert target
                        (worker\<lparr>w_pending := hm_insert req_id tx (w_pending worker),
                                w_last_active := inst\<rparr>) (workers inner)\<rparr>)))"

datatype wait_outcome = Received reply | SenderDropped | Elapsed

definition await_result :: "nat \<Rightarrow> wait_outcome \<Rightarrow> ToolError + json" where
  "await_result timeout_secs outcome =
     (case outcome of
        Received (Inr value) \<Rightarrow> Inr value
      | Received (Inl e) \<Rightarrow> Inl (IdaError e)
      | SenderDropped \<Rightarrow> Inl WorkerClosed
      | Elapsed \<Rightarrow> Inl (Timeout timeout_secs))"

text \<open>What the worker process does after a request was written to it.\<close>

datatype worker_event = EvResponse RpcResponse | EvEof | EvReadError string | EvSilent

definition worker_event_step :: "string \<Rightarrow> worker_event \<Rightarrow> RouterInner \<Rightarrow> sends \<times> RouterInner" where
  "worker_event_step h ev inner =
     (case ev of
        EvResponse resp \<Rightarrow> reader_response h resp inner
      | EvEof \<Rightarrow> reader_eof h inner
      | EvReadError e \<Rightarrow> reader_error h e inner
      | EvSilent \<Rightarrow> ([], inner))"

text \<open>
  \<open>route_request\<close> without interference: the four sections in order, with one event of the
  worker process before the timer. The channel of a request is numbered by its counter value.
\<close>

definition route_request ::
  "RouterConfig \<Rightarrow> nat \<Rightarrow> string + unit \<Rightarrow> bool \<Rightarrow> worker_event \<Rightarrow> string option \<Rightarrow> string \<Rightarrow> json \<Rightarrow>
   RouterInner \<Rightarrow> (ToolError + json) \<times> RouterInner" where
  "route_request cfg inst serialized written ev handle meth params inner =
     (case select_target handle inner of
        Inl e \<Rightarrow> (Inl e, inner)
      | Inr target \<Rightarrow>
          (let tx = req_counter inner in
           case alloc_req_id inner of (req_id, inner1) \<Rightarrow>
           case dispatch_request cfg inst serialized written target req_id tx inner1 of
             (Inl e, inner2) \<Rightarrow> (Inl e, inner2)
           | (Inr _, inner2) \<Rightarrow>
               (case worker_event_step target ev inner2 of (sent, inner3) \<Rightarrow>
                (await_result (route_timeout_secs meth params)
                   (case map_of sent tx of Some r \<Rightarrow> Received r | None \<Rightarrow> Elapsed),
                 inner3))))"

subsection \<open>Shutdown and garbage collection\<close>

definition close_all ::
  "string list \<Rightarrow> warm_pool \<times> RouterInner \<Rightarrow> sends \<times> warm_pool \<times> RouterInner" where
  "close_all handles st =
     fold (\<lambda>h (sent, st). case close_worker h st of (sent', st') \<Rightarrow> (sent @ sent', st')) handles ([], st)"

definition shutdown_all :: "warm_pool \<times> RouterInner \<Rightarrow> sends \<times> warm_pool \<times> RouterInner" where
  "shutdown_all st = close_all (all_handles (snd st)) st"

definition expired_workers :: "nat \<Rightarrow> nat \<Rightarrow> RouterInner \<Rightarrow> string list" where
  "expired_workers idle_timeout inst inner =
     map fst (filter (\<lambda>(h, w). ref_count inner h = 0 \<and> w_pending w = [] \<and>
                inst - w_last_active w > idle_timeout) (workers inner))"

definition gc_workers ::
  "nat \<Rightarrow> nat \<Rightarrow> warm_pool \<times> RouterInner \<Rightarrow> sends \<times> warm_pool \<times> RouterInner" where
  "gc_workers idle_timeout inst st = close_all (expired_workers idle_timeout inst (snd st)) st"

end
