(* ===== verification/Router_Invariants.thy ===== *)
theory Router_Invariants
  imports Worker_Table
begin

text \<open>
  Invariants of the worker table under every interleaving of the lock sections of
  \<open>Worker_Table\<close>. The invariant is split by concern: paths, tokens, the active handle, the
  limits, and the requests in flight; each section keeps each part.
\<close>

subsection \<open>The parts of the invariant\<close>

definition key_of :: "WorkerProcess \<Rightarrow> WorkerKey option" where
  "key_of w = map_option (\<lambda>p. worker_key p (w_tenant_id w)) (w_open_path w)"

definition paths_ok :: "RouterInner \<Rightarrow> bool" where
  "paths_ok i \<longleftrightarrow> hm_ok (workers i) \<and> hm_ok (path_to_handle i) \<and>
     (\<forall>k h. map_of (path_to_handle i) k = Some h \<longleftrightarrow>
        (\<exists>w. map_of (workers i) h = Some w \<and> key_of w = Some k)) \<and>
     (\<forall>h w. map_of (workers i) h = Some w \<longrightarrow> key_of w \<noteq> None)"

definition toks :: "RouterInner \<Rightarrow> string \<Rightarrow> string list" where
  "toks i h = (case map_of (ref_tokens i) h of Some S \<Rightarrow> S | None \<Rightarrow> [])"

definition tokens_ok :: "RouterInner \<Rightarrow> bool" where
  "tokens_ok i \<longleftrightarrow> hm_ok (token_to_handle i) \<and> hm_ok (ref_tokens i) \<and>
     (\<forall>h. distinct (toks i h)) \<and>
     (\<forall>t h. map_of (token_to_handle i) t = Some h \<longleftrightarrow> t \<in> set (toks i h))"

definition active_ok :: "RouterInner \<Rightarrow> bool" where
  "active_ok i \<longleftrightarrow>
     (case active i of None \<Rightarrow> workers i = [] | Some h \<Rightarrow> map_of (workers i) h \<noteq> None)"

definition limits_ok :: "RouterConfig \<Rightarrow> RouterInner \<Rightarrow> bool" where
  "limits_ok cfg i \<longleftrightarrow> length (workers i) \<le> max_workers cfg \<and>
     (\<forall>tenant. tenant_worker_count i tenant \<le> max_workers_per_tenant cfg) \<and>
     (\<forall>tenant. tenant_pending i tenant \<le> max_pending_per_tenant cfg) \<and>
     (\<forall>h w. map_of (workers i) h = Some w \<longrightarrow> length (w_pending w) \<le> max_pending_per_worker cfg)"

definition table_ok :: "RouterConfig \<Rightarrow> RouterInner \<Rightarrow> bool" where
  "table_ok cfg i \<longleftrightarrow> paths_ok i \<and> tokens_ok i \<and> active_ok i \<and> limits_ok cfg i"

lemma table_ok_new: "table_ok cfg (new_inner exe)"
  by (simp add: table_ok_def paths_ok_def tokens_ok_def toks_def active_ok_def limits_ok_def new_inner_def
      tenant_worker_count_def tenant_pending_def)

text \<open>The counts of the code as weighted sums over the table.\<close>

lemma tenant_worker_count_sum:
  "tenant_worker_count i t = hm_sum (\<lambda>_ w. if w_tenant_id w = t then 1 else 0) (workers i)"
  by (simp add: tenant_worker_count_def hm_filter_sum)

lemma tenant_pending_sum:
  "tenant_pending i t = hm_sum (\<lambda>_ w. if w_tenant_id w = t then length (w_pending w) else 0) (workers i)"
  by (simp add: tenant_pending_def hm_filter_map_sum)

subsection \<open>Which fields a section touches\<close>

lemma remove_path_key_fields [simp]:
  "active (remove_path_key w i) = active i"
  "token_to_handle (remove_path_key w i) = token_to_handle i"
  "ref_tokens (remove_path_key w i) = ref_tokens i"
  "req_counter (remove_path_key w i) = req_counter i"
  by (simp_all add: remove_path_key_def split: option.splits)

lemma remove_tokens_fields [simp]:
  "active (remove_tokens h i) = active i"
  "path_to_handle (remove_tokens h i) = path_to_handle i"
  "req_counter (remove_tokens h i) = req_counter i"
  by (simp_all add: remove_tokens_def split: option.splits)

lemma reset_active_fields [simp]:
  "path_to_handle (reset_active h i) = path_to_handle i"
  "token_to_handle (reset_active h i) = token_to_handle i"
  "ref_tokens (reset_active h i) = ref_tokens i"
  "req_counter (reset_active h i) = req_counter i"
  by (simp_all add: reset_active_def)

lemma add_ref_fields [simp]:
  "workers (add_ref h t i) = workers i" "active (add_ref h t i) = active i"
  "path_to_handle (add_ref h t i) = path_to_handle i" "req_counter (add_ref h t i) = req_counter i"
  by (simp_all add: add_ref_def)

lemma release_fields [simp]:
  "workers (snd (release_ref_token t i)) = workers i" "active (snd (release_ref_token t i)) = active i"
  "path_to_handle (snd (release_ref_token t i)) = path_to_handle i"
  "req_counter (snd (release_ref_token t i)) = req_counter i"
  by (simp_all add: release_ref_token_def Let_def split: option.splits)

text \<open>Removing a worker that is in the table, the state change of closing, end of file and error.\<close>

definition drop_worker :: "string \<Rightarrow> WorkerProcess \<Rightarrow> RouterInner \<Rightarrow> RouterInner" where
  "drop_worker h w i = reset_active h (remove_tokens h (remove_path_key w
     (i\<lparr>workers := hm_remove h (workers i)\<rparr>)))"

lemma drop_worker_fields [simp]:
  "workers (drop_worker h w i) = hm_remove h (workers i)"
  "req_counter (drop_worker h w i) = req_counter i"
  by (simp_all add: drop_worker_def)

lemma close_worker_drop:
  "snd (snd (close_worker h (pool, i))) =
     (case map_of (workers i) h of Some w \<Rightarrow> drop_worker h w i | None \<Rightarrow> i)"
  by (simp add: close_worker_def drop_worker_def Let_def split: option.splits)

lemma reader_eof_drop:
  "snd (reader_eof h i) = (case map_of (workers i) h of Some w \<Rightarrow> drop_worker h w i | None \<Rightarrow> i)"
  by (simp add: reader_eof_def drop_worker_def split: option.splits)

lemma reader_error_drop:
  "snd (reader_error h e i) =
     (case map_of (workers i) h of Some w \<Rightarrow> drop_worker h w i
      | None \<Rightarrow> reset_active h (remove_tokens h i))"
  by (simp add: reader_error_def drop_worker_def split: option.splits)

subsection \<open>Paths\<close>

lemma paths_ok_cong:
  "workers i' = workers i \<Longrightarrow> path_to_handle i' = path_to_handle i \<Longrightarrow> paths_ok i' = paths_ok i"
  by (simp add: paths_ok_def)

lemma paths_ok_D:
  assumes "paths_ok i"
  shows "hm_ok (workers i)" "hm_ok (path_to_handle i)"
    and "map_of (path_to_handle i) k = Some h \<longleftrightarrow>
      (\<exists>w. map_of (workers i) h = Some w \<and> key_of w = Some k)"
  using assms by (simp_all add: paths_ok_def)

lemma paths_ok_update:
  assumes "paths_ok i" "map_of (workers i) h = Some w" "key_of w' = key_of w"
  shows "paths_ok (i\<lparr>workers := hm_insert h w' (workers i)\<rparr>)"
  using assms unfolding paths_ok_def by (auto simp: hm_simps split: if_splits)

lemma paths_ok_drop:
  assumes "paths_ok i" "map_of (workers i) h = Some w"
  shows "paths_ok (drop_worker h w i)"
proof -
  obtain k where k: "key_of w = Some k" using assms unfolding paths_ok_def by blast
  have pth: "path_to_handle (drop_worker h w i) = hm_remove k (path_to_handle i)"
    using k by (auto simp: drop_worker_def remove_path_key_def key_of_def)
  have iff: "map_of (hm_remove k (path_to_handle i)) k' = Some h' \<longleftrightarrow>
      (\<exists>w'. map_of (hm_remove h (workers i)) h' = Some w' \<and> key_of w' = Some k')" for k' h'
  proof (cases "k' = k \<or> h' = h")
    case True
    have "map_of (path_to_handle i) k = Some h" using paths_ok_D(3)[OF assms(1)] assms(2) k by blast
    then show ?thesis
      using True paths_ok_D(3)[OF assms(1), of k' h'] paths_ok_D(3)[OF assms(1), of k h'] assms(2) k
      by (auto simp: hm_simps)
  next
    case False
    then show ?thesis using paths_ok_D(3)[OF assms(1), of k' h'] by (simp add: hm_simps)
  qed
  have "key_of w' \<noteq> None" if "map_of (hm_remove h (workers i)) h' = Some w'" for h' w'
    using that assms(1) by (auto simp: paths_ok_def hm_simps split: if_splits)
  then show ?thesis
    unfolding paths_ok_def pth drop_worker_fields using iff paths_ok_D(1,2)[OF assms(1)] by simp
qed

lemma paths_ok_spawn:
  assumes "paths_ok i" "map_of (workers i) h = None" "map_of (path_to_handle i) k = None"
    and "key_of w = Some k" "workers i' = hm_insert h w (workers i)"
    and "path_to_handle i' = hm_insert k h (path_to_handle i)"
  shows "paths_ok i'"
proof -
  have "map_of (hm_insert k h (path_to_handle i)) k' = Some h' \<longleftrightarrow>
      (\<exists>w'. map_of (hm_insert h w (workers i)) h' = Some w' \<and> key_of w' = Some k')" for k' h'
    using paths_ok_D(3)[OF assms(1), of k' h'] paths_ok_D(3)[OF assms(1), of k h'] assms(2-4)
    by (auto simp: hm_simps)
  then show ?thesis
    using assms unfolding paths_ok_def assms(5,6) by (auto simp: hm_simps)
qed

subsection \<open>Tokens\<close>

lemma tokens_ok_cong:
  "token_to_handle i' = token_to_handle i \<Longrightarrow> ref_tokens i' = ref_tokens i \<Longrightarrow> tokens_ok i' = tokens_ok i"
  by (simp add: tokens_ok_def toks_def)

lemma tokens_ok_D:
  assumes "tokens_ok i"
  shows "hm_ok (token_to_handle i)" "hm_ok (ref_tokens i)" "distinct (toks i h)"
    and "map_of (token_to_handle i) t = Some h \<longleftrightarrow> t \<in> set (toks i h)"
  using assms unfolding tokens_ok_def by blast+

lemma tokens_ok_I:
  assumes "tokens_ok i" "hm_ok (token_to_handle i')" "hm_ok (ref_tokens i')"
    and "\<And>h. distinct (toks i' h)"
    and "\<And>t h. map_of (token_to_handle i') t = Some h \<longleftrightarrow> t \<in> set (toks i' h)"
  shows "tokens_ok i'"
  using assms unfolding tokens_ok_def by blast

lemma toks_add_ref: "toks (add_ref h t i) h' = (if h' = h then hs_insert t (toks i h) else toks i h')"
  by (simp add: toks_def add_ref_def hm_simps)

lemma tokens_ok_add_ref:
  assumes "tokens_ok i" "map_of (token_to_handle i) t = None"
  shows "tokens_ok (add_ref h t i)"
proof (rule tokens_ok_I[OF assms(1)])
  note D = tokens_ok_D[OF assms(1)]
  show "hm_ok (token_to_handle (add_ref h t i))" "hm_ok (ref_tokens (add_ref h t i))"
    using D(1,2) by (simp_all add: add_ref_def)
  show "distinct (toks (add_ref h t i) h')" for h' using D(3) by (simp add: toks_add_ref)
  have "t \<notin> set (toks i h')" for h' using D(4)[of t h'] assms(2) by simp
  then show "map_of (token_to_handle (add_ref h t i)) t' = Some h' \<longleftrightarrow> t' \<in> set (toks (add_ref h t i) h')"
    for t' h'
    unfolding toks_add_ref using D(4)[of t' h'] by (auto simp: add_ref_def hm_simps)
qed

lemma fold_hm_remove_keys:
  "map_of (fold hm_remove ks m) k = (if k \<in> set ks then None else map_of m k)"
  by (induction ks arbitrary: m) (auto simp: hm_simps)

lemma hm_ok_fold_remove [simp]: "hm_ok m \<Longrightarrow> hm_ok (fold hm_remove ks m)"
  by (induction ks arbitrary: m) auto

lemma remove_tokens_maps:
  "toks (remove_tokens h i) h' = (if h' = h then [] else toks i h')"
  "map_of (token_to_handle (remove_tokens h i)) t =
     (if t \<in> set (toks i h) then None else map_of (token_to_handle i) t)"
  by (auto simp: toks_def remove_tokens_def hm_simps fold_hm_remove_keys split: option.splits)

lemma tokens_ok_remove:
  assumes "tokens_ok i"
  shows "tokens_ok (remove_tokens h i)"
proof (rule tokens_ok_I[OF assms])
  note D = tokens_ok_D[OF assms]
  show "hm_ok (token_to_handle (remove_tokens h i))" "hm_ok (ref_tokens (remove_tokens h i))"
    using D(1,2) by (simp_all add: remove_tokens_def split: option.splits)
  show "distinct (toks (remove_tokens h i) h')" for h' using D(3) by (simp add: remove_tokens_maps)
  show "map_of (token_to_handle (remove_tokens h i)) t' = Some h' \<longleftrightarrow> t' \<in> set (toks (remove_tokens h i) h')"
    for t' h'
    unfolding remove_tokens_maps using D(4)[of t' h'] D(4)[of t' h] by auto
qed

lemma tokens_ok_drop: "tokens_ok i \<Longrightarrow> tokens_ok (drop_worker h w i)"
proof -
  assume "tokens_ok i"
  moreover have "token_to_handle (drop_worker h w i) = token_to_handle (remove_tokens h i)"
    "ref_tokens (drop_worker h w i) = ref_tokens (remove_tokens h i)"
    by (simp_all add: drop_worker_def remove_tokens_def split: option.splits)
  ultimately show ?thesis using tokens_ok_remove tokens_ok_cong by blast
qed

lemma tokens_ok_spawn:
  assumes "tokens_ok i" "map_of (token_to_handle i) t = None" "map_of (ref_tokens i) h = None"
    and "token_to_handle i' = hm_insert t h (token_to_handle i)"
    and "ref_tokens i' = hm_insert h [t] (ref_tokens i)"
  shows "tokens_ok i'"
proof -
  have "token_to_handle i' = token_to_handle (add_ref h t i)" "ref_tokens i' = ref_tokens (add_ref h t i)"
    using assms by (simp_all add: add_ref_def hs_insert_def)
  then show ?thesis using tokens_ok_add_ref[OF assms(1,2), of h] tokens_ok_cong by blast
qed

lemma ref_count_toks: "ref_count i h = length (toks i h)"
  by (simp add: ref_count_def toks_def split: option.splits)

lemma owner_tokens_set: "tokens_ok i \<Longrightarrow> {t. handle_for_token i t = Some h} = set (toks i h)"
  using tokens_ok_D(4)[of i _ h] by (auto simp: handle_for_token_def)

lemma release_maps:
  assumes "tokens_ok i" "handle_for_token i t = Some h"
  shows "fst (release_ref_token t i) = Some (h, length (hs_remove t (toks i h)))"
    and "toks (snd (release_ref_token t i)) h' = (if h' = h then hs_remove t (toks i h) else toks i h')"
    and "map_of (token_to_handle (snd (release_ref_token t i))) t' =
      (if t' = t then None else map_of (token_to_handle i) t')"
    and "hm_ok (token_to_handle (snd (release_ref_token t i)))"
    and "hm_ok (ref_tokens (snd (release_ref_token t i)))"
proof -
  note D = tokens_ok_D[OF assms(1)]
  have "t \<in> set (toks i h)" using D(4)[of t h] assms(2) by (simp add: handle_for_token_def)
  then obtain S where S: "map_of (ref_tokens i) h = Some S" "toks i h = S"
    by (cases "map_of (ref_tokens i) h") (auto simp: toks_def)
  have r: "release_ref_token t i = (Some (h, length (hs_remove t S)),
      i\<lparr>token_to_handle := hm_remove t (token_to_handle i),
        ref_tokens := hm_insert h (hs_remove t S) (ref_tokens i)\<rparr>)"
    using assms(2) S by (simp add: release_ref_token_def handle_for_token_def Let_def)
  show "fst (release_ref_token t i) = Some (h, length (hs_remove t (toks i h)))"
    "toks (snd (release_ref_token t i)) h' = (if h' = h then hs_remove t (toks i h) else toks i h')"
    "map_of (token_to_handle (snd (release_ref_token t i))) t' =
      (if t' = t then None else map_of (token_to_handle i) t')"
    "hm_ok (token_to_handle (snd (release_ref_token t i)))"
    "hm_ok (ref_tokens (snd (release_ref_token t i)))"
    unfolding r using S D(1,2) by (simp_all add: toks_def hm_simps)
qed

lemma tokens_ok_release_live:
  assumes "tokens_ok i" "handle_for_token i t = Some h"
  shows "tokens_ok (snd (release_ref_token t i))"
proof (rule tokens_ok_I[OF assms(1)])
  note D = tokens_ok_D[OF assms(1)] and R = release_maps[OF assms]
  show "hm_ok (token_to_handle (snd (release_ref_token t i)))"
    "hm_ok (ref_tokens (snd (release_ref_token t i)))" by (rule R(4,5))+
  show "distinct (toks (snd (release_ref_token t i)) h')" for h'
    unfolding R(2) using D(3) by (simp add: distinct_removeAll)
  have th: "t \<in> set (toks i h') \<longleftrightarrow> h' = h" for h'
    using D(4)[of t h'] assms(2) by (auto simp: handle_for_token_def)
  show "map_of (token_to_handle (snd (release_ref_token t i))) t' = Some h' \<longleftrightarrow>
      t' \<in> set (toks (snd (release_ref_token t i)) h')" for t' h'
    unfolding R(2,3) using D(4)[of t' h'] th[of h'] by auto
qed

interpretation router_refs: ref_registry tokens_ok handle_for_token release_ref_token
proof
  fix i t h
  assume ok: "tokens_ok i"
  show "finite {t. handle_for_token i t = Some h}" by (simp add: owner_tokens_set[OF ok])
  show "handle_for_token i t = None \<Longrightarrow> release_ref_token t i = (None, i)"
    by (simp add: handle_for_token_def release_ref_token_def)
  assume l: "handle_for_token i t = Some h"
  have "length (hs_remove t (toks i h)) = card (set (toks i h) - {t})"
    using tokens_ok_D(3)[OF ok, of h] by (simp add: distinct_card[symmetric] distinct_removeAll)
  then show "fst (release_ref_token t i) = Some (h, card ({t'. handle_for_token i t' = Some h} - {t})) \<and>
      handle_for_token (snd (release_ref_token t i)) = (handle_for_token i)(t := None) \<and>
      tokens_ok (snd (release_ref_token t i))"
    unfolding owner_tokens_set[OF ok]
    using release_maps[OF ok l] tokens_ok_release_live[OF ok l]
    by (auto simp: handle_for_token_def)
qed

lemma tokens_ok_release: "tokens_ok i \<Longrightarrow> tokens_ok (snd (release_ref_token t i))"
  by (cases "handle_for_token i t")
    (simp_all add: router_refs.release_unknown tokens_ok_release_live)

subsection \<open>The active handle\<close>

lemma active_ok_cong:
  "map_of (workers i') = map_of (workers i) \<Longrightarrow> active i' = active i \<Longrightarrow> active_ok i' = active_ok i"
  by (auto simp: active_ok_def split: option.splits)

lemma reset_active_ok:
  assumes "case active i of None \<Rightarrow> workers i = [] | Some a \<Rightarrow> a = h \<or> map_of (workers i) a \<noteq> None"
  shows "active_ok (reset_active h i)"
proof (cases "active i = Some h")
  case True
  then show ?thesis by (cases "workers i") (auto simp: active_ok_def reset_active_def)
next
  case False
  then show ?thesis using assms by (auto simp: active_ok_def reset_active_def split: option.splits)
qed

lemma active_ok_drop:
  assumes "active_ok i"
  shows "active_ok (drop_worker h w i)"
  unfolding drop_worker_def
  using assms by (intro reset_active_ok) (auto simp: active_ok_def hm_simps split: option.splits)

lemma reset_active_absent: "active_ok i \<Longrightarrow> map_of (workers i) h = None \<Longrightarrow> reset_active h i = i"
  by (auto simp: active_ok_def reset_active_def split: option.splits)

subsection \<open>Limits\<close>

lemma limits_ok_cong: "workers i' = workers i \<Longrightarrow> limits_ok cfg i' = limits_ok cfg i"
  by (simp add: limits_ok_def tenant_worker_count_def tenant_pending_def)

lemma limits_ok_remove:
  assumes "limits_ok cfg i" "hm_ok (workers i)" "workers i' = hm_remove h (workers i)"
  shows "limits_ok cfg i'"
proof -
  have "tenant_worker_count i' t \<le> tenant_worker_count i t" "tenant_pending i' t \<le> tenant_pending i t" for t
    by (simp_all add: tenant_worker_count_sum tenant_pending_sum assms(3) hm_sum_remove_le[OF assms(2)])
  moreover have "length (workers i') \<le> length (workers i)"
    by (simp add: assms(3) hm_length_remove_le)
  moreover have "map_of (workers i') h' = Some w \<Longrightarrow> map_of (workers i) h' = Some w" for h' w
    by (simp add: assms(3) hm_simps split: if_splits)
  ultimately show ?thesis using assms(1) unfolding limits_ok_def by (meson le_trans)
qed

lemma limits_ok_spawn:
  assumes "limits_ok cfg i" "hm_ok (workers i)" "map_of (workers i) h = None" "w_pending w = []"
    and "workers i' = hm_insert h w (workers i)"
    and "length (workers i) < max_workers cfg"
    and "tenant_worker_count i (w_tenant_id w) < max_workers_per_tenant cfg"
  shows "limits_ok cfg i'"
proof -
  have "tenant_worker_count i' t \<le> max_workers_per_tenant cfg"
    "tenant_pending i' t \<le> max_pending_per_tenant cfg" for t
    using assms(1,7)
    by (auto simp: limits_ok_def tenant_worker_count_sum tenant_pending_sum assms(4,5)
        hm_sum_insert_fresh[OF assms(3)])
  moreover have "length (workers i') \<le> max_workers cfg"
    using assms(6) by (simp add: assms(5) hm_insert_fresh[OF assms(3)])
  moreover have "length (w_pending w') \<le> max_pending_per_worker cfg"
    if "map_of (workers i') h' = Some w'" for h' w'
    using that assms(1,4) by (auto simp: limits_ok_def assms(5) hm_simps split: if_splits)
  ultimately show ?thesis unfolding limits_ok_def by blast
qed

lemma tenant_sums_update:
  assumes "hm_ok (workers i)" "map_of (workers i) h = Some w" "workers i' = hm_insert h w' (workers i)"
    and "w_tenant_id w' = w_tenant_id w"
  shows "tenant_worker_count i' t = tenant_worker_count i t"
    and "tenant_pending i' t + (if w_tenant_id w = t then length (w_pending w) else 0) =
         tenant_pending i t + (if w_tenant_id w = t then length (w_pending w') else 0)"
    and "length (workers i') = length (workers i)"
  using hm_sum_insert[OF assms(1), of "\<lambda>_ w. if w_tenant_id w = t then 1 else (0 :: nat)" h w']
    hm_sum_insert[OF assms(1), of "\<lambda>_ w. if w_tenant_id w = t then length (w_pending w) else 0" h w']
    hm_sum_insert[OF assms(1), of "\<lambda>_ _. 1 :: nat" h w']
  by (auto simp: tenant_worker_count_sum tenant_pending_sum hm_length_sum assms(2-4) hm_weight_def)

lemma limits_ok_update:
  assumes "limits_ok cfg i" "hm_ok (workers i)" "map_of (workers i) h = Some w"
    and "workers i' = hm_insert h w' (workers i)" "w_tenant_id w' = w_tenant_id w"
    and "length (w_pending w') \<le> length (w_pending w) \<or>
      (length (w_pending w') \<le> Suc (length (w_pending w)) \<and>
       length (w_pending w) < max_pending_per_worker cfg \<and>
       tenant_pending i (w_tenant_id w) < max_pending_per_tenant cfg)"
  shows "limits_ok cfg i'"
proof -
  note T = tenant_sums_update[OF assms(2-5)]
  have old: "length (w_pending w) \<le> max_pending_per_worker cfg"
    "tenant_pending i (w_tenant_id w) \<le> max_pending_per_tenant cfg"
    using assms(1,3) by (auto simp: limits_ok_def)
  have new: "length (w_pending w') \<le> max_pending_per_worker cfg" using assms(6) old(1) by linarith
  have "tenant_pending i' t \<le> max_pending_per_tenant cfg" for t
  proof (cases "w_tenant_id w = t")
    case True
    then show ?thesis using T(2)[of t] assms(6) old(2) by auto
  next
    case False
    then show ?thesis using T(2)[of t] assms(1) by (simp add: limits_ok_def)
  qed
  moreover have "length (w_pending v) \<le> max_pending_per_worker cfg"
    if "map_of (workers i') h' = Some v" for h' v
    using that assms(1) new by (auto simp: limits_ok_def assms(4) hm_simps split: if_splits)
  ultimately show ?thesis using assms(1) T(1,3) unfolding limits_ok_def by auto
qed

lemma table_ok_cong:
  assumes "workers i' = workers i" "active i' = active i" "path_to_handle i' = path_to_handle i"
    and "token_to_handle i' = token_to_handle i" "ref_tokens i' = ref_tokens i"
  shows "table_ok cfg i' = table_ok cfg i"
proof -
  have "paths_ok i' = paths_ok i" by (rule paths_ok_cong) (simp_all add: assms)
  moreover have "tokens_ok i' = tokens_ok i" by (rule tokens_ok_cong) (simp_all add: assms)
  moreover have "active_ok i' = active_ok i" by (rule active_ok_cong) (simp_all add: assms)
  moreover have "limits_ok cfg i' = limits_ok cfg i" by (rule limits_ok_cong) (simp add: assms)
  ultimately show ?thesis by (simp add: table_ok_def)
qed

lemma table_ok_perm:
  assumes "table_ok cfg i" "mset ws = mset (workers i)"
  shows "table_ok cfg (i\<lparr>workers := ws\<rparr>)"
proof -
  let ?j = "i\<lparr>workers := ws\<rparr>"
  have hm: "hm_ok (workers i)" using assms(1) by (simp add: table_ok_def paths_ok_def)
  have ok: "hm_ok ws" using hm_ok_perm[OF assms(2)] hm by simp
  have g: "map_of ws = map_of (workers i)" using hm_get_perm[OF assms(2) ok] by simp
  have len: "length ws = length (workers i)" using assms(2) by (rule mset_eq_length)
  have "tenant_worker_count ?j t = tenant_worker_count i t" "tenant_pending ?j t = tenant_pending i t" for t
    by (simp_all add: tenant_worker_count_sum tenant_pending_sum hm_sum_perm[OF assms(2)])
  then have "limits_ok cfg ?j" using assms(1) g len by (simp add: table_ok_def limits_ok_def)
  moreover have "active_ok ?j = active_ok i" by (rule active_ok_cong) (simp_all add: g)
  moreover have "tokens_ok ?j = tokens_ok i" by (rule tokens_ok_cong) simp_all
  moreover have "paths_ok ?j" using assms(1) ok by (simp add: table_ok_def paths_ok_def g)
  ultimately show ?thesis using assms(1) by (simp add: table_ok_def)
qed

end
