(* ===== verification/Router_Steps.thy ===== *)
theory Router_Steps
  imports Router_Invariants
begin

text \<open>
  The router as a state machine. A step is one lock section of the router, run by any task, with
  any arguments, so a reachable state is one that some interleaving of requests, spawns,
  closings and reader tasks can produce. Next to the table the state records the latest reading
  of the system clock, the request ids that were drawn but not yet dispatched, the requests
  dispatched so far, and the messages sent on their channels.
\<close>

subsection \<open>Requests in flight\<close>

record router_sys =
  rs_inner :: RouterInner
  rs_pool :: warm_pool
  rs_clock :: nat
  rs_alloc :: "nat list"
  rs_dispatched :: "nat list"
  rs_sent :: sends

definition pend_chans :: "(string, WorkerProcess) hashmap \<Rightarrow> nat multiset" where
  "pend_chans ws = hm_sum (\<lambda>_ w. mset (map snd (w_pending w))) ws"

definition req_id_of :: "nat \<Rightarrow> string" where
  "req_id_of n = ''r'' @ fmt_dec n"

lemma req_id_inject [simp]: "req_id_of m = req_id_of n \<longleftrightarrow> m = n"
  by (simp add: req_id_of_def fmt_dec_inject)

definition pending_ok :: "RouterInner \<Rightarrow> bool" where
  "pending_ok i \<longleftrightarrow> (\<forall>h w. map_of (workers i) h = Some w \<longrightarrow>
     hm_ok (w_pending w) \<and> (\<forall>q ch. map_of (w_pending w) q = Some ch \<longrightarrow> q = req_id_of ch))"

text \<open>Every dispatched request is pending in one worker or has been answered, never both.\<close>

definition requests_ok :: "RouterInner \<Rightarrow> nat list \<Rightarrow> nat list \<Rightarrow> sends \<Rightarrow> bool" where
  "requests_ok i alloc disp sent \<longleftrightarrow>
     pend_chans (workers i) + mset (map fst sent) = mset disp \<and>
     distinct (alloc @ disp) \<and> (\<forall>n \<in> set (alloc @ disp). n < req_counter i) \<and> pending_ok i"

lemma requests_ok_cong:
  assumes "requests_ok i alloc disp sent" "workers i' = workers i" "req_counter i \<le> req_counter i'"
  shows "requests_ok i' alloc disp sent"
  using assms unfolding requests_ok_def pending_ok_def by (auto intro: less_le_trans)

lemma requests_ok_alloc:
  assumes "requests_ok i alloc disp sent" "workers i' = workers i" "req_counter i' = Suc (req_counter i)"
  shows "requests_ok i' (alloc @ [req_counter i]) disp sent"
  using assms unfolding requests_ok_def pending_ok_def by (auto intro: less_SucI)

lemma requests_ok_drop:
  assumes "requests_ok i alloc disp sent" "hm_ok (workers i)" "map_of (workers i) h = Some w"
    and "workers i' = hm_remove h (workers i)" "req_counter i' = req_counter i"
    and "map fst sent' = map snd (w_pending w)"
  shows "requests_ok i' alloc disp (sent @ sent')"
proof -
  have p: "pend_chans (workers i') + mset (map snd (w_pending w)) = pend_chans (workers i)"
    using hm_sum_remove[OF assms(2), of "\<lambda>_ w. mset (map snd (w_pending w))" h] assms(3)
    by (simp add: pend_chans_def assms(4) hm_weight_def)
  have ok: "pending_ok i'"
    using assms(1) unfolding requests_ok_def pending_ok_def assms(4)
    by (auto simp: hm_simps split: if_splits)
  have "pend_chans (workers i') + mset (map fst (sent @ sent')) =
      pend_chans (workers i) + mset (map fst sent)"
    by (simp only: map_append mset_append assms(6) p[symmetric] ac_simps)
  also have "\<dots> = mset disp" using assms(1) by (simp only: requests_ok_def)
  finally show ?thesis using assms(1) ok unfolding requests_ok_def assms(5) by blast
qed

lemma pend_chans_update:
  assumes "hm_ok (workers i)" "map_of (workers i) h = Some w"
  shows "pend_chans (hm_insert h w' (workers i)) + mset (map snd (w_pending w)) =
         pend_chans (workers i) + mset (map snd (w_pending w'))"
  using hm_sum_insert[OF assms(1), of "\<lambda>_ w. mset (map snd (w_pending w))" h w'] assms(2)
  by (simp add: pend_chans_def hm_weight_def)

lemma pending_ok_update:
  assumes "pending_ok i" "workers i' = hm_insert h w' (workers i)" "hm_ok (w_pending w')"
    and "\<And>q ch. map_of (w_pending w') q = Some ch \<Longrightarrow> q = req_id_of ch"
  shows "pending_ok i'"
  using assms unfolding pending_ok_def by (auto simp: hm_simps split: if_splits)

lemma mset_hm_remove:
  assumes "hm_ok m" "map_of m k = Some v"
  shows "mset (map snd m) = add_mset v (mset (map snd (hm_remove k m)))"
proof -
  have s: "image_mset snd (mset m) = hm_sum (\<lambda>_ v. {#v#}) m" for m :: "('a, 'b) hashmap"
    by (induction m) auto
  show ?thesis
    using hm_sum_remove[OF assms(1), of "\<lambda>_ v. {#v#}" k] assms(2) by (simp add: s hm_weight_def)
qed

lemma requests_ok_response:
  assumes "requests_ok i alloc disp sent" "hm_ok (workers i)" "map_of (workers i) h = Some w"
    and "map_of (w_pending w) q = Some ch"
    and "workers i' = hm_insert h (w\<lparr>w_pending := hm_remove q (w_pending w)\<rparr>) (workers i)"
    and "req_counter i' = req_counter i"
  shows "requests_ok i' alloc disp (sent @ [(ch, r)])"
proof -
  let ?w = "w\<lparr>w_pending := hm_remove q (w_pending w)\<rparr>"
  have w: "hm_ok (w_pending w)" "\<And>q ch. map_of (w_pending w) q = Some ch \<Longrightarrow> q = req_id_of ch"
    using assms(1,3) unfolding requests_ok_def pending_ok_def by blast+
  have "pend_chans (workers i') + mset (map snd (w_pending w)) =
      pend_chans (workers i) + mset (map snd (w_pending ?w))"
    unfolding assms(5) by (rule pend_chans_update[OF assms(2,3)])
  then have "pend_chans (workers i) = add_mset ch (pend_chans (workers i'))"
    unfolding mset_hm_remove[OF w(1) assms(4)] by simp
  moreover have "pending_ok i'"
    using assms(1) w by (intro pending_ok_update[OF _ assms(5)])
      (auto simp: requests_ok_def hm_simps split: if_splits)
  ultimately show ?thesis using assms(1) unfolding requests_ok_def assms(6) by auto
qed

lemma requests_ok_dispatch:
  assumes "requests_ok i alloc disp sent" "hm_ok (workers i)" "map_of (workers i) h = Some w"
    and "n \<in> set alloc" "req_counter i' = req_counter i"
    and "workers i' = hm_insert h
      (w\<lparr>w_pending := hm_insert (req_id_of n) n (w_pending w), w_last_active := inst\<rparr>) (workers i)"
  shows "requests_ok i' (removeAll n alloc) (disp @ [n]) sent"
    and "map_of (w_pending w) (req_id_of n) = None"
proof -
  let ?w = "w\<lparr>w_pending := hm_insert (req_id_of n) n (w_pending w), w_last_active := inst\<rparr>"
  have w: "hm_ok (w_pending w)" "\<And>q ch. map_of (w_pending w) q = Some ch \<Longrightarrow> q = req_id_of ch"
    using assms(1,3) unfolding requests_ok_def pending_ok_def by blast+
  show fresh: "map_of (w_pending w) (req_id_of n) = None"
  proof (rule ccontr)
    assume "map_of (w_pending w) (req_id_of n) \<noteq> None"
    then obtain ch where c: "map_of (w_pending w) (req_id_of n) = Some ch" by blast
    then have "ch = n" using w(2) by force
    then have "n \<in># mset (map snd (w_pending w))" using mset_hm_remove[OF w(1) c] by simp
    then have "n \<in># pend_chans (workers i)"
      using hm_sum_remove[OF assms(2), of "\<lambda>_ w. mset (map snd (w_pending w))" h] assms(3)
      by (metis hm_weight_def option.simps(5) pend_chans_def union_iff)
    then have "n \<in># mset disp" using assms(1) unfolding requests_ok_def by (metis union_iff)
    then show False using assms(1,4) by (auto simp: requests_ok_def)
  qed
  have "pend_chans (workers i') + mset (map snd (w_pending w)) =
      pend_chans (workers i) + mset (map snd (w_pending ?w))"
    unfolding assms(6) by (rule pend_chans_update[OF assms(2,3)])
  then have "pend_chans (workers i') = add_mset n (pend_chans (workers i))"
    by (simp add: hm_insert_fresh[OF fresh])
  moreover have "pending_ok i'"
    using assms(1) w by (intro pending_ok_update[OF _ assms(6)])
      (auto simp: requests_ok_def hm_simps split: if_splits)
  ultimately show "requests_ok i' (removeAll n alloc) (disp @ [n]) sent"
    using assms(1,4) unfolding requests_ok_def assms(5) by (auto simp: distinct_removeAll)
qed

subsection \<open>Fresh tokens\<close>

definition token_at :: "nat \<Rightarrow> string \<Rightarrow> bool" where
  "token_at n t \<longleftrightarrow> (\<exists>p c. t = token_string n p c) \<or> (\<exists>c. t = cli_token_string n c)"

definition tokens_before :: "nat \<Rightarrow> RouterInner \<Rightarrow> bool" where
  "tokens_before clock i \<longleftrightarrow>
     (\<forall>t h. map_of (token_to_handle i) t = Some h \<longrightarrow> (\<exists>n \<le> clock. token_at n t))"

lemma cli_not_token: "cli_token_string n c \<noteq> token_string n' p' c'"
proof
  assume "cli_token_string n c = token_string n' p' c'"
  then have "''cli'' = fmt_hex n'"
    using append_sep_inject[of "CHR ''-''" "''cli''" "fmt_hex n'"] fmt_hex_no_dash
    by (auto simp: cli_token_string_def token_string_def)
  moreover have "CHR ''l'' \<notin> set (fmt_hex n')"
    by (rule fmt_hex_letters) (simp add: code_of_def)
  ultimately show False by (metis list.set_intros(1,2))
qed

lemma cli_token_inject: "cli_token_string n c = cli_token_string n' c' \<Longrightarrow> n = n'"
  using append_sep_inject[of "CHR ''-''" "fmt_hex n" "fmt_hex n'"] fmt_hex_no_dash
  by (auto simp: cli_token_string_def fmt_hex_inject)

lemma token_at_unique: "token_at n t \<Longrightarrow> token_at n' t \<Longrightarrow> n = n'"
  using cli_not_token cli_token_inject unfolding token_at_def by (metis token_string_inject)

lemma token_at_simps [simp]: "token_at n (token_string n p c)" "token_at n (cli_token_string n c)"
  by (auto simp: token_at_def)

lemma fresh_token:
  assumes "tokens_before clock i" "clock < now" "token_at now t"
  shows "map_of (token_to_handle i) t = None"
proof (rule ccontr)
  assume "map_of (token_to_handle i) t \<noteq> None"
  then obtain n where "n \<le> clock" "token_at n t" using assms(1) unfolding tokens_before_def by blast
  then show False using token_at_unique[OF _ assms(3)] assms(2) by fastforce
qed

lemma tokens_before_mono: "tokens_before c i \<Longrightarrow> c \<le> c' \<Longrightarrow> tokens_before c' i"
  unfolding tokens_before_def by (meson le_trans)

lemma tokens_before_sub:
  assumes "tokens_before c i"
    and "\<And>t h. map_of (token_to_handle i') t = Some h \<Longrightarrow> map_of (token_to_handle i) t = Some h"
  shows "tokens_before c i'"
  using assms unfolding tokens_before_def by blast

lemma tokens_before_insert:
  assumes "tokens_before c i" "c \<le> now" "token_at now t"
    and "token_to_handle i' = hm_insert t h (token_to_handle i)"
  shows "tokens_before now i'"
  using assms unfolding tokens_before_def by (auto simp: hm_simps intro: le_trans)

subsection \<open>Steps\<close>

definition fresh_handle :: "string \<Rightarrow> RouterInner \<Rightarrow> bool" where
  "fresh_handle h i \<longleftrightarrow> map_of (workers i) h = None \<and> map_of (ref_tokens i) h = None"

definition touch_worker :: "nat \<Rightarrow> string \<Rightarrow> RouterInner \<Rightarrow> RouterInner" where
  "touch_worker inst h i = i\<lparr>workers := hm_modify h (\<lambda>w. w\<lparr>w_last_active := inst\<rparr>) (workers i)\<rparr>"

text \<open>
  The hypotheses about the outside world are the guards of the two spawning sections and of
  issuing a reference: the system clock advances between two tokens, and a new handle is not in
  use. The order in which a hash map enumerates the workers may change at any time. The
  sections that only touch the warm pool are one rule.
\<close>

inductive router_step :: "RouterConfig \<Rightarrow> nat \<Rightarrow> router_sys \<Rightarrow> router_sys \<Rightarrow> bool"
  for cfg :: RouterConfig and pid :: nat where
  r_lookup: "spawn_lookup now pid key (rs_inner s) = (res, i') \<Longrightarrow> rs_clock s < now \<Longrightarrow>
     router_step cfg pid s (s\<lparr>rs_inner := i', rs_clock := now\<rparr>)"
| r_commit: "spawn_commit cfg t1 t2 inst pid spawned backend key (rs_inner s) = (res, i') \<Longrightarrow>
     rs_clock s < t1 \<Longrightarrow> t1 \<le> t2 \<Longrightarrow>
     fresh_handle (handle_string t1 pid (req_counter (rs_inner s))) (rs_inner s) \<Longrightarrow>
     router_step cfg pid s (s\<lparr>rs_inner := i', rs_clock := t2\<rparr>)"
| r_issue: "issue_ref_for_handle now h (rs_inner s) = (t, i') \<Longrightarrow> rs_clock s < now \<Longrightarrow>
     router_step cfg pid s (s\<lparr>rs_inner := i', rs_clock := now\<rparr>)"
| r_release: "release_ref_token t (rs_inner s) = (res, i') \<Longrightarrow>
     router_step cfg pid s (s\<lparr>rs_inner := i'\<rparr>)"
| r_close: "close_worker h (rs_pool s, rs_inner s) = (sent, pool', i') \<Longrightarrow>
     router_step cfg pid s (s\<lparr>rs_inner := i', rs_pool := pool', rs_sent := rs_sent s @ sent\<rparr>)"
| r_eof: "reader_eof h (rs_inner s) = (sent, i') \<Longrightarrow>
     router_step cfg pid s (s\<lparr>rs_inner := i', rs_sent := rs_sent s @ sent\<rparr>)"
| r_error: "reader_error h e (rs_inner s) = (sent, i') \<Longrightarrow>
     router_step cfg pid s (s\<lparr>rs_inner := i', rs_sent := rs_sent s @ sent\<rparr>)"
| r_response: "reader_response h resp (rs_inner s) = (sent, i') \<Longrightarrow>
     router_step cfg pid s (s\<lparr>rs_inner := i', rs_sent := rs_sent s @ sent\<rparr>)"
| r_alloc: "alloc_req_id (rs_inner s) = (q, i') \<Longrightarrow>
     router_step cfg pid s (s\<lparr>rs_inner := i', rs_alloc := rs_alloc s @ [req_counter (rs_inner s)]\<rparr>)"
| r_dispatch: "n \<in> set (rs_alloc s) \<Longrightarrow>
     dispatch_request cfg inst serialized written target (req_id_of n) n (rs_inner s) = (res, i') \<Longrightarrow>
     router_step cfg pid s (s\<lparr>rs_inner := i', rs_alloc := removeAll n (rs_alloc s),
       rs_dispatched := (case res of Inr _ \<Rightarrow> rs_dispatched s @ [n] | Inl _ \<Rightarrow> rs_dispatched s)\<rparr>)"
| r_touch: "router_step cfg pid s (s\<lparr>rs_inner := touch_worker inst h (rs_inner s)\<rparr>)"
| r_pool: "router_step cfg pid s (s\<lparr>rs_pool := pool'\<rparr>)"
| r_rehash: "mset ws = mset (workers (rs_inner s)) \<Longrightarrow>
     router_step cfg pid s (s\<lparr>rs_inner := (rs_inner s)\<lparr>workers := ws\<rparr>\<rparr>)"

abbreviation router_steps :: "RouterConfig \<Rightarrow> nat \<Rightarrow> router_sys \<Rightarrow> router_sys \<Rightarrow> bool" where
  "router_steps cfg pid \<equiv> (router_step cfg pid)\<^sup>*\<^sup>*"

definition router_start :: "string \<Rightarrow> router_sys" where
  "router_start exe = \<lparr>rs_inner = new_inner exe, rs_pool = [], rs_clock = 0, rs_alloc = [],
     rs_dispatched = [], rs_sent = []\<rparr>"

definition sys_ok :: "RouterConfig \<Rightarrow> router_sys \<Rightarrow> bool" where
  "sys_ok cfg s \<longleftrightarrow> table_ok cfg (rs_inner s) \<and> tokens_before (rs_clock s) (rs_inner s) \<and>
     requests_ok (rs_inner s) (rs_alloc s) (rs_dispatched s) (rs_sent s)"

lemma sys_ok_start: "sys_ok cfg (router_start exe)"
  by (simp add: sys_ok_def router_start_def table_ok_new requests_ok_def pend_chans_def pending_ok_def
      tokens_before_def) (simp add: new_inner_def)

subsection \<open>Every section keeps the invariant\<close>

lemma sys_ok_add_ref:
  assumes "sys_ok cfg s" "rs_clock s < now" "token_at now t"
  shows "sys_ok cfg (s\<lparr>rs_inner := add_ref h t ((rs_inner s)\<lparr>req_counter := req_counter (rs_inner s) + 1\<rparr>),
    rs_clock := now\<rparr>)"
proof -
  let ?i = "(rs_inner s)\<lparr>req_counter := req_counter (rs_inner s) + 1\<rparr>"
  have ok: "table_ok cfg (rs_inner s)" "tokens_before (rs_clock s) (rs_inner s)"
    "requests_ok (rs_inner s) (rs_alloc s) (rs_dispatched s) (rs_sent s)"
    using assms(1) by (simp_all add: sys_ok_def)
  have f: "map_of (token_to_handle ?i) t = None" using fresh_token[OF ok(2) assms(2,3)] by simp
  have "tokens_ok ?i = tokens_ok (rs_inner s)" by (rule tokens_ok_cong) simp_all
  then have "tokens_ok (add_ref h t ?i)" using ok(1) tokens_ok_add_ref[OF _ f] by (simp add: table_ok_def)
  moreover have "paths_ok (add_ref h t ?i) = paths_ok (rs_inner s)" by (rule paths_ok_cong) simp_all
  moreover have "active_ok (add_ref h t ?i) = active_ok (rs_inner s)" by (rule active_ok_cong) simp_all
  moreover have "limits_ok cfg (add_ref h t ?i) = limits_ok cfg (rs_inner s)" by (rule limits_ok_cong) simp
  ultimately have "table_ok cfg (add_ref h t ?i)" using ok(1) unfolding table_ok_def by blast
  moreover have "tokens_before now (add_ref h t ?i)"
    using assms(2,3) by (intro tokens_before_insert[OF ok(2), of now t _ h]) (simp_all add: add_ref_def)
  moreover have "requests_ok (add_ref h t ?i) (rs_alloc s) (rs_dispatched s) (rs_sent s)"
    using requests_ok_cong[OF ok(3), of "add_ref h t ?i"] by simp
  ultimately show ?thesis by (simp add: sys_ok_def)
qed

lemma sys_ok_drop:
  assumes "sys_ok cfg s" "map_of (workers (rs_inner s)) h = Some w" "map fst sent = map snd (w_pending w)"
  shows "sys_ok cfg (s\<lparr>rs_inner := drop_worker h w (rs_inner s), rs_sent := rs_sent s @ sent\<rparr>)"
proof -
  let ?i = "rs_inner s"
  have ok: "paths_ok ?i" "tokens_ok ?i" "active_ok ?i" "limits_ok cfg ?i"
    "tokens_before (rs_clock s) ?i" "requests_ok ?i (rs_alloc s) (rs_dispatched s) (rs_sent s)"
    using assms(1) by (simp_all add: sys_ok_def table_ok_def)
  have hm: "hm_ok (workers ?i)" by (rule paths_ok_D(1)[OF ok(1)])
  have "table_ok cfg (drop_worker h w ?i)"
    unfolding table_ok_def
    using paths_ok_drop[OF ok(1) assms(2)] tokens_ok_drop[OF ok(2)] active_ok_drop[OF ok(3)]
      limits_ok_remove[OF ok(4) hm, of "drop_worker h w ?i" h] by simp
  moreover have "tokens_before (rs_clock s) (drop_worker h w ?i)"
  proof (rule tokens_before_sub[OF ok(5)])
    fix t h'
    have "token_to_handle (drop_worker h w ?i) = token_to_handle (remove_tokens h ?i)"
      by (simp add: drop_worker_def remove_tokens_def split: option.splits)
    then show "map_of (token_to_handle (drop_worker h w ?i)) t = Some h' \<Longrightarrow>
        map_of (token_to_handle ?i) t = Some h'"
      by (simp add: remove_tokens_maps split: if_splits)
  qed
  moreover have "requests_ok (drop_worker h w ?i) (rs_alloc s) (rs_dispatched s) (rs_sent s @ sent)"
    by (rule requests_ok_drop[OF ok(6) hm assms(2) _ _ assms(3)]) simp_all
  ultimately show ?thesis by (simp add: sys_ok_def)
qed

lemma drain_pending_fst: "map fst (drain_pending m w) = map snd (w_pending w)"
  by (simp add: drain_pending_def comp_def case_prod_beta)

lemma sys_ok_absent_tokens:
  assumes "sys_ok cfg s" "map_of (workers (rs_inner s)) h = None"
  shows "sys_ok cfg (s\<lparr>rs_inner := reset_active h (remove_tokens h (rs_inner s))\<rparr>)"
proof -
  let ?i = "rs_inner s" and ?j = "remove_tokens h (rs_inner s)"
  have ok: "paths_ok ?i" "tokens_ok ?i" "active_ok ?i" "limits_ok cfg ?i"
    "tokens_before (rs_clock s) ?i" "requests_ok ?i (rs_alloc s) (rs_dispatched s) (rs_sent s)"
    using assms(1) by (simp_all add: sys_ok_def table_ok_def)
  have a: "active_ok ?j" using ok(3) active_ok_cong[of ?j ?i] by simp
  then have r: "reset_active h ?j = ?j" using assms(2) by (intro reset_active_absent) simp_all
  have "table_ok cfg ?j"
    unfolding table_ok_def
    using a tokens_ok_remove[OF ok(2)] ok(1,4) paths_ok_cong[of ?j ?i] limits_ok_cong[of ?j ?i] by simp
  moreover have "tokens_before (rs_clock s) ?j"
    by (rule tokens_before_sub[OF ok(5)]) (simp add: remove_tokens_maps split: if_splits)
  moreover have "requests_ok ?j (rs_alloc s) (rs_dispatched s) (rs_sent s)"
    by (rule requests_ok_cong[OF ok(6)]) simp_all
  ultimately show ?thesis by (simp add: sys_ok_def r)
qed

lemma sys_ok_pool [simp]: "sys_ok cfg (s\<lparr>rs_pool := p\<rparr>) = sys_ok cfg s"
  by (simp add: sys_ok_def)

lemma sys_ok_update:
  assumes "sys_ok cfg s" "map_of (workers (rs_inner s)) h = Some w"
    and "key_of w' = key_of w" "w_tenant_id w' = w_tenant_id w"
    and "length (w_pending w') \<le> length (w_pending w) \<or>
      (length (w_pending w') \<le> Suc (length (w_pending w)) \<and>
       length (w_pending w) < max_pending_per_worker cfg \<and>
       tenant_pending (rs_inner s) (w_tenant_id w) < max_pending_per_tenant cfg)"
    and "requests_ok ((rs_inner s)\<lparr>workers := hm_insert h w' (workers (rs_inner s))\<rparr>) alloc disp sent"
  shows "sys_ok cfg (s\<lparr>rs_inner := (rs_inner s)\<lparr>workers := hm_insert h w' (workers (rs_inner s))\<rparr>,
    rs_alloc := alloc, rs_dispatched := disp, rs_sent := sent\<rparr>)"
proof -
  let ?i = "rs_inner s" and ?j = "(rs_inner s)\<lparr>workers := hm_insert h w' (workers (rs_inner s))\<rparr>"
  have ok: "paths_ok ?i" "tokens_ok ?i" "active_ok ?i" "limits_ok cfg ?i" "tokens_before (rs_clock s) ?i"
    using assms(1) by (simp_all add: sys_ok_def table_ok_def)
  have "active_ok ?j" using ok(3) assms(2) by (auto simp: active_ok_def hm_simps split: option.splits)
  moreover have "limits_ok cfg ?j"
    by (rule limits_ok_update[OF ok(4) paths_ok_D(1)[OF ok(1)] assms(2) _ assms(4,5)]) simp
  moreover have "tokens_ok ?j" using ok(2) tokens_ok_cong[of ?j ?i] by simp
  moreover have "tokens_before (rs_clock s) ?j" by (rule tokens_before_sub[OF ok(5)]) simp
  ultimately show ?thesis
    using paths_ok_update[OF ok(1) assms(2,3)] assms(6) by (simp add: sys_ok_def table_ok_def)
qed

text \<open>The table after a new worker was registered.\<close>

definition register_worker ::
  "nat \<Rightarrow> nat \<Rightarrow> nat \<Rightarrow> WorkerBackendKind \<Rightarrow> WorkerKey \<Rightarrow> string \<Rightarrow> RouterInner \<Rightarrow> RouterInner" where
  "register_worker t2 inst pid backend key h i =
     (let tok = token_string t2 pid (req_counter i + 1) in
      i\<lparr>req_counter := req_counter i + 1,
        path_to_handle := hm_insert key h (path_to_handle i),
        token_to_handle := hm_insert tok h (token_to_handle i),
        ref_tokens := hm_insert h [tok] (ref_tokens i),
        workers := hm_insert h \<lparr>w_backend = backend, w_tenant_id = wk_tenant_id key,
          w_pending = [], w_close_token = Some tok, w_open_path = Some (wk_path key),
          w_last_active = inst\<rparr> (workers i),
        active := Some h\<rparr>)"

lemma sys_ok_register:
  assumes ok: "sys_ok cfg s" and clk: "rs_clock s < t2" and fresh: "fresh_handle h (rs_inner s)"
    and new: "map_of (path_to_handle (rs_inner s)) key = None"
      "tenant_worker_count (rs_inner s) (wk_tenant_id key) < max_workers_per_tenant cfg"
      "length (workers (rs_inner s)) < max_workers cfg"
  shows "sys_ok cfg (s\<lparr>rs_inner := register_worker t2 inst pid backend key h (rs_inner s), rs_clock := t2\<rparr>)"
proof -
  let ?i = "rs_inner s" and ?j = "register_worker t2 inst pid backend key h (rs_inner s)"
  let ?tok = "token_string t2 pid (req_counter ?i + 1)"
  let ?w = "\<lparr>w_backend = backend, w_tenant_id = wk_tenant_id key, w_pending = [],
    w_close_token = Some ?tok, w_open_path = Some (wk_path key), w_last_active = inst\<rparr>"
  have parts: "paths_ok ?i" "tokens_ok ?i" "limits_ok cfg ?i" "tokens_before (rs_clock s) ?i"
    "requests_ok ?i (rs_alloc s) (rs_dispatched s) (rs_sent s)"
    using ok by (simp_all add: sys_ok_def table_ok_def)
  have f: "map_of (workers ?i) h = None" "map_of (ref_tokens ?i) h = None"
    using fresh by (simp_all add: fresh_handle_def)
  have t2: "map_of (token_to_handle ?i) ?tok = None" by (rule fresh_token[OF parts(4) clk]) simp
  have k: "key_of ?w = Some key" by (simp add: key_of_def worker_key_def)
  have hm: "hm_ok (workers ?i)" by (rule paths_ok_D(1)[OF parts(1)])
  note d = register_worker_def Let_def
  have "paths_ok ?j" by (rule paths_ok_spawn[OF parts(1) f(1) new(1) k]) (simp_all add: d)
  moreover have "tokens_ok ?j" by (rule tokens_ok_spawn[OF parts(2) t2 f(2)]) (simp_all add: d)
  moreover have "limits_ok cfg ?j"
    by (rule limits_ok_spawn[OF parts(3) hm f(1), of ?w]) (simp_all add: new d)
  moreover have "active_ok ?j" by (simp add: d active_ok_def hm_simps)
  moreover have "tokens_before t2 ?j"
    using clk by (intro tokens_before_insert[OF parts(4), of t2 ?tok _ h]) (simp_all add: d)
  moreover have "pend_chans (workers ?j) = pend_chans (workers ?i)"
    by (simp add: d pend_chans_def hm_sum_insert_fresh[OF f(1)])
  then have "requests_ok ?j (rs_alloc s) (rs_dispatched s) (rs_sent s)"
    using parts(5) unfolding requests_ok_def pending_ok_def
    by (auto simp: d hm_simps less_SucI split: if_splits)
  ultimately show ?thesis by (simp add: sys_ok_def table_ok_def)
qed

lemma sys_ok_counter:
  assumes "sys_ok cfg s" "req_counter (rs_inner s) \<le> n"
  shows "sys_ok cfg (s\<lparr>rs_inner := (rs_inner s)\<lparr>req_counter := n\<rparr>\<rparr>)"
proof -
  let ?i = "(rs_inner s)\<lparr>req_counter := n\<rparr>"
  have "requests_ok ?i (rs_alloc s) (rs_dispatched s) (rs_sent s)"
    using assms requests_ok_cong[of "rs_inner s" _ _ _ ?i] by (simp add: sys_ok_def)
  moreover have "table_ok cfg ?i = table_ok cfg (rs_inner s)" by (rule table_ok_cong) simp_all
  moreover have "tokens_before (rs_clock s) ?i"
    using assms(1) tokens_before_sub[of "rs_clock s" "rs_inner s" ?i] by (simp add: sys_ok_def)
  ultimately show ?thesis using assms(1) by (simp add: sys_ok_def)
qed

lemma sys_ok_later: "sys_ok cfg s \<Longrightarrow> rs_clock s \<le> t \<Longrightarrow> sys_ok cfg (s\<lparr>rs_clock := t\<rparr>)"
  using tokens_before_mono by (auto simp: sys_ok_def)

lemma spawn_commit_cases:
  assumes "spawn_commit cfg t1 t2 inst pid spawned backend key i = (res, i')"
  obtains (same) "i' = i" | (reuse) h token where "reuse_handle t1 pid h i = (token, i')"
    | (failed) "i' = i\<lparr>req_counter := req_counter i + 1\<rparr>"
    | (new) "map_of (path_to_handle i) key = None"
        "tenant_worker_count i (wk_tenant_id key) < max_workers_per_tenant cfg"
        "length (workers i) < max_workers cfg"
        "i' = register_worker t2 inst pid backend key (handle_string t1 pid (req_counter i)) i"
  using assms
  by (auto simp: spawn_commit_def register_worker_def Let_def
      split: if_splits option.splits sum.splits prod.splits)

lemma sys_ok_commit:
  assumes ok: "sys_ok cfg s"
    and step: "spawn_commit cfg t1 t2 inst pid spawned backend key (rs_inner s) = (res, i')"
    and clk: "rs_clock s < t1" "t1 \<le> t2"
    and fresh: "fresh_handle (handle_string t1 pid (req_counter (rs_inner s))) (rs_inner s)"
  shows "sys_ok cfg (s\<lparr>rs_inner := i', rs_clock := t2\<rparr>)"
proof -
  let ?i = "rs_inner s" and ?h = "handle_string t1 pid (req_counter (rs_inner s))"
  from step show ?thesis
  proof (cases rule: spawn_commit_cases)
    case same
    then show ?thesis using sys_ok_later[OF ok] clk by simp
  next
    case (reuse h token)
    then have "i' = add_ref h (token_string t1 pid (req_counter ?i)) (?i\<lparr>req_counter := req_counter ?i + 1\<rparr>)"
      by (auto simp: reuse_handle_def Let_def)
    then show ?thesis
      using sys_ok_later[OF sys_ok_add_ref[OF ok clk(1) token_at_simps(1)], where t = t2] clk(2) by simp
  next
    case failed
    then show ?thesis using sys_ok_later[OF sys_ok_counter[OF ok], of "req_counter ?i + 1" t2] clk by simp
  next
    case new
    then show ?thesis using sys_ok_register[OF ok _ fresh new(1-3)] clk by simp
  qed
qed

lemma sys_ok_reader:
  assumes "sys_ok cfg s"
  shows "reader_eof h (rs_inner s) = (sent, i') \<Longrightarrow>
      sys_ok cfg (s\<lparr>rs_inner := i', rs_sent := rs_sent s @ sent\<rparr>)"
    and "reader_error h e (rs_inner s) = (sent, i') \<Longrightarrow>
      sys_ok cfg (s\<lparr>rs_inner := i', rs_sent := rs_sent s @ sent\<rparr>)"
    and "close_worker h (rs_pool s, rs_inner s) = (sent, pool', i') \<Longrightarrow>
      sys_ok cfg (s\<lparr>rs_inner := i', rs_pool := pool', rs_sent := rs_sent s @ sent\<rparr>)"
proof -
  have drop: "sys_ok cfg (s\<lparr>rs_inner := drop_worker h w (rs_inner s), rs_sent := rs_sent s @ drain_pending m w\<rparr>)"
    if "map_of (workers (rs_inner s)) h = Some w" for m w
    by (rule sys_ok_drop[OF assms that drain_pending_fst])
  have pool: "sys_ok cfg (s\<lparr>rs_inner := i, rs_pool := p, rs_sent := m\<rparr>) =
      sys_ok cfg (s\<lparr>rs_inner := i, rs_sent := m\<rparr>)" for i p m by (simp add: sys_ok_def)
  show "sys_ok cfg (s\<lparr>rs_inner := i', rs_sent := rs_sent s @ sent\<rparr>)"
    if "reader_eof h (rs_inner s) = (sent, i')"
    using that drop assms reader_eof_drop[of h "rs_inner s"]
    by (cases "map_of (workers (rs_inner s)) h") (auto simp: reader_eof_def)
  show "sys_ok cfg (s\<lparr>rs_inner := i', rs_sent := rs_sent s @ sent\<rparr>)"
    if "reader_error h e (rs_inner s) = (sent, i')"
    using that drop sys_ok_absent_tokens[OF assms] reader_error_drop[of h e "rs_inner s"]
    by (cases "map_of (workers (rs_inner s)) h") (auto simp: reader_error_def)
  show "sys_ok cfg (s\<lparr>rs_inner := i', rs_pool := pool', rs_sent := rs_sent s @ sent\<rparr>)"
    if "close_worker h (rs_pool s, rs_inner s) = (sent, pool', i')"
    using that drop assms close_worker_drop[of h "rs_pool s" "rs_inner s"] unfolding pool
    by (cases "map_of (workers (rs_inner s)) h") (auto simp: close_worker_def Let_def)
qed

lemma sys_ok_response:
  assumes "sys_ok cfg s" "reader_response h resp (rs_inner s) = (sent, i')"
  shows "sys_ok cfg (s\<lparr>rs_inner := i', rs_sent := rs_sent s @ sent\<rparr>)"
proof -
  have hm: "hm_ok (workers (rs_inner s))"
    and r: "requests_ok (rs_inner s) (rs_alloc s) (rs_dispatched s) (rs_sent s)"
    using assms(1) paths_ok_D(1) by (auto simp: sys_ok_def table_ok_def)
  consider "sent = []" "i' = rs_inner s"
    | w ch where "map_of (workers (rs_inner s)) h = Some w" "map_of (w_pending w) (r_id resp) = Some ch"
        "sent = [(ch, response_value resp)]"
        "i' = (rs_inner s)\<lparr>workers := hm_insert h
           (w\<lparr>w_pending := hm_remove (r_id resp) (w_pending w)\<rparr>) (workers (rs_inner s))\<rparr>"
    using assms(2) by (auto simp: reader_response_def split: option.splits)
  then show ?thesis
  proof cases
    case 1
    then show ?thesis using assms(1) by simp
  next
    case 2
    have "requests_ok i' (rs_alloc s) (rs_dispatched s) (rs_sent s @ sent)"
      unfolding 2(3) by (rule requests_ok_response[OF r hm 2(1,2)]) (simp_all add: 2(4))
    then show ?thesis
      using sys_ok_update[OF assms(1) 2(1), of "w\<lparr>w_pending := hm_remove (r_id resp) (w_pending w)\<rparr>"
        "rs_alloc s" "rs_dispatched s" "rs_sent s @ sent"]
      by (simp add: 2(4) key_of_def hm_length_remove_le sys_ok_def)
  qed
qed

lemma sys_ok_dispatch:
  assumes "sys_ok cfg s" "n \<in> set (rs_alloc s)"
    and "dispatch_request cfg inst serialized written target (req_id_of n) n (rs_inner s) = (res, i')"
  shows "sys_ok cfg (s\<lparr>rs_inner := i', rs_alloc := removeAll n (rs_alloc s),
    rs_dispatched := (case res of Inr _ \<Rightarrow> rs_dispatched s @ [n] | Inl _ \<Rightarrow> rs_dispatched s)\<rparr>)"
proof -
  have hm: "hm_ok (workers (rs_inner s))"
    and r: "requests_ok (rs_inner s) (rs_alloc s) (rs_dispatched s) (rs_sent s)"
    using assms(1) paths_ok_D(1) by (auto simp: sys_ok_def table_ok_def)
  consider e where "res = Inl e" "i' = rs_inner s"
    | w where "map_of (workers (rs_inner s)) target = Some w" "res = Inr ()"
        "tenant_pending (rs_inner s) (w_tenant_id w) < max_pending_per_tenant cfg"
        "length (w_pending w) < max_pending_per_worker cfg"
        "i' = (rs_inner s)\<lparr>workers := hm_insert target (w\<lparr>w_pending :=
           hm_insert (req_id_of n) n (w_pending w), w_last_active := inst\<rparr>) (workers (rs_inner s))\<rparr>"
    using assms(3) by (auto simp: dispatch_request_def split: option.splits if_splits sum.splits)
  then show ?thesis
  proof cases
    case 1
    have "requests_ok (rs_inner s) (removeAll n (rs_alloc s)) (rs_dispatched s) (rs_sent s)"
      using r unfolding requests_ok_def by (auto simp: distinct_removeAll)
    then show ?thesis using assms(1) 1 by (simp add: sys_ok_def)
  next
    case 2
    let ?w = "w\<lparr>w_pending := hm_insert (req_id_of n) n (w_pending w), w_last_active := inst\<rparr>"
    have w: "workers i' = hm_insert target ?w (workers (rs_inner s))" "req_counter i' = req_counter (rs_inner s)"
      by (simp_all add: 2(5))
    note d = requests_ok_dispatch[OF r hm 2(1) assms(2) w(2,1)]
    show ?thesis
      using sys_ok_update[OF assms(1) 2(1), of ?w "removeAll n (rs_alloc s)" "rs_dispatched s @ [n]" "rs_sent s"]
        d 2 by (simp add: key_of_def hm_insert_fresh)
  qed
qed

lemma sys_ok_release:
  assumes "sys_ok cfg s" "release_ref_token t (rs_inner s) = (res, i')"
  shows "sys_ok cfg (s\<lparr>rs_inner := i'\<rparr>)"
proof -
  have i': "i' = snd (release_ref_token t (rs_inner s))" using assms(2) by simp
  have tok: "tokens_ok (rs_inner s)" using assms(1) by (simp add: sys_ok_def table_ok_def)
  have "paths_ok i' = paths_ok (rs_inner s)" by (rule paths_ok_cong) (simp_all add: i')
  moreover have "active_ok i' = active_ok (rs_inner s)" by (rule active_ok_cong) (simp_all add: i')
  moreover have "limits_ok cfg i' = limits_ok cfg (rs_inner s)" by (rule limits_ok_cong) (simp add: i')
  moreover have "tokens_before (rs_clock s) i'"
  proof (rule tokens_before_sub)
    show "tokens_before (rs_clock s) (rs_inner s)" using assms(1) by (simp add: sys_ok_def)
    show "map_of (token_to_handle (rs_inner s)) u = Some h" if "map_of (token_to_handle i') u = Some h" for u h
      using that assms(2)
      by (auto simp: release_ref_token_def Let_def hm_simps split: option.splits if_splits)
  qed
  moreover have "requests_ok i' (rs_alloc s) (rs_dispatched s) (rs_sent s)"
    using assms(1) requests_ok_cong[of "rs_inner s" _ _ _ i'] by (simp add: sys_ok_def i')
  ultimately show ?thesis
    using assms(1) tokens_ok_release[OF tok, of t] by (simp add: sys_ok_def table_ok_def i')
qed

lemma sys_ok_alloc:
  assumes "sys_ok cfg s"
  shows "sys_ok cfg (s\<lparr>rs_inner := snd (alloc_req_id (rs_inner s)),
    rs_alloc := rs_alloc s @ [req_counter (rs_inner s)]\<rparr>)"
proof -
  let ?i = "snd (alloc_req_id (rs_inner s))"
  have "table_ok cfg ?i = table_ok cfg (rs_inner s)"
    by (rule table_ok_cong) (simp_all add: alloc_req_id_def)
  moreover have "tokens_before (rs_clock s) ?i = tokens_before (rs_clock s) (rs_inner s)"
    by (simp add: tokens_before_def alloc_req_id_def)
  moreover have "requests_ok ?i (rs_alloc s @ [req_counter (rs_inner s)]) (rs_dispatched s) (rs_sent s)"
    using assms requests_ok_alloc[of "rs_inner s" _ _ _ ?i] by (simp add: sys_ok_def alloc_req_id_def)
  ultimately show ?thesis using assms by (simp add: sys_ok_def)
qed

lemma sys_ok_touch:
  assumes "sys_ok cfg s"
  shows "sys_ok cfg (s\<lparr>rs_inner := touch_worker inst h (rs_inner s)\<rparr>)"
proof (cases "map_of (workers (rs_inner s)) h")
  case None
  then show ?thesis using assms by (simp add: touch_worker_def hm_modify_none)
next
  case (Some w)
  let ?w = "w\<lparr>w_last_active := inst\<rparr>"
  let ?i = "(rs_inner s)\<lparr>workers := hm_insert h ?w (workers (rs_inner s))\<rparr>"
  have hm: "hm_ok (workers (rs_inner s))"
    and r: "requests_ok (rs_inner s) (rs_alloc s) (rs_dispatched s) (rs_sent s)"
    using assms paths_ok_D(1) by (auto simp: sys_ok_def table_ok_def)
  have "pend_chans (workers ?i) = pend_chans (workers (rs_inner s))"
    using pend_chans_update[OF hm Some, of ?w] by simp
  moreover have "pending_ok ?i"
    using r Some unfolding requests_ok_def pending_ok_def by (auto simp: hm_simps split: if_splits)
  ultimately have "requests_ok ?i (rs_alloc s) (rs_dispatched s) (rs_sent s)"
    using r by (simp add: requests_ok_def)
  then show ?thesis
    using sys_ok_update[OF assms Some, of ?w "rs_alloc s" "rs_dispatched s" "rs_sent s"]
    by (simp add: touch_worker_def hm_modify_def Some key_of_def sys_ok_def)
qed

lemma sys_ok_rehash:
  assumes "sys_ok cfg s" "mset ws = mset (workers (rs_inner s))"
  shows "sys_ok cfg (s\<lparr>rs_inner := (rs_inner s)\<lparr>workers := ws\<rparr>\<rparr>)"
proof -
  let ?i = "(rs_inner s)\<lparr>workers := ws\<rparr>"
  have hm: "hm_ok (workers (rs_inner s))" using assms(1) paths_ok_D(1) by (auto simp: sys_ok_def table_ok_def)
  have "map_of ws = map_of (workers (rs_inner s))"
    using hm_get_perm[OF assms(2)] hm_ok_perm[OF assms(2)] hm by simp
  then have "requests_ok ?i (rs_alloc s) (rs_dispatched s) (rs_sent s)"
    using assms(1) unfolding sys_ok_def requests_ok_def pending_ok_def pend_chans_def
    by (simp add: hm_sum_perm[OF assms(2)])
  then show ?thesis using assms table_ok_perm[OF _ assms(2)] by (simp add: sys_ok_def tokens_before_def)
qed

lemma sys_ok_lookup:
  assumes "sys_ok cfg s" "spawn_lookup now pid key (rs_inner s) = (res, i')" "rs_clock s < now"
  shows "sys_ok cfg (s\<lparr>rs_inner := i', rs_clock := now\<rparr>)"
proof (cases "map_of (path_to_handle (rs_inner s)) key")
  case None
  then show ?thesis using assms sys_ok_later[OF assms(1), of now]
    by (auto simp: spawn_lookup_def sys_ok_def)
next
  case (Some h)
  then show ?thesis using assms(2) sys_ok_add_ref[OF assms(1,3), of _ h]
    by (auto simp: spawn_lookup_def reuse_handle_def Let_def)
qed

lemma sys_ok_issue:
  assumes "sys_ok cfg s" "issue_ref_for_handle now h (rs_inner s) = (t, i')" "rs_clock s < now"
  shows "sys_ok cfg (s\<lparr>rs_inner := i', rs_clock := now\<rparr>)"
  using assms(2) sys_ok_add_ref[OF assms(1,3), of _ h] by (auto simp: issue_ref_for_handle_def Let_def)

lemmas sys_ok_intros = sys_ok_lookup sys_ok_commit sys_ok_issue sys_ok_release sys_ok_reader
  sys_ok_response sys_ok_dispatch sys_ok_touch sys_ok_rehash

lemma router_step_ok: "router_step cfg pid s s' \<Longrightarrow> sys_ok cfg s \<Longrightarrow> sys_ok cfg s'"
proof (induction rule: router_step.induct)
  case (r_alloc s q i')
  then have "i' = snd (alloc_req_id (rs_inner s))" by simp
  then show ?case using sys_ok_alloc[OF r_alloc(2)] by simp
next
  case (r_pool s pool')
  then show ?case by simp
qed (blast intro: sys_ok_intros)+

lemma router_steps_ok: "router_steps cfg pid s s' \<Longrightarrow> sys_ok cfg s \<Longrightarrow> sys_ok cfg s'"
  by (induction rule: rtranclp_induct) (blast intro: router_step_ok)+

end
