(* ===== verification/Router_Props.thy ===== *)
theory Router_Props
  imports Router_Steps
begin

text \<open>
  What the worker table promises to its callers, in every state that an interleaving of its lock
  sections can reach from the start of the process.
\<close>

subsection \<open>Reachable states\<close>

lemma reachable_ok: "router_steps cfg pid (router_start exe) s \<Longrightarrow> sys_ok cfg s"
  using router_steps_ok sys_ok_start by blast

lemma reachable_parts:
  assumes "router_steps cfg pid (router_start exe) s"
  shows "paths_ok (rs_inner s)" "tokens_ok (rs_inner s)" "active_ok (rs_inner s)"
    "limits_ok cfg (rs_inner s)"
    "requests_ok (rs_inner s) (rs_alloc s) (rs_dispatched s) (rs_sent s)"
  using reachable_ok[OF assms] by (simp_all add: sys_ok_def table_ok_def)

lemma key_of_iff: "key_of w = Some k \<longleftrightarrow> w_open_path w = Some (wk_path k) \<and> w_tenant_id w = wk_tenant_id k"
  by (auto simp: key_of_def worker_key_def)

text \<open>A sample run used by the witnesses: a client spawns a worker for \<open>/a\<close>.\<close>

definition sample_config :: RouterConfig where
  "sample_config = from_env (Some 8) 7 (\<lambda>_. None)"

definition sample_key :: WorkerKey where
  "sample_key = worker_key ''/a'' ''default''"

definition sample_spawned :: router_sys where
  "sample_spawned = (router_start ''exe'')
     \<lparr>rs_inner := snd (spawn_commit sample_config 5 6 1 7 (Inr ()) NativeLinked sample_key (new_inner ''exe'')),
      rs_clock := 6\<rparr>"

lemma sample_config_limits [simp]:
  "max_workers sample_config = 64" "max_workers_per_tenant sample_config = 16"
  "max_pending_per_worker sample_config = 64" "max_pending_per_tenant sample_config = 512"
  by (simp_all add: sample_config_def from_env_def unwrap_or_def env_positive_def env_u64_def
      saturating_mul_u64_def Let_def)

lemma sample_spawned_reachable: "router_steps sample_config 7 (router_start ''exe'') sample_spawned"
proof -
  have "router_step sample_config 7 (router_start ''exe'') sample_spawned"
    unfolding sample_spawned_def
    by (rule r_commit[of _ 5 6 1 7 "Inr ()" NativeLinked sample_key _
          "fst (spawn_commit sample_config 5 6 1 7 (Inr ()) NativeLinked sample_key (new_inner ''exe''))"])
      (simp_all add: router_start_def fresh_handle_def new_inner_def)
  then show ?thesis by blast
qed

lemma sample_spawned_inner:
  "rs_inner sample_spawned = register_worker 6 1 7 NativeLinked sample_key (handle_string 5 7 0) (new_inner ''exe'')"
  by (simp add: sample_spawned_def spawn_commit_def tenant_worker_count_def new_inner_def
      register_worker_def Let_def)

subsection \<open>Paths and the active handle\<close>

text \<open>
  C3. The path index and the worker table agree: a tenant and a path are mapped to a handle
  exactly when that handle is a live worker of the tenant with that path, so no two workers serve
  the same path for a tenant and no dead handle is found; and there is an active handle exactly
  when there is a worker, and it is one of them.
\<close>

theorem reachable_paths_active:
  assumes "router_steps cfg pid (router_start exe) s"
  shows "(hm_get (path_to_handle (rs_inner s)) k = Some h \<longleftrightarrow>
      (\<exists>w. hm_get (workers (rs_inner s)) h = Some w \<and>
         w_open_path w = Some (wk_path k) \<and> w_tenant_id w = wk_tenant_id k)) \<and>
    (case active_handle (rs_inner s) of
       None \<Rightarrow> worker_count (rs_inner s) = 0
     | Some a \<Rightarrow> a \<in> set (all_handles (rs_inner s)))"
proof -
  have "case active_handle (rs_inner s) of None \<Rightarrow> worker_count (rs_inner s) = 0
      | Some a \<Rightarrow> a \<in> set (all_handles (rs_inner s))"
    using reachable_parts(3)[OF assms]
    by (auto simp: active_ok_def active_handle_def worker_count_def all_handles_def
        split: option.splits dest!: map_of_SomeD intro: rev_image_eqI)
  then show ?thesis
    using paths_ok_D(3)[OF reachable_parts(1)[OF assms], of k h] unfolding key_of_iff by blast
qed

theorem reachable_paths_active_witness:
  "hm_get (path_to_handle (rs_inner sample_spawned)) sample_key = Some (handle_string 5 7 0) \<and>
   (\<exists>w. hm_get (workers (rs_inner sample_spawned)) (handle_string 5 7 0) = Some w \<and>
      w_open_path w = Some ''/a'')"
proof -
  have "hm_get (path_to_handle (rs_inner sample_spawned)) sample_key = Some (handle_string 5 7 0)"
    by (simp add: sample_spawned_inner register_worker_def Let_def hm_simps)
  then show ?thesis
    using reachable_paths_active[OF sample_spawned_reachable, of sample_key "handle_string 5 7 0"]
    by (auto simp: sample_key_def worker_key_def)
qed

subsection \<open>Limits\<close>

text \<open>
  C4. No interleaving exceeds a configured limit: the number of workers, the number of workers of
  a tenant, the requests waiting on one worker, and the requests a tenant has waiting.
\<close>

theorem reachable_limits:
  assumes "router_steps cfg pid (router_start exe) s"
  shows "worker_count (rs_inner s) \<le> max_workers cfg \<and>
    tenant_worker_count (rs_inner s) tenant \<le> max_workers_per_tenant cfg \<and>
    tenant_pending (rs_inner s) tenant \<le> max_pending_per_tenant cfg \<and>
    (\<forall>h w. hm_get (workers (rs_inner s)) h = Some w \<longrightarrow>
       length (w_pending w) \<le> max_pending_per_worker cfg)"
  using reachable_parts(4)[OF assms] by (simp add: limits_ok_def worker_count_def)

theorem reachable_limits_witness: "worker_count (rs_inner sample_spawned) \<le> 64"
  using reachable_limits[OF sample_spawned_reachable, of "[]"] by simp

subsection \<open>Every request is answered once\<close>

text \<open>
  C2. A request whose dispatch succeeded is, at every later moment, either waiting in the table of
  exactly one worker or has been sent exactly one reply; it is never lost and never answered
  twice, whether it is answered by the worker, by the worker's exit, by an I/O error or by closing
  the worker. Nothing is sent for a request that was not dispatched.
\<close>

theorem request_pending_or_answered_once:
  assumes "router_steps cfg pid (router_start exe) s"
  shows "count (pend_chans (workers (rs_inner s))) n + count_list (map fst (rs_sent s)) n =
    (if n \<in> set (rs_dispatched s) then 1 else 0)"
proof -
  note r = reachable_parts(5)[OF assms]
  have "pend_chans (workers (rs_inner s)) + mset (map fst (rs_sent s)) = mset (rs_dispatched s)"
    using r by (simp only: requests_ok_def)
  then have "count (pend_chans (workers (rs_inner s))) n + count (mset (map fst (rs_sent s))) n =
      count (mset (rs_dispatched s)) n"
    by (metis count_union)
  moreover have "count (mset (rs_dispatched s)) n = (if n \<in> set (rs_dispatched s) then 1 else 0)"
    using r distinct_count_atmost_1[of "rs_dispatched s"] by (simp add: requests_ok_def)
  ultimately show ?thesis by (simp only: count_mset)
qed

definition sample_dispatched :: router_sys where
  "sample_dispatched = sample_spawned
     \<lparr>rs_inner := snd (dispatch_request sample_config 2 (Inr ()) True (handle_string 5 7 0) (req_id_of 1) 1
        (snd (alloc_req_id (rs_inner sample_spawned)))),
      rs_alloc := [], rs_dispatched := [1]\<rparr>"

lemma sample_dispatched_reachable: "router_steps sample_config 7 (router_start ''exe'') sample_dispatched"
proof -
  let ?i = "snd (alloc_req_id (rs_inner sample_spawned))"
  let ?s = "sample_spawned\<lparr>rs_inner := ?i, rs_alloc := [1]\<rparr>"
  let ?d = "dispatch_request sample_config 2 (Inr ()) True (handle_string 5 7 0) (req_id_of 1) 1 ?i"
  have a: "rs_alloc sample_spawned = []" "rs_dispatched sample_spawned = []"
    by (simp_all add: sample_spawned_def router_start_def)
  have c: "req_counter (rs_inner sample_spawned) = 1"
    by (simp add: sample_spawned_inner register_worker_def Let_def new_inner_def)
  have 1: "router_step sample_config 7 sample_spawned ?s"
    using r_alloc[of sample_spawned "fst (alloc_req_id (rs_inner sample_spawned))" ?i sample_config 7]
    by (simp add: a c)
  have d: "fst ?d = Inr ()"
    by (simp add: dispatch_request_def alloc_req_id_def sample_spawned_inner register_worker_def Let_def
        new_inner_def tenant_pending_def)
  then have "?d = (Inr (), snd ?d)" by (metis prod.collapse)
  then have "router_step sample_config 7 ?s sample_dispatched"
    using r_dispatch[of 1 ?s sample_config 2 "Inr ()" True "handle_string 5 7 0" "Inr ()" "snd ?d" 7]
    by (simp add: a sample_dispatched_def)
  with 1 sample_spawned_reachable show ?thesis by (meson rtranclp.rtrancl_into_rtrancl)
qed

theorem request_pending_or_answered_once_witness:
  "count (pend_chans (workers (rs_inner sample_dispatched))) 1 +
   count_list (map fst (rs_sent sample_dispatched)) 1 = 1"
  using request_pending_or_answered_once[OF sample_dispatched_reachable, of 1]
  by (simp add: sample_dispatched_def)

subsection \<open>Reference counting\<close>





subsection \<open>Routing\<close>

text \<open>
  Without a handle a request goes to the only open database; it is refused when there is none
  and when there are several. With a handle it goes to that worker exactly when it is live.
\<close>

lemma reachable_select_target:
  assumes "router_steps cfg pid (router_start exe) s"
  shows "(select_target None (rs_inner s) = Inl NoDatabaseOpen \<longleftrightarrow> worker_count (rs_inner s) = 0) \<and>
    ((\<exists>h. select_target None (rs_inner s) = Inr h) \<longleftrightarrow> worker_count (rs_inner s) = 1) \<and>
    (select_target None (rs_inner s) = Inr h \<longleftrightarrow> all_handles (rs_inner s) = [h]) \<and>
    (select_target (Some h) (rs_inner s) =
       (if h \<in> set (all_handles (rs_inner s)) then Inr h
        else Inl (InvalidParams (''Unknown db_handle: '' @ h))))"
proof -
  have a: "case active (rs_inner s) of None \<Rightarrow> workers (rs_inner s) = []
      | Some a \<Rightarrow> a \<in> fst ` set (workers (rs_inner s))"
    using reachable_parts(3)[OF assms]
    by (auto simp: active_ok_def split: option.splits dest!: map_of_SomeD intro: rev_image_eqI)
  have mem: "hm_get (workers (rs_inner s)) h = None \<longleftrightarrow> h \<notin> set (all_handles (rs_inner s))"
    by (simp add: all_handles_def map_of_eq_None_iff)
  show ?thesis
  proof (cases "workers (rs_inner s)")
    case Nil
    then show ?thesis using a mem
      by (auto simp: select_target_def worker_count_def all_handles_def split: option.splits)
  next
    case (Cons x xs)
    then show ?thesis using a mem
      by (cases xs) (auto simp: select_target_def worker_count_def all_handles_def split: option.splits)
  qed
qed

theorem reachable_select_target_witness:
  "select_target None (rs_inner sample_spawned) = Inr (handle_string 5 7 0)"
proof -
  have "all_handles (rs_inner sample_spawned) = [handle_string 5 7 0]"
    by (simp add: sample_spawned_inner register_worker_def Let_def new_inner_def all_handles_def)
  then show ?thesis
    using reachable_select_target[OF sample_spawned_reachable, of "handle_string 5 7 0"] by simp
qed

subsection \<open>Eviction\<close>







subsection \<open>Closing several workers\<close>


lemma close_all_Nil [simp]: "close_all [] st = ([], st)"
  by (simp add: close_all_def)








lemma sample_spawned_worker:
  "\<exists>w. hm_get (workers (rs_inner sample_spawned)) (handle_string 5 7 0) = Some w \<and> w_pending w = [] \<and>
     w_tenant_id w = ''default''"
  by (simp add: sample_spawned_inner register_worker_def Let_def new_inner_def sample_key_def worker_key_def)



subsection \<open>A request and its reply\<close>

lemma dispatch_fresh_id:
  assumes "requests_ok i alloc disp sent" "map_of (workers i) h = Some w" "hm_ok (workers i)"
  shows "map_of (w_pending w) (req_id_of (req_counter i)) = None"
proof (rule ccontr)
  assume "map_of (w_pending w) (req_id_of (req_counter i)) \<noteq> None"
  then obtain ch where c: "map_of (w_pending w) (req_id_of (req_counter i)) = Some ch" by blast
  have w: "hm_ok (w_pending w)" "\<And>q ch. map_of (w_pending w) q = Some ch \<Longrightarrow> q = req_id_of ch"
    using assms(1,2) unfolding requests_ok_def pending_ok_def by blast+
  have "ch = req_counter i" using w(2)[OF c] by simp
  then have "req_counter i \<in># mset (map snd (w_pending w))" using mset_hm_remove[OF w(1) c] by simp
  then have "req_counter i \<in># pend_chans (workers i)"
    using hm_sum_remove[OF assms(3), of "\<lambda>_ w. mset (map snd (w_pending w))" h] assms(2)
    by (metis hm_weight_def option.simps(5) pend_chans_def union_iff)
  then have "req_counter i \<in># mset disp" using assms(1) unfolding requests_ok_def by (metis union_iff)
  then show False using assms(1) by (auto simp: requests_ok_def)
qed

lemma route_dispatched:
  assumes "map_of (workers i) h = Some w"
    and "tenant_pending i (w_tenant_id w) < max_pending_per_tenant cfg"
    and "length (w_pending w) < max_pending_per_worker cfg"
  shows "route_request cfg inst (Inr ()) True ev (Some h) meth params i =
    (case worker_event_step h ev
       (i\<lparr>req_counter := req_counter i + 1, workers := hm_insert h
          (w\<lparr>w_pending := hm_insert (req_id_of (req_counter i)) (req_counter i) (w_pending w),
             w_last_active := inst\<rparr>) (workers i)\<rparr>) of (sent, i') \<Rightarrow>
     (await_result (route_timeout_secs meth params)
        (case map_of sent (req_counter i) of Some r \<Rightarrow> Received r | None \<Rightarrow> Elapsed), i'))"
proof -
  have "tenant_pending (i\<lparr>req_counter := n\<rparr>) t = tenant_pending i t" for n t
    by (simp add: tenant_pending_def)
  then show ?thesis using assms
    by (simp add: route_request_def select_target_def alloc_req_id_def dispatch_request_def Let_def
        req_id_of_def)
qed

text \<open>
  C16. A request to a live worker with room returns exactly the worker's answer: its result, or its
  error message as an IDA error, or null when the response has neither. Afterwards the worker's
  waiting requests are the same as before; only its time of last use has changed.
\<close>

theorem route_request_reply:
  assumes "router_steps cfg pid (router_start exe) s"
    and "hm_get (workers (rs_inner s)) h = Some w"
    and "tenant_pending (rs_inner s) (w_tenant_id w) < max_pending_per_tenant cfg"
    and "length (w_pending w) < max_pending_per_worker cfg"
    and "r_id resp = req_id_of (req_counter (rs_inner s))"
    and "route_request cfg inst (Inr ()) True (EvResponse resp) (Some h) meth params (rs_inner s) = (res, i')"
  shows "res = (case r_result resp of
       Some v \<Rightarrow> Inr v
     | None \<Rightarrow> (case r_error resp of Some e \<Rightarrow> Inl (IdaError (e_message e)) | None \<Rightarrow> Inr JNull)) \<and>
    hm_get (workers i') h = Some (w\<lparr>w_last_active := inst\<rparr>)"
proof -
  note p = reachable_parts[OF assms(1)]
  let ?q = "req_id_of (req_counter (rs_inner s))"
  have f: "map_of (w_pending w) ?q = None"
    by (rule dispatch_fresh_id[OF p(5) assms(2) paths_ok_D(1)[OF p(1)]])
  have r: "hm_remove ?q (w_pending w @ [(?q, n)]) = w_pending w" for n
    using hm_remove_fresh[OF f] by (simp add: hm_remove_append)
  let ?w = "w\<lparr>w_pending := hm_insert ?q (req_counter (rs_inner s)) (w_pending w), w_last_active := inst\<rparr>"
  let ?j = "(rs_inner s)\<lparr>req_counter := req_counter (rs_inner s) + 1,
    workers := hm_insert h ?w (workers (rs_inner s))\<rparr>"
  have j: "map_of (workers ?j) h = Some ?w" "map_of (w_pending ?w) ?q = Some (req_counter (rs_inner s))"
    "hm_remove ?q (w_pending ?w) = w_pending w"
    using r f by (simp_all add: hm_simps hm_insert_fresh[OF f] map_add_def)
  have "worker_event_step h (EvResponse resp) ?j = ([(req_counter (rs_inner s), response_value resp)],
      ?j\<lparr>workers := hm_insert h (?w\<lparr>w_pending := w_pending w\<rparr>) (workers ?j)\<rparr>)"
    unfolding worker_event_step_def worker_event.case reader_response_def assms(5) j option.case by (rule refl)
  then have "res = await_result (route_timeout_secs meth params) (Received (response_value resp))"
    "workers i' = hm_insert h (w\<lparr>w_last_active := inst\<rparr>) (workers ?j)"
    using assms(6) unfolding route_dispatched[OF assms(2-4)] by auto
  then show ?thesis
    by (auto simp: await_result_def response_value_def hm_simps split: option.splits)
qed

theorem route_request_reply_witness:
  "fst (route_request sample_config 9 (Inr ()) True (EvResponse (rpc_ok (req_id_of 1) (JNum 3)))
      (Some (handle_string 5 7 0)) ''x'' JNull (rs_inner sample_spawned)) = Inr (JNum 3)"
proof -
  obtain w where w: "hm_get (workers (rs_inner sample_spawned)) (handle_string 5 7 0) = Some w" "w_pending w = []"
    using sample_spawned_worker by blast
  have c: "req_counter (rs_inner sample_spawned) = 1"
    by (simp add: sample_spawned_inner register_worker_def Let_def new_inner_def)
  have t: "tenant_pending (rs_inner sample_spawned) t = 0" for t
    by (simp add: sample_spawned_inner register_worker_def Let_def new_inner_def tenant_pending_def)
  obtain res i' where r: "route_request sample_config 9 (Inr ()) True
      (EvResponse (rpc_ok (req_id_of 1) (JNum 3))) (Some (handle_string 5 7 0)) ''x'' JNull
      (rs_inner sample_spawned) = (res, i')" by fastforce
  show ?thesis
    using route_request_reply[OF sample_spawned_reachable w(1) _ _ _ r] w(2) r
    by (simp add: t c rpc_ok_def)
qed

text \<open>
  A request that times out stays in the worker's table of waiting requests: the caller gets the
  timeout error, but the worker then has one waiting request more than before, which counts
  against the limits and keeps the worker from being collected until it answers.
\<close>

lemma timed_out_request_keeps_slot:
  assumes "router_steps cfg pid (router_start exe) s"
    and "hm_get (workers (rs_inner s)) h = Some w"
    and "tenant_pending (rs_inner s) (w_tenant_id w) < max_pending_per_tenant cfg"
    and "length (w_pending w) < max_pending_per_worker cfg"
    and "route_request cfg inst (Inr ()) True EvSilent (Some h) meth params (rs_inner s) = (res, i')"
  shows "res = Inl (Timeout (route_timeout_secs meth params)) \<and>
    (\<exists>w'. hm_get (workers i') h = Some w' \<and> length (w_pending w') = Suc (length (w_pending w)) \<and>
       (\<forall>idle now. h \<notin> set (expired_workers idle now i')))"
proof -
  note p = reachable_parts[OF assms(1)]
  let ?q = "req_id_of (req_counter (rs_inner s))"
  let ?w = "w\<lparr>w_pending := hm_insert ?q (req_counter (rs_inner s)) (w_pending w), w_last_active := inst\<rparr>"
  have hm: "hm_ok (workers (rs_inner s))" by (rule paths_ok_D(1)[OF p(1)])
  have f: "map_of (w_pending w) ?q = None" by (rule dispatch_fresh_id[OF p(5) assms(2) hm])
  have i': "i' = (rs_inner s)\<lparr>req_counter := req_counter (rs_inner s) + 1,
      workers := hm_insert h ?w (workers (rs_inner s))\<rparr>"
    and res: "res = Inl (Timeout (route_timeout_secs meth params))"
    using assms(5) unfolding route_dispatched[OF assms(2-4)]
    by (auto simp: worker_event_step_def await_result_def)
  have w': "hm_get (workers i') h = Some ?w" by (simp add: i' hm_simps)
  moreover have "length (w_pending ?w) = Suc (length (w_pending w))" by (simp add: hm_insert_fresh[OF f])
  moreover have "h \<notin> set (expired_workers idle now i')" for idle now
  proof
    assume "h \<in> set (expired_workers idle now i')"
    then obtain v where "(h, v) \<in> set (workers i')" "w_pending v = []" by (auto simp: expired_workers_def)
    moreover have "hm_ok (workers i')" using hm by (simp add: i')
    ultimately have "hm_get (workers i') h = Some v" "w_pending v = []" using hm_mem_iff by fast+
    then show False using w' by (auto simp: hm_insert_fresh[OF f])
  qed
  ultimately show ?thesis using res by blast
qed

theorem timed_out_request_keeps_slot_witness:
  "\<exists>w'. hm_get (workers (snd (route_request sample_config 9 (Inr ()) True EvSilent
       (Some (handle_string 5 7 0)) ''x'' JNull (rs_inner sample_spawned)))) (handle_string 5 7 0) = Some w' \<and>
     length (w_pending w') = 1"
proof -
  obtain w where w: "hm_get (workers (rs_inner sample_spawned)) (handle_string 5 7 0) = Some w" "w_pending w = []"
    using sample_spawned_worker by blast
  have t: "tenant_pending (rs_inner sample_spawned) t = 0" for t
    by (simp add: sample_spawned_inner register_worker_def Let_def new_inner_def tenant_pending_def)
  obtain res i' where r: "route_request sample_config 9 (Inr ()) True EvSilent
      (Some (handle_string 5 7 0)) ''x'' JNull (rs_inner sample_spawned) = (res, i')" by fastforce
  show ?thesis
    using timed_out_request_keeps_slot[OF sample_spawned_reachable w(1) _ _ r] w(2) r by (auto simp: t)
qed

end
