(* ===== verification/Router_Refinement.thy ===== *)
theory Router_Refinement
  imports Router_Props
begin

text \<open>
  The contract of the worker table, without its indexes. An abstract state has the open handles
  with the tenant and path each serves, and the tokens held with the handle each is for. The five
  maps of \<open>RouterInner\<close> in \<open>src/router/mod.rs\<close> implement it: every lock section is one step of
  the contract or none, and the lookups and counts that callers see are those of the contract.
\<close>

subsection \<open>The contract\<close>

record leases =
  opened :: "string \<rightharpoonup> WorkerKey"
  held :: "string \<rightharpoonup> string"





definition lease_abs :: "RouterInner \<Rightarrow> leases" where
  "lease_abs i = \<lparr>opened = (\<lambda>h. Option.bind (map_of (workers i) h) key_of), held = map_of (token_to_handle i)\<rparr>"

lemma lease_abs_sel [simp]:
  "opened (lease_abs i) h = Option.bind (map_of (workers i) h) key_of"
  "held (lease_abs i) = map_of (token_to_handle i)"
  by (simp_all add: lease_abs_def)



subsection \<open>Each section is a step of the contract\<close>













end
