(* ===== verification/Db_Refs.thy ===== *)
theory Db_Refs
  imports Ref_Registry
begin

text \<open>
  \<open>DbRefTracker\<close> of \<open>src/ida/worker.rs\<close>: the references of one worker process to its single
  database. The token set is a list without repetitions behind a mutex, the nonce an atomic
  counter that is only incremented.
\<close>

record DbRefTracker =
  dr_tokens :: "string list"
  dr_nonce :: nat

definition tracker_new :: DbRefTracker where
  "tracker_new = \<lparr>dr_tokens = [], dr_nonce = 0\<rparr>"

definition generate_token :: "nat \<Rightarrow> nat \<Rightarrow> DbRefTracker \<Rightarrow> string \<times> DbRefTracker" where
  "generate_token now pid t =
     (token_string now pid (dr_nonce t), t\<lparr>dr_nonce := dr_nonce t + 1\<rparr>)"

definition issue_token :: "nat \<Rightarrow> nat \<Rightarrow> DbRefTracker \<Rightarrow> string \<times> DbRefTracker" where
  "issue_token now pid t =
     (case generate_token now pid t of (token, t') \<Rightarrow>
        (token, t'\<lparr>dr_tokens := hs_insert token (dr_tokens t')\<rparr>))"

definition release_token :: "string \<Rightarrow> DbRefTracker \<Rightarrow> nat option \<times> DbRefTracker" where
  "release_token token t =
     (if token \<in> set (dr_tokens t) then
        let tokens' = hs_remove token (dr_tokens t) in
        (Some (length tokens'), t\<lparr>dr_tokens := tokens'\<rparr>)
      else (None, t))"

definition has_token :: "string \<Rightarrow> DbRefTracker \<Rightarrow> bool" where
  "has_token token t \<longleftrightarrow> token \<in> set (dr_tokens t)"

definition tracker_count :: "DbRefTracker \<Rightarrow> nat" where
  "tracker_count t = length (dr_tokens t)"

definition clear_all :: "DbRefTracker \<Rightarrow> DbRefTracker" where
  "clear_all t = t\<lparr>dr_tokens := []\<rparr>"

inductive tracker_reachable :: "DbRefTracker \<Rightarrow> bool" where
  reach_new: "tracker_reachable tracker_new"
| reach_issue: "tracker_reachable t \<Longrightarrow> tracker_reachable (snd (issue_token now pid t))"
| reach_release: "tracker_reachable t \<Longrightarrow> tracker_reachable (snd (release_token token t))"
| reach_clear: "tracker_reachable t \<Longrightarrow> tracker_reachable (clear_all t)"

definition tracker_ok :: "DbRefTracker \<Rightarrow> bool" where
  "tracker_ok t \<longleftrightarrow> distinct (dr_tokens t) \<and>
     (\<forall>token \<in> set (dr_tokens t). \<exists>now pid n. token = token_string now pid n \<and> n < dr_nonce t)"

lemma tracker_ok_release [simp]: "tracker_ok t \<Longrightarrow> tracker_ok (snd (release_token token t))"
  by (auto simp: tracker_ok_def release_token_def Let_def distinct_removeAll)

lemma tracker_ok_issue: "tracker_ok t \<Longrightarrow> tracker_ok (snd (issue_token now pid t))"
  unfolding tracker_ok_def issue_token_def generate_token_def
  by (auto intro: less_SucI)

lemma reachable_tracker_ok: "tracker_reachable t \<Longrightarrow> tracker_ok t"
  by (induction rule: tracker_reachable.induct)
    (auto simp: tracker_ok_issue tracker_ok_release, auto simp: tracker_ok_def tracker_new_def clear_all_def)

lemma issue_token_fresh: "tracker_ok t \<Longrightarrow> fst (issue_token now pid t) \<notin> set (dr_tokens t)"
  by (auto simp: tracker_ok_def issue_token_def generate_token_def)

definition tracker_live :: "DbRefTracker \<Rightarrow> string \<Rightarrow> unit option" where
  "tracker_live t token = (if has_token token t then Some () else None)"

definition tracker_release :: "string \<Rightarrow> DbRefTracker \<Rightarrow> (unit \<times> nat) option \<times> DbRefTracker" where
  "tracker_release token t =
     (case release_token token t of (r, t') \<Rightarrow> (map_option (Pair ()) r, t'))"

interpretation db_refs: ref_registry tracker_ok tracker_live tracker_release
proof
  fix t :: DbRefTracker and token :: string and h :: unit
  assume ok: "tracker_ok t"
  have own: "{u. tracker_live t u = Some h} = set (dr_tokens t)"
    by (auto simp: tracker_live_def has_token_def)
  then show "finite {u. tracker_live t u = Some h}" by simp
  show "tracker_live t token = None \<Longrightarrow> tracker_release token t = (None, t)"
    by (auto simp: tracker_live_def has_token_def tracker_release_def release_token_def split: if_splits)
  assume l: "tracker_live t token = Some h"
  have "length (hs_remove token (dr_tokens t)) = card (set (dr_tokens t) - {token})"
    using ok by (simp add: tracker_ok_def distinct_card[symmetric] distinct_removeAll)
  then show "fst (tracker_release token t) = Some (h, card ({u. tracker_live t u = Some h} - {token})) \<and>
      tracker_live (snd (tracker_release token t)) = (tracker_live t)(token := None) \<and>
      tracker_ok (snd (tracker_release token t))"
    unfolding own using l tracker_ok_release[OF ok, of token]
    by (auto simp: tracker_release_def release_token_def tracker_live_def has_token_def Let_def
        split: if_splits)
qed

fun release_results :: "string list \<Rightarrow> DbRefTracker \<Rightarrow> nat option list" where
  "release_results [] t = []"
| "release_results (token # ts) t =
     fst (release_token token t) # release_results ts (snd (release_token token t))"

lemma release_results_seq:
  "fst (db_refs.release_seq ts t) = map (map_option (Pair ())) (release_results ts t)"
proof (induction ts arbitrary: t)
  case (Cons a ts)
  have "tracker_release a t = (map_option (Pair ()) (fst (release_token a t)), snd (release_token a t))"
    by (simp add: tracker_release_def case_prod_beta)
  then show ?case using Cons by (simp add: db_refs.release_seq_Cons)
qed (simp add: db_refs.release_seq_def)

text \<open>
  Issuing a token always adds a new one; releasing all tokens of a reachable tracker in any
  order reports the number of tokens left, counting down to zero, so exactly the last release
  tells its caller to close the database; a second release of a token is refused.
\<close>

lemma db_refs_count_down:
  assumes "tracker_reachable t" "distinct ts" "set ts = set (dr_tokens t)"
  shows "tracker_count (snd (issue_token now pid t)) = Suc (tracker_count t) \<and>
    has_token (fst (issue_token now pid t)) (snd (issue_token now pid t)) \<and>
    release_results ts t = map Some (rev [0..<length ts]) \<and>
    (has_token token t \<longrightarrow> fst (release_token token (snd (release_token token t))) = None)"
proof -
  have ok: "tracker_ok t" by (rule reachable_tracker_ok[OF assms(1)])
  have "map (map_option (Pair ())) (release_results ts t) = map (\<lambda>i. Some ((), i)) (rev [0..<length ts])"
    using db_refs.release_all_counts_down[OF ok assms(2), of "()"] assms(3)
    by (auto simp: release_results_seq tracker_live_def has_token_def)
  also have "\<dots> = map (map_option (Pair ())) (map Some (rev [0..<length ts]))" by simp
  finally have "release_results ts t = map Some (rev [0..<length ts])"
    by (rule map_injective) (auto intro: option.inj_map injI)
  moreover have "has_token token t \<longrightarrow> fst (release_token token (snd (release_token token t))) = None"
    using db_refs.release_twice[OF ok, of token "()"]
    by (auto simp: tracker_live_def tracker_release_def case_prod_beta)
  ultimately show ?thesis
    using issue_token_fresh[OF ok, of now pid]
    by (auto simp: issue_token_def generate_token_def tracker_count_def has_token_def hs_insert_def)
qed

theorem db_refs_count_down_witness:
  "let t = snd (issue_token 5 7 (snd (issue_token 4 7 tracker_new))) in
   release_results [token_string 5 7 1, token_string 4 7 0] t = [Some 1, Some 0]"
proof -
  define t where "t = snd (issue_token 5 7 (snd (issue_token 4 7 tracker_new)))"
  have r: "tracker_reachable t" unfolding t_def by (intro reach_issue reach_new)
  have ts: "dr_tokens t = [token_string 4 7 0, token_string 5 7 1]"
    by (simp add: t_def issue_token_def generate_token_def tracker_new_def hs_insert_def)
  show ?thesis
    using db_refs_count_down[OF r, of "[token_string 5 7 1, token_string 4 7 0]"] ts
    by (auto simp: t_def Let_def)
qed

end
