(* ===== verification/Router_Names.thy ===== *)
theory Router_Names
  imports Router_Props
begin

text \<open>
  The names the router makes up: worker handles, which are the exclusive or of the clock, the
  process id and the request counter, and reference tokens. The table's invariant takes it as
  given that a handle is not in use and that the clock advances between tokens; here are the
  conditions under which these hold, and what happens when the second does not.
\<close>

subsection \<open>Handles\<close>

lemma radix_loop_zeros: "0 < r \<Longrightarrow> radix_loop w r 0 (replicate m (CHR ''0'') @ s) = radix_loop w r 0 s"
  by (induction m) (auto simp: to_digit_def code_of_def Let_def)

lemma zero_pad_parse:
  assumes "x < 2 ^ w"
  shows "radix_loop w 16 0 (zero_pad k (fmt_hex x)) = Some x"
proof -
  have "radix_loop w 16 0 (radix_str 16 x @ []) = radix_loop w 16 x []"
    by (rule radix_loop_radix_str) (simp_all add: assms)
  moreover have "radix_loop w 16 0 (zero_pad k (fmt_hex x)) = radix_loop w 16 0 (radix_str 16 x)"
    unfolding zero_pad_def fmt_hex_def by (rule radix_loop_zeros) (rule zero_less_numeral)
  ultimately show ?thesis by (simp only: append_Nil2 radix_loop.simps)
qed

lemma zero_pad_hex_inject:
  assumes "zero_pad k (fmt_hex m) = zero_pad k (fmt_hex n)" "m < 2 ^ w" "n < 2 ^ w"
  shows "m = n"
proof -
  have "Some m = Some n"
    using zero_pad_parse[OF assms(2), of k] zero_pad_parse[OF assms(3), of k]
    by (simp only: assms(1))
  then show ?thesis by (rule option.inject[THEN iffD1])
qed

lemma drop_bit_small: "c < 2 ^ k \<Longrightarrow> drop_bit k (word_of_nat c :: 64 word) = 0"
proof -
  assume c: "c < 2 ^ k"
  have "unat (word_of_nat c :: 64 word) \<le> c" by (simp add: unat_of_nat take_bit_nat_less_eq_self)
  then have "unat (word_of_nat c :: 64 word) div 2 ^ k = 0" using c by simp
  then have "unat (drop_bit k (word_of_nat c :: 64 word)) = 0"
    by (simp only: unat_drop_bit_eq drop_bit_eq_div[where 'a = nat])
  then show ?thesis by (simp add: unat_eq_zero)
qed

lemma xor_cancel_mid: "(a XOR b XOR c) XOR b = a XOR (c :: 64 word)"
  by (rule bit_word_eqI) (auto simp: bit_xor_iff)

text \<open>
  Two workers spawned by one process get different handles when the spawns are at least
  \<open>2^k\<close> nanoseconds apart and both counter values are below \<open>2^k\<close>: with fewer than a million
  requests so far, spawns that are a millisecond or more apart never collide.
\<close>

lemma handles_distinct:
  assumes "c1 < 2 ^ k" "c2 < 2 ^ k" "t1 + 2 ^ k \<le> t2" "t2 < 2 ^ 64"
  shows "handle_string t1 pid c1 \<noteq> handle_string t2 pid c2"
proof
  assume "handle_string t1 pid c1 = handle_string t2 pid c2"
  then have "unat (handle_word t1 pid c1) = unat (handle_word t2 pid c2)"
    unfolding handle_string_def by (rule zero_pad_hex_inject) (rule unsigned_less)+
  then have "handle_word t1 pid c1 = handle_word t2 pid c2" by (simp only: word_unat_eq_iff)
  then have "word_of_nat t1 XOR word_of_nat c1 = (word_of_nat t2 XOR word_of_nat c2 :: 64 word)"
    using xor_cancel_mid[of "word_of_nat t1" "push_bit 32 (word_of_nat pid)" "word_of_nat c1"]
      xor_cancel_mid[of "word_of_nat t2" "push_bit 32 (word_of_nat pid)" "word_of_nat c2"]
    unfolding handle_word_def by argo
  then have "drop_bit k (word_of_nat t1 XOR word_of_nat c1 :: 64 word) =
      drop_bit k (word_of_nat t2 XOR word_of_nat c2)" by (rule arg_cong)
  then have "drop_bit k (word_of_nat t1 :: 64 word) = drop_bit k (word_of_nat t2)"
    by (simp only: drop_bit_xor drop_bit_small[OF assms(1)] drop_bit_small[OF assms(2)] xor.right_neutral)
  then have "unat (drop_bit k (word_of_nat t1 :: 64 word)) = unat (drop_bit k (word_of_nat t2 :: 64 word))"
    by simp
  then have "t1 div 2 ^ k = t2 div 2 ^ k"
    using assms(3,4)
    by (simp only: unat_drop_bit_eq drop_bit_eq_div[where 'a = nat]) (simp add: unat_of_nat take_bit_nat_eq_self)
  moreover have "t1 div 2 ^ k < t2 div 2 ^ k"
  proof -
    have "(t1 + 2 ^ k) div 2 ^ k \<le> t2 div 2 ^ k" using assms(3) by (rule div_le_mono)
    then show ?thesis by simp
  qed
  ultimately show False by simp
qed

theorem handles_distinct_witness: "handle_string 5 7 0 \<noteq> handle_string 2000000 7 1"
  using handles_distinct[of 0 20 1 5 2000000 7] by simp

subsection \<open>Tokens\<close>

text \<open>
  The close token of a new worker takes the counter's value without advancing it, so the next
  token drawn at the same reading of the clock is the same string: a second client that opens the
  path then holds the first client's token, the reference count stays at one, and the release by
  either client reports that no reference remains.
\<close>

lemma close_token_collides:
  assumes "spawn_commit cfg t1 t2 inst pid (Inr ()) backend key i = (Inr (h, tok), i')"
    and "hm_get (path_to_handle i) key = None"
    and "spawn_lookup t2 pid key i' = (r, i'')"
  shows "r = Some (h, tok) \<and> ref_count i'' h = 1 \<and> fst (release_ref_token tok i'') = Some (h, 0)"
proof -
  have i': "i' = register_worker t2 inst pid backend key (handle_string t1 pid (req_counter i)) i"
    and h: "h = handle_string t1 pid (req_counter i)"
    and tok: "tok = token_string t2 pid (req_counter i + 1)"
    using assms(1,2)
    by (auto simp: spawn_commit_def register_worker_def Let_def split: if_splits)
  have "r = Some (h, tok)" "ref_tokens i'' = hm_insert h [tok] (ref_tokens i')"
    "token_to_handle i'' = hm_insert tok h (token_to_handle i')"
    using assms(3)
    by (auto simp: i' h tok spawn_lookup_def register_worker_def Let_def reuse_handle_def add_ref_def
        hm_simps hs_insert_def)
  then show ?thesis by (simp add: ref_count_def release_ref_token_def Let_def hm_simps)
qed

theorem close_token_collides_witness:
  "\<exists>tok i'. spawn_commit sample_config 5 6 1 7 (Inr ()) NativeLinked sample_key (new_inner ''exe'') =
      (Inr (handle_string 5 7 0, tok), i') \<and>
     fst (spawn_lookup 6 7 sample_key i') = Some (handle_string 5 7 0, tok)"
proof -
  let ?c = "spawn_commit sample_config 5 6 1 7 (Inr ()) NativeLinked sample_key (new_inner ''exe'')"
  have c: "?c = (Inr (handle_string 5 7 0, token_string 6 7 1), snd ?c)"
    by (simp add: spawn_commit_def tenant_worker_count_def new_inner_def Let_def)
  obtain r i'' where r: "spawn_lookup 6 7 sample_key (snd ?c) = (r, i'')" by fastforce
  have "r = Some (handle_string 5 7 0, token_string 6 7 1)"
    using close_token_collides[OF c _ r] by (simp add: new_inner_def)
  then show ?thesis using c r by (metis fst_conv)
qed

end
