(* ===== verification/Warm_Pool.thy ===== *)
theory Warm_Pool
  imports Router_Names
begin

text \<open>
  The pool of warm leases of the router (\<open>install_warm_lease\<close>, \<open>release_warm_lease\<close>) and the
  cached probe of the runtime (\<open>probe_worker_backend\<close> and its use in \<open>status_snapshot_inner\<close>).
  Both are guarded by locks that are not re-entrant: a task that asks for a lock it already
  holds waits for ever. A guard that is a temporary in the scrutinee of an \<open>if let\<close> or a
  \<open>match\<close> lives until the end of that statement, so it is still held in the branches. Whether
  the calling task holds the lock is an argument of the operations that take it, and \<open>None\<close> is
  the result of an operation that never returns.
\<close>

subsection \<open>Leases\<close>

definition close_worker_under ::
  "bool \<Rightarrow> string \<Rightarrow> warm_pool \<times> RouterInner \<Rightarrow> (sends \<times> warm_pool \<times> RouterInner) option" where
  "close_worker_under pool_lock_held h st = (if pool_lock_held then None else Some (close_worker h st))"

definition release_warm_lease ::
  "string \<Rightarrow> warm_pool \<times> RouterInner \<Rightarrow> (sends \<times> warm_pool \<times> RouterInner) option" where
  "release_warm_lease path st =
     (case st of (pool, inner) \<Rightarrow>
      case hm_get pool path of
        Some lease \<Rightarrow>
          (let pool' = hm_remove path pool in
           case release_ref_token (l_token lease) inner of
             (Some (h, remaining), inner') \<Rightarrow>
               if remaining = 0 then close_worker_under True h (pool', inner')
               else Some ([], pool', inner')
           | (None, inner') \<Rightarrow> Some ([], pool', inner'))
      | None \<Rightarrow> Some ([], pool, inner))"

definition lru_lease :: "warm_pool \<Rightarrow> string option" where
  "lru_lease pool = map_option fst (min_by_key (\<lambda>(_, lease). l_last_hit lease) pool)"

lemma release_warm_lease_pool:
  assumes "release_warm_lease path (pool, inner) = Some (sent, pool', inner')" "(path, lease) \<in> set pool"
  shows "pool' = hm_remove path pool"
proof -
  have "map_of pool path \<noteq> None" using assms(2) by (metis domIff dom_map_of_conv_image_fst image_eqI fst_conv)
  then show ?thesis using assms(1)
    by (auto simp: release_warm_lease_def close_worker_under_def Let_def
        split: option.splits prod.splits if_splits)
qed

function make_room ::
  "nat \<Rightarrow> warm_pool \<times> RouterInner \<Rightarrow> (sends \<times> warm_pool \<times> RouterInner) option" where
  "make_room limit (pool, inner) =
     (if length pool < limit then Some ([], pool, inner)
      else
        (case lru_lease pool of
           None \<Rightarrow> Some ([], pool, inner)
         | Some path \<Rightarrow>
             (case release_warm_lease path (pool, inner) of
                None \<Rightarrow> None
              | Some (sent, pool', inner') \<Rightarrow>
                  map_option (\<lambda>(sent', st). (sent @ sent', st)) (make_room limit (pool', inner')))))"
  by pat_completeness auto
termination
proof (relation "measure (\<lambda>(limit, pool, inner). length pool)")
  fix limit pool inner path p sent q pool' inner'
  assume "lru_lease pool = Some path" and r: "release_warm_lease path (pool, inner) = Some p"
    and p: "(sent, q) = p" "(pool', inner') = q"
  then obtain lease where l: "(path, lease) \<in> set pool" by (auto simp: lru_lease_def dest!: min_by_key_Some)
  have "pool' = hm_remove path pool" using release_warm_lease_pool[OF _ l] r p by blast
  then show "((limit, pool', inner'), limit, pool, inner) \<in> measure (\<lambda>(limit, pool, inner). length pool)"
    using hm_length_remove_mem[OF l] by simp
qed simp

declare make_room.simps [simp del]

definition install_warm_lease ::
  "RouterConfig \<Rightarrow> nat \<Rightarrow> string \<Rightarrow> string \<Rightarrow> string \<Rightarrow> string \<Rightarrow> string option \<Rightarrow>
   warm_pool \<times> RouterInner \<Rightarrow> (sends \<times> warm_pool \<times> RouterInner) option" where
  "install_warm_lease cfg inst canonical_path h token tenant_id cache_path st =
     (case make_room (max_warm_workers cfg) st of
        None \<Rightarrow> None
      | Some (sent, pool, inner) \<Rightarrow>
          Some (sent, hm_insert canonical_path
            \<lparr>l_handle = h, l_token = token, l_path = canonical_path, l_cache_path = cache_path,
             l_tenant_id = tenant_id, l_pinned_at = inst, l_last_hit = inst\<rparr> pool, inner))"

text \<open>\<open>prune_caches\<close> reads the pool for the cache groups that must not be evicted.\<close>

definition pinned_groups :: "warm_pool \<Rightarrow> string list" where
  "pinned_groups pool =
     fold hs_insert (map without_extension (List.map_filter (\<lambda>(_, lease). l_cache_path lease) pool)) []"

subsection \<open>The cached probe\<close>

record ProbeOutput =
  po_success :: bool
  po_status :: string
  po_stdout :: string
  po_stderr :: string

text \<open>
  The child process is the argument \<open>run\<close>, and \<open>parse\<close> is \<open>serde_json::from_str\<close> on its
  output.
\<close>

definition probe_result ::
  "(string \<Rightarrow> string + RuntimeProbeResult) \<Rightarrow> string + ProbeOutput \<Rightarrow> string + RuntimeProbeResult" where
  "probe_result parse run =
     (case run of
        Inl e \<Rightarrow> Inl (''failed to run probe-runtime: '' @ e)
      | Inr out \<Rightarrow>
          let stderr = trim (po_stderr out); stdout = trim (po_stdout out) in
          if \<not> po_success out then
            Inl (''probe-runtime exited with status '' @ po_status out @
                 (if stderr \<noteq> [] then '': '' @ stderr else []))
          else (case parse stdout of
                  Inl e \<Rightarrow> Inl (''failed to parse probe-runtime output: '' @ e @
                              ''; stdout='' @ fmt_debug stdout @ ''; stderr='' @ fmt_debug stderr)
                | Inr p \<Rightarrow> Inr p))"

definition probe_worker_backend ::
  "bool \<Rightarrow> (string \<Rightarrow> string + RuntimeProbeResult) \<Rightarrow> string + ProbeOutput \<Rightarrow> RuntimeProbeResult option \<Rightarrow>
   ((string + RuntimeProbeResult) \<times> RuntimeProbeResult option) option" where
  "probe_worker_backend probe_lock_held parse run cached =
     (if probe_lock_held then None
      else
        (case cached of
           Some p \<Rightarrow> Some (Inr p, cached)
         | None \<Rightarrow>
             (case probe_result parse run of
                Inl e \<Rightarrow> Some (Inl e, None)
              | Inr p \<Rightarrow> Some (Inr p, Some p))))"

definition status_runtime_probe ::
  "(string \<Rightarrow> string + RuntimeProbeResult) \<Rightarrow> string + ProbeOutput \<Rightarrow> RuntimeProbeResult option \<Rightarrow>
   (RuntimeProbeResult option \<times> RuntimeProbeResult option) option" where
  "status_runtime_probe parse run cached =
     (case cached of
        Some probe \<Rightarrow> Some (Some probe, cached)
      | None \<Rightarrow>
          map_option (\<lambda>(r, cached'). (case r of Inr p \<Rightarrow> Some p | Inl _ \<Rightarrow> None, cached'))
            (probe_worker_backend True parse run cached))"

subsection \<open>Leases: correctness\<close>


definition sample_lease :: WarmLease where
  "sample_lease = \<lparr>l_handle = handle_string 5 7 0, l_token = token_string 6 7 1, l_path = ''/a'',
     l_cache_path = None, l_tenant_id = ''default'', l_pinned_at = 2, l_last_hit = 2\<rparr>"

lemma sample_lease_token:
  "handle_for_token (rs_inner sample_spawned) (l_token sample_lease) = Some (handle_string 5 7 0)"
  by (simp add: sample_lease_def handle_for_token_def sample_spawned_inner register_worker_def Let_def
      new_inner_def)


lemma make_room_spec:
  assumes "make_room limit (pool, inner) = Some (sent, pool', inner')" "hm_ok pool"
  shows "hm_ok pool' \<and> (length pool' < limit \<or> pool' = []) \<and> workers inner' = workers inner \<and> sent = [] \<and>
    (\<forall>p l. map_of pool' p = Some l \<longrightarrow> map_of pool p = Some l) \<and>
    (\<forall>p l p' l'. map_of pool p = Some l \<and> map_of pool' p = None \<and> map_of pool' p' = Some l' \<longrightarrow>
       l_last_hit l \<le> l_last_hit l')"
  using assms
proof (induction limit "(pool, inner)" arbitrary: pool inner sent rule: make_room.induct)
  case (1 limit pool inner)
  consider "length pool < limit" | "\<not> length pool < limit" "lru_lease pool = None"
    | p where "\<not> length pool < limit" "lru_lease pool = Some p" by fastforce
  then show ?case
  proof cases
    case 3
    obtain lease where l: "(p, lease) \<in> set pool" "\<And>x. x \<in> set pool \<Longrightarrow> l_last_hit lease \<le> l_last_hit (snd x)"
      using 3(2) min_by_key_Some by (fastforce simp: lru_lease_def)
    obtain s1 q inner1 s2 where r: "release_warm_lease p (pool, inner) = Some (s1, q, inner1)"
      and m: "make_room limit (q, inner1) = Some (s2, pool', inner')" and sent: "sent = s1 @ s2"
      using 1(2) 3 by (subst (asm) make_room.simps) (auto split: option.splits prod.splits)
    have q: "q = hm_remove p pool" by (rule release_warm_lease_pool[OF r l(1)])
    have w: "workers inner1 = workers inner \<and> s1 = []"
    proof -
      have rel: "release_ref_token t inner = (x, j) \<Longrightarrow> workers j = workers inner" for t x j
        using release_fields(1)[of t inner] by simp
      show ?thesis using r
        by (auto simp: release_warm_lease_def close_worker_under_def Let_def rel
            split: option.splits prod.splits if_splits)
    qed
    have IH: "hm_ok pool' \<and> (length pool' < limit \<or> pool' = []) \<and> workers inner' = workers inner1 \<and> s2 = [] \<and>
      (\<forall>p l. map_of pool' p = Some l \<longrightarrow> map_of q p = Some l) \<and>
      (\<forall>p l p' l'. map_of q p = Some l \<and> map_of pool' p = None \<and> map_of pool' p' = Some l' \<longrightarrow>
         l_last_hit l \<le> l_last_hit l')"
      using 1(1)[OF 3 r refl refl m] 1(3) q by simp
    have le: "l_last_hit lease \<le> l_last_hit l'" if "map_of pool p' = Some l'" for p' l'
      using l(2)[OF map_of_SomeD[OF that]] by simp
    have old: "map_of pool p' = Some l'" if "map_of q p' = Some l'" for p' l'
      using that q by (auto simp: hm_simps split: if_splits)
    have "l_last_hit l1 \<le> l_last_hit l'"
      if "map_of pool p1 = Some l1" "map_of pool' p1 = None" "map_of pool' p' = Some l'" for p1 l1 p' l'
    proof (cases "p1 = p")
      case True
      then have "l1 = lease" using that(1) l(1) hm_mem_iff[OF 1(3)] by simp
      then show ?thesis using le old IH that(3) by blast
    next
      case False
      then have "map_of q p1 = Some l1" using that(1) q by (simp add: hm_simps)
      then show ?thesis using IH that by blast
    qed
    moreover have "sent = []" "workers inner' = workers inner" using IH w sent by simp_all
    ultimately show ?thesis using IH old by blast
  qed (use 1(2,3) in \<open>subst (asm) make_room.simps, auto simp: lru_lease_def\<close>)+
qed

text \<open>
  When installing a lease returns, the pool holds at most the configured number of leases, the
  new one under its path, the others unchanged; the leases it gave up were the least recently used.
  With room in the pool it always returns.
\<close>

lemma install_warm_lease_bounded:
  assumes "hm_ok pool" "0 < max_warm_workers cfg"
    and "install_warm_lease cfg inst path h token tenant cache (pool, inner) = Some (sent, pool', inner')"
  shows "length pool' \<le> max_warm_workers cfg \<and>
    (\<exists>l. hm_get pool' path = Some l \<and> l_handle l = h \<and> l_token l = token \<and> l_tenant_id l = tenant) \<and>
    (\<forall>p l. p \<noteq> path \<and> hm_get pool' p = Some l \<longrightarrow> hm_get pool p = Some l) \<and>
    (\<forall>p l p' l'. p \<noteq> path \<and> p' \<noteq> path \<and> hm_get pool p = Some l \<and> hm_get pool' p = None \<and>
       hm_get pool' p' = Some l' \<longrightarrow> l_last_hit l \<le> l_last_hit l') \<and>
    (length pool < max_warm_workers cfg \<longrightarrow> sent = [] \<and> inner' = inner)"
proof -
  obtain q where q: "make_room (max_warm_workers cfg) (pool, inner) = Some (sent, q, inner')"
    and pool': "pool' = hm_insert path \<lparr>l_handle = h, l_token = token, l_path = path, l_cache_path = cache,
       l_tenant_id = tenant, l_pinned_at = inst, l_last_hit = inst\<rparr> q"
    using assms(3) by (auto simp: install_warm_lease_def split: option.splits)
  note R = make_room_spec[OF q assms(1)]
  have "length pool' \<le> Suc (length q)" unfolding pool' by (rule hm_length_insert_le)
  then have "length pool' \<le> max_warm_workers cfg" using R assms(2) by auto
  moreover have "\<exists>l. hm_get pool' path = Some l \<and> l_handle l = h \<and> l_token l = token \<and> l_tenant_id l = tenant"
    by (simp add: pool' hm_simps)
  moreover have "hm_get pool p = Some l" if "p \<noteq> path" "hm_get pool' p = Some l" for p l
    using R that by (auto simp: pool' hm_simps)
  moreover have "l_last_hit l \<le> l_last_hit l'"
    if "p \<noteq> path" "p' \<noteq> path" "hm_get pool p = Some l" "hm_get pool' p = None" "hm_get pool' p' = Some l'"
    for p l p' l'
  proof -
    have "hm_get q p = None" "hm_get q p' = Some l'" using that by (simp_all add: pool' hm_simps)
    then show ?thesis using R that(3) by blast
  qed
  moreover have "length pool < max_warm_workers cfg \<longrightarrow> sent = [] \<and> inner' = inner"
    using q by (subst (asm) make_room.simps) auto
  ultimately show ?thesis by blast
qed

theorem install_warm_lease_bounded_witness:
  "\<exists>pool'. install_warm_lease sample_config 3 ''/a'' ''h'' ''t'' ''default'' None ([], new_inner ''exe'') =
     Some ([], pool', new_inner ''exe'') \<and> length pool' \<le> 16"
proof -
  have c: "max_warm_workers sample_config = 16"
    by (simp add: sample_config_def from_env_def unwrap_or_def env_positive_def env_u64_def Let_def)
  have m: "make_room 16 ([], new_inner ''exe'') = Some ([], [], new_inner ''exe'')"
    by (subst make_room.simps) simp
  obtain pool' where i: "install_warm_lease sample_config 3 ''/a'' ''h'' ''t'' ''default'' None ([], new_inner ''exe'') =
      Some ([], pool', new_inner ''exe'')"
    by (simp add: install_warm_lease_def c m)
  show ?thesis using install_warm_lease_bounded[OF _ _ i] i by (simp add: c)
qed

text \<open>
  C26. The pool is keyed by the path alone, so keeping a path warm for a second tenant replaces the
  first tenant's lease without releasing its token: no lease holds the token any more, it is still
  counted, and the first tenant's worker can be neither evicted nor collected.
\<close>

theorem replaced_lease_leaks_token:
  assumes "router_steps cfg pid (router_start exe) s" "hm_ok pool"
    and "hm_get pool path = Some old" "handle_for_token (rs_inner s) (l_token old) = Some h"
    and "length pool < max_warm_workers cfg" "l_token old \<noteq> token"
    and "\<forall>p l. p \<noteq> path \<and> hm_get pool p = Some l \<longrightarrow> l_token l \<noteq> l_token old"
    and "install_warm_lease cfg inst path h' token tenant cache (pool, rs_inner s) = Some (sent, pool', inner')"
  shows "(\<forall>p l. hm_get pool' p = Some l \<longrightarrow> l_token l \<noteq> l_token old) \<and>
    handle_for_token inner' (l_token old) = Some h \<and>
    (\<forall>w. \<not> evictable inner' (h, w)) \<and> (\<forall>idle now. h \<notin> set (expired_workers idle now inner'))"
proof -
  have m: "make_room (max_warm_workers cfg) (pool, rs_inner s) = Some ([], pool, rs_inner s)"
    using assms(5) by (subst make_room.simps) simp
  have i: "inner' = rs_inner s" "pool' = hm_insert path \<lparr>l_handle = h', l_token = token, l_path = path,
      l_cache_path = cache, l_tenant_id = tenant, l_pinned_at = inst, l_last_hit = inst\<rparr> pool"
    using assms(8) by (simp_all add: install_warm_lease_def m)
  have "l_token old \<in> set (toks (rs_inner s) h)"
    using tokens_ok_D(4)[OF reachable_parts(2)[OF assms(1)]] assms(4) by (simp add: handle_for_token_def)
  then have "ref_count (rs_inner s) h \<noteq> 0" by (auto simp: ref_count_toks)
  then show ?thesis using assms(4,6,7)
    by (auto simp: i hm_simps evictable_def expired_workers_def split: if_splits)
qed

theorem replaced_lease_leaks_token_witness:
  "\<exists>pool' inner' sent. install_warm_lease sample_config 3 ''/a'' ''h2'' ''t2'' ''tenant2'' None
       ([(''/a'', sample_lease)], rs_inner sample_spawned) = Some (sent, pool', inner') \<and>
     (\<forall>w. \<not> evictable inner' (handle_string 5 7 0, w))"
proof -
  have c: "max_warm_workers sample_config = 16"
    by (simp add: sample_config_def from_env_def unwrap_or_def env_positive_def env_u64_def Let_def)
  have m: "make_room 16 ([(''/a'', sample_lease)], rs_inner sample_spawned) =
      Some ([], [(''/a'', sample_lease)], rs_inner sample_spawned)"
    by (subst make_room.simps) simp
  obtain pool' inner' sent where i: "install_warm_lease sample_config 3 ''/a'' ''h2'' ''t2'' ''tenant2'' None
      ([(''/a'', sample_lease)], rs_inner sample_spawned) = Some (sent, pool', inner')"
    by (simp add: install_warm_lease_def c m)
  have "CHR ''-'' \<in> set (l_token sample_lease)" by (simp add: sample_lease_def token_string_def)
  then have t: "l_token sample_lease \<noteq> ''t2''" by auto
  have h: "hm_ok [(''/a'', sample_lease)]" "hm_get [(''/a'', sample_lease)] ''/a'' = Some sample_lease"
    "length [(''/a'', sample_lease)] < max_warm_workers sample_config"
    "\<forall>p l. p \<noteq> ''/a'' \<and> hm_get [(''/a'', sample_lease)] p = Some l \<longrightarrow> l_token l \<noteq> l_token sample_lease"
    by (simp_all add: c)
  have "\<forall>w. \<not> evictable inner' (handle_string 5 7 0, w)"
    using replaced_lease_leaks_token[OF sample_spawned_reachable h(1,2) sample_lease_token h(3) t h(4) i]
    by blast
  then show ?thesis using i by blast
qed

subsection \<open>The cached probe: correctness\<close>

text \<open>
  A probe that starts without the lock always returns: the cached result if there is one, and
  otherwise the outcome of running the probe, which is cached exactly when it succeeded. A status
  report, which looks at the cache in the scrutinee of a \<open>match\<close>, never returns when nothing is
  cached.
\<close>

lemma probe_and_status:
  "probe_worker_backend False parse run cached =
     Some (case cached of Some p \<Rightarrow> Inr p | None \<Rightarrow> probe_result parse run,
           case cached of Some p \<Rightarrow> Some p
           | None \<Rightarrow> (case probe_result parse run of Inr p \<Rightarrow> Some p | Inl _ \<Rightarrow> None)) \<and>
   (status_runtime_probe parse run cached = None \<longleftrightarrow> cached = None)"
  by (auto simp: probe_worker_backend_def status_runtime_probe_def split: option.splits sum.splits)

end
