(* ===== verification/Tenant_Queue.thy ===== *)
theory Tenant_Queue
  imports Prelude "HOL-Library.Product_Lexorder"
begin

text \<open>
  The contract that the two work queues of the router share. A task is started when fewer than
  \<open>max_active\<close> tasks are active and its tenant has fewer than \<open>max_tenant\<close> of them; of the tasks
  that qualify the first in the queue is taken. The router relies on the counts per tenant being
  exact and on no startable task being left behind; both are proved here once, for the prewarm
  queue and the route queue.
\<close>

locale tenant_queue =
  fixes queued :: "'s \<Rightarrow> 't list"
    and tenant :: "'t \<Rightarrow> string"
    and tcount :: "'s \<Rightarrow> string \<Rightarrow> nat"
    and nactive :: "'s \<Rightarrow> nat"
    and max_active :: nat
    and max_tenant :: nat
    and start :: "'s \<Rightarrow> 't option \<times> 's"
    and finish :: "'t \<Rightarrow> 's \<Rightarrow> 's"
    and drive :: "'s \<Rightarrow> 't list \<times> 's"
  assumes start_None: "start s = (None, s') \<Longrightarrow>
      s' = s \<and> (max_active \<le> nactive s \<or> (\<forall>t \<in> set (queued s). max_tenant \<le> tcount s (tenant t)))"
    and start_Some: "start s = (Some t, s') \<Longrightarrow>
      nactive s < max_active \<and> tcount s (tenant t) < max_tenant \<and>
      (\<exists>i < length (queued s). t = queued s ! i \<and> queued s' = remove_at i (queued s) \<and>
         (\<forall>j < i. max_tenant \<le> tcount s (tenant (queued s ! j)))) \<and>
      tcount s' = (tcount s)(tenant t := Suc (tcount s (tenant t)))"
    and finish_queued: "queued (finish t s) = queued s"
    and finish_tcount: "tcount (finish t s) = (tcount s)(tenant t := tcount s (tenant t) - 1)"
    and drive_unfold: "drive s =
      (case start s of
         (None, _) \<Rightarrow> ([], s)
       | (Some t, s') \<Rightarrow> (t # fst (drive s'), snd (drive s')))"
begin

text \<open>The running tasks are a bag; the counts are exact when they count it by tenant.\<close>

definition counts_ok :: "'s \<Rightarrow> 't multiset \<Rightarrow> bool" where
  "counts_ok s R \<longleftrightarrow>
     (\<forall>x. tcount s x = size (filter_mset (\<lambda>t. tenant t = x) R)) \<and>
     (\<forall>x. size (filter_mset (\<lambda>t. tenant t = x) R) \<le> max_tenant)"

lemma counts_ok_start:
  assumes "counts_ok s R" "start s = (Some t, s')"
  shows "counts_ok s' (add_mset t R)"
  using assms(1) start_Some[OF assms(2)] by (auto simp: counts_ok_def Suc_le_eq)

lemma counts_ok_finish:
  assumes "counts_ok s R" "t \<in># R"
  shows "counts_ok (finish t s) (R - {#t#})"
proof -
  obtain R' where R: "R = add_mset t R'" using assms(2) by (metis insert_DiffM)
  have "size (filter_mset (\<lambda>u. tenant u = x) R') \<le> size (filter_mset (\<lambda>u. tenant u = x) R)" for x
    by (simp add: R)
  then have "size (filter_mset (\<lambda>u. tenant u = x) R') \<le> max_tenant" for x
    using assms(1) unfolding counts_ok_def by (meson le_trans)
  then show ?thesis using assms(1) unfolding R counts_ok_def finish_tcount by auto
qed

lemma counts_ok_tcount: "counts_ok s R \<Longrightarrow> tcount s' = tcount s \<Longrightarrow> counts_ok s' R"
  by (simp add: counts_ok_def)

lemma start_shrinks: "start s = (Some t, s') \<Longrightarrow> Suc (length (queued s')) = length (queued s)"
  using start_Some[of s t s'] by (auto simp: length_remove_at)

lemma start_mset: "start s = (Some t, s') \<Longrightarrow> mset (queued s) = add_mset t (mset (queued s'))"
  using start_Some[of s t s'] by (auto simp: remove_at_mset)

text \<open>Driving the queue conserves the tasks, keeps the counts, and leaves nothing startable.\<close>

lemma drive_spec:
  assumes "drive s = (ts, s')"
  shows "mset (queued s) = mset ts + mset (queued s') \<and>
    (max_active \<le> nactive s' \<or> (\<forall>t \<in> set (queued s'). max_tenant \<le> tcount s' (tenant t))) \<and>
    (\<forall>R. counts_ok s R \<longrightarrow> counts_ok s' (R + mset ts))"
  using assms
proof (induction "length (queued s)" arbitrary: s ts rule: less_induct)
  case less
  show ?case
  proof (cases "start s")
    case (Pair r u)
    show ?thesis
    proof (cases r)
      case None
      then have "ts = [] \<and> s' = s" using less.prems Pair by (simp add: drive_unfold[of s])
      then show ?thesis using start_None[of s u] Pair None by simp
    next
      case (Some t)
      then have st: "start s = (Some t, u)" using Pair by simp
      obtain ts' where ts: "ts = t # ts'" "drive u = (ts', s')"
        using less.prems st by (cases "drive u") (auto simp: drive_unfold[of s])
      have "length (queued u) < length (queued s)" using start_shrinks[OF st] by simp
      note IH = less.hyps[OF this ts(2)]
      have "counts_ok s' (R + mset ts)" if "counts_ok s R" for R
      proof -
        have "counts_ok s' (add_mset t R + mset ts')" using IH counts_ok_start[OF that st] by blast
        then show ?thesis using ts(1) by simp
      qed
      then show ?thesis using IH start_mset[OF st] ts(1) by simp
    qed
  qed
qed

lemma drive_sublist_order:
  assumes "drive s = (ts, s')" "sorted (map f (queued s))"
  shows "sorted (map f (queued s'))"
  using assms
proof (induction "length (queued s)" arbitrary: s ts rule: less_induct)
  case less
  show ?case
  proof (cases "start s")
    case (Pair r u)
    show ?thesis
    proof (cases r)
      case None
      then show ?thesis using less.prems Pair by (simp add: drive_unfold[of s])
    next
      case (Some t)
      then have st: "start s = (Some t, u)" using Pair by simp
      obtain ts' where ts: "drive u = (ts', s')"
        using less.prems(1) st by (cases "drive u") (auto simp: drive_unfold[of s])
      have "sorted (map f (queued u))"
        using start_Some[OF st] less.prems(2) by (auto intro: sorted_remove_at)
      moreover have "length (queued u) < length (queued s)" using start_shrinks[OF st] by simp
      ultimately show ?thesis using less.hyps[OF _ ts] by blast
    qed
  qed
qed

end

end
