(* ===== verification/Prewarm_Queue.thy ===== *)
theory Prewarm_Queue
  imports Tenant_Queue Runtime_Config
begin

text \<open>
  The queue of prewarm requests of the router: \<open>PrewarmQueueState\<close>, \<open>enqueue_prewarm\<close> and
  \<open>drive_prewarm_queue\<close> of \<open>src/router/mod.rs\<close>. A started task runs on its own and reports its
  outcome; starting and finishing are the two lock sections of \<open>drive_prewarm_queue\<close>.
\<close>

subsection \<open>State and operations\<close>

record QueuedPrewarmTask =
  qp_task_id :: string
  qp_path :: string
  qp_tenant_id :: string
  qp_priority :: nat
  qp_keep_warm :: bool
  qp_enqueued_at :: nat

record ActivePrewarmTask =
  ap_task_id :: string
  ap_path :: string
  ap_tenant_id :: string
  ap_priority :: nat
  ap_keep_warm :: bool
  ap_started_at :: nat

record PrewarmQueueState =
  pq_queued :: "QueuedPrewarmTask list"
  pq_active :: "(string, ActivePrewarmTask) hashmap"
  pq_recent :: "json list"
  pq_next_task_id :: nat
  pq_tenant_active :: "(string, nat) hashmap"

definition new_prewarm_queue :: PrewarmQueueState where
  "new_prewarm_queue =
     \<lparr>pq_queued = [], pq_active = [], pq_recent = [], pq_next_task_id = 0, pq_tenant_active = []\<rparr>"

text \<open>Highest priority first, then the longest waiting; the sort is stable.\<close>

definition queue_key :: "nat \<Rightarrow> nat \<Rightarrow> int \<times> nat" where
  "queue_key priority enqueued_at = (- int priority, enqueued_at)"

definition qp_key :: "QueuedPrewarmTask \<Rightarrow> int \<times> nat" where
  "qp_key t = queue_key (qp_priority t) (qp_enqueued_at t)"

definition enqueue_prewarm ::
  "RouterConfig \<Rightarrow> nat \<Rightarrow> string \<Rightarrow> nat \<Rightarrow> bool \<Rightarrow> string option \<Rightarrow> PrewarmQueueState \<Rightarrow>
   (ToolError + json) \<times> PrewarmQueueState" where
  "enqueue_prewarm cfg inst path priority keep_warm tenant_id q =
     (let tenant = unwrap_or tenant_id ''default'' in
      if length (pq_queued q) \<ge> max_queued_prewarms cfg then (Inl Busy, q)
      else
        let task_id = ''prewarm-'' @ fmt_dec (pq_next_task_id q);
            task = \<lparr>qp_task_id = task_id, qp_path = path, qp_tenant_id = tenant,
              qp_priority = priority, qp_keep_warm = keep_warm, qp_enqueued_at = inst\<rparr>;
            q' = q\<lparr>pq_next_task_id := pq_next_task_id q + 1,
                   pq_queued := sort_key qp_key (pq_queued q @ [task])\<rparr>
        in (Inr (JObj [(''task_id'', JStr task_id), (''status'', JStr ''queued''), (''path'', JStr path),
              (''tenant_id'', JStr tenant), (''priority'', JNum priority),
              (''keep_warm'', JBool keep_warm), (''queued'', JNum (length (pq_queued q')))]), q'))"

definition pq_count :: "PrewarmQueueState \<Rightarrow> string \<Rightarrow> nat" where
  "pq_count q tenant = unwrap_or (hm_get (pq_tenant_active q) tenant) 0"

definition count_up :: "string \<Rightarrow> (string, nat) hashmap \<Rightarrow> (string, nat) hashmap" where
  "count_up tenant m =
     hm_insert tenant (case hm_get m tenant of Some c \<Rightarrow> c + 1 | None \<Rightarrow> 1) m"

definition count_down :: "string \<Rightarrow> (string, nat) hashmap \<Rightarrow> (string, nat) hashmap" where
  "count_down tenant m =
     (case hm_get m tenant of
        Some c \<Rightarrow> if c - 1 = 0 then hm_remove tenant m else hm_insert tenant (c - 1) m
      | None \<Rightarrow> m)"

definition start_prewarm ::
  "RouterConfig \<Rightarrow> nat \<Rightarrow> PrewarmQueueState \<Rightarrow> QueuedPrewarmTask option \<times> PrewarmQueueState" where
  "start_prewarm cfg inst q =
     (if length (pq_active q) \<ge> max_active_prewarms cfg then (None, q)
      else
        (case position (\<lambda>task. pq_count q (qp_tenant_id task) < max_prewarms_per_tenant cfg) (pq_queued q) of
           None \<Rightarrow> (None, q)
         | Some idx \<Rightarrow>
             let task = pq_queued q ! idx in
             (Some task,
              q\<lparr>pq_queued := remove_at idx (pq_queued q),
                pq_tenant_active := count_up (qp_tenant_id task) (pq_tenant_active q),
                pq_active := hm_insert (qp_task_id task)
                  \<lparr>ap_task_id = qp_task_id task, ap_path = qp_path task,
                   ap_tenant_id = qp_tenant_id task, ap_priority = qp_priority task,
                   ap_keep_warm = qp_keep_warm task, ap_started_at = inst\<rparr> (pq_active q)\<rparr>)))"

lemma start_prewarm_shrinks:
  "start_prewarm cfg inst q = (Some t, q') \<Longrightarrow> length (pq_queued q') < length (pq_queued q)"
  by (auto simp: start_prewarm_def Let_def position_Some length_remove_at split: if_splits option.splits)

function drive_prewarm_queue ::
  "RouterConfig \<Rightarrow> nat \<Rightarrow> PrewarmQueueState \<Rightarrow> QueuedPrewarmTask list \<times> PrewarmQueueState" where
  "drive_prewarm_queue cfg inst q =
     (case start_prewarm cfg inst q of
        (None, _) \<Rightarrow> ([], q)
      | (Some t, q') \<Rightarrow> (t # fst (drive_prewarm_queue cfg inst q'), snd (drive_prewarm_queue cfg inst q')))"
  by pat_completeness auto
termination
  by (relation "measure (\<lambda>(cfg, inst, q). length (pq_queued q))") (auto dest: start_prewarm_shrinks[OF sym])

declare drive_prewarm_queue.simps [simp del]

definition prewarm_summary :: "QueuedPrewarmTask \<Rightarrow> ToolError + json \<Rightarrow> json" where
  "prewarm_summary task result =
     JObj ([(''task_id'', JStr (qp_task_id task)), (''path'', JStr (qp_path task)),
            (''tenant_id'', JStr (qp_tenant_id task))] @
       (case result of
          Inr value \<Rightarrow> [(''status'', JStr ''completed''), (''result'', value)]
        | Inl err \<Rightarrow> [(''status'', JStr ''failed''), (''error'', JStr (tool_error_to_string err))]))"

definition finish_prewarm ::
  "ToolError + json \<Rightarrow> QueuedPrewarmTask \<Rightarrow> PrewarmQueueState \<Rightarrow> PrewarmQueueState" where
  "finish_prewarm result task q =
     (let recent = pq_recent q @ [prewarm_summary task result];
          drain = length recent - 64
      in q\<lparr>pq_active := hm_remove (qp_task_id task) (pq_active q),
           pq_tenant_active := count_down (qp_tenant_id task) (pq_tenant_active q),
           pq_recent := (if length recent > 64 then drop drain recent else recent)\<rparr>)"

subsection \<open>The queue implements the contract\<close>

lemma count_up_get: "unwrap_or (map_of (count_up x m) y) 0 =
    (if y = x then Suc (unwrap_or (map_of m x) 0) else unwrap_or (map_of m y) 0)"
  by (auto simp: count_up_def hm_simps unwrap_or_def split: option.splits)

lemma count_down_get: "unwrap_or (map_of (count_down x m) y) 0 =
    (if y = x then unwrap_or (map_of m x) 0 - 1 else unwrap_or (map_of m y) 0)"
  by (auto simp: count_down_def hm_simps unwrap_or_def split: option.splits)

lemma start_prewarm_Some:
  assumes "start_prewarm cfg inst q = (Some t, q')"
  shows "\<exists>i < length (pq_queued q). t = pq_queued q ! i \<and>
      pq_count q (qp_tenant_id t) < max_prewarms_per_tenant cfg \<and>
      length (pq_active q) < max_active_prewarms cfg \<and>
      (\<forall>j < i. max_prewarms_per_tenant cfg \<le> pq_count q (qp_tenant_id (pq_queued q ! j))) \<and>
      pq_queued q' = remove_at i (pq_queued q) \<and>
      pq_tenant_active q' = count_up (qp_tenant_id t) (pq_tenant_active q) \<and>
      (\<exists>a. pq_active q' = hm_insert (qp_task_id t) a (pq_active q)) \<and>
      pq_recent q' = pq_recent q \<and> pq_next_task_id q' = pq_next_task_id q"
proof -
  obtain i where pos: "position (\<lambda>task. pq_count q (qp_tenant_id task) < max_prewarms_per_tenant cfg)
      (pq_queued q) = Some i" and lim: "length (pq_active q) < max_active_prewarms cfg"
    using assms by (auto simp: start_prewarm_def Let_def split: if_splits option.splits)
  have "i < length (pq_queued q)" "t = pq_queued q ! i"
    "pq_count q (qp_tenant_id t) < max_prewarms_per_tenant cfg"
    "\<forall>j < i. max_prewarms_per_tenant cfg \<le> pq_count q (qp_tenant_id (pq_queued q ! j))"
    using assms pos lim by (auto simp: start_prewarm_def Let_def position_Some not_less)
  moreover have "pq_queued q' = remove_at i (pq_queued q)"
    "pq_tenant_active q' = count_up (qp_tenant_id t) (pq_tenant_active q)"
    "\<exists>a. pq_active q' = hm_insert (qp_task_id t) a (pq_active q)"
    "pq_recent q' = pq_recent q" "pq_next_task_id q' = pq_next_task_id q"
    using assms pos lim by (auto simp: start_prewarm_def Let_def)
  ultimately show ?thesis using lim by blast
qed

interpretation prewarm: tenant_queue pq_queued qp_tenant_id pq_count "\<lambda>q. length (pq_active q)"
  "max_active_prewarms cfg" "max_prewarms_per_tenant cfg" "start_prewarm cfg inst"
  "finish_prewarm result" "drive_prewarm_queue cfg inst" for cfg inst result
proof
  show "start_prewarm cfg inst s = (None, s') \<Longrightarrow> s' = s \<and>
      (max_active_prewarms cfg \<le> length (pq_active s) \<or>
       (\<forall>t \<in> set (pq_queued s). max_prewarms_per_tenant cfg \<le> pq_count s (qp_tenant_id t)))" for s s'
    by (auto simp: start_prewarm_def Let_def position_None not_less split: if_splits option.splits)
  show "start_prewarm cfg inst s = (Some t, s') \<Longrightarrow>
      length (pq_active s) < max_active_prewarms cfg \<and>
      pq_count s (qp_tenant_id t) < max_prewarms_per_tenant cfg \<and>
      (\<exists>i < length (pq_queued s). t = pq_queued s ! i \<and> pq_queued s' = remove_at i (pq_queued s) \<and>
         (\<forall>j < i. max_prewarms_per_tenant cfg \<le> pq_count s (qp_tenant_id (pq_queued s ! j)))) \<and>
      pq_count s' = (pq_count s)(qp_tenant_id t := Suc (pq_count s (qp_tenant_id t)))" for s t s'
    using start_prewarm_Some[of cfg inst s t s'] by (auto simp: pq_count_def count_up_get)
  show "pq_queued (finish_prewarm result t s) = pq_queued s" for t s
    by (simp add: finish_prewarm_def Let_def)
  show "pq_count (finish_prewarm result t s) =
      (pq_count s)(qp_tenant_id t := pq_count s (qp_tenant_id t) - 1)" for t s
    by (auto simp: finish_prewarm_def Let_def pq_count_def count_down_get)
  show "drive_prewarm_queue cfg inst s =
      (case start_prewarm cfg inst s of
         (None, _) \<Rightarrow> ([], s)
       | (Some t, s') \<Rightarrow> (t # fst (drive_prewarm_queue cfg inst s'), snd (drive_prewarm_queue cfg inst s')))" for s
    by (rule drive_prewarm_queue.simps)
qed

subsection \<open>Reachable queues\<close>

inductive prewarm_reachable ::
  "RouterConfig \<Rightarrow> PrewarmQueueState \<Rightarrow> QueuedPrewarmTask list \<Rightarrow> bool" for cfg :: RouterConfig where
  pw_new: "prewarm_reachable cfg new_prewarm_queue []"
| pw_enqueue: "prewarm_reachable cfg q R \<Longrightarrow>
     enqueue_prewarm cfg inst path priority keep_warm tenant q = (res, q') \<Longrightarrow> prewarm_reachable cfg q' R"
| pw_start: "prewarm_reachable cfg q R \<Longrightarrow> start_prewarm cfg inst q = (Some t, q') \<Longrightarrow>
     prewarm_reachable cfg q' (t # R)"
| pw_finish: "prewarm_reachable cfg q R \<Longrightarrow> t \<in> set R \<Longrightarrow>
     prewarm_reachable cfg (finish_prewarm result t q) (remove1 t R)"

definition prewarm_id :: "nat \<Rightarrow> string" where
  "prewarm_id n = ''prewarm-'' @ fmt_dec n"

lemma prewarm_id_inject [simp]: "prewarm_id m = prewarm_id n \<longleftrightarrow> m = n"
  by (simp add: prewarm_id_def fmt_dec_inject)

definition prewarm_ok :: "RouterConfig \<Rightarrow> PrewarmQueueState \<Rightarrow> QueuedPrewarmTask list \<Rightarrow> bool" where
  "prewarm_ok cfg q R \<longleftrightarrow>
     prewarm.counts_ok cfg q (mset R) \<and> hm_ok (pq_active q) \<and>
     set (hm_keys (pq_active q)) = set (map qp_task_id R) \<and>
     distinct (map qp_task_id (pq_queued q @ R)) \<and>
     (\<forall>t \<in> set (pq_queued q @ R). \<exists>n < pq_next_task_id q. qp_task_id t = prewarm_id n) \<and>
     length (pq_active q) \<le> max_active_prewarms cfg \<and> length (pq_queued q) \<le> max_queued_prewarms cfg \<and>
     sorted (map qp_key (pq_queued q)) \<and> length (pq_recent q) \<le> 64"

lemma distinct_remove1_map: "distinct (map f xs) \<Longrightarrow> distinct (map f (remove1 x xs))"
  by (induction xs) (auto dest: subsetD[OF set_remove1_subset])

lemma prewarm_ok_enqueue:
  assumes "prewarm_ok cfg q R"
    and "enqueue_prewarm cfg inst path priority keep_warm tenant q = (res, q')"
  shows "prewarm_ok cfg q' R"
proof (cases "length (pq_queued q) \<ge> max_queued_prewarms cfg")
  case True
  then show ?thesis using assms by (simp add: enqueue_prewarm_def Let_def)
next
  case False
  define t where "t = \<lparr>qp_task_id = prewarm_id (pq_next_task_id q), qp_path = path,
    qp_tenant_id = unwrap_or tenant ''default'', qp_priority = priority, qp_keep_warm = keep_warm,
    qp_enqueued_at = inst\<rparr>"
  then have t: "qp_task_id t = prewarm_id (pq_next_task_id q)" by simp
  have q': "q' = q\<lparr>pq_next_task_id := pq_next_task_id q + 1, pq_queued := sort_key qp_key (pq_queued q @ [t])\<rparr>"
    using assms(2) False by (auto simp: enqueue_prewarm_def Let_def prewarm_id_def t_def)
  have "pq_count q' = pq_count q" by (simp add: q' pq_count_def fun_eq_iff)
  then have c: "prewarm.counts_ok cfg q' (mset R)"
    using assms(1) prewarm.counts_ok_tcount[of cfg q "mset R" q'] by (simp add: prewarm_ok_def)
  have m: "mset (pq_queued q') = add_mset t (mset (pq_queued q))" by (simp add: q')
  then have m2: "mset (map qp_task_id (pq_queued q' @ R)) = mset (map qp_task_id (t # pq_queued q @ R))" by simp
  have fresh: "prewarm_id (pq_next_task_id q) \<notin> set (map qp_task_id (pq_queued q @ R))"
  proof
    assume "prewarm_id (pq_next_task_id q) \<in> set (map qp_task_id (pq_queued q @ R))"
    then obtain u where "u \<in> set (pq_queued q @ R)" "qp_task_id u = prewarm_id (pq_next_task_id q)"
      unfolding set_map by (metis imageE)
    moreover have "\<forall>t \<in> set (pq_queued q @ R). \<exists>n < pq_next_task_id q. qp_task_id t = prewarm_id n"
      using assms(1) unfolding prewarm_ok_def by blast
    ultimately show False by force
  qed
  then have "distinct (map qp_task_id (t # pq_queued q @ R))"
    using assms(1) t by (simp add: prewarm_ok_def)
  then have d: "distinct (map qp_task_id (pq_queued q' @ R))" using mset_eq_imp_distinct_iff[OF m2] by blast
  have set': "set (pq_queued q') = insert t (set (pq_queued q))" by (simp add: q')
  have ids: "\<exists>n < Suc (pq_next_task_id q). qp_task_id u = prewarm_id n"
    if "u \<in> set (pq_queued q' @ R)" for u
  proof (cases "u = t")
    case True
    then show ?thesis using t by auto
  next
    case False
    then have "u \<in> set (pq_queued q @ R)" using that set' by auto
    then have "\<exists>n < pq_next_task_id q. qp_task_id u = prewarm_id n"
      using assms(1) unfolding prewarm_ok_def by blast
    then show ?thesis using less_SucI by blast
  qed
  then show ?thesis
    using c d False assms(1) unfolding prewarm_ok_def by (simp add: q')
qed

lemma prewarm_ok_start:
  assumes "prewarm_ok cfg q R" "start_prewarm cfg inst q = (Some t, q')"
  shows "prewarm_ok cfg q' (t # R)"
proof -
  obtain i a where i: "i < length (pq_queued q)" "t = pq_queued q ! i"
    "length (pq_active q) < max_active_prewarms cfg" "pq_queued q' = remove_at i (pq_queued q)"
    "pq_active q' = hm_insert (qp_task_id t) a (pq_active q)"
    "pq_recent q' = pq_recent q" "pq_next_task_id q' = pq_next_task_id q"
    using start_prewarm_Some[OF assms(2)] by blast
  have m: "mset (pq_queued q) = add_mset t (mset (pq_queued q'))" using remove_at_mset[OF i(1)] i(2,4) by simp
  then have m2: "mset (map qp_task_id (pq_queued q' @ t # R)) = mset (map qp_task_id (pq_queued q @ R))" by simp
  have d: "distinct (map qp_task_id (pq_queued q' @ t # R))"
    using mset_eq_imp_distinct_iff[OF m2] assms(1) by (simp add: prewarm_ok_def)
  have set': "set (pq_queued q' @ t # R) = set (pq_queued q @ R)"
    using mset_eq_setD[of "pq_queued q" "t # pq_queued q'"] m by auto
  have "prewarm.counts_ok cfg q' (add_mset t (mset R))"
    using prewarm.counts_ok_start[OF _ assms(2)] assms(1) by (simp add: prewarm_ok_def)
  moreover have "length (pq_active q') \<le> max_active_prewarms cfg"
    using i(3) hm_length_insert_le[of "qp_task_id t" a "pq_active q"] by (simp add: i(5))
  moreover have "length (pq_queued q') \<le> max_queued_prewarms cfg"
    using assms(1) length_remove_at[OF i(1)] unfolding prewarm_ok_def i(4) by linarith
  moreover have "sorted (map qp_key (pq_queued q'))"
    using assms(1) by (simp add: i(4) sorted_remove_at prewarm_ok_def)
  moreover have "set (hm_keys (pq_active q')) = set (map qp_task_id (t # R))"
  proof -
    have "set (hm_keys (pq_active q')) = insert (qp_task_id t) (set (hm_keys (pq_active q)))"
      by (simp only: i(5) hm_keys_dom hm_simps dom_fun_upd) simp
    then show ?thesis using assms(1) by (simp add: prewarm_ok_def)
  qed
  ultimately show ?thesis
    using assms(1) d i(5-7) unfolding prewarm_ok_def set' by simp
qed

lemma prewarm_ok_finish:
  assumes "prewarm_ok cfg q R" "t \<in> set R"
  shows "prewarm_ok cfg (finish_prewarm result t q) (remove1 t R)"
proof -
  let ?q = "finish_prewarm result t q"
  have c: "prewarm.counts_ok cfg ?q (mset (remove1 t R))"
    using prewarm.counts_ok_finish[of cfg q "mset R" t] assms by (simp add: prewarm_ok_def)
  have dR: "distinct (map qp_task_id R)" using assms(1) by (simp add: prewarm_ok_def)
  have ids: "set (map qp_task_id (remove1 t R)) = set (map qp_task_id R) - {qp_task_id t}"
    using dR assms(2) by (induction R) (auto)
  have keys: "set (hm_keys (pq_active ?q)) = set (hm_keys (pq_active q)) - {qp_task_id t}"
    by (simp add: finish_prewarm_def Let_def delete_keys del: set_map)
  have sub: "set (remove1 t R) \<subseteq> set R" by (rule set_remove1_subset)
  have qd: "pq_queued ?q = pq_queued q" "pq_next_task_id ?q = pq_next_task_id q"
    by (simp_all add: finish_prewarm_def Let_def)
  have "distinct (map qp_task_id (pq_queued q @ remove1 t R))"
    using assms(1) distinct_remove1_map[OF dR, of t] sub by (auto simp: prewarm_ok_def)
  moreover have "length (pq_active ?q) \<le> max_active_prewarms cfg" "hm_ok (pq_active ?q)" "length (pq_recent ?q) \<le> 64"
    using assms(1) hm_length_remove_le[of "qp_task_id t" "pq_active q"]
    by (auto simp: prewarm_ok_def finish_prewarm_def Let_def)
  ultimately show ?thesis
    using assms(1) c ids keys sub unfolding prewarm_ok_def qd by auto
qed

lemma prewarm_reachable_ok: "prewarm_reachable cfg q R \<Longrightarrow> prewarm_ok cfg q R"
proof (induction rule: prewarm_reachable.induct)
  case pw_new
  then show ?case
    by (simp add: prewarm_ok_def prewarm.counts_ok_def new_prewarm_queue_def pq_count_def unwrap_or_def)
qed (blast intro: prewarm_ok_enqueue prewarm_ok_start prewarm_ok_finish)+

text \<open>
  In every state of the prewarm queue, under any interleaving of enqueueing, starting and
  finishing, the tasks recorded as active are exactly the running ones, no more than the
  configured number run in all and per tenant, the waiting tasks are in order of priority and then
  of age and within the queue's limit, and at most 64 results are remembered.
\<close>

lemma prewarm_queue_invariant:
  assumes "prewarm_reachable cfg q R"
  shows "set (hm_keys (pq_active q)) = set (map qp_task_id R) \<and> distinct (map qp_task_id (pq_queued q @ R)) \<and>
    length R \<le> max_active_prewarms cfg \<and>
    length (filter (\<lambda>t. qp_tenant_id t = tenant) R) = pq_count q tenant \<and>
    pq_count q tenant \<le> max_prewarms_per_tenant cfg \<and>
    length (pq_queued q) \<le> max_queued_prewarms cfg \<and>
    (\<forall>i j. i < j \<and> j < length (pq_queued q) \<longrightarrow>
       qp_priority (pq_queued q ! i) > qp_priority (pq_queued q ! j) \<or>
       (qp_priority (pq_queued q ! i) = qp_priority (pq_queued q ! j) \<and>
        qp_enqueued_at (pq_queued q ! i) \<le> qp_enqueued_at (pq_queued q ! j))) \<and>
    length (pq_recent q) \<le> 64"
proof -
  note ok = prewarm_reachable_ok[OF assms]
  have "length R = card (set (map qp_task_id R))"
    using ok distinct_card[of "map qp_task_id R"] by (simp add: prewarm_ok_def)
  also have "\<dots> = card (set (hm_keys (pq_active q)))" using ok by (simp only: prewarm_ok_def)
  also have "\<dots> = length (pq_active q)"
    using ok distinct_card[of "hm_keys (pq_active q)"] by (simp add: prewarm_ok_def hm_ok_def)
  finally have "length R \<le> max_active_prewarms cfg" using ok by (simp add: prewarm_ok_def)
  moreover have "pq_count q tenant = size (filter_mset (\<lambda>t. qp_tenant_id t = tenant) (mset R))"
    "size (filter_mset (\<lambda>t. qp_tenant_id t = tenant) (mset R)) \<le> max_prewarms_per_tenant cfg"
    using ok by (simp_all only: prewarm_ok_def prewarm.counts_ok_def)
  moreover have "size (filter_mset (\<lambda>t. qp_tenant_id t = tenant) (mset R)) =
      length (filter (\<lambda>t. qp_tenant_id t = tenant) R)"
    by (metis mset_filter size_mset)
  moreover have "qp_priority (pq_queued q ! i) > qp_priority (pq_queued q ! j) \<or>
       (qp_priority (pq_queued q ! i) = qp_priority (pq_queued q ! j) \<and>
        qp_enqueued_at (pq_queued q ! i) \<le> qp_enqueued_at (pq_queued q ! j))"
    if "i < j" "j < length (pq_queued q)" for i j
    using ok that sorted_nth_mono[of "map qp_key (pq_queued q)" i j]
    by (auto simp: prewarm_ok_def qp_key_def queue_key_def less_eq_prod_def)
  ultimately show ?thesis using ok unfolding prewarm_ok_def by auto
qed

definition sample_prewarm_config :: RouterConfig where
  "sample_prewarm_config = from_env None 1 (\<lambda>_. None)"

lemma sample_prewarm_config_limits [simp]:
  "max_queued_prewarms sample_prewarm_config = 256" "max_active_prewarms sample_prewarm_config = 4"
  "max_prewarms_per_tenant sample_prewarm_config = 2"
  by (simp_all add: sample_prewarm_config_def from_env_def unwrap_or_def env_positive_def env_u64_def Let_def)

definition sample_prewarm_queue :: PrewarmQueueState where
  "sample_prewarm_queue = snd (enqueue_prewarm sample_prewarm_config 3 ''/a'' 1 False None new_prewarm_queue)"

lemma sample_prewarm_reachable: "prewarm_reachable sample_prewarm_config sample_prewarm_queue []"
  unfolding sample_prewarm_queue_def by (rule pw_enqueue[OF pw_new prod.collapse[symmetric]])

theorem prewarm_queue_invariant_witness:
  "length (pq_queued sample_prewarm_queue) = 1 \<and> pq_count sample_prewarm_queue ''default'' \<le> 2"
  using prewarm_queue_invariant[OF sample_prewarm_reachable, of "''default''"]
  by (simp add: sample_prewarm_queue_def enqueue_prewarm_def new_prewarm_queue_def Let_def)

text \<open>
  Driving the prewarm queue always stops; every task is started or still waits, and when it
  stops the limit of running tasks is reached or every waiting task's tenant is at its own limit,
  so no task waits that could run.
\<close>

lemma drive_prewarm_work_conserving:
  assumes "drive_prewarm_queue cfg inst q = (started, q')"
  shows "mset (pq_queued q) = mset started + mset (pq_queued q') \<and>
    (length (pq_active q') \<ge> max_active_prewarms cfg \<or>
     (\<forall>t \<in> set (pq_queued q'). pq_count q' (qp_tenant_id t) \<ge> max_prewarms_per_tenant cfg))"
  using prewarm.drive_spec[OF assms] by blast

theorem drive_prewarm_work_conserving_witness:
  "\<exists>q'. drive_prewarm_queue sample_prewarm_config 4 new_prewarm_queue = ([], q') \<and> pq_queued q' = []"
proof -
  have d: "drive_prewarm_queue sample_prewarm_config 4 new_prewarm_queue = ([], new_prewarm_queue)"
    by (subst drive_prewarm_queue.simps) (simp add: start_prewarm_def new_prewarm_queue_def)
  show ?thesis using drive_prewarm_work_conserving[OF d] d by (simp add: new_prewarm_queue_def)
qed

end
