(* ===== verification/Route_Queue.thy ===== *)
theory Route_Queue
  imports Prewarm_Queue Worker_Table Tasks "HOL-Library.Code_Target_Nat"
begin

text \<open>
  The queue of background requests of the router: \<open>RouteQueueState\<close>, \<open>enqueue_route_task\<close>,
  \<open>drive_route_queue\<close> and \<open>cancel_task\<close> of \<open>src/router/mod.rs\<close>. Each queued request has a task
  in the registry of \<open>Tasks\<close>, so the state is the pair of the two. A started task runs on its
  own; when it is done its entry leaves the queue, and then its task is settled.
\<close>

subsection \<open>State and operations\<close>

record QueuedRouteTask =
  qr_task_id :: string
  qr_path :: string
  qr_method :: string
  qr_params :: json
  qr_tenant_id :: string
  qr_priority :: nat
  qr_enqueued_at :: nat

record ActiveRouteTask =
  ar_task_id :: string
  ar_path :: string
  ar_method :: string
  ar_tenant_id :: string
  ar_priority :: nat
  ar_started_at :: nat

record RouteQueueState =
  rq_queued :: "QueuedRouteTask list"
  rq_active :: "(string, ActiveRouteTask) hashmap"
  rq_tenant_active :: "(string, nat) hashmap"

type_synonym route_state = "RouteQueueState \<times> TaskRegistry"

definition new_route_queue :: RouteQueueState where
  "new_route_queue = \<lparr>rq_queued = [], rq_active = [], rq_tenant_active = []\<rparr>"

definition qr_key :: "QueuedRouteTask \<Rightarrow> int \<times> nat" where
  "qr_key t = queue_key (qr_priority t) (qr_enqueued_at t)"

definition rq_count :: "RouteQueueState \<Rightarrow> string \<Rightarrow> nat" where
  "rq_count q tenant = unwrap_or (hm_get (rq_tenant_active q) tenant) 0"

definition route_task_meta :: "string \<Rightarrow> string \<Rightarrow> string \<Rightarrow> nat \<Rightarrow> bool \<Rightarrow> json" where
  "route_task_meta tenant path meth priority remote =
     JObj [(''tenant_id'', JStr tenant), (''path'', JStr path), (''method'', JStr meth),
           (''priority'', JNum priority), (''remote'', JBool remote)]"

definition enqueue_route_task ::
  "RouterConfig \<Rightarrow> clock \<Rightarrow> nat \<Rightarrow> string \<Rightarrow> string \<Rightarrow> json \<Rightarrow> string option \<Rightarrow> nat \<Rightarrow> string option \<Rightarrow>
   route_state \<Rightarrow> (ToolError + json) \<times> route_state" where
  "enqueue_route_task cfg clk inst path meth params tenant_id priority dedupe_key st =
     (case st of (q, reg) \<Rightarrow>
      let tenant = normalize_tenant tenant_id in
      if length (rq_queued q) \<ge> max_queued_tasks cfg then (Inl Busy, q, reg)
      else if rq_count q tenant \<ge> max_tasks_per_tenant cfg then (Inl Busy, q, reg)
      else
        (case create_with_key clk ''job'' dedupe_key (''Queued '' @ meth) reg of (created, reg1) \<Rightarrow>
         let task_id = (case created of Inr i \<Rightarrow> i | Inl existing \<Rightarrow> existing);
             reg2 = merge_meta clk task_id (route_task_meta tenant path meth priority False) reg1;
             q' = (if task_get reg2 task_id \<noteq> None \<and> hm_get (rq_active q) task_id = None then
                     q\<lparr>rq_queued := sort_key qr_key (rq_queued q @
                       [\<lparr>qr_task_id = task_id, qr_path = path, qr_method = meth, qr_params = params,
                         qr_tenant_id = tenant, qr_priority = priority, qr_enqueued_at = inst\<rparr>])\<rparr>
                   else q)
         in (Inr (JObj [(''task_id'', JStr task_id), (''status'', JStr ''queued''), (''path'', JStr path),
               (''method'', JStr meth), (''tenant_id'', JStr tenant), (''priority'', JNum priority)]),
             q', reg2)))"

definition cancel_task :: "clock \<Rightarrow> string \<Rightarrow> route_state \<Rightarrow> bool \<times> route_state" where
  "cancel_task clk task_id st =
     (case st of (q, reg) \<Rightarrow>
      case task_cancel clk task_id reg of
        ((True, _), reg') \<Rightarrow> (True, q, reg')
      | ((False, _), reg') \<Rightarrow>
          (case position (\<lambda>task. qr_task_id task = task_id) (rq_queued q) of
             Some idx \<Rightarrow> (True, q\<lparr>rq_queued := remove_at idx (rq_queued q)\<rparr>,
                          task_fail clk task_id ''Cancelled before execution'' reg')
           | None \<Rightarrow> (False, q, reg')))"

definition start_route ::
  "RouterConfig \<Rightarrow> clock \<Rightarrow> nat \<Rightarrow> route_state \<Rightarrow> QueuedRouteTask option \<times> route_state" where
  "start_route cfg clk inst st =
     (case st of (q, reg) \<Rightarrow>
      if length (rq_active q) \<ge> max_active_tasks cfg then (None, q, reg)
      else
        (case position (\<lambda>task. rq_count q (qr_tenant_id task) < max_tasks_per_tenant cfg) (rq_queued q) of
           None \<Rightarrow> (None, q, reg)
         | Some idx \<Rightarrow>
             let task = rq_queued q ! idx in
             (Some task,
              q\<lparr>rq_queued := remove_at idx (rq_queued q),
                rq_tenant_active := count_up (qr_tenant_id task) (rq_tenant_active q),
                rq_active := hm_insert (qr_task_id task)
                  \<lparr>ar_task_id = qr_task_id task, ar_path = qr_path task, ar_method = qr_method task,
                   ar_tenant_id = qr_tenant_id task, ar_priority = qr_priority task,
                   ar_started_at = inst\<rparr> (rq_active q)\<rparr>,
              update_message clk (qr_task_id task) (''Running '' @ qr_method task) reg)))"

lemma start_route_shrinks:
  "start_route cfg clk inst st = (Some t, st') \<Longrightarrow> length (rq_queued (fst st')) < length (rq_queued (fst st))"
  by (auto simp: start_route_def Let_def position_Some length_remove_at split: if_splits option.splits prod.splits)

function drive_route_queue ::
  "RouterConfig \<Rightarrow> clock \<Rightarrow> nat \<Rightarrow> route_state \<Rightarrow> QueuedRouteTask list \<times> route_state" where
  "drive_route_queue cfg clk inst st =
     (case start_route cfg clk inst st of
        (None, _) \<Rightarrow> ([], st)
      | (Some t, st') \<Rightarrow> (t # fst (drive_route_queue cfg clk inst st'), snd (drive_route_queue cfg clk inst st')))"
  by pat_completeness auto
termination
  by (relation "measure (\<lambda>(cfg, clk, inst, st). length (rq_queued (fst st)))")
    (auto dest: start_route_shrinks[OF sym])

declare drive_route_queue.simps [simp del]

definition route_task_done :: "QueuedRouteTask \<Rightarrow> route_state \<Rightarrow> route_state" where
  "route_task_done task st =
     (case st of (q, reg) \<Rightarrow>
      (q\<lparr>rq_active := hm_remove (qr_task_id task) (rq_active q),
         rq_tenant_active := count_down (qr_tenant_id task) (rq_tenant_active q)\<rparr>, reg))"

definition settle_route_task ::
  "clock \<Rightarrow> ToolError + json \<Rightarrow> QueuedRouteTask \<Rightarrow> route_state \<Rightarrow> route_state" where
  "settle_route_task clk result task st =
     (case st of (q, reg) \<Rightarrow>
      (q, case result of
            Inr value \<Rightarrow> task_complete clk (qr_task_id task) value reg
          | Inl err \<Rightarrow> task_fail clk (qr_task_id task) (tool_error_to_string err) reg))"


subsection \<open>The queue contract\<close>

lemma start_route_Some:
  assumes "start_route cfg clk inst st = (Some t, st')"
  obtains i a where "i < length (rq_queued (fst st))" "t = rq_queued (fst st) ! i"
    "length (rq_active (fst st)) < max_active_tasks cfg"
    "rq_count (fst st) (qr_tenant_id t) < max_tasks_per_tenant cfg"
    "\<forall>j < i. max_tasks_per_tenant cfg \<le> rq_count (fst st) (qr_tenant_id (rq_queued (fst st) ! j))"
    "rq_queued (fst st') = remove_at i (rq_queued (fst st))"
    "rq_active (fst st') = hm_insert (qr_task_id t) a (rq_active (fst st))"
    "rq_tenant_active (fst st') = count_up (qr_tenant_id t) (rq_tenant_active (fst st))"
    "snd st' = update_message clk (qr_task_id t) (''Running '' @ qr_method t) (snd st)"
proof -
  obtain q reg where st: "st = (q, reg)" by (cases st)
  have a: "length (rq_active q) < max_active_tasks cfg"
    using assms by (auto simp: start_route_def st split: if_splits)
  obtain i where p: "position (\<lambda>task. rq_count q (qr_tenant_id task) < max_tasks_per_tenant cfg) (rq_queued q) = Some i"
    using assms a by (auto simp: start_route_def st split: option.splits)
  have t: "t = rq_queued q ! i" using assms a p by (auto simp: start_route_def st Let_def)
  show ?thesis
    by (rule that[of i]) (use assms a p t in \<open>auto simp: start_route_def st Let_def position_Some not_less\<close>)
qed

interpretation route: tenant_queue "\<lambda>st. rq_queued (fst st)" qr_tenant_id "\<lambda>st. rq_count (fst st)"
  "\<lambda>st. length (rq_active (fst st))" "max_active_tasks cfg" "max_tasks_per_tenant cfg"
  "start_route cfg clk inst" route_task_done "drive_route_queue cfg clk inst" for cfg clk inst
proof
  show "start_route cfg clk inst s = (None, s') \<Longrightarrow> s' = s \<and>
      (max_active_tasks cfg \<le> length (rq_active (fst s)) \<or>
       (\<forall>t \<in> set (rq_queued (fst s)). max_tasks_per_tenant cfg \<le> rq_count (fst s) (qr_tenant_id t)))" for s s'
    by (cases s) (auto simp: start_route_def Let_def position_None not_less split: if_splits option.splits)
  show "start_route cfg clk inst s = (Some t, s') \<Longrightarrow>
      length (rq_active (fst s)) < max_active_tasks cfg \<and>
      rq_count (fst s) (qr_tenant_id t) < max_tasks_per_tenant cfg \<and>
      (\<exists>i < length (rq_queued (fst s)). t = rq_queued (fst s) ! i \<and>
         rq_queued (fst s') = remove_at i (rq_queued (fst s)) \<and>
         (\<forall>j < i. max_tasks_per_tenant cfg \<le> rq_count (fst s) (qr_tenant_id (rq_queued (fst s) ! j)))) \<and>
      rq_count (fst s') = (rq_count (fst s))(qr_tenant_id t := Suc (rq_count (fst s) (qr_tenant_id t)))" for s t s'
    by (erule start_route_Some) (auto simp: rq_count_def count_up_get)
  show "rq_queued (fst (route_task_done t s)) = rq_queued (fst s)" for t s
    by (simp add: route_task_done_def case_prod_beta)
  show "rq_count (fst (route_task_done t s)) =
      (rq_count (fst s))(qr_tenant_id t := rq_count (fst s) (qr_tenant_id t) - 1)" for t s
    by (auto simp: route_task_done_def case_prod_beta rq_count_def count_down_get)
  show "drive_route_queue cfg clk inst s =
      (case start_route cfg clk inst s of
         (None, _) \<Rightarrow> ([], s)
       | (Some t, s') \<Rightarrow> (t # fst (drive_route_queue cfg clk inst s'), snd (drive_route_queue cfg clk inst s')))" for s
    by (rule drive_route_queue.simps)
qed

subsection \<open>Reachable states\<close>

text \<open>
  \<open>R\<close> lists the tasks that run, \<open>S\<close> those that have left the queue and whose task is not settled
  yet. The registry is shared, so that other operations on it may come at any time.
\<close>

inductive route_reachable ::
  "RouterConfig \<Rightarrow> route_state \<Rightarrow> QueuedRouteTask list \<Rightarrow> QueuedRouteTask list \<Rightarrow> bool"
  for cfg :: RouterConfig where
  rt_new: "route_reachable cfg (new_route_queue, new_registry) [] []"
| rt_enqueue: "route_reachable cfg st R S \<Longrightarrow>
     enqueue_route_task cfg clk inst path meth params tenant priority key st = (res, st') \<Longrightarrow>
     route_reachable cfg st' R S"
| rt_cancel: "route_reachable cfg st R S \<Longrightarrow> cancel_task clk tid st = (res, st') \<Longrightarrow> route_reachable cfg st' R S"
| rt_start: "route_reachable cfg st R S \<Longrightarrow> start_route cfg clk inst st = (Some t, st') \<Longrightarrow>
     route_reachable cfg st' (t # R) S"
| rt_done: "route_reachable cfg st R S \<Longrightarrow> t \<in> set R \<Longrightarrow>
     route_reachable cfg (route_task_done t st) (remove1 t R) (t # S)"
| rt_settle: "route_reachable cfg st R S \<Longrightarrow> t \<in> set S \<Longrightarrow>
     route_reachable cfg (settle_route_task clk result t st) R (remove1 t S)"
| rt_registry: "route_reachable cfg (q, reg) R S \<Longrightarrow> task_step reg reg' \<Longrightarrow> route_reachable cfg (q, reg') R S"

definition route_ok :: "RouterConfig \<Rightarrow> RouteQueueState \<Rightarrow> QueuedRouteTask list \<Rightarrow> bool" where
  "route_ok cfg q R \<longleftrightarrow>
     (\<forall>reg. route.counts_ok cfg (q, reg) (mset R)) \<and> hm_ok (rq_active q) \<and>
     set (hm_keys (rq_active q)) \<subseteq> set (map qr_task_id R) \<and>
     length (rq_active q) \<le> max_active_tasks cfg \<and> length (rq_queued q) \<le> max_queued_tasks cfg \<and>
     sorted (map qr_key (rq_queued q))"

lemma route_counts_cong:
  "route.counts_ok cfg st M \<Longrightarrow> rq_count (fst st') = rq_count (fst st) \<Longrightarrow> route.counts_ok cfg st' M"
  by (rule route.counts_ok_tcount)

lemma route_counts_fst: "route.counts_ok cfg (q, reg) M \<longleftrightarrow> route.counts_ok cfg (q, reg') M"
  by (simp add: route.counts_ok_def)

lemma enqueue_route_task_fst:
  assumes "enqueue_route_task cfg clk inst path meth params tenant priority key (q, reg) = (res, q', reg')"
  shows "q' = q \<or> (length (rq_queued q) < max_queued_tasks cfg \<and>
     (\<exists>t. q' = q\<lparr>rq_queued := sort_key qr_key (rq_queued q @ [t])\<rparr>))"
  using assms by (auto simp: enqueue_route_task_def Let_def split: if_splits prod.splits sum.splits)

lemma cancel_task_fst:
  assumes "cancel_task clk tid (q, reg) = (res, q', reg')"
  shows "q' = q \<or> (\<exists>i < length (rq_queued q). q' = q\<lparr>rq_queued := remove_at i (rq_queued q)\<rparr>)"
  using assms by (auto simp: cancel_task_def position_Some split: prod.splits bool.splits option.splits)

lemma route_ok_queued:
  assumes "route_ok cfg q R" "length ts \<le> max_queued_tasks cfg" "sorted (map qr_key ts)"
  shows "route_ok cfg (q\<lparr>rq_queued := ts\<rparr>) R"
proof -
  have "rq_count (q\<lparr>rq_queued := ts\<rparr>) = rq_count q" by (simp add: rq_count_def fun_eq_iff)
  then have "route.counts_ok cfg (q\<lparr>rq_queued := ts\<rparr>, reg) (mset R)" for reg
    using assms(1) route_counts_cong[of cfg "(q, reg)" "mset R"] by (simp add: route_ok_def)
  then show ?thesis using assms by (simp add: route_ok_def)
qed

lemma route_ok_start:
  assumes "route_ok cfg (fst st) R" "start_route cfg clk inst st = (Some t, st')"
  shows "route_ok cfg (fst st') (t # R)"
  using assms(2)
proof (rule start_route_Some)
  fix i a
  assume i: "i < length (rq_queued (fst st))" "length (rq_active (fst st)) < max_active_tasks cfg"
    and q: "rq_queued (fst st') = remove_at i (rq_queued (fst st))"
    and act: "rq_active (fst st') = hm_insert (qr_task_id t) a (rq_active (fst st))"
  have "route.counts_ok cfg st (mset R)" using assms(1) by (cases st) (simp add: route_ok_def)
  from route.counts_ok_start[OF this assms(2)]
  have "route.counts_ok cfg (fst st', reg) (mset (t # R))" for reg
    using route_counts_fst[of cfg "fst st'" "snd st'" _ reg] by simp
  moreover have "length (rq_active (fst st')) \<le> max_active_tasks cfg"
    using i(2) hm_length_insert_le[of "qr_task_id t" a "rq_active (fst st)"] by (simp add: act)
  moreover have "length (rq_queued (fst st')) \<le> max_queued_tasks cfg"
    using assms(1) length_remove_at[OF i(1)] unfolding route_ok_def q by linarith
  moreover have "set (hm_keys (rq_active (fst st'))) \<subseteq> set (map qr_task_id (t # R))"
  proof -
    have "set (hm_keys (rq_active (fst st'))) = insert (qr_task_id t) (set (hm_keys (rq_active (fst st))))"
      by (simp only: act hm_keys_dom hm_simps dom_fun_upd) simp
    then show ?thesis using assms(1) by (auto simp: route_ok_def)
  qed
  ultimately show ?thesis using assms(1) by (simp add: route_ok_def act q sorted_remove_at)
qed

lemma route_ok_done:
  assumes "route_ok cfg (fst st) R" "t \<in> set R"
  shows "route_ok cfg (fst (route_task_done t st)) (remove1 t R)"
proof -
  let ?st = "route_task_done t st"
  have "route.counts_ok cfg st (mset R)" using assms(1) by (cases st) (simp add: route_ok_def)
  from route.counts_ok_finish[OF this, of t] assms(2)
  have c: "route.counts_ok cfg (fst ?st, reg) (mset (remove1 t R))" for reg
    using route_counts_fst[of cfg "fst ?st" "snd ?st" _ reg] by simp
  have "set (hm_keys (rq_active (fst ?st))) = set (hm_keys (rq_active (fst st))) - {qr_task_id t}"
    by (simp add: route_task_done_def case_prod_beta delete_keys del: set_map)
  moreover have "set (map qr_task_id R) - {qr_task_id t} \<subseteq> set (map qr_task_id (remove1 t R))"
    by (induction R) auto
  moreover have l: "length (rq_active (fst ?st)) \<le> max_active_tasks cfg" "hm_ok (rq_active (fst ?st))"
    using assms(1) hm_length_remove_le[of "qr_task_id t" "rq_active (fst st)"]
    by (auto simp: route_ok_def route_task_done_def case_prod_beta)
  moreover have "set (hm_keys (rq_active (fst st))) \<subseteq> set (map qr_task_id R)"
    using assms(1) unfolding route_ok_def by blast
  ultimately have "set (hm_keys (rq_active (fst ?st))) \<subseteq> set (map qr_task_id (remove1 t R))" by blast
  then show ?thesis
    using assms(1) c l by (simp add: route_ok_def route_task_done_def case_prod_beta)
qed

lemma route_reachable_ok: "route_reachable cfg st R S \<Longrightarrow> route_ok cfg (fst st) R"
proof (induction rule: route_reachable.induct)
  case rt_new
  then show ?case by (simp add: route_ok_def route.counts_ok_def new_route_queue_def rq_count_def unwrap_or_def)
next
  case (rt_enqueue st R S clk inst path meth params tenant priority key res st')
  obtain q reg q' reg' where st: "st = (q, reg)" "st' = (q', reg')" by (cases st; cases st')
  from enqueue_route_task_fst[of cfg clk inst path meth params tenant priority key q reg res q' reg'] rt_enqueue
  show ?case unfolding st by (auto intro!: route_ok_queued)
next
  case (rt_cancel st R S clk tid res st')
  obtain q reg q' reg' where st: "st = (q, reg)" "st' = (q', reg')" by (cases st; cases st')
  have "length (rq_queued q) \<le> max_queued_tasks cfg" "sorted (map qr_key (rq_queued q))"
    using rt_cancel.IH by (simp_all add: st route_ok_def)
  with cancel_task_fst[of clk tid q reg res q' reg'] rt_cancel
  show ?case unfolding st by (auto intro!: route_ok_queued simp: sorted_remove_at length_remove_at)
next
  case (rt_settle st R S t clk result)
  then show ?case by (simp add: settle_route_task_def case_prod_beta)
qed (auto intro: route_ok_start route_ok_done)

lemma enqueue_route_task_registry:
  assumes "enqueue_route_task cfg clk inst path meth params tenant priority key (q, reg) = (res, q', reg')"
  shows "task_steps reg reg'"
proof -
  obtain c reg1 where c: "create_internal clk ''job'' key (''Queued '' @ meth) None reg = (c, reg1)" by fastforce
  have "task_step reg reg1" using c by (rule step_create)
  moreover have "task_step reg1 (merge_meta clk tid m reg1)" for tid m by (rule step_meta)
  ultimately have "task_steps reg (merge_meta clk tid m reg1)" for tid m by (meson converse_rtranclp_into_rtranclp r_into_rtranclp)
  then show ?thesis
    using assms c by (auto simp: enqueue_route_task_def create_with_key_def Let_def split: if_splits)
qed

lemma cancel_task_registry:
  assumes "cancel_task clk tid (q, reg) = (res, q', reg')"
  shows "task_steps reg reg'"
proof -
  obtain b h reg1 where c: "task_cancel clk tid reg = ((b, h), reg1)" by (metis prod_cases3 prod.collapse)
  have 1: "task_step reg reg1" using c by (rule step_cancel)
  moreover have "task_step reg1 (task_fail clk tid m reg1)" for m by (rule step_fail)
  ultimately have "task_steps reg (task_fail clk tid m reg1)" for m by (meson converse_rtranclp_into_rtranclp r_into_rtranclp)
  then show ?thesis
    using assms c 1 by (auto simp: cancel_task_def split: bool.splits option.splits)
qed

lemma route_reachable_registry: "route_reachable cfg st R S \<Longrightarrow> task_steps new_registry (snd st)"
proof (induction rule: route_reachable.induct)
  case (rt_enqueue st R S clk inst path meth params tenant priority key res st')
  have "task_steps (snd st) (snd st')"
    using rt_enqueue.hyps(2) by (cases st; cases st') (auto dest: enqueue_route_task_registry)
  then show ?case using rt_enqueue.IH by (rule rtranclp_trans[rotated])
next
  case (rt_cancel st R S clk tid res st')
  have "task_steps (snd st) (snd st')"
    using rt_cancel.hyps(2) by (cases st; cases st') (auto dest: cancel_task_registry)
  then show ?case using rt_cancel.IH by (rule rtranclp_trans[rotated])
next
  case (rt_start st R S clk inst t st')
  from rt_start.hyps(2) have "snd st' = update_message clk (qr_task_id t) (''Running '' @ qr_method t) (snd st)"
    by (rule start_route_Some)
  then have "task_step (snd st) (snd st')" by (simp add: step_message)
  then show ?case using rt_start.IH by (rule rtranclp.rtrancl_into_rtrancl[rotated])
next
  case (rt_settle st R S t clk result)
  have "task_step (snd st) (snd (settle_route_task clk result t st))"
    by (cases st; cases result) (simp_all add: settle_route_task_def step_complete step_fail)
  then show ?case using rt_settle.IH by (rule rtranclp.rtrancl_into_rtrancl[rotated])
qed (auto simp: route_task_done_def case_prod_beta)

subsection \<open>Concrete runs\<close>

text \<open>A run of the queue on concrete operations, with the oldest running task finishing first.\<close>

datatype route_op = OpEnqueue string "string option" | OpStart | OpDone

fun run_op :: "RouterConfig \<Rightarrow> route_op \<Rightarrow> route_state \<times> QueuedRouteTask list \<times> QueuedRouteTask list \<Rightarrow>
  route_state \<times> QueuedRouteTask list \<times> QueuedRouteTask list" where
  "run_op cfg (OpEnqueue path key) (st, R, S) =
     (snd (enqueue_route_task cfg (0, 0) 0 path ''m'' JNull None 0 key st), R, S)"
| "run_op cfg OpStart (st, R, S) =
     (case start_route cfg (0, 0) 0 st of (Some t, st') \<Rightarrow> (st', t # R, S) | (None, _) \<Rightarrow> (st, R, S))"
| "run_op cfg OpDone (st, R, S) =
     (case R of [] \<Rightarrow> (st, R, S) | t # R' \<Rightarrow> (route_task_done t st, R', t # S))"

definition run_ops :: "RouterConfig \<Rightarrow> route_op list \<Rightarrow>
  route_state \<times> QueuedRouteTask list \<times> QueuedRouteTask list" where
  "run_ops cfg ops = fold (run_op cfg) ops ((new_route_queue, new_registry), [], [])"

lemma run_op_reachable:
  assumes "route_reachable cfg st R S" "run_op cfg op (st, R, S) = (st', R', S')"
  shows "route_reachable cfg st' R' S'"
proof (cases op)
  case (OpEnqueue path key)
  then show ?thesis using assms by (auto intro: rt_enqueue[OF _ prod.collapse[symmetric]])
next
  case OpStart
  then show ?thesis using assms by (auto intro: rt_start split: prod.splits option.splits)
next
  case OpDone
  show ?thesis
  proof (cases R)
    case (Cons t R1)
    then show ?thesis using rt_done[OF assms(1), of t] assms OpDone by simp
  qed (use assms OpDone in simp)
qed

lemma fold_run_op_reachable:
  "route_reachable cfg st R S \<Longrightarrow> fold (run_op cfg) ops (st, R, S) = (st', R', S') \<Longrightarrow> route_reachable cfg st' R' S'"
proof (induction ops arbitrary: st R S)
  case (Cons op ops)
  obtain st1 R1 S1 where 1: "run_op cfg op (st, R, S) = (st1, R1, S1)" by (metis prod_cases3)
  show ?case using Cons.IH[OF run_op_reachable[OF Cons.prems(1) 1]] Cons.prems(2) 1 by simp
qed simp

lemma run_ops_reachable: "run_ops cfg ops = (st, R, S) \<Longrightarrow> route_reachable cfg st R S"
  unfolding run_ops_def by (rule fold_run_op_reachable[OF rt_new])

subsection \<open>Correctness of the route queue\<close>

text \<open>
  C20. In every state of the route queue and its registry, under any interleaving of enqueueing,
  cancelling, starting, finishing and settling, the count kept for a tenant is the number of its
  running tasks and within its limit, every active entry belongs to a running task, the waiting
  tasks are within the queue's limit and in order of priority and then of age, and the registry
  satisfies its own invariant.
\<close>

theorem route_queue_invariant:
  assumes "route_reachable cfg (q, reg) R S"
  shows "length (filter (\<lambda>t. qr_tenant_id t = tenant) R) = rq_count q tenant \<and>
    rq_count q tenant \<le> max_tasks_per_tenant cfg \<and>
    set (hm_keys (rq_active q)) \<subseteq> set (map qr_task_id R) \<and>
    length (rq_active q) \<le> max_active_tasks cfg \<and> length (rq_queued q) \<le> max_queued_tasks cfg \<and>
    (\<forall>i j. i < j \<and> j < length (rq_queued q) \<longrightarrow>
       qr_priority (rq_queued q ! i) > qr_priority (rq_queued q ! j) \<or>
       (qr_priority (rq_queued q ! i) = qr_priority (rq_queued q ! j) \<and>
        qr_enqueued_at (rq_queued q ! i) \<le> qr_enqueued_at (rq_queued q ! j))) \<and>
    registry_ok reg"
proof -
  have ok: "route_ok cfg q R" using route_reachable_ok[OF assms] by simp
  then have "route.counts_ok cfg (q, reg) (mset R)" unfolding route_ok_def by blast
  then have "rq_count q tenant = size (filter_mset (\<lambda>t. qr_tenant_id t = tenant) (mset R))"
    "size (filter_mset (\<lambda>t. qr_tenant_id t = tenant) (mset R)) \<le> max_tasks_per_tenant cfg"
    unfolding route.counts_ok_def by simp_all
  moreover have "size (filter_mset (\<lambda>t. qr_tenant_id t = tenant) (mset R)) =
      length (filter (\<lambda>t. qr_tenant_id t = tenant) R)"
    by (metis mset_filter size_mset)
  moreover have "qr_priority (rq_queued q ! i) > qr_priority (rq_queued q ! j) \<or>
       (qr_priority (rq_queued q ! i) = qr_priority (rq_queued q ! j) \<and>
        qr_enqueued_at (rq_queued q ! i) \<le> qr_enqueued_at (rq_queued q ! j))"
    if "i < j" "j < length (rq_queued q)" for i j
    using ok that sorted_nth_mono[of "map qr_key (rq_queued q)" i j]
    by (auto simp: route_ok_def qr_key_def queue_key_def less_eq_prod_def)
  moreover have "registry_ok reg"
    using task_steps_registry_ok[OF route_reachable_registry[OF assms] ] registry_ok_new by simp
  ultimately show ?thesis using ok unfolding route_ok_def by auto
qed

definition sample_route_config :: RouterConfig where
  "sample_route_config = sample_prewarm_config\<lparr>max_active_tasks := 2\<rparr>"

lemma sample_route_config_limits [simp]:
  "max_active_tasks sample_route_config = 2" "max_queued_tasks sample_route_config = 512"
  "max_tasks_per_tenant sample_route_config = 8"
  by (simp_all add: sample_route_config_def sample_prewarm_config_def from_env_def unwrap_or_def env_positive_def
      env_u64_def Let_def)

definition sample_route_ops :: "route_op list" where
  "sample_route_ops =
     [OpEnqueue ''x'' None, OpEnqueue ''y'' None, OpStart, OpStart,
      OpEnqueue ''a'' (Some ''k''), OpEnqueue ''a'' (Some ''k''), OpDone, OpDone,
      OpEnqueue ''b'' None, OpStart, OpStart, OpStart]"

definition sample_route_run :: "route_state \<times> QueuedRouteTask list \<times> QueuedRouteTask list" where
  "sample_route_run = run_ops sample_route_config sample_route_ops"

text \<open>Time stamps stay symbolic when a run is evaluated.\<close>

declare iso_now_def [code del]

lemma sample_route_run_values:
  "map qr_path (fst (snd sample_route_run)) = [''b'', ''a'', ''a''] \<and>
   map qr_task_id (fst (snd sample_route_run)) = [''job-4'', ''job-3'', ''job-3''] \<and>
   map qr_tenant_id (fst (snd sample_route_run)) = [''default'', ''default'', ''default''] \<and>
   hm_keys (rq_active (fst (fst sample_route_run))) = [''job-3'', ''job-4'']"
  by code_simp

lemma sample_route_run_reachable:
  obtains q reg R S where "sample_route_run = ((q, reg), R, S)" "route_reachable sample_route_config (q, reg) R S"
proof -
  obtain q reg R S where r: "sample_route_run = ((q, reg), R, S)" by (metis prod.collapse)
  have "route_reachable sample_route_config (q, reg) R S"
    using r unfolding sample_route_run_def by (rule run_ops_reachable)
  with r show ?thesis by (rule that)
qed

theorem route_queue_invariant_witness:
  "rq_count (fst (fst sample_route_run)) ''default'' = 3 \<and> 3 \<le> max_tasks_per_tenant sample_route_config"
proof -
  obtain q reg R S where r: "sample_route_run = ((q, reg), R, S)" "route_reachable sample_route_config (q, reg) R S"
    by (rule sample_route_run_reachable)
  note inv = route_queue_invariant[OF r(2), of "''default''"]
  have "length (filter (\<lambda>t. qr_tenant_id t = ''default'') R) = 3"
    using sample_route_run_values by (auto simp: r(1) map_eq_Cons_conv)
  then show ?thesis using inv by (simp add: r(1))
qed

text \<open>
  C21. The limit on running tasks does not hold: a request with the deduplication key of a task
  that still waits is queued again under the same task id, both entries are started and share one
  active entry, and so three tasks run where the configuration allows two.
\<close>

theorem route_active_limit_exceeded:
  "\<exists>q reg R S. route_reachable sample_route_config (q, reg) R S \<and>
     length R = 3 \<and> length (rq_active q) = 2 \<and> max_active_tasks sample_route_config = 2 \<and>
     \<not> distinct (map qr_task_id R)"
proof -
  obtain q reg R S where r: "sample_route_run = ((q, reg), R, S)" "route_reachable sample_route_config (q, reg) R S"
    by (rule sample_route_run_reachable)
  have ids: "map qr_task_id R = [''job-4'', ''job-3'', ''job-3'']" "hm_keys (rq_active q) = [''job-3'', ''job-4'']"
    using sample_route_run_values by (simp_all add: r(1))
  have "length R = 3" using arg_cong[OF ids(1), of length] by simp
  moreover have "length (rq_active q) = 2" using arg_cong[OF ids(2), of length] by simp
  moreover have "\<not> distinct (map qr_task_id R)" unfolding ids(1) by simp
  ultimately show ?thesis using r(2) by (intro exI conjI) simp_all
qed

text \<open>
  C23. Driving the route queue always stops; every task is started or still waits, and when it
  stops the limit of active tasks is reached or every waiting task's tenant is at its own limit.
\<close>

theorem drive_route_work_conserving:
  assumes "drive_route_queue cfg clk inst (q, reg) = (started, q', reg')"
  shows "mset (rq_queued q) = mset started + mset (rq_queued q') \<and>
    (length (rq_active q') \<ge> max_active_tasks cfg \<or>
     (\<forall>t \<in> set (rq_queued q'). rq_count q' (qr_tenant_id t) \<ge> max_tasks_per_tenant cfg))"
  using route.drive_spec[OF assms] by simp

theorem drive_route_work_conserving_witness:
  "\<exists>q' reg'. drive_route_queue sample_route_config (0, 0) 4 (new_route_queue, new_registry) = ([], q', reg') \<and>
     rq_queued q' = []"
proof -
  have d: "drive_route_queue sample_route_config (0, 0) 4 (new_route_queue, new_registry) =
      ([], new_route_queue, new_registry)"
    by (subst drive_route_queue.simps) (simp add: start_route_def new_route_queue_def)
  show ?thesis using drive_route_work_conserving[OF d] d by (simp add: new_route_queue_def)
qed

text \<open>
  C22. Cancelling a task whose state is running, which a waiting task's is, reports success and
  marks it in the registry, but leaves the queue as it was: the queue starts the same task next as
  it would have without the cancellation, and when it is done its result replaces the mark.
\<close>

theorem cancelled_queued_task_runs:
  assumes "task_get reg tid = Some s" "ts_status s = Running"
  shows "\<exists>reg'. cancel_task clk tid (q, reg) = (True, q, reg') \<and>
    (\<forall>s'. task_get reg' tid = Some s' \<longrightarrow> ts_status s' = Cancelled) \<and>
    fst (start_route cfg clk inst (q, reg')) = fst (start_route cfg clk inst (q, reg)) \<and>
    (\<forall>t s'. qr_task_id t = tid \<and> task_get (snd (settle_route_task clk (Inr v) t (q, reg'))) tid = Some s' \<longrightarrow>
       ts_status s' = Completed \<and> ts_result s' = Some v)"
proof -
  obtain e where e: "map_of (tr_entries reg) tid = Some e" "s = te_state e"
    using assms(1) by (auto simp: task_get_def)
  obtain h reg' where c: "task_cancel clk tid reg = ((True, h), reg')"
    using e assms(2) by (auto simp: task_cancel_def)
  have "cancel_task clk tid (q, reg) = (True, q, reg')" by (simp add: cancel_task_def c)
  moreover have "ts_status s' = Cancelled" if "task_get reg' tid = Some s'" for s'
    using c that e assms(2)
    by (auto simp: task_cancel_def task_get_def prune_get hm_simps split: if_splits)
  moreover have "fst (start_route cfg clk inst (q, reg')) = fst (start_route cfg clk inst (q, reg))"
    by (simp add: start_route_def Let_def split: option.split)
  moreover have "ts_status s' = Completed \<and> ts_result s' = Some v"
    if "qr_task_id t = tid" "task_get (snd (settle_route_task clk (Inr v) t (q, reg'))) tid = Some s'" for t s'
    using that by (auto simp: settle_route_task_def task_complete_def task_get_def prune_get hm_simps
        refresh_updated_def now_with_iso_def split: if_splits)
  ultimately show ?thesis by blast
qed

theorem cancelled_queued_task_runs_witness:
  "\<exists>reg'. cancel_task (0, 0) ''job-1''
      (new_route_queue, snd (create_with_key (0, 0) ''job'' None ''m'' new_registry)) = (True, new_route_queue, reg')"
proof -
  let ?reg = "snd (create_with_key (0, 0) ''job'' None ''m'' new_registry)"
  have "map_option ts_status (task_get ?reg ''job-1'') = Some Running" by code_simp
  then obtain s where "task_get ?reg ''job-1'' = Some s" "ts_status s = Running" by auto
  from cancelled_queued_task_runs[OF this, of "(0, 0)" new_route_queue] show ?thesis by blast
qed



end
