(* ===== verification/Evict_Scan.thy ===== *)
theory Evict_Scan
  imports Prelude "HOL-Library.Sublist"
begin

text \<open>
  The contract that the two disk caches share. A pass over the items, oldest first, evicts one
  after the other until the total is within the limit; a pinned item is passed over. The caches
  rely on the pass stopping as soon as it may and on pinned items surviving; both are proved here
  once, for the database store and the response cache.
\<close>

locale evict_scan =
  fixes bytes :: "'i \<Rightarrow> nat"
    and pinned :: "'i \<Rightarrow> bool"
    and limit :: nat
    and scan :: "nat \<Rightarrow> 'i list \<Rightarrow> 'i list \<times> nat"
  assumes scan_Nil: "scan size_now [] = ([], size_now)"
    and scan_Cons: "scan size_now (x # xs) =
      (if size_now \<le> limit then ([], size_now)
       else if pinned x then scan size_now xs
       else (x # fst (scan (size_now - bytes x) xs), snd (scan (size_now - bytes x) xs)))"
begin

lemma scan_within: "size_now \<le> limit \<Longrightarrow> scan size_now xs = ([], size_now)"
  by (cases xs) (simp_all add: scan_Nil scan_Cons)

lemma scan_subseq: "scan size_now xs = (ev, size_end) \<Longrightarrow> subseq ev xs \<and> (\<forall>x \<in> set ev. \<not> pinned x)"
proof (induction xs arbitrary: size_now ev)
  case (Cons x xs)
  show ?case
  proof (cases "size_now \<le> limit \<or> pinned x")
    case True
    then show ?thesis using Cons by (auto simp: scan_Cons split: if_splits)
  next
    case False
    obtain ev' where e: "scan (size_now - bytes x) xs = (ev', size_end)" "ev = x # ev'"
      using Cons.prems False by (cases "scan (size_now - bytes x) xs") (auto simp: scan_Cons)
    show ?thesis using Cons.IH[OF e(1)] False e(2) by simp
  qed
qed (simp add: scan_Nil)

lemma scan_total: "scan size_now xs = (ev, size_end) \<Longrightarrow> size_end = size_now - sum_list (map bytes ev)"
proof (induction xs arbitrary: size_now ev)
  case (Cons x xs)
  show ?case
  proof (cases "size_now \<le> limit \<or> pinned x")
    case True
    then show ?thesis using Cons by (auto simp: scan_Cons split: if_splits)
  next
    case False
    obtain ev' where e: "scan (size_now - bytes x) xs = (ev', size_end)" "ev = x # ev'"
      using Cons.prems False by (cases "scan (size_now - bytes x) xs") (auto simp: scan_Cons)
    show ?thesis using Cons.IH[OF e(1)] e(2) by simp
  qed
qed (simp add: scan_Nil)

text \<open>The evicted items are the unpinned items of a prefix, and the shortest such that is enough.\<close>

lemma scan_prefix:
  assumes "scan size_now xs = (ev, size_end)"
  obtains ys zs where "xs = ys @ zs" "ev = filter (\<lambda>x. \<not> pinned x) ys"
    "size_end \<le> limit \<or> (\<forall>z \<in> set zs. pinned z)"
    "ev \<noteq> [] \<longrightarrow> limit < size_now - sum_list (map bytes (butlast ev))"
proof -
  have "\<exists>ys zs. xs = ys @ zs \<and> ev = filter (\<lambda>x. \<not> pinned x) ys \<and>
      (size_end \<le> limit \<or> (\<forall>z \<in> set zs. pinned z)) \<and>
      (ev \<noteq> [] \<longrightarrow> limit < size_now - sum_list (map bytes (butlast ev)))"
    using assms
  proof (induction xs arbitrary: size_now ev)
    case Nil
    then show ?case by (simp add: scan_Nil)
  next
    case (Cons x xs)
    show ?case
    proof (cases "size_now \<le> limit")
      case True
      then show ?thesis using Cons.prems
        by (intro exI[of _ "[]"] exI[of _ "x # xs"]) (simp add: scan_Cons)
    next
      case big: False
      show ?thesis
      proof (cases "pinned x")
        case True
        then have "scan size_now xs = (ev, size_end)" using Cons.prems big by (simp add: scan_Cons)
        from Cons.IH[OF this] obtain ys zs where "xs = ys @ zs" "ev = filter (\<lambda>x. \<not> pinned x) ys"
          "size_end \<le> limit \<or> (\<forall>z \<in> set zs. pinned z)"
          "ev \<noteq> [] \<longrightarrow> limit < size_now - sum_list (map bytes (butlast ev))" by blast
        with True show ?thesis by (intro exI[of _ "x # ys"] exI[of _ zs]) simp
      next
        case False
        obtain ev' where e: "scan (size_now - bytes x) xs = (ev', size_end)" "ev = x # ev'"
          using Cons.prems False big by (cases "scan (size_now - bytes x) xs") (auto simp: scan_Cons)
        from Cons.IH[OF e(1)] obtain ys zs where i: "xs = ys @ zs" "ev' = filter (\<lambda>x. \<not> pinned x) ys"
          "size_end \<le> limit \<or> (\<forall>z \<in> set zs. pinned z)"
          "ev' \<noteq> [] \<longrightarrow> limit < size_now - bytes x - sum_list (map bytes (butlast ev'))" by blast
        have "limit < size_now - sum_list (map bytes (butlast ev))"
          using i(4) e(2) big by (cases "ev' = []") simp_all
        with i False e(2) show ?thesis by (intro exI[of _ "x # ys"] exI[of _ zs]) simp
      qed
    qed
  qed
  then show ?thesis using that by blast
qed

end

end
