(* ===== verification/Disk_Caches.thy ===== *)
theory Disk_Caches
  imports Evict_Scan Json "HOL-Library.Char_ord" "HOL-Library.List_Lexorder" "HOL-Library.Code_Target_Nat"
begin

text \<open>
  The two directories on disk that the program bounds: the store of analysed databases
  (\<open>src/idb_store.rs\<close>) and the cache of large responses (\<open>src/server/response_cache.rs\<close>). A
  directory is the list of its entries in the order of \<open>read_dir\<close>, each with its metadata when
  they can be read. The content hash of a file is an argument, and so are the clock and the
  outcome of writing a file. Sizes are \<open>u64\<close> and their sums saturate.
\<close>

subsection \<open>Sizes and directories\<close>

definition sat_add64 :: "nat \<Rightarrow> nat \<Rightarrow> nat" where
  "sat_add64 a b = min (a + b) (2 ^ 64 - 1)"

record FileMeta =
  fm_is_file :: bool
  fm_len :: nat
  fm_modified :: "nat option"

type_synonym dir = "(string \<times> FileMeta option) list"

text \<open>The regular files whose metadata can be read, with the time \<open>unwrap_or(UNIX_EPOCH)\<close> gives.\<close>

definition dir_files :: "dir \<Rightarrow> (string \<times> nat \<times> nat) list" where
  "dir_files d =
     List.map_filter (\<lambda>(name, meta).
       case meta of
         None \<Rightarrow> None
       | Some m \<Rightarrow> if fm_is_file m then Some (name, fm_len m, unwrap_or (fm_modified m) 0) else None) d"

definition dir_size :: "dir \<Rightarrow> nat" where
  "dir_size d = fold (\<lambda>(_, len, _) t. sat_add64 t len) (dir_files d) 0"

text \<open>The result of \<open>remove_file\<close> is ignored; \<open>removable\<close> says for which files it succeeds.\<close>

definition remove_files :: "(string \<Rightarrow> bool) \<Rightarrow> string list \<Rightarrow> dir \<Rightarrow> dir" where
  "remove_files removable names d = filter (\<lambda>(name, _). \<not> (name \<in> set names \<and> removable name)) d"

subsection \<open>The response cache\<close>

record ResponseCacheEvictionStats =
  rc_evicted_files :: nat
  rc_evicted_bytes :: nat
  rc_remaining_bytes :: nat

fun prune_scan :: "nat \<Rightarrow> nat \<Rightarrow> (string \<times> nat \<times> nat) list \<Rightarrow> (string \<times> nat \<times> nat) list \<times> nat" where
  "prune_scan max_bytes total_size [] = ([], total_size)"
| "prune_scan max_bytes total_size ((path, len, mtime) # files) =
     (if total_size \<le> max_bytes then ([], total_size)
      else ((path, len, mtime) # fst (prune_scan max_bytes (total_size - len) files),
            snd (prune_scan max_bytes (total_size - len) files)))"

definition prune_to_limit :: "(string \<Rightarrow> bool) \<Rightarrow> nat \<Rightarrow> dir \<Rightarrow> ResponseCacheEvictionStats \<times> dir" where
  "prune_to_limit removable max_bytes d =
     (let total_size = dir_size d in
      if total_size \<le> max_bytes then
        (\<lparr>rc_evicted_files = 0, rc_evicted_bytes = 0, rc_remaining_bytes = total_size\<rparr>, d)
      else
        (case prune_scan max_bytes total_size (sort_key (\<lambda>(_, _, mtime). mtime) (dir_files d)) of
           (evicted, total') \<Rightarrow>
             (\<lparr>rc_evicted_files = length evicted,
               rc_evicted_bytes = fold (\<lambda>(_, len, _) t. sat_add64 t len) evicted 0,
               rc_remaining_bytes = total'\<rparr>,
              remove_files removable (map fst evicted) d)))"

definition cache_stats :: "dir \<Rightarrow> nat \<times> nat" where
  "cache_stats d = (length (dir_files d), dir_size d)"

definition COUNTED_KEYS :: "string list" where
  "COUNTED_KEYS = [''strings'', ''functions'', ''exports'', ''imports'', ''segments'', ''xrefs'', ''results'',
     ''items'', ''callgraph'']"

fun first_some :: "('a \<Rightarrow> 'b option) \<Rightarrow> 'a list \<Rightarrow> 'b option" where
  "first_some f [] = None"
| "first_some f (x # xs) = (case f x of Some y \<Rightarrow> Some y | None \<Rightarrow> first_some f xs)"

definition count_items :: "json \<Rightarrow> nat option" where
  "count_items v =
     (case Option.bind (as_object v) (\<lambda>obj.
        first_some (\<lambda>key. map_option length (Option.bind (hm_get obj key) as_array)) COUNTED_KEYS) of
        Some n \<Rightarrow> Some n
      | None \<Rightarrow> map_option length (as_array v))"

text \<open>
  \<open>guard_response_size\<close>: \<open>json_str\<close> is the serialised result, \<open>max_bytes\<close> the limit from the
  environment when it parses, \<open>hash\<close> the 16 hexadecimal digits of the hash of \<open>json_str\<close>,
  \<open>written\<close> says whether the file could be written and \<open>kb\<close> is the size printed in kilobytes.
\<close>

definition CACHE_DIR :: string where
  "CACHE_DIR = ''/tmp/ida-cli-out''"

definition cache_file :: "string \<Rightarrow> string \<Rightarrow> string" where
  "cache_file meth hash = path_join CACHE_DIR (meth @ ''-'' @ hash @ ''.json'')"

definition guard_response_size ::
  "nat option \<Rightarrow> string \<Rightarrow> string \<Rightarrow> bool \<Rightarrow> string \<Rightarrow> string \<Rightarrow> json \<Rightarrow> json \<times> (string \<times> string) option" where
  "guard_response_size max_env json_str hash written kb meth result =
     (let max_bytes = unwrap_or max_env 512; size = length json_str; file = cache_file meth hash in
      if size \<le> max_bytes then (result, None)
      else if \<not> written then (result, None)
      else
        (let item_count = count_items result;
             summary = ''Response too large for inline display ('' @ kb @ ''KB'' @
               (case item_count of Some n \<Rightarrow> '', '' @ fmt_dec n @ '' items'' | None \<Rightarrow> []) @
               ''). Full output saved to: '' @ file @ [char_of (10 :: nat)] @
               ''Use `cat '' @ file @ ''` or Read tool to access the data.''
         in (JObj [(''cached'', JBool True), (''file'', JStr file), (''size_bytes'', JNum size),
               (''item_count'', json_opt (map_option JNum item_count)), (''summary'', JStr summary)],
             Some (file, json_str))))"

subsection \<open>The store of databases\<close>

record IdbEntry =
  ie_hash :: string
  ie_original_path :: string
  ie_binary_type :: string
  ie_size :: nat
  ie_created_at :: string
  ie_last_accessed :: string

text \<open>
  The store: its directory, and the index that \<open>index.json\<close> holds when that file can be read and
  parsed. Writing the index gives its file new metadata, or fails and changes nothing.
\<close>

record IdbStore =
  st_base :: string
  st_dir :: dir
  st_index :: "(string, IdbEntry) hashmap option"

definition read_index :: "IdbStore \<Rightarrow> (string, IdbEntry) hashmap" where
  "read_index s = unwrap_or (st_index s) []"

definition write_index :: "FileMeta option \<Rightarrow> (string, IdbEntry) hashmap \<Rightarrow> IdbStore \<Rightarrow> IdbStore" where
  "write_index outcome index s =
     (case outcome of
        None \<Rightarrow> s
      | Some meta \<Rightarrow> s\<lparr>st_dir := hm_insert ''index.json'' (Some meta) (st_dir s), st_index := Some index\<rparr>)"

text \<open>Removing files takes the index with it when \<open>index.json\<close> is one of them.\<close>

definition store_remove_files :: "(string \<Rightarrow> bool) \<Rightarrow> string list \<Rightarrow> IdbStore \<Rightarrow> IdbStore" where
  "store_remove_files removable names s =
     s\<lparr>st_dir := remove_files removable names (st_dir s),
       st_index := (if ''index.json'' \<in> set names \<and> removable ''index.json'' then None else st_index s)\<rparr>"

definition idb_name :: "string \<Rightarrow> string \<Rightarrow> string" where
  "idb_name basename hash = basename @ ''.'' @ hash @ ''.dylib.i64''"

definition idb_path :: "IdbStore \<Rightarrow> string \<Rightarrow> string \<Rightarrow> string" where
  "idb_path s basename hash = path_join (st_base s) (idb_name basename hash)"

definition hash_pattern :: "string \<Rightarrow> string" where
  "hash_pattern hash = ''.'' @ hash @ ''.''"

definition lookup_by_hash :: "string \<Rightarrow> IdbStore \<Rightarrow> string option" where
  "lookup_by_hash hash s =
     map_option (\<lambda>(name, _). path_join (st_base s) name)
       (find (\<lambda>(name, _). contains name (hash_pattern hash) \<and> ends_with ''.i64'' name) (st_dir s))"

definition record_entry ::
  "FileMeta option \<Rightarrow> nat \<Rightarrow> string \<Rightarrow> string \<Rightarrow> string option \<Rightarrow> nat option \<Rightarrow> IdbStore \<Rightarrow> IdbStore" where
  "record_entry outcome secs hash binary_path extension len s =
     (let index = read_index s;
          now = fmt_dec secs @ ''Z'';
          created = (case hm_get index hash of Some e \<Rightarrow> ie_created_at e | None \<Rightarrow> now);
          entry = \<lparr>ie_hash = hash, ie_original_path = binary_path,
            ie_binary_type = (if extension = Some ''so'' then ''sbpf'' else ''native''),
            ie_size = unwrap_or len 0, ie_created_at = created, ie_last_accessed = now\<rparr>
      in write_index outcome (hm_insert hash entry index) s)"

definition list_entries :: "IdbStore \<Rightarrow> IdbEntry list" where
  "list_entries s = map snd (read_index s)"

record IdbStoreStats =
  ss_root :: string
  ss_file_count :: nat
  ss_entry_count :: nat
  ss_total_size_bytes :: nat

definition store_stats :: "IdbStore \<Rightarrow> IdbStoreStats" where
  "store_stats s = \<lparr>ss_root = st_base s, ss_file_count = length (dir_files (st_dir s)),
     ss_entry_count = length (list_entries s), ss_total_size_bytes = dir_size (st_dir s)\<rparr>"

definition remove_files_by_hash :: "(string \<Rightarrow> bool) \<Rightarrow> string \<Rightarrow> IdbStore \<Rightarrow> IdbStore" where
  "remove_files_by_hash removable hash s =
     store_remove_files removable (filter (\<lambda>name. contains name (hash_pattern hash)) (map fst (st_dir s))) s"

definition remove_entry :: "(string \<Rightarrow> bool) \<Rightarrow> FileMeta option \<Rightarrow> string \<Rightarrow> IdbStore \<Rightarrow> bool \<times> IdbStore" where
  "remove_entry removable outcome hash s =
     (let index = read_index s in
      case hm_get index hash of
        Some _ \<Rightarrow> (True, write_index outcome (hm_remove hash index) (remove_files_by_hash removable hash s))
      | None \<Rightarrow> (False, s))"

definition clean :: "FileMeta option \<Rightarrow> IdbStore \<Rightarrow> IdbEntry list \<times> IdbStore" where
  "clean outcome s =
     (let index = read_index s;
          orphaned = filter (\<lambda>(hash, _). lookup_by_hash hash s = None) index;
          index' = fold (\<lambda>(hash, _) m. hm_remove hash m) orphaned index
      in (map snd orphaned, if orphaned \<noteq> [] then write_index outcome index' s else s))"

subsection \<open>Eviction from the store\<close>

record Group =
  g_files :: "string list"
  g_bytes :: nat
  g_newest_mtime :: nat

definition add_to_group :: "string \<Rightarrow> string \<times> nat \<times> nat \<Rightarrow> (string, Group) hashmap \<Rightarrow> (string, Group) hashmap" where
  "add_to_group base file groups =
     (case file of (name, len, mtime) \<Rightarrow>
      let stem = path_join base (file_stem name);
          g = unwrap_or (hm_get groups stem) \<lparr>g_files = [], g_bytes = 0, g_newest_mtime = 0\<rparr>
      in hm_insert stem \<lparr>g_files = g_files g @ [name], g_bytes = sat_add64 (g_bytes g) len,
           g_newest_mtime = (if mtime > g_newest_mtime g then mtime else g_newest_mtime g)\<rparr> groups)"

definition store_groups :: "string \<Rightarrow> dir \<Rightarrow> (string, Group) hashmap" where
  "store_groups base d = fold (add_to_group base) (dir_files d) []"

text \<open>The \<open>BTreeMap\<close> lists the groups by stem; the sort by time is stable.\<close>

definition ordered_groups :: "string \<Rightarrow> dir \<Rightarrow> (string \<times> Group) list" where
  "ordered_groups base d = sort_key (\<lambda>(_, g). g_newest_mtime g) (sort_key fst (store_groups base d))"

fun evict_groups :: "nat \<Rightarrow> string list \<Rightarrow> nat \<Rightarrow> (string \<times> Group) list \<Rightarrow> (string \<times> Group) list \<times> nat" where
  "evict_groups max_bytes pinned total_size [] = ([], total_size)"
| "evict_groups max_bytes pinned total_size ((stem, grp) # ordered) =
     (if total_size \<le> max_bytes then ([], total_size)
      else if stem \<in> set pinned then evict_groups max_bytes pinned total_size ordered
      else ((stem, grp) # fst (evict_groups max_bytes pinned (total_size - g_bytes grp) ordered),
            snd (evict_groups max_bytes pinned (total_size - g_bytes grp) ordered)))"

record IdbEvictionStats =
  es_evicted_groups :: nat
  es_evicted_files :: nat
  es_evicted_bytes :: nat
  es_remaining_bytes :: nat

definition evict_to_limit ::
  "(string \<Rightarrow> bool) \<Rightarrow> FileMeta option \<Rightarrow> nat \<Rightarrow> string list \<Rightarrow> IdbStore \<Rightarrow> IdbEvictionStats \<times> IdbStore" where
  "evict_to_limit removable outcome max_bytes pinned s =
     (let total_size = dir_size (st_dir s) in
      if total_size \<le> max_bytes then
        (\<lparr>es_evicted_groups = 0, es_evicted_files = 0, es_evicted_bytes = 0, es_remaining_bytes = total_size\<rparr>, s)
      else
        (case evict_groups max_bytes pinned total_size (ordered_groups (st_base s) (st_dir s)) of
           (evicted, total') \<Rightarrow>
             (\<lparr>es_evicted_groups = length evicted,
               es_evicted_files = sum_list (map (\<lambda>(_, g). length (g_files g)) evicted),
               es_evicted_bytes = fold (\<lambda>(_, g) t. sat_add64 t (g_bytes g)) evicted 0,
               es_remaining_bytes = total'\<rparr>,
              snd (clean outcome (store_remove_files removable (concat (map (\<lambda>(_, g). g_files g) evicted)) s)))))"

subsection \<open>The eviction contract\<close>

abbreviation flen :: "string \<times> nat \<times> nat \<Rightarrow> nat" where
  "flen f \<equiv> fst (snd f)"

abbreviation fmtime :: "string \<times> nat \<times> nat \<Rightarrow> nat" where
  "fmtime f \<equiv> snd (snd f)"

interpretation responses: evict_scan flen "\<lambda>_. False" max_bytes "prune_scan max_bytes" for max_bytes
proof
  show "prune_scan max_bytes t [] = ([], t)" for t by simp
  show "prune_scan max_bytes t (x # xs) =
      (if t \<le> max_bytes then ([], t) else if False then prune_scan max_bytes t xs
       else (x # fst (prune_scan max_bytes (t - flen x) xs), snd (prune_scan max_bytes (t - flen x) xs)))" for t x xs
    by (cases x) simp
qed

interpretation groups: evict_scan "\<lambda>p. g_bytes (snd p)" "\<lambda>p. fst p \<in> set pinned" max_bytes
  "evict_groups max_bytes pinned" for max_bytes pinned
proof
  show "evict_groups max_bytes pinned t [] = ([], t)" for t by simp
  show "evict_groups max_bytes pinned t (x # xs) =
      (if t \<le> max_bytes then ([], t) else if fst x \<in> set pinned then evict_groups max_bytes pinned t xs
       else (x # fst (evict_groups max_bytes pinned (t - g_bytes (snd x)) xs),
             snd (evict_groups max_bytes pinned (t - g_bytes (snd x)) xs)))" for t x xs
    by (cases x) simp
qed

lemma fold_sat_add:
  "t < 2 ^ 64 \<Longrightarrow> fold (\<lambda>f t. sat_add64 t (len f)) fs t = min (t + sum_list (map len fs)) (2 ^ 64 - 1)"
proof (induction fs arbitrary: t)
  case (Cons f fs)
  have "sat_add64 t (len f) < 2 ^ 64" by (simp add: sat_add64_def min_def)
  from Cons.IH[OF this] show ?case by (simp add: sat_add64_def min_def)
qed (simp add: min_def)

lemma fold_sat_add_exact:
  "sum_list (map len fs) < 2 ^ 64 \<Longrightarrow> fold (\<lambda>f t. sat_add64 t (len f)) fs 0 = sum_list (map len fs)"
  using fold_sat_add[of 0 len fs] by (simp add: min_def)

lemma dir_size_fold: "dir_size d = fold (\<lambda>f t. sat_add64 t (flen f)) (dir_files d) 0"
  by (simp add: dir_size_def split_def)

lemma dir_size_exact: "sum_list (map flen (dir_files d)) < 2 ^ 64 \<Longrightarrow> dir_size d = sum_list (map flen (dir_files d))"
  unfolding dir_size_fold by (rule fold_sat_add_exact)

lemma dir_files_filter: "dir_files (filter (\<lambda>(name, _). P name) d) = filter (\<lambda>f. P (fst f)) (dir_files d)"
  by (induction d) (auto simp: dir_files_def map_filter_simps split: option.splits if_splits)

lemma dir_files_remove:
  "dir_files (remove_files removable names d) =
     filter (\<lambda>f. \<not> (fst f \<in> set names \<and> removable (fst f))) (dir_files d)"
  unfolding remove_files_def by (rule dir_files_filter)

lemma dir_files_names: "set (map fst (dir_files d)) \<subseteq> set (map fst d)"
  by (induction d) (auto simp: dir_files_def map_filter_simps split: option.splits if_splits)

lemma dir_files_distinct: "distinct (map fst d) \<Longrightarrow> distinct (map fst (dir_files d))"
proof (induction d)
  case (Cons e d)
  obtain n m where e: "e = (n, m)" by (cases e)
  have "n \<notin> set (map fst (dir_files d))" using Cons.prems dir_files_names[of d] by (auto simp: e)
  then show ?case using Cons by (auto simp: e dir_files_def map_filter_simps split: option.splits)
qed (simp add: dir_files_def map_filter_simps)

lemma sum_list_filter_split:
  "sum_list (map f xs) = sum_list (map f (filter P xs)) + sum_list (map f (filter (\<lambda>x. \<not> P x) xs))" for f :: "_ \<Rightarrow> nat"
  by (induction xs) auto

lemma sum_list_sort_key [simp]: "sum_list (map f (sort_key g xs)) = sum_list (map f xs)" for f :: "_ \<Rightarrow> nat"
  by (metis mset_map mset_sort sum_mset_sum_list)

subsection \<open>Groups of files\<close>

abbreviation stem_of :: "string \<Rightarrow> string \<times> nat \<times> nat \<Rightarrow> string" where
  "stem_of base f \<equiv> path_join base (file_stem (fst f))"

definition group_of :: "(string \<times> nat \<times> nat) list \<Rightarrow> Group" where
  "group_of fs = \<lparr>g_files = map fst fs, g_bytes = fold (\<lambda>f t. sat_add64 t (flen f)) fs 0,
     g_newest_mtime = fold (\<lambda>f t. max t (fmtime f)) fs 0\<rparr>"

lemma add_to_groups_get:
  "map_of (fold (add_to_group base) fs []) stem =
     (case filter (\<lambda>f. stem_of base f = stem) fs of [] \<Rightarrow> None | gs \<Rightarrow> Some (group_of gs))"
proof (induction fs rule: rev_induct)
  case (snoc f fs)
  obtain name len mtime where f: "f = (name, len, mtime)" by (metis prod_cases3)
  have g: "unwrap_or (case gs of [] \<Rightarrow> None | x # xs \<Rightarrow> Some (group_of (x # xs)))
      \<lparr>g_files = [], g_bytes = 0, g_newest_mtime = 0\<rparr> = group_of gs" for gs
    by (cases gs) (simp_all add: unwrap_or_def group_of_def)
  have a: "group_of (gs @ [f]) = \<lparr>g_files = g_files (group_of gs) @ [name],
      g_bytes = sat_add64 (g_bytes (group_of gs)) len,
      g_newest_mtime = (if mtime > g_newest_mtime (group_of gs) then mtime else g_newest_mtime (group_of gs))\<rparr>" for gs
    by (simp add: group_of_def f max_def)
  show ?case
  proof (cases "stem_of base f = stem")
    case True
    have "map_of (fold (add_to_group base) (fs @ [f]) []) stem =
        Some (group_of (filter (\<lambda>f. stem_of base f = stem) fs @ [f]))"
      using True by (simp add: add_to_group_def f Let_def hm_simps snoc.IH g a[unfolded f])
    moreover have "filter (\<lambda>f. stem_of base f = stem) (fs @ [f]) =
        filter (\<lambda>f. stem_of base f = stem) fs @ [f]" using True by simp
    ultimately show ?thesis by (cases "filter (\<lambda>f. stem_of base f = stem) fs") simp_all
  next
    case False
    then show ?thesis using snoc.IH by (simp add: add_to_group_def f Let_def hm_simps)
  qed
qed simp

lemma store_groups_ok: "hm_ok (store_groups base d)"
proof -
  have "hm_ok m \<Longrightarrow> hm_ok (fold (add_to_group base) fs m)" for fs m
    by (induction fs arbitrary: m) (simp_all add: add_to_group_def case_prod_beta Let_def)
  then show ?thesis by (simp add: store_groups_def)
qed

lemma ordered_groups_mem:
  "(stem, g) \<in> set (ordered_groups base d) \<longleftrightarrow>
     filter (\<lambda>f. stem_of base f = stem) (dir_files d) \<noteq> [] \<and>
     g = group_of (filter (\<lambda>f. stem_of base f = stem) (dir_files d))"
proof -
  have "(stem, g) \<in> set (ordered_groups base d) \<longleftrightarrow> map_of (store_groups base d) stem = Some g"
    by (simp add: ordered_groups_def hm_mem_iff[OF store_groups_ok])
  then show ?thesis
    by (auto simp: store_groups_def add_to_groups_get split: list.splits)
qed

lemma ordered_groups_distinct: "distinct (map fst (ordered_groups base d))"
proof -
  have "mset (map fst (ordered_groups base d)) = mset (map fst (store_groups base d))"
    by (simp add: ordered_groups_def)
  then show ?thesis using store_groups_ok[of base d] mset_eq_imp_distinct_iff unfolding hm_ok_def by blast
qed

lemma ordered_groups_sorted: "sorted (map (\<lambda>p. g_newest_mtime (snd p)) (ordered_groups base d))"
  by (simp add: ordered_groups_def split_def)

text \<open>The bytes of distinct groups are the bytes of their files.\<close>

lemma group_bytes_sum:
  assumes "set gs \<subseteq> set (ordered_groups base d)" "distinct (map fst gs)"
    and "sum_list (map flen (dir_files d)) < 2 ^ 64"
  shows "sum_list (map (\<lambda>p. g_bytes (snd p)) gs) =
    sum_list (map flen (filter (\<lambda>f. stem_of base f \<in> fst ` set gs) (dir_files d)))"
  using assms(1,2)
proof (induction gs)
  case (Cons p gs)
  obtain stem g where p: "p = (stem, g)" by (cases p)
  let ?F = "dir_files d"
  have g: "g = group_of (filter (\<lambda>f. stem_of base f = stem) ?F)" using Cons.prems(1) by (simp add: p ordered_groups_mem)
  have "sum_list (map flen (filter (\<lambda>f. stem_of base f = stem) ?F)) \<le> sum_list (map flen ?F)"
    using sum_list_filter_split[of flen ?F "\<lambda>f. stem_of base f = stem"] by simp
  then have b: "g_bytes g = sum_list (map flen (filter (\<lambda>f. stem_of base f = stem) ?F))"
    using assms(3) by (simp add: g group_of_def fold_sat_add_exact)
  have n: "stem \<notin> fst ` set gs" using Cons.prems(2) by (simp add: p)
  have "filter (\<lambda>f. stem_of base f = stem) (filter (\<lambda>f. stem_of base f \<in> fst ` set (p # gs)) ?F) =
      filter (\<lambda>f. stem_of base f = stem) ?F"
    "filter (\<lambda>f. stem_of base f \<noteq> stem) (filter (\<lambda>f. stem_of base f \<in> fst ` set (p # gs)) ?F) =
      filter (\<lambda>f. stem_of base f \<in> fst ` set gs) ?F"
    using n by (auto simp: p intro!: filter_cong)
  then show ?case
    using Cons b sum_list_filter_split[of flen "filter (\<lambda>f. stem_of base f \<in> fst ` set (p # gs)) ?F"
        "\<lambda>f. stem_of base f = stem"] by (simp add: p)
qed simp

lemma hm_insert_names: "fst ` set (hm_insert k v m) = insert k (fst ` set m)"
  using dom_update[of k v m] by (simp add: dom_map_of_conv_image_fst)

lemma clean_dir:
  "st_dir (snd (clean outcome s)) = st_dir s \<or>
   (\<exists>meta. outcome = Some meta \<and> st_dir (snd (clean outcome s)) = hm_insert ''index.json'' (Some meta) (st_dir s))"
  by (auto simp: clean_def write_index_def Let_def split: option.split)

lemma dir_files_insert_other:
  "fst f \<noteq> name \<Longrightarrow> f \<in> set (dir_files (hm_insert name meta d)) \<longleftrightarrow> f \<in> set (dir_files d)"
  by (induction d) (auto simp: dir_files_def map_filter_simps split: option.splits if_splits)

lemma clean_files:
  "fst f \<noteq> ''index.json'' \<Longrightarrow>
   f \<in> set (dir_files (st_dir (snd (clean outcome s)))) \<longleftrightarrow> f \<in> set (dir_files (st_dir s))"
  using clean_dir[of outcome s] by (auto simp: dir_files_insert_other)

lemma names_of_groups:
  assumes "set gs \<subseteq> set (ordered_groups base d)"
  shows "set (concat (map (\<lambda>(_, g). g_files g) gs)) = fst ` {f \<in> set (dir_files d). stem_of base f \<in> fst ` set gs}"
proof -
  have "set (g_files g) = fst ` {f \<in> set (dir_files d). stem_of base f = stem}" if "(stem, g) \<in> set gs" for stem g
  proof -
    have "(stem, g) \<in> set (ordered_groups base d)" using that assms by blast
    then have "g = group_of (filter (\<lambda>f. stem_of base f = stem) (dir_files d))" by (simp only: ordered_groups_mem)
    then show ?thesis by (simp add: group_of_def)
  qed
  then have "(\<Union>p \<in> set gs. set (g_files (snd p))) =
      (\<Union>p \<in> set gs. fst ` {f \<in> set (dir_files d). stem_of base f = fst p})"
    by (intro SUP_cong) (simp_all add: prod_eq_iff)
  moreover have "set (concat (map (\<lambda>(_, g). g_files g) gs)) = (\<Union>p \<in> set gs. set (g_files (snd p)))"
    by (simp add: split_def)
  ultimately have "set (concat (map (\<lambda>(_, g). g_files g) gs)) =
      (\<Union>p \<in> set gs. fst ` {f \<in> set (dir_files d). stem_of base f = fst p})" by simp
  also have "\<dots> = fst ` {f \<in> set (dir_files d). stem_of base f \<in> fst ` set gs}" by force
  finally show ?thesis .
qed

lemma group_mtime_bounds:
  assumes "fs \<noteq> []"
  shows "\<exists>h \<in> set fs. g_newest_mtime (group_of fs) = fmtime h" "\<forall>f \<in> set fs. fmtime f \<le> g_newest_mtime (group_of fs)"
proof -
  have m: "t \<le> fold (\<lambda>f t. max t (fmtime f)) fs t \<and> (\<forall>f \<in> set fs. fmtime f \<le> fold (\<lambda>f t. max t (fmtime f)) fs t) \<and>
      fold (\<lambda>f t. max t (fmtime f)) fs t \<in> insert t (fmtime ` set fs)" for t :: nat
  proof (induction fs arbitrary: t)
    case (Cons f fs)
    show ?case using Cons.IH[of "max t (fmtime f)"] by (auto simp: max_def split: if_splits)
  qed simp
  show le: "\<forall>f \<in> set fs. fmtime f \<le> g_newest_mtime (group_of fs)" using m[of 0] by (simp add: group_of_def)
  show "\<exists>h \<in> set fs. g_newest_mtime (group_of fs) = fmtime h"
  proof (cases "g_newest_mtime (group_of fs) = 0")
    case True
    then show ?thesis using le assms by (cases fs) auto
  next
    case False
    then show ?thesis using m[of 0] by (auto simp: group_of_def)
  qed
qed

text \<open>What a pass over the groups does to the files, before the index is cleaned.\<close>

lemma evict_groups_files:
  assumes ev: "evict_groups max_bytes pinned (dir_size d) (ordered_groups base d) = (evicted, remaining)"
    and small: "sum_list (map flen (dir_files d)) < 2 ^ 64"
    and rem: "\<forall>n. removable n"
    and d': "d' = remove_files removable (concat (map (\<lambda>(_, g). g_files g) evicted)) d"
  shows "dir_files d' = filter (\<lambda>f. stem_of base f \<notin> fst ` set evicted) (dir_files d)"
    and "fst ` set evicted \<inter> set pinned = {}"
    and "remaining = dir_size d'"
    and "remaining \<le> max_bytes \<or> (\<forall>f \<in> set (dir_files d'). stem_of base f \<in> set pinned)"
    and "f \<in> set (dir_files d) - set (dir_files d') \<Longrightarrow> f' \<in> set (dir_files d') \<Longrightarrow> stem_of base f' \<notin> set pinned \<Longrightarrow>
      \<exists>h \<in> set (dir_files d). stem_of base h = stem_of base f' \<and> fmtime f \<le> fmtime h"
proof -
  let ?F = "dir_files d"
  obtain ys zs where p: "ordered_groups base d = ys @ zs" "evicted = filter (\<lambda>x. fst x \<notin> set pinned) ys"
    "remaining \<le> max_bytes \<or> (\<forall>z \<in> set zs. fst z \<in> set pinned)"
    using groups.scan_prefix[OF ev] by metis
  have sub: "set evicted \<subseteq> set (ordered_groups base d)" using p by auto
  have dg: "distinct (map fst evicted)" using ordered_groups_distinct[of base d] p(1,2) by (simp add: distinct_map_filter)
  have stems: "fst f \<in> fst ` {h \<in> set ?F. stem_of base h \<in> fst ` set evicted} \<longleftrightarrow> stem_of base f \<in> fst ` set evicted"
    if "f \<in> set ?F" for f
  proof
    assume "fst f \<in> fst ` {h \<in> set ?F. stem_of base h \<in> fst ` set evicted}"
    then obtain h where "fst f = fst h" "stem_of base h \<in> fst ` set evicted" by blast
    then show "stem_of base f \<in> fst ` set evicted" by simp
  next
    assume "stem_of base f \<in> fst ` set evicted"
    with that show "fst f \<in> fst ` {h \<in> set ?F. stem_of base h \<in> fst ` set evicted}" by blast
  qed
  show files: "dir_files d' = filter (\<lambda>f. stem_of base f \<notin> fst ` set evicted) ?F"
    unfolding d' dir_files_remove names_of_groups[OF sub] by (rule filter_cong) (simp_all add: rem stems del: set_map)
  show unp: "fst ` set evicted \<inter> set pinned = {}" using p(2) by auto
  have "remaining = dir_size d - sum_list (map (\<lambda>p. g_bytes (snd p)) evicted)"
    using groups.scan_total[OF ev] .
  also have "\<dots> = sum_list (map flen (dir_files d'))"
    unfolding group_bytes_sum[OF sub dg small] dir_size_exact[OF small] files
    using sum_list_filter_split[of flen ?F "\<lambda>f. stem_of base f \<in> fst ` set evicted"] by simp
  also have "\<dots> = dir_size d'"
    using small sum_list_filter_split[of flen ?F "\<lambda>f. stem_of base f \<notin> fst ` set evicted"]
    by (intro dir_size_exact[symmetric]) (simp add: files)
  finally show "remaining = dir_size d'" .
  have grp: "(stem_of base f, group_of (filter (\<lambda>h. stem_of base h = stem_of base f) ?F)) \<in> set (ordered_groups base d)"
    if "f \<in> set ?F" for f
    using that by (auto simp: ordered_groups_mem filter_empty_conv)
  have inzs: "(stem_of base f, group_of (filter (\<lambda>h. stem_of base h = stem_of base f) ?F)) \<in> set zs"
    if "f \<in> set (dir_files d')" "stem_of base f \<notin> set pinned" for f
    using grp[of f] that p(1,2) by (force simp: files)
  then show "remaining \<le> max_bytes \<or> (\<forall>f \<in> set (dir_files d'). stem_of base f \<in> set pinned)"
    using p(3) by fastforce
  show "\<exists>h \<in> set ?F. stem_of base h = stem_of base f' \<and> fmtime f \<le> fmtime h"
    if "f \<in> set ?F - set (dir_files d')" "f' \<in> set (dir_files d')" "stem_of base f' \<notin> set pinned" for f f'
  proof -
    let ?G = "\<lambda>f. filter (\<lambda>h. stem_of base h = stem_of base f) ?F"
    have z: "(stem_of base f', group_of (?G f')) \<in> set zs" using inzs that by blast
    have "stem_of base f \<in> fst ` set evicted" using that(1) unfolding files by simp
    then obtain g where "(stem_of base f, g) \<in> set evicted" by (metis imageE prod.collapse)
    then have "(stem_of base f, g) \<in> set ys" "g = group_of (?G f)"
      using sub p(2) by (auto simp: ordered_groups_mem)
    then have "g_newest_mtime (group_of (?G f)) \<le> g_newest_mtime (group_of (?G f'))"
      using ordered_groups_sorted[of base d] z unfolding p(1) by (force simp: sorted_append)
    moreover have "f \<in> set (?G f)" using that(1) by simp
    then have "fmtime f \<le> g_newest_mtime (group_of (?G f))"
      using group_mtime_bounds(2)[of "?G f"] by (metis empty_iff list.set(1))
    moreover have "?G f' \<noteq> []" using that(2) by (auto simp: files filter_empty_conv)
    then obtain h where "h \<in> set (?G f')" "g_newest_mtime (group_of (?G f')) = fmtime h"
      using group_mtime_bounds(1)[of "?G f'"] by metis
    ultimately show ?thesis by (intro bexI[of _ h]) simp_all
  qed
qed

subsection \<open>Correctness of the caches\<close>

lemma evict_to_limit_props:
  assumes "evict_to_limit removable outcome max_bytes pinned s = (stats, s')"
    and "\<forall>n. removable n" "sum_list (map flen (dir_files (st_dir s))) < 2 ^ 64"
  shows "(\<forall>f \<in> set (dir_files (st_dir s)). stem_of (st_base s) f \<in> set pinned \<and> fst f \<noteq> ''index.json'' \<longrightarrow>
       f \<in> set (dir_files (st_dir s'))) \<and>
    (es_remaining_bytes stats \<le> max_bytes \<or>
     (\<forall>f \<in> set (dir_files (st_dir s')). fst f \<noteq> ''index.json'' \<longrightarrow> stem_of (st_base s) f \<in> set pinned)) \<and>
    (outcome = None \<longrightarrow> dir_size (st_dir s') = es_remaining_bytes stats) \<and>
    (\<forall>f f'. f \<in> set (dir_files (st_dir s)) - set (dir_files (st_dir s')) \<and> f' \<in> set (dir_files (st_dir s')) \<and>
       fst f \<noteq> ''index.json'' \<and> fst f' \<noteq> ''index.json'' \<and> stem_of (st_base s) f' \<notin> set pinned \<longrightarrow>
       (\<exists>h \<in> set (dir_files (st_dir s)). stem_of (st_base s) h = stem_of (st_base s) f' \<and> fmtime f \<le> fmtime h))"
proof (cases "dir_size (st_dir s) \<le> max_bytes")
  case True
  then show ?thesis using assms(1) by (auto simp: evict_to_limit_def Let_def)
next
  case False
  obtain ev remaining where ev: "evict_groups max_bytes pinned (dir_size (st_dir s))
      (ordered_groups (st_base s) (st_dir s)) = (ev, remaining)" by fastforce
  define s1 where "s1 = store_remove_files removable (concat (map (\<lambda>(_, g). g_files g) ev)) s"
  have d1: "st_dir s1 = remove_files removable (concat (map (\<lambda>(_, g). g_files g) ev)) (st_dir s)"
    by (simp add: s1_def store_remove_files_def)
  have st: "es_remaining_bytes stats = remaining" "s' = snd (clean outcome s1)"
    using assms(1) False ev by (auto simp: evict_to_limit_def Let_def s1_def)
  note files = evict_groups_files[OF ev assms(3,2) d1]
  have mem: "fst f \<noteq> ''index.json'' \<Longrightarrow>
      f \<in> set (dir_files (st_dir s')) \<longleftrightarrow> f \<in> set (dir_files (st_dir s1))" for f
    unfolding st(2) by (rule clean_files)
  have "outcome = None \<longrightarrow> dir_size (st_dir s') = remaining"
    using clean_dir[of outcome s1] files(3) by (auto simp: st(2))
  moreover have "f \<in> set (dir_files (st_dir s'))"
    if "f \<in> set (dir_files (st_dir s))" "stem_of (st_base s) f \<in> set pinned" "fst f \<noteq> ''index.json''" for f
    using that files(1,2) by (auto simp: mem)
  moreover have "remaining \<le> max_bytes \<or>
     (\<forall>f \<in> set (dir_files (st_dir s')). fst f \<noteq> ''index.json'' \<longrightarrow> stem_of (st_base s) f \<in> set pinned)"
    using files(4) mem by blast
  moreover have "\<exists>h \<in> set (dir_files (st_dir s)). stem_of (st_base s) h = stem_of (st_base s) f' \<and> fmtime f \<le> fmtime h"
    if "f \<in> set (dir_files (st_dir s)) - set (dir_files (st_dir s'))" "f' \<in> set (dir_files (st_dir s'))"
      "fst f \<noteq> ''index.json''" "fst f' \<noteq> ''index.json''" "stem_of (st_base s) f' \<notin> set pinned" for f f'
    using that mem by (intro files(5)) auto
  ultimately show ?thesis unfolding st(1) by blast
qed

text \<open>
  C33. Evicting from the store, when the files can be removed and their sizes do not overflow,
  keeps every file of a pinned group, and ends within the limit or with nothing but pinned groups;
  the size it reports is the size of the files that are left; and no file is evicted while a group
  that is not pinned and in which every file is older is kept. The index file, which cleaning
  writes, is set apart.
\<close>

theorem evict_to_limit_spec:
  assumes "evict_to_limit removable outcome max_bytes pinned s = (stats, s')"
    and "\<forall>n. removable n" "sum_list (map flen (dir_files (st_dir s))) < 2 ^ 64"
  shows "(\<forall>f \<in> set (dir_files (st_dir s)). stem_of (st_base s) f \<in> set pinned \<and> fst f \<noteq> ''index.json'' \<longrightarrow>
       f \<in> set (dir_files (st_dir s'))) \<and>
    (es_remaining_bytes stats \<le> max_bytes \<or>
     (\<forall>f \<in> set (dir_files (st_dir s')). fst f \<noteq> ''index.json'' \<longrightarrow> stem_of (st_base s) f \<in> set pinned)) \<and>
    (outcome = None \<longrightarrow> dir_size (st_dir s') = es_remaining_bytes stats) \<and>
    (\<forall>f f'. f \<in> set (dir_files (st_dir s)) - set (dir_files (st_dir s')) \<and> f' \<in> set (dir_files (st_dir s')) \<and>
       fst f \<noteq> ''index.json'' \<and> fst f' \<noteq> ''index.json'' \<and> stem_of (st_base s) f' \<notin> set pinned \<longrightarrow>
       (\<exists>h \<in> set (dir_files (st_dir s)). stem_of (st_base s) h = stem_of (st_base s) f' \<and> fmtime f \<le> fmtime h))"
  by (rule evict_to_limit_props[OF assms])

lemma store_keeps_pinned:
  assumes "evict_to_limit removable outcome max_bytes pinned s = (stats, s')"
    and "\<forall>n. removable n" "sum_list (map flen (dir_files (st_dir s))) < 2 ^ 64"
  shows "\<forall>f \<in> set (dir_files (st_dir s)). stem_of (st_base s) f \<in> set pinned \<and> fst f \<noteq> ''index.json'' \<longrightarrow>
       f \<in> set (dir_files (st_dir s'))"
  using evict_to_limit_props[OF assms] by blast

definition sample_store :: IdbStore where
  "sample_store = \<lparr>st_base = ''/r'',
     st_dir = [(''index.json'', Some \<lparr>fm_is_file = True, fm_len = 4, fm_modified = Some 1\<rparr>),
       (''a.h1.dylib.i64'', Some \<lparr>fm_is_file = True, fm_len = 10, fm_modified = Some 2\<rparr>),
       (''b.h2.dylib.i64'', Some \<lparr>fm_is_file = True, fm_len = 20, fm_modified = Some 3\<rparr>)],
     st_index = Some [(''h1'', \<lparr>ie_hash = ''h1'', ie_original_path = ''/a'', ie_binary_type = ''native'', ie_size = 1,
       ie_created_at = ''1Z'', ie_last_accessed = ''1Z''\<rparr>)]\<rparr>"

lemma sample_store_evict:
  "snd (evict_to_limit (\<lambda>_. True) None 30 [] sample_store) =
     sample_store\<lparr>st_dir := tl (st_dir sample_store), st_index := None\<rparr>"
  by code_simp

theorem evict_to_limit_spec_witness:
  "es_remaining_bytes (fst (evict_to_limit (\<lambda>_. True) None 30 [] sample_store)) = 30 \<and>
   dir_size (st_dir (snd (evict_to_limit (\<lambda>_. True) None 30 [] sample_store))) = 30"
proof -
  let ?e = "evict_to_limit (\<lambda>_. True) None 30 [] sample_store"
  have "sum_list (map flen (dir_files (st_dir sample_store))) < 2 ^ 64" by code_simp
  from evict_to_limit_spec[of "\<lambda>_. True" None 30 "[]" sample_store "fst ?e" "snd ?e", OF _ _ this]
  have "dir_size (st_dir (snd ?e)) = es_remaining_bytes (fst ?e)" by simp
  moreover have "es_remaining_bytes (fst ?e) = 30" by code_simp
  ultimately show ?thesis by simp
qed

text \<open>
  The index is a file of the directory it describes and has no protection: when its group is
  the oldest and the store is over its limit, eviction removes it, and with it the record of every
  database, also of those that stay.
\<close>

lemma evict_drops_index:
  assumes "max_bytes < dir_size (st_dir s)" "ordered_groups (st_base s) (st_dir s) = (stem, g) # rest"
    and "''index.json'' \<in> set (g_files g)" "stem \<notin> set pinned" "removable ''index.json''"
  shows "list_entries (snd (evict_to_limit removable outcome max_bytes pinned s)) = []"
proof -
  obtain ev remaining where ev: "evict_groups max_bytes pinned (dir_size (st_dir s))
      (ordered_groups (st_base s) (st_dir s)) = (ev, remaining)" by fastforce
  then have "(stem, g) \<in> set ev" using assms(1,2,4) by auto
  then have "st_index (store_remove_files removable (concat (map (\<lambda>(_, g). g_files g) ev)) s) = None"
    using assms(3,5) by (force simp: store_remove_files_def)
  then show ?thesis
    using assms(1) ev by (simp add: evict_to_limit_def Let_def clean_def read_index_def unwrap_or_def list_entries_def)
qed

theorem evict_drops_index_witness:
  "list_entries (snd (evict_to_limit (\<lambda>_. True) None 30 [] sample_store)) = [] \<and>
   length (list_entries sample_store) = 1 \<and>
   lookup_by_hash ''h1'' (snd (evict_to_limit (\<lambda>_. True) None 30 [] sample_store)) = Some ''/r/a.h1.dylib.i64''"
proof -
  have o: "ordered_groups (st_base sample_store) (st_dir sample_store) =
      (''/r/index'', group_of [(''index.json'', 4, 1)]) #
      tl (ordered_groups (st_base sample_store) (st_dir sample_store))" by code_simp
  have "list_entries (snd (evict_to_limit (\<lambda>_. True) None 30 [] sample_store)) = []"
    by (rule evict_drops_index[OF _ o]) (code_simp+)
  moreover have "length (list_entries sample_store) = 1" by code_simp
  moreover have "lookup_by_hash ''h1'' (snd (evict_to_limit (\<lambda>_. True) None 30 [] sample_store)) =
      Some ''/r/a.h1.dylib.i64''" by code_simp
  ultimately show ?thesis by blast
qed

lemma prune_to_limit_props:
  assumes "prune_to_limit removable max_bytes d = (stats, d')" "\<forall>n. removable n" "distinct (map fst d)"
    and small: "sum_list (map flen (dir_files d)) < 2 ^ 64"
  shows "dir_size d' \<le> max_bytes \<and> rc_remaining_bytes stats = dir_size d' \<and>
    (dir_size d \<le> max_bytes \<longrightarrow> d' = d) \<and>
    (\<forall>f f'. f \<in> set (dir_files d) - set (dir_files d') \<and> f' \<in> set (dir_files d') \<longrightarrow> fmtime f \<le> fmtime f')"
proof (cases "dir_size d \<le> max_bytes")
  case True
  then show ?thesis using assms(1) by (auto simp: prune_to_limit_def Let_def)
next
  case False
  let ?F = "dir_files d" and ?S = "sort_key (\<lambda>(_, _, mtime). mtime) (dir_files d)"
  obtain ev remaining where ev: "prune_scan max_bytes (dir_size d) ?S = (ev, remaining)" by fastforce
  have st: "rc_remaining_bytes stats = remaining" "d' = remove_files removable (map fst ev) d"
    using assms(1) False ev by (auto simp: prune_to_limit_def Let_def)
  obtain ys zs where "?S = ys @ zs" "ev = filter (\<lambda>x. \<not> False) ys" "remaining \<le> max_bytes \<or> (\<forall>z \<in> set zs. False)"
    using responses.scan_prefix[OF ev] by blast
  then have p: "?S = ev @ zs" "remaining \<le> max_bytes \<or> zs = []" by (simp, cases zs) auto
  have "distinct (map fst (ev @ zs))"
    using dir_files_distinct[OF assms(3)] unfolding p(1)[symmetric]
    by (metis mset_eq_imp_distinct_iff mset_map mset_sort)
  then have sep: "fst ` set ev \<inter> fst ` set zs = {}" by auto
  have setF: "set ?F = set ev \<union> set zs" by (metis p(1) set_append set_sort)
  have files: "dir_files d' = filter (\<lambda>f. f \<in> set zs) ?F"
    unfolding st(2) dir_files_remove by (rule filter_cong) (use setF sep assms(2) in \<open>auto simp: disjoint_iff\<close>)
  have keep: "set (dir_files d') = set zs" using setF by (auto simp: files)
  have "sum_list (map flen ?F) = sum_list (map flen ev) + sum_list (map flen zs)"
    by (metis map_append p(1) sum_list_append sum_list_sort_key)
  moreover have "remaining = dir_size d - sum_list (map flen ev)" using responses.scan_total[OF ev] .
  ultimately have rz: "remaining = sum_list (map flen zs)" using dir_size_exact[OF small] by simp
  have dF: "distinct ?F" "distinct zs"
    using dir_files_distinct[OF assms(3)] \<open>distinct (map fst (ev @ zs))\<close> by (auto simp: distinct_map)
  have "distinct (dir_files d')" using dF(1) by (simp add: files)
  then have "mset (dir_files d') = mset zs" using keep dF(2) by (simp only: set_eq_iff_mset_eq_distinct)
  then have "sum_mset (image_mset flen (mset (dir_files d'))) = sum_mset (image_mset flen (mset zs))" by (simp only:)
  then have "sum_list (map flen (dir_files d')) = sum_list (map flen zs)"
    by (simp only: mset_map[symmetric] sum_mset_sum_list)
  then have "dir_size d' = remaining" using rz small dir_size_exact[of d'] dir_size_exact[OF small]
    \<open>remaining = dir_size d - sum_list (map flen ev)\<close> by simp
  moreover have "remaining \<le> max_bytes" using p(2) rz by auto
  moreover have "fmtime f \<le> fmtime f'" if "f \<in> set ev" "f' \<in> set zs" for f f'
    using sorted_sort_key[of "\<lambda>(_, _, mtime). mtime" ?F] that unfolding p(1) by (force simp: sorted_append split_def)
  ultimately show ?thesis using False setF keep st(1) by auto
qed

text \<open>
  Pruning the response cache, when the files can be removed, have different names and do not
  overflow, leaves at most the limit; the files it keeps are at least as new as those it removes,
  and it removes none when the directory is within the limit.
\<close>

lemma prune_to_limit_spec:
  assumes "prune_to_limit removable max_bytes d = (stats, d')" "\<forall>n. removable n" "distinct (map fst d)"
    and small: "sum_list (map flen (dir_files d)) < 2 ^ 64"
  shows "dir_size d' \<le> max_bytes \<and> rc_remaining_bytes stats = dir_size d' \<and>
    (dir_size d \<le> max_bytes \<longrightarrow> d' = d) \<and>
    (\<forall>f f'. f \<in> set (dir_files d) - set (dir_files d') \<and> f' \<in> set (dir_files d') \<longrightarrow> fmtime f \<le> fmtime f')"
  by (rule prune_to_limit_props[OF assms])

lemma response_cache_bounded:
  assumes "prune_to_limit removable max_bytes d = (stats, d')" "\<forall>n. removable n" "distinct (map fst d)"
    and "sum_list (map flen (dir_files d)) < 2 ^ 64"
  shows "dir_size d' \<le> max_bytes"
  using prune_to_limit_props[OF assms] by blast

theorem prune_to_limit_spec_witness:
  "dir_size (snd (prune_to_limit (\<lambda>_. True) 20 (st_dir sample_store))) \<le> 20 \<and>
   map fst (snd (prune_to_limit (\<lambda>_. True) 20 (st_dir sample_store))) = [''b.h2.dylib.i64'']"
proof -
  let ?p = "prune_to_limit (\<lambda>_. True) 20 (st_dir sample_store)"
  have "distinct (map fst (st_dir sample_store))"
    "sum_list (map flen (dir_files (st_dir sample_store))) < 2 ^ 64" by code_simp+
  from prune_to_limit_spec[OF prod.collapse[symmetric, of ?p] _ this]
  have "dir_size (snd ?p) \<le> 20" by blast
  moreover have "map fst (snd ?p) = [''b.h2.dylib.i64'']" by code_simp
  ultimately show ?thesis by simp
qed

subsection \<open>The index\<close>

lemma write_index_read [simp]: "read_index (write_index (Some meta) index s) = index"
  by (simp add: write_index_def read_index_def unwrap_or_def)

lemma lookup_by_hash_None:
  "lookup_by_hash hash s = None \<longleftrightarrow>
     (\<forall>name \<in> fst ` set (st_dir s). \<not> (contains name (hash_pattern hash) \<and> ends_with ''.i64'' name))"
  by (force simp: lookup_by_hash_def find_None_iff)

lemma ends_with_append [simp]: "ends_with p (s @ p)"
  by (simp add: ends_with_def)

lemma idb_name_found:
  "idb_name basename hash \<in> fst ` set (st_dir s) \<Longrightarrow> lookup_by_hash hash s \<noteq> None"
proof -
  have "contains (idb_name basename hash) (hash_pattern hash)"
    unfolding contains_iff by (rule exI[of _ basename], rule exI[of _ "''dylib.i64''"])
      (simp add: idb_name_def hash_pattern_def)
  moreover have "ends_with ''.i64'' (idb_name basename hash)"
    using ends_with_append[of "''.i64''" "basename @ ''.'' @ hash @ ''.dylib''"] by (simp add: idb_name_def)
  ultimately show "idb_name basename hash \<in> fst ` set (st_dir s) \<Longrightarrow> ?thesis" unfolding lookup_by_hash_None by blast
qed

lemma index_json_no_database: "\<not> ends_with ''.i64'' ''index.json''"
  by (simp add: ends_with_def)

text \<open>
  A binary that is recorded is listed under its hash, with the time of the first record kept
  and the others untouched; its database is found by hash under the name the store gives it; and
  removing the hash deletes the entry and, where files can be removed, every file it is found by.
\<close>

lemma record_remove_roundtrip:
  assumes "s1 = record_entry (Some meta) secs hash path ext len s" "\<forall>n. removable n"
    and "remove_entry removable (Some meta') hash s1 = (found, s2)"
  shows "(\<exists>e. hm_get (read_index s1) hash = Some e \<and> ie_original_path e = path \<and>
       ie_last_accessed e = fmt_dec secs @ ''Z'' \<and>
       ie_created_at e = (case hm_get (read_index s) hash of Some o' \<Rightarrow> ie_created_at o' | None \<Rightarrow> fmt_dec secs @ ''Z'')) \<and>
    (\<forall>h. h \<noteq> hash \<longrightarrow> hm_get (read_index s1) h = hm_get (read_index s) h) \<and>
    (idb_name base hash \<in> fst ` set (st_dir s) \<longrightarrow> lookup_by_hash hash s1 \<noteq> None) \<and>
    found \<and> lookup_by_hash hash s2 = None \<and> hm_get (read_index s2) = (hm_get (read_index s))(hash := None)"
proof -
  have get: "hm_get (read_index s1) = (hm_get (read_index s))(hash \<mapsto> \<lparr>ie_hash = hash, ie_original_path = path,
      ie_binary_type = (if ext = Some ''so'' then ''sbpf'' else ''native''), ie_size = unwrap_or len 0,
      ie_created_at = (case hm_get (read_index s) hash of Some e \<Rightarrow> ie_created_at e | None \<Rightarrow> fmt_dec secs @ ''Z''),
      ie_last_accessed = fmt_dec secs @ ''Z''\<rparr>)"
    by (simp add: assms(1) record_entry_def Let_def hm_simps fun_eq_iff)
  have names: "fst ` set (st_dir s1) = insert ''index.json'' (fst ` set (st_dir s))"
    by (simp add: assms(1) record_entry_def Let_def write_index_def hm_insert_names)
  have r: "found" "s2 = write_index (Some meta') (hm_remove hash (read_index s1)) (remove_files_by_hash removable hash s1)"
    using assms(3) get by (auto simp: remove_entry_def Let_def)
  have "fst ` set (st_dir s2) = insert ''index.json'' (fst ` set (st_dir (remove_files_by_hash removable hash s1)))"
    by (simp add: r(2) write_index_def hm_insert_names)
  moreover have "\<not> contains n (hash_pattern hash)" if "n \<in> fst ` set (st_dir (remove_files_by_hash removable hash s1))" for n
    using that assms(2) by (force simp: remove_files_by_hash_def store_remove_files_def remove_files_def)
  ultimately have "lookup_by_hash hash s2 = None"
    using index_json_no_database by (auto simp: lookup_by_hash_None)
  moreover have "hm_get (read_index s2) = (hm_get (read_index s))(hash := None)"
    by (simp add: r(2) hm_simps get fun_eq_iff)
  ultimately show ?thesis
    using r(1) get idb_name_found[of base hash s1] by (auto simp: names)
qed

theorem record_remove_roundtrip_witness:
  "\<exists>s2. remove_entry (\<lambda>_. True) (Some \<lparr>fm_is_file = True, fm_len = 2, fm_modified = None\<rparr>) ''h2''
      (record_entry (Some \<lparr>fm_is_file = True, fm_len = 4, fm_modified = None\<rparr>) 9 ''h2'' ''/b'' None (Some 7) sample_store) =
      (True, s2) \<and> lookup_by_hash ''h2'' s2 = None \<and> lookup_by_hash ''h2'' sample_store \<noteq> None"
proof -
  let ?s1 = "record_entry (Some \<lparr>fm_is_file = True, fm_len = 4, fm_modified = None\<rparr>) 9 ''h2'' ''/b'' None (Some 7) sample_store"
  let ?r = "remove_entry (\<lambda>_. True) (Some \<lparr>fm_is_file = True, fm_len = 2, fm_modified = None\<rparr>) ''h2'' ?s1"
  have "fst ?r" "lookup_by_hash ''h2'' (snd ?r) = None"
    using record_remove_roundtrip[OF refl _ prod.collapse[symmetric, of ?r]] by blast+
  moreover have "lookup_by_hash ''h2'' sample_store \<noteq> None" by code_simp
  ultimately show ?thesis by (intro exI[of _ "snd ?r"]) (simp add: prod_eq_iff)
qed

lemma fold_hm_remove_get:
  "map_of (fold (\<lambda>(h, _) m. hm_remove h m) ps m) k = (if k \<in> fst ` set ps then None else map_of m k)"
  by (induction ps arbitrary: m) (auto simp: hm_simps)

text \<open>
  Cleaning the index returns the entries that have no database in the directory, removes
  exactly those, and changes no file but the index.
\<close>

lemma clean_exact:
  assumes "clean (Some meta) s = (orphaned, s')" "hm_ok (read_index s)"
  shows "set orphaned = {e. \<exists>h. hm_get (read_index s) h = Some e \<and> lookup_by_hash h s = None} \<and>
    (\<forall>h. hm_get (read_index s') h = (if lookup_by_hash h s = None then None else hm_get (read_index s) h)) \<and>
    (\<forall>h. lookup_by_hash h s' = None \<longleftrightarrow> lookup_by_hash h s = None)"
proof -
  let ?o = "filter (\<lambda>(h, _). lookup_by_hash h s = None) (read_index s)"
  have mem: "(h, e) \<in> set ?o \<longleftrightarrow> hm_get (read_index s) h = Some e \<and> lookup_by_hash h s = None" for h e
    using hm_mem_iff[OF assms(2), of h e] by auto
  have o: "orphaned = map snd ?o" using assms(1) by (auto simp: clean_def Let_def)
  have "set orphaned = {e. \<exists>h. (h, e) \<in> set ?o}" unfolding o by force
  then have "set orphaned = {e. \<exists>h. hm_get (read_index s) h = Some e \<and> lookup_by_hash h s = None}"
    by (simp only: mem)
  moreover have "hm_get (read_index s') h = (if lookup_by_hash h s = None then None else hm_get (read_index s) h)" for h
  proof -
    have f: "h \<in> fst ` set ?o \<longleftrightarrow> hm_get (read_index s) h \<noteq> None \<and> lookup_by_hash h s = None"
      using mem[of h] by (metis (no_types, lifting) image_iff fst_conv not_None_eq prod.collapse)
    have "hm_get (read_index s') h = hm_get (fold (\<lambda>(h, _) m. hm_remove h m) ?o (read_index s)) h"
      using assms(1) by (auto simp: clean_def Let_def split: if_splits)
    then show ?thesis using f unfolding fold_hm_remove_get by auto
  qed
  moreover have "fst ` set (st_dir s') = fst ` set (st_dir s) \<or> fst ` set (st_dir s') = insert ''index.json'' (fst ` set (st_dir s))"
  proof -
    have s': "s' = snd (clean (Some meta) s)" using assms(1) by simp
    show ?thesis using clean_dir[of "Some meta" s] unfolding s' by (elim disjE exE conjE) (simp_all add: hm_insert_names)
  qed
  then have "lookup_by_hash h s' = None \<longleftrightarrow> lookup_by_hash h s = None" for h
    using index_json_no_database unfolding lookup_by_hash_None by (metis insertCI insertE)
  ultimately show ?thesis by blast
qed

theorem clean_exact_witness:
  "map ie_hash (fst (clean (Some \<lparr>fm_is_file = True, fm_len = 2, fm_modified = None\<rparr>)
     (sample_store\<lparr>st_dir := []\<rparr>))) = [''h1''] \<and>
   hm_get (read_index (snd (clean (Some \<lparr>fm_is_file = True, fm_len = 2, fm_modified = None\<rparr>)
     (sample_store\<lparr>st_dir := []\<rparr>)))) ''h1'' = None"
proof -
  let ?s = "sample_store\<lparr>st_dir := []\<rparr>"
  let ?c = "clean (Some \<lparr>fm_is_file = True, fm_len = 2, fm_modified = None\<rparr>) ?s"
  have "hm_ok (read_index ?s)" "lookup_by_hash ''h1'' ?s = None" "map ie_hash (fst ?c) = [''h1'']" by code_simp+
  then show ?thesis using clean_exact[OF prod.collapse[symmetric, of ?c]] by simp
qed

end
