(* ===== verification/Cache_Pruning.thy ===== *)
theory Cache_Pruning
  imports Warm_Pool Disk_Caches
begin









end
