(* ===== verification/Addresses.thy ===== *)
theory Addresses
  imports Json
begin

text \<open>
  Addresses, byte patterns and patch bytes as the tools receive them: \<open>src/ida/handlers/mod.rs\<close>
  and the decoders at the top of \<open>src/rpc_dispatch.rs\<close>. The functions and the names of the open
  database, which IDA provides, are arguments; so is the printed form of a JSON value in an error.
\<close>

subsection \<open>Addresses\<close>

definition parse_address_str :: "string \<Rightarrow> ToolError + nat" where
  "parse_address_str str =
     (let s = trim str;
          ret = (\<lambda>r. case r of Some n \<Rightarrow> Inr n | None \<Rightarrow> Inl (InvalidAddress s))
      in if starts_with ''0x'' s \<or> starts_with ''0X'' s then ret (from_str_radix 64 16 (drop 2 s))
         else if starts_with ''0b'' s \<or> starts_with ''0B'' s then ret (from_str_radix 64 2 (drop 2 s))
         else if starts_with ''0o'' s \<or> starts_with ''0O'' s then ret (from_str_radix 64 8 (drop 2 s))
         else ret (from_str_radix 64 10 s))"

definition try_parse_address :: "string \<Rightarrow> nat option" where
  "try_parse_address s = (case parse_address_str s of Inr n \<Rightarrow> Some n | Inl _ \<Rightarrow> None)"

definition hex_encode :: "nat list \<Rightarrow> string" where
  "hex_encode bytes = concat (map (\<lambda>b. zero_pad 2 (fmt_hex b)) bytes)"

text \<open>The open database, as far as names go: functions with their name, and the name list.\<close>

record name_db =
  nd_functions :: "(string option \<times> nat) list"
  nd_names :: "(string \<times> nat) list"

definition name_matches :: "string \<Rightarrow> string \<Rightarrow> bool" where
  "name_matches name candidate \<longleftrightarrow> candidate = name \<or> contains candidate name"

definition resolve_address_by_name :: "name_db option \<Rightarrow> string \<Rightarrow> ToolError + nat" where
  "resolve_address_by_name idb name =
     (case idb of
        None \<Rightarrow> Inl NoDatabaseOpen
      | Some db \<Rightarrow>
          (case find (\<lambda>(f, _). case f of Some n \<Rightarrow> name_matches name n | None \<Rightarrow> False) (nd_functions db) of
             Some (_, addr) \<Rightarrow> Inr addr
           | None \<Rightarrow>
               (case find (\<lambda>(n, _). name_matches name n) (nd_names db) of
                  Some (_, addr) \<Rightarrow> Inr addr
                | None \<Rightarrow> Inl (FunctionNameNotFound name))))"

definition resolve_address :: "name_db option \<Rightarrow> nat option \<Rightarrow> string option \<Rightarrow> nat \<Rightarrow> ToolError + nat" where
  "resolve_address idb addr name offset =
     (case (case addr of
              Some a \<Rightarrow> Inr a
            | None \<Rightarrow>
                (case name of
                   Some n \<Rightarrow> resolve_address_by_name idb n
                 | None \<Rightarrow> Inl (InvalidParams ''expected address or name''))) of
        Inl e \<Rightarrow> Inl e
      | Inr base \<Rightarrow> Inr (min (base + offset) (2 ^ 64 - 1)))"

subsection \<open>Byte patterns\<close>

function trim_start_0x :: "string \<Rightarrow> string" where
  "trim_start_0x s = (case strip_prefix ''0x'' s of Some t \<Rightarrow> trim_start_0x t | None \<Rightarrow> s)"
  by pat_completeness auto
termination
  by (relation "measure length") (auto simp: strip_prefix_def starts_with_iff split: if_splits)

declare trim_start_0x.simps [simp del]

text \<open>\<open>split_whitespace\<close>, and \<open>chunks(2)\<close>.\<close>

function split_whitespace :: "string \<Rightarrow> string list" where
  "split_whitespace s =
     (case dropWhile is_whitespace s of
        [] \<Rightarrow> []
      | t \<Rightarrow> takeWhile (\<lambda>c. \<not> is_whitespace c) t # split_whitespace (dropWhile (\<lambda>c. \<not> is_whitespace c) t))"
  by pat_completeness auto
termination
proof (relation "measure length", goal_cases)
  case (2 s c t)
  have "\<not> is_whitespace c" using 2 by (metis hd_dropWhile list.distinct(1) list.sel(1))
  moreover have "length (c # t) \<le> length s" using length_dropWhile_le[of is_whitespace s] 2 by simp
  ultimately show ?case using length_dropWhile_le[of "\<lambda>c. \<not> is_whitespace c" t] by simp
qed simp

declare split_whitespace.simps [simp del]

fun chunks2 :: "string \<Rightarrow> string list" where
  "chunks2 (a # b # cs) = [a, b] # chunks2 cs"
| "chunks2 [a] = [[a]]"
| "chunks2 [] = []"

definition parse_token :: "string \<Rightarrow> ToolError + nat option" where
  "parse_token tok =
     (if tok = ''?'' \<or> tok = ''??'' then Inr None
      else (case from_str_radix 8 16 (trim_start_0x tok) of
              Some b \<Rightarrow> Inr (Some b)
            | None \<Rightarrow> Inl (IdaError (''invalid byte: '' @ tok))))"

fun collect_result :: "('a \<Rightarrow> 'e + 'b) \<Rightarrow> 'a list \<Rightarrow> 'e + 'b list" where
  "collect_result f [] = Inr []"
| "collect_result f (x # xs) =
     (case f x of
        Inl e \<Rightarrow> Inl e
      | Inr y \<Rightarrow> (case collect_result f xs of Inl e \<Rightarrow> Inl e | Inr ys \<Rightarrow> Inr (y # ys)))"

definition parse_pattern :: "string \<Rightarrow> ToolError + nat option list" where
  "parse_pattern pattern =
     (let trimmed = trim pattern in
      if trimmed = [] then Inl (IdaError ''empty pattern'')
      else if contains trimmed '' '' then collect_result parse_token (split_whitespace trimmed)
      else if odd (length trimmed) then Inl (IdaError (''invalid hex pattern length: '' @ trimmed))
      else collect_result parse_token (chunks2 trimmed))"

subsection \<open>Parameters of requests\<close>

definition parse_address_value :: "json \<Rightarrow> nat option" where
  "parse_address_value v =
     (case as_u64 v of
        Some n \<Rightarrow> Some n
      | None \<Rightarrow>
          (case as_str v of
             None \<Rightarrow> None
           | Some str \<Rightarrow>
               (let s = trim str in
                case (case strip_prefix ''0x'' s of Some hex \<Rightarrow> Some hex | None \<Rightarrow> strip_prefix ''0X'' s) of
                  Some hex \<Rightarrow> from_str_radix 64 16 hex
                | None \<Rightarrow> from_str_radix 64 10 s)))"

definition parse_address_values :: "(json \<Rightarrow> string) \<Rightarrow> json \<Rightarrow> ToolError + nat list" where
  "parse_address_values show_json v =
     (case as_array v of
        Some arr \<Rightarrow>
          (case collect_result (\<lambda>(i, item).
             case parse_address_value item of
               Some a \<Rightarrow> Inr a
             | None \<Rightarrow> Inl (InvalidAddress (''invalid address at index '' @ fmt_dec i @ '': '' @ show_json item)))
             (enumerate 0 arr) of
             Inl e \<Rightarrow> Inl e
           | Inr addrs \<Rightarrow> if addrs = [] then Inl (InvalidAddress ''empty address array'') else Inr addrs)
      | None \<Rightarrow>
          (case parse_address_value v of
             Some a \<Rightarrow> Inr [a]
           | None \<Rightarrow> Inl (InvalidAddress (''invalid address: '' @ show_json v))))"

definition parse_string_list :: "json \<Rightarrow> string list" where
  "parse_string_list v = (case as_array v of Some a \<Rightarrow> List.map_filter as_str a | None \<Rightarrow> [])"

definition is_ascii_whitespace :: "char \<Rightarrow> bool" where
  "is_ascii_whitespace c \<longleftrightarrow> code_of c \<in> {9, 10, 12, 13, 32}"

definition is_patch_separator :: "char \<Rightarrow> bool" where
  "is_patch_separator c \<longleftrightarrow>
     is_ascii_whitespace c \<or> c = CHR '','' \<or> c = CHR '':'' \<or> c = CHR ''-'' \<or> c = CHR ''_''"

fun split_on :: "(char \<Rightarrow> bool) \<Rightarrow> string \<Rightarrow> string list" where
  "split_on sep [] = [[]]"
| "split_on sep (c # cs) =
     (if sep c then [] # split_on sep cs
      else (case split_on sep cs of t # ts \<Rightarrow> (c # t) # ts | [] \<Rightarrow> [[c]]))"

definition strip_cr :: "string \<Rightarrow> string" where
  "strip_cr s = (if s \<noteq> [] \<and> last s = CHR 0x0D then butlast s else s)"

text \<open>\<open>str::lines\<close>: a line ends with a line feed, which may follow a carriage return.\<close>

definition str_lines :: "string \<Rightarrow> string list" where
  "str_lines s =
     (let parts = split_on (\<lambda>c. c = CHR 0x0A) s
      in map strip_cr (butlast parts) @ (if last parts = [] then [] else [last parts]))"

definition is_ascii_hexdigit :: "char \<Rightarrow> bool" where
  "is_ascii_hexdigit c \<longleftrightarrow> to_digit 16 c \<noteq> None"

definition clean_token :: "string \<Rightarrow> ToolError + string" where
  "clean_token token =
     (let cleaned = (case strip_prefix ''0x'' token of
             Some t \<Rightarrow> t
           | None \<Rightarrow> (case strip_prefix ''0X'' token of Some t \<Rightarrow> t | None \<Rightarrow> token))
      in case find (\<lambda>c. \<not> is_ascii_hexdigit c) cleaned of
           Some c \<Rightarrow> Inl (InvalidParams (''invalid hex character: '' @ [c]))
         | None \<Rightarrow> Inr cleaned)"

definition parse_patch_bytes :: "json \<Rightarrow> ToolError + nat list" where
  "parse_patch_bytes v =
     (case as_array v of
        Some arr \<Rightarrow>
          (let out = map (\<lambda>n. n mod 256) (List.map_filter as_u64 arr) in
           if out = [] then Inl (InvalidParams ''no bytes provided'') else Inr out)
      | None \<Rightarrow>
          (case as_str v of
             None \<Rightarrow> Inl (InvalidParams ''bytes must be a hex string or array of integers'')
           | Some str \<Rightarrow>
               (let s = trim str in
                if s = [] then Inl (InvalidParams ''no bytes provided'')
                else
                  (case collect_result clean_token (filter (\<lambda>t. t \<noteq> []) (split_on is_patch_separator s)) of
                     Inl e \<Rightarrow> Inl e
                   | Inr cleaned \<Rightarrow>
                       (let hex_str = concat cleaned in
                        if hex_str = [] then Inl (InvalidParams ''no bytes provided'')
                        else if odd (length hex_str) then Inl (InvalidParams ''hex string has odd length'')
                        else collect_result (\<lambda>pair.
                               case from_str_radix 8 16 pair of
                                 Some b \<Rightarrow> Inr b
                               | None \<Rightarrow> Inl (InvalidParams ''invalid hex byte''))
                             (chunks2 hex_str))))))"

subsection \<open>Two hexadecimal digits\<close>

lemma collect_result_map:
  "(\<forall>x \<in> set xs. f (g x) = Inr (h x)) \<Longrightarrow> collect_result f (map g xs) = Inr (map h xs)"
  by (induction xs) auto

lemma collect_result_length: "collect_result f xs = Inr ys \<Longrightarrow> length ys = length xs"
  by (induction xs arbitrary: ys) (auto split: sum.splits)

abbreviation hex_digit :: "char \<Rightarrow> bool" where
  "hex_digit c \<equiv> c \<in> digit_char ` {..<16}"

lemma hex_digit_simps:
  assumes "hex_digit c"
  shows "\<not> is_whitespace c" "\<not> is_patch_separator c" "is_ascii_hexdigit c" "c \<noteq> CHR '' ''"
    "c \<noteq> CHR ''?''" "c \<noteq> CHR ''x''" "c \<noteq> CHR ''X''" "c \<noteq> CHR ''+''" "c \<noteq> CHR ''o''"
proof -
  obtain d where d: "d < 16" "c = digit_char d" using assms by auto
  have code: "code_of c = (if d < 10 then 48 + d else 87 + d)" using digit_char_cases[of d] d by simp
  have ne: "code_of c \<noteq> code_of x \<Longrightarrow> c \<noteq> x" for x by auto
  show "\<not> is_whitespace c" using d(1) by (auto simp: is_whitespace_def code)
  show "\<not> is_patch_separator c"
    using d(1) code by (auto simp: is_patch_separator_def is_ascii_whitespace_def code_of_def split: if_splits)
  show "is_ascii_hexdigit c" using to_digit_digit_char[of d 16] d by (simp add: is_ascii_hexdigit_def)
  show "c \<noteq> CHR '' ''" "c \<noteq> CHR ''?''" "c \<noteq> CHR ''x''" "c \<noteq> CHR ''X''" "c \<noteq> CHR ''+''" "c \<noteq> CHR ''o''"
    by (rule ne; use d(1) code in \<open>auto simp: code_of_def\<close>)+
qed

definition byte_hex :: "nat \<Rightarrow> string" where
  "byte_hex b = zero_pad 2 (fmt_hex b)"

lemma byte_hex_digits:
  assumes "b < 256"
  shows "byte_hex b = [digit_char (b div 16), digit_char (b mod 16)]"
proof (cases "b < 16")
  case True
  then have "fmt_hex b = [digit_char b]" by (simp add: fmt_hex_def radix_str.simps[of 16 b])
  moreover have "digit_char 0 = CHR ''0''" by code_simp
  ultimately show ?thesis using True by (simp add: byte_hex_def zero_pad_def)
next
  case False
  then have "fmt_hex b = [digit_char (b div 16), digit_char (b mod 16)]"
    using assms by (simp add: fmt_hex_def radix_str.simps[of 16 b] radix_str.simps[of 16 "b div 16"])
  then show ?thesis by (simp add: byte_hex_def zero_pad_def)
qed

lemma byte_hex_chars: "b < 256 \<Longrightarrow> c \<in> set (byte_hex b) \<Longrightarrow> hex_digit c"
  by (auto simp: byte_hex_digits)

lemma from_str_radix_byte: "b < 256 \<Longrightarrow> from_str_radix 8 16 (byte_hex b) = Some b"
proof -
  assume b: "b < 256"
  have "digit_char (b div 16) \<noteq> CHR ''+''" using b hex_digit_simps(8)[of "digit_char (b div 16)"] by auto
  then show ?thesis
    using b by (simp add: from_str_radix_def byte_hex_digits to_digit_digit_char)
qed

lemma hex_encode_chars: "(\<forall>b \<in> set bs. b < 256) \<Longrightarrow> c \<in> set (hex_encode bs) \<Longrightarrow> hex_digit c"
  by (auto simp: hex_encode_def byte_hex_def[symmetric] intro: byte_hex_chars)

lemma chunks2_hex_encode: "\<forall>b \<in> set bs. b < 256 \<Longrightarrow> chunks2 (hex_encode bs) = map byte_hex bs"
proof (induction bs)
  case (Cons b bs)
  have "hex_encode (b # bs) = byte_hex b @ hex_encode bs" by (simp add: hex_encode_def byte_hex_def)
  then show ?case using Cons by (simp add: byte_hex_digits)
qed (simp add: hex_encode_def)

lemma length_hex_encode: "\<forall>b \<in> set bs. b < 256 \<Longrightarrow> length (hex_encode bs) = 2 * length bs"
  by (induction bs) (auto simp: hex_encode_def byte_hex_def[symmetric] byte_hex_digits)

subsection \<open>Round trips\<close>

lemma fmt_hex_digits: "c \<in> set (fmt_hex n) \<Longrightarrow> hex_digit c"
  using radix_str_chars[of 16 n] by (auto simp: fmt_hex_def)

lemma trim_pad:
  assumes "\<forall>c \<in> set a. is_whitespace c" "\<forall>c \<in> set b. is_whitespace c" "\<forall>c \<in> set s. \<not> is_whitespace c" "s \<noteq> []"
  shows "trim (a @ s @ b) = s"
proof -
  have 1: "dropWhile is_whitespace (a @ s @ b) = s @ b"
    using assms by (cases s) (auto simp: dropWhile_append)
  have "dropWhile is_whitespace (rev b @ rev s) = rev s"
    using assms(2-4) by (cases "rev s") (auto simp: dropWhile_append dest: arg_cong[of "rev s" _ set])
  with 1 show ?thesis by (simp add: trim_def)
qed

lemma parse_address_hex:
  assumes "n < 2 ^ 64" "\<forall>c \<in> set a. is_whitespace c" "\<forall>c \<in> set b. is_whitespace c"
  shows "parse_address_str (a @ fmt_hex_alt n @ b) = Inr n"
    "parse_address_value (JStr (a @ fmt_hex_alt n @ b)) = Some n"
proof -
  have "\<forall>c \<in> set (fmt_hex_alt n). \<not> is_whitespace c"
    using hex_digit_simps(1) fmt_hex_digits by (auto simp: fmt_hex_alt_def is_whitespace_def code_of_def)
  then have t: "trim (a @ fmt_hex_alt n @ b) = fmt_hex_alt n" using assms by (intro trim_pad) (auto simp: fmt_hex_alt_def)
  have r: "from_str_radix 64 16 (fmt_hex n) = Some n"
    unfolding fmt_hex_def using assms(1) by (intro from_str_radix_radix_str) simp_all
  show "parse_address_str (a @ fmt_hex_alt n @ b) = Inr n"
    unfolding parse_address_str_def Let_def t by (simp add: fmt_hex_alt_def starts_with_def r)
  show "parse_address_value (JStr (a @ fmt_hex_alt n @ b)) = Some n"
    by (simp add: parse_address_value_def t Let_def) (simp add: fmt_hex_alt_def strip_prefix_def starts_with_def r)
qed

lemma digit_second:
  assumes "2 \<le> r" "r \<le> 10" "c \<in> set (radix_str r n)"
  shows "\<not> is_whitespace c" "c \<notin> {CHR ''x'', CHR ''X'', CHR ''b'', CHR ''B'', CHR ''o'', CHR ''O''}"
proof -
  have "c \<in> digit_char ` {..<r}" using radix_str_chars[of r n] assms by auto
  then obtain d where d: "d < 10" "c = digit_char d" using assms(2) by (metis imageE lessThan_iff less_le_trans)
  have code: "code_of c = 48 + d" using digit_char_cases[of d] d by simp
  show "\<not> is_whitespace c" using d(1) by (simp add: is_whitespace_def code)
  show "c \<notin> {CHR ''x'', CHR ''X'', CHR ''b'', CHR ''B'', CHR ''o'', CHR ''O''}"
    using d(1) code by (auto simp: code_of_def)
qed

lemma starts_with_two: "starts_with [a, b] s \<Longrightarrow> b \<in> set s"
  by (auto simp: starts_with_iff)

lemma parse_address_dec:
  assumes "n < 2 ^ 64" "\<forall>c \<in> set a. is_whitespace c" "\<forall>c \<in> set b. is_whitespace c"
  shows "parse_address_str (a @ fmt_dec n @ b) = Inr n"
    "parse_address_value (JStr (a @ fmt_dec n @ b)) = Some n"
proof -
  have t: "trim (a @ fmt_dec n @ b) = fmt_dec n"
    using assms(2,3) digit_second[of 10 _ n] by (intro trim_pad) (auto simp: fmt_dec_def)
  have no: "\<not> starts_with [CHR ''0'', c] (fmt_dec n)"
    if "c \<in> {CHR ''x'', CHR ''X'', CHR ''b'', CHR ''B'', CHR ''o'', CHR ''O''}" for c
    using that starts_with_two[of "CHR ''0''" c "fmt_dec n"] digit_second(2)[of 10 c n] by (auto simp: fmt_dec_def)
  have r: "from_str_radix 64 10 (fmt_dec n) = Some n"
    unfolding fmt_dec_def using assms(1) by (intro from_str_radix_radix_str) simp_all
  show "parse_address_str (a @ fmt_dec n @ b) = Inr n"
    unfolding parse_address_str_def Let_def t by (simp add: no r)
  show "parse_address_value (JStr (a @ fmt_dec n @ b)) = Some n"
    by (simp add: parse_address_value_def t Let_def strip_prefix_def no r)
qed

text \<open>
  C31. Every 64-bit address that the tools print, in hexadecimal with its prefix or in decimal, is
  read back by both address parsers, with any white space around it; and whatever string the
  parser of requests accepts, the parser of the handlers reads as the same address.
\<close>

theorem address_roundtrip:
  assumes "n < 2 ^ 64" "\<forall>c \<in> set a. is_whitespace c" "\<forall>c \<in> set b. is_whitespace c"
  shows "parse_address_str (a @ fmt_hex_alt n @ b) = Inr n \<and> parse_address_str (a @ fmt_dec n @ b) = Inr n \<and>
    parse_address_value (JStr (a @ fmt_hex_alt n @ b)) = Some n \<and>
    parse_address_value (JStr (a @ fmt_dec n @ b)) = Some n \<and>
    (\<forall>s m. parse_address_value (JStr s) = Some m \<longrightarrow> parse_address_str s = Inr m)"
proof -
  have bin: "from_str_radix 64 10 s = None" if "starts_with [CHR ''0'', c] s" "to_digit 10 c = None" for s c
    using that by (auto simp: starts_with_iff from_str_radix_def to_digit_def code_of_def Let_def)
  have "parse_address_str s = Inr m" if v: "parse_address_value (JStr s) = Some m" for s m
  proof (cases "starts_with ''0x'' (trim s) \<or> starts_with ''0X'' (trim s)")
    case True
    then show ?thesis using v
      by (auto simp: parse_address_value_def parse_address_str_def Let_def strip_prefix_def numeral_2_eq_2 split: if_splits)
  next
    case False
    then have r: "from_str_radix 64 10 (trim s) = Some m"
      using v by (auto simp: parse_address_value_def Let_def strip_prefix_def)
    then have "\<not> starts_with [CHR ''0'', c] (trim s)" if "c \<in> {CHR ''b'', CHR ''B'', CHR ''o'', CHR ''O''}" for c
      using bin[of c "trim s"] that by (auto simp: to_digit_def code_of_def Let_def)
    then show ?thesis using False r by (simp add: parse_address_str_def Let_def)
  qed
  then show ?thesis using parse_address_hex[OF assms] parse_address_dec[OF assms] by blast
qed

theorem address_roundtrip_witness:
  "parse_address_str ('' '' @ fmt_hex_alt 4198400) = Inr 4198400 \<and> parse_address_value (JStr (fmt_dec 7)) = Some 7"
  using address_roundtrip[of 4198400 "'' ''" "[]"] address_roundtrip[of 7 "[]" "[]"]
  by (simp add: is_whitespace_def code_of_def)

lemma trim_start_0x_none: "CHR ''x'' \<notin> set s \<Longrightarrow> trim_start_0x s = s"
  by (subst trim_start_0x.simps) (auto simp: strip_prefix_def starts_with_iff)

lemma parse_token_byte: "b < 256 \<Longrightarrow> parse_token (byte_hex b) = Inr (Some b)"
proof -
  assume b: "b < 256"
  have "CHR ''x'' \<notin> set (byte_hex b)" "CHR ''?'' \<notin> set (byte_hex b)"
    using byte_hex_chars[OF b] hex_digit_simps by blast+
  then show ?thesis by (auto simp: parse_token_def trim_start_0x_none from_str_radix_byte[OF b])
qed

lemma split_on_none: "\<forall>c \<in> set s. \<not> sep c \<Longrightarrow> split_on sep s = [s]"
  by (induction s) auto

definition pattern_token :: "nat option \<Rightarrow> string" where
  "pattern_token t = (case t of Some b \<Rightarrow> byte_hex b | None \<Rightarrow> ''??'')"

definition show_pattern :: "nat option list \<Rightarrow> string" where
  "show_pattern ts = concat (map pattern_token ts)"

fun show_spaced :: "nat option list \<Rightarrow> string" where
  "show_spaced [] = []"
| "show_spaced [t] = pattern_token t"
| "show_spaced (t # ts) = pattern_token t @ '' '' @ show_spaced ts"

abbreviation pattern_ok :: "nat option list \<Rightarrow> bool" where
  "pattern_ok ts \<equiv> \<forall>t \<in> set ts. \<forall>b. t = Some b \<longrightarrow> b < 256"

lemma pattern_token_chars:
  assumes "pattern_ok [t]" "c \<in> set (pattern_token t)"
  shows "\<not> is_whitespace c" "c \<noteq> CHR '' ''"
  using assms hex_digit_simps byte_hex_chars
  by (auto simp: pattern_token_def is_whitespace_def code_of_def split: option.splits)

lemma pattern_token_two: "pattern_ok [t] \<Longrightarrow> \<exists>x y. pattern_token t = [x, y]"
  by (auto simp: pattern_token_def byte_hex_digits split: option.splits)

lemma parse_pattern_token: "pattern_ok [t] \<Longrightarrow> parse_token (pattern_token t) = Inr t"
  by (cases t) (simp_all add: pattern_token_def parse_token_byte, simp add: parse_token_def)

lemma chunks2_pattern: "pattern_ok ts \<Longrightarrow> chunks2 (show_pattern ts) = map pattern_token ts"
proof (induction ts)
  case (Cons t ts)
  obtain x y where "pattern_token t = [x, y]" using pattern_token_two[of t] Cons.prems by auto
  then show ?case using Cons by (simp add: show_pattern_def)
qed (simp add: show_pattern_def)

lemma length_show_pattern: "pattern_ok ts \<Longrightarrow> length (show_pattern ts) = 2 * length ts"
proof (induction ts)
  case (Cons t ts)
  obtain x y where "pattern_token t = [x, y]" using pattern_token_two[of t] Cons.prems by auto
  then show ?case using Cons by (simp add: show_pattern_def)
qed (simp add: show_pattern_def)

lemma split_whitespace_token:
  assumes "\<forall>c \<in> set t. \<not> is_whitespace c" "t \<noteq> []"
  shows "split_whitespace t = [t]" "is_whitespace w \<Longrightarrow> split_whitespace (t @ w # s) = t # split_whitespace s"
proof -
  obtain c cs where t: "t = c # cs" using assms(2) by (cases t) auto
  have tw: "takeWhile (\<lambda>c. \<not> is_whitespace c) t = t" "dropWhile (\<lambda>c. \<not> is_whitespace c) t = []"
    using assms(1) by (simp_all add: takeWhile_eq_all_conv)
  have e: "split_whitespace [] = []" by (simp add: split_whitespace.simps)
  have dw: "dropWhile (\<lambda>c. \<not> is_whitespace c) cs = []" "takeWhile (\<lambda>c. \<not> is_whitespace c) cs = cs"
    using assms(1) by (simp_all add: t takeWhile_eq_all_conv)
  show "split_whitespace t = [t]"
    using assms(1) by (subst split_whitespace.simps) (simp add: t e dw del: dropWhile_eq_Nil_conv)
  show "split_whitespace (t @ w # s) = t # split_whitespace s" if w: "is_whitespace w"
  proof -
    have "dropWhile is_whitespace (w # s) = dropWhile is_whitespace s" using w by simp
    then have "split_whitespace (w # s) = split_whitespace s"
      by (subst (1 2) split_whitespace.simps) simp
    then show ?thesis
      using assms(1) tw w by (subst split_whitespace.simps) (simp add: t takeWhile_append dropWhile_append)
  qed
qed

lemma split_show_spaced: "pattern_ok ts \<Longrightarrow> split_whitespace (show_spaced ts) = map pattern_token ts"
proof (induction ts rule: show_spaced.induct)
  case 1
  then show ?case by (simp add: split_whitespace.simps)
next
  case (2 t)
  then show ?case using split_whitespace_token(1)[of "pattern_token t"] pattern_token_chars[of t] pattern_token_two[of t]
    by auto
next
  case (3 t u ts)
  have "is_whitespace (CHR '' '')" by (simp add: is_whitespace_def code_of_def)
  then show ?case
    using 3 split_whitespace_token(2)[of "pattern_token t" "CHR '' ''" "show_spaced (u # ts)"]
      pattern_token_chars[of t] pattern_token_two[of t] by auto
qed

lemma trim_no_edge:
  assumes "s \<noteq> []" "\<not> is_whitespace (hd s)" "\<not> is_whitespace (last s)"
  shows "trim s = s"
proof -
  have 1: "dropWhile is_whitespace s = s" using assms by (cases s) auto
  have "dropWhile is_whitespace (rev s) = rev s" using assms by (cases "rev s") (auto simp: last_rev[symmetric] hd_rev)
  with 1 show ?thesis by (simp add: trim_def)
qed

lemma show_spaced_edges:
  assumes "pattern_ok ts" "ts \<noteq> []"
  shows "show_spaced ts \<noteq> [] \<and> \<not> is_whitespace (hd (show_spaced ts)) \<and> \<not> is_whitespace (last (show_spaced ts))"
  using assms
proof (induction ts rule: show_spaced.induct)
  case (2 t)
  then show ?case using pattern_token_two[of t] pattern_token_chars[of t] by auto
next
  case (3 t u ts)
  then show ?case using pattern_token_two[of t] pattern_token_chars[of t] by auto
qed simp

lemma parse_pattern_compact:
  assumes "pattern_ok ts" "ts \<noteq> []"
  shows "parse_pattern (show_pattern ts) = Inr ts"
proof -
  have chars: "\<not> is_whitespace c \<and> c \<noteq> CHR '' ''" if c: "c \<in> set (show_pattern ts)" for c
  proof -
    obtain t where "t \<in> set ts" "c \<in> set (pattern_token t)" using c by (auto simp: show_pattern_def)
    then show ?thesis using pattern_token_chars[of t c] assms(1) by auto
  qed
  have "trim (show_pattern ts) = show_pattern ts" using chars by (intro trim_id) blast
  moreover have "CHR '' '' \<notin> set (show_pattern ts)" using chars by blast
  then have "\<not> contains (show_pattern ts) '' ''" by (auto simp: contains_iff)
  moreover have "show_pattern ts \<noteq> []" using length_show_pattern[OF assms(1)] assms(2) by auto
  moreover have "collect_result parse_token (map pattern_token ts) = Inr (map (\<lambda>t. t) ts)"
    using assms(1) by (intro collect_result_map) (auto intro: parse_pattern_token)
  ultimately show ?thesis
    by (simp add: parse_pattern_def Let_def length_show_pattern[OF assms(1)] chunks2_pattern[OF assms(1)])
qed

lemma parse_pattern_spaced:
  assumes "pattern_ok ts" "ts \<noteq> []"
  shows "parse_pattern (show_spaced ts) = Inr ts"
proof (cases "tl ts = []")
  case True
  then obtain t where "ts = [t]" using assms(2) by (cases ts) auto
  then show ?thesis using parse_pattern_compact[OF assms] by (simp add: show_pattern_def)
next
  case False
  then obtain t u us where ts: "ts = t # u # us" using assms(2) by (metis list.exhaust_sel)
  have t: "trim (show_spaced ts) = show_spaced ts" using show_spaced_edges[OF assms] by (intro trim_no_edge) blast+
  have c: "contains (show_spaced ts) '' ''"
    unfolding ts contains_iff by (rule exI[of _ "pattern_token t"], rule exI[of _ "show_spaced (u # us)"]) simp
  have "collect_result parse_token (map pattern_token ts) = Inr (map (\<lambda>t. t) ts)"
    using assms(1) by (intro collect_result_map) (auto intro: parse_pattern_token)
  then show ?thesis
    unfolding parse_pattern_def Let_def t using show_spaced_edges[OF assms] c split_show_spaced[OF assms(1)] by simp
qed

text \<open>
  Every pattern of bytes and wildcards, written with or without spaces, is read back as the
  same pattern, and every string of bytes in hexadecimal is read back as those bytes, both as a
  pattern and as bytes to patch.
\<close>

lemma bytes_roundtrip:
  assumes "pattern_ok ts" "ts \<noteq> []" "\<forall>b \<in> set bs. b < 256" "bs \<noteq> []"
  shows "parse_pattern (show_pattern ts) = Inr ts \<and> parse_pattern (show_spaced ts) = Inr ts \<and>
    parse_pattern (hex_encode bs) = Inr (map Some bs) \<and> parse_patch_bytes (JStr (hex_encode bs)) = Inr bs"
proof -
  have "show_pattern (map Some bs) = hex_encode bs"
    by (simp add: show_pattern_def hex_encode_def pattern_token_def byte_hex_def comp_def)
  then have p: "parse_pattern (hex_encode bs) = Inr (map Some bs)"
    using parse_pattern_compact[of "map Some bs"] assms(3,4) by auto
  note chars = hex_encode_chars[OF assms(3)]
  have t: "trim (hex_encode bs) = hex_encode bs" using chars hex_digit_simps(1) by (intro trim_id) blast
  have ne: "hex_encode bs \<noteq> []" using length_hex_encode[OF assms(3)] assms(4) by auto
  have s: "split_on is_patch_separator (hex_encode bs) = [hex_encode bs]"
    using chars hex_digit_simps(2) by (intro split_on_none) blast
  have "CHR ''x'' \<notin> set (hex_encode bs)" "CHR ''X'' \<notin> set (hex_encode bs)" using chars hex_digit_simps(6,7) by blast+
  then have "strip_prefix ''0x'' (hex_encode bs) = None" "strip_prefix ''0X'' (hex_encode bs) = None"
    using starts_with_two unfolding strip_prefix_def by metis+
  moreover have "find (\<lambda>c. \<not> is_ascii_hexdigit c) (hex_encode bs) = None"
    using chars hex_digit_simps(3) unfolding find_None_iff by blast
  ultimately have c: "clean_token (hex_encode bs) = Inr (hex_encode bs)" by (simp add: clean_token_def)
  have "collect_result (\<lambda>pair. case from_str_radix 8 16 pair of Some b \<Rightarrow> Inr b
      | None \<Rightarrow> Inl (InvalidParams ''invalid hex byte'')) (map byte_hex bs) = Inr (map (\<lambda>b. b) bs)"
    using assms(3) by (intro collect_result_map) (simp add: from_str_radix_byte)
  then have "parse_patch_bytes (JStr (hex_encode bs)) = Inr bs"
    by (simp add: parse_patch_bytes_def Let_def t ne s c length_hex_encode[OF assms(3)] chunks2_hex_encode[OF assms(3)])
  then show ?thesis using p parse_pattern_compact[OF assms(1,2)] parse_pattern_spaced[OF assms(1,2)] by blast
qed

theorem bytes_roundtrip_witness:
  "parse_pattern (show_spaced [Some 72, None, Some 5]) = Inr [Some 72, None, Some 5] \<and>
   parse_patch_bytes (JStr (hex_encode [144, 144])) = Inr [144, 144]"
  using bytes_roundtrip[of "[Some 72, None, Some 5]" "[144, 144]"] by auto

text \<open>
  Given as an array, the bytes to patch are not checked: a number of 256 or more is taken
  modulo 256, and an element that is not an unsigned integer is left out, so that the bytes that
  follow it move.
\<close>

lemma patch_array_unchecked:
  "parse_patch_bytes (JArr (map JNum ns @ x # map JNum ms)) =
     (let kept = ns @ (case as_u64 x of Some n \<Rightarrow> [n] | None \<Rightarrow> []) @ ms in
      if kept = [] then Inl (InvalidParams ''no bytes provided'') else Inr (map (\<lambda>n. n mod 256) kept))"
proof -
  have "List.map_filter as_u64 (map JNum xs) = xs" for xs by (induction xs) (simp_all add: map_filter_simps)
  moreover have "List.map_filter as_u64 (xs @ ys) = List.map_filter as_u64 xs @ List.map_filter as_u64 ys" for xs ys
    by (simp add: List.map_filter_def)
  ultimately show ?thesis by (simp add: parse_patch_bytes_def Let_def map_filter_simps split: option.split)
qed

end
