(* ===== verification/Search.thy ===== *)
theory Search
  imports Addresses "HOL-Library.Code_Target_Nat"
begin

text \<open>
  The search handlers of \<open>src/ida/handlers/search.rs\<close>. What IDA answers about the open database
  is an argument: its segments, the bytes it reads, the text of an instruction, its length and
  the next item. The handlers return the JSON of the source.
\<close>

subsection \<open>Byte patterns in memory\<close>

record segment =
  seg_start :: nat
  seg_end :: nat

text \<open>The comparison of a pattern with the bytes at one position; a wildcard matches every byte.\<close>

fun pattern_at :: "nat option list \<Rightarrow> nat list \<Rightarrow> bool" where
  "pattern_at [] _ = True"
| "pattern_at (pb # pat) [] = False"
| "pattern_at (pb # pat) (b # bs) = ((case pb of None \<Rightarrow> True | Some p \<Rightarrow> b = p) \<and> pattern_at pat bs)"

definition push_match :: "nat \<Rightarrow> nat \<Rightarrow> nat option list \<Rightarrow> nat list \<Rightarrow> nat \<Rightarrow> nat list \<Rightarrow> nat list" where
  "push_match max_results base pat bytes i matches =
     (if length matches \<ge> max_results then matches
      else if pattern_at pat (drop i bytes) then matches @ [base + i]
      else matches)"

definition scan_chunk :: "nat \<Rightarrow> nat \<Rightarrow> nat option list \<Rightarrow> nat list \<Rightarrow> nat list \<Rightarrow> nat list" where
  "scan_chunk max_results base pat bytes matches =
     fold (push_match max_results base pat bytes) [0..<Suc (length bytes - length pat)] matches"

text \<open>The loop over a segment; \<open>chunk\<close> is the chunk size, \<open>1024 * 1024\<close> in the code.\<close>

function scan_segment ::
  "nat \<Rightarrow> (nat \<Rightarrow> nat \<Rightarrow> nat list) \<Rightarrow> nat \<Rightarrow> nat option list \<Rightarrow> segment \<Rightarrow> nat \<Rightarrow> nat list \<Rightarrow> nat list" where
  "scan_segment chunk get_bytes max_results pat seg offset matches =
     (let seg_len = seg_end seg - seg_start seg in
      if offset < seg_len \<and> length matches < max_results then
        (let remaining = seg_len - offset;
             read_len = min remaining (chunk + (length pat - 1));
             bytes = get_bytes (seg_start seg + offset) read_len
         in if length bytes < length pat then matches
            else
              (let matches' = scan_chunk max_results (seg_start seg + offset) pat bytes matches in
               if remaining \<le> chunk \<or> chunk = 0 then matches'
               else scan_segment chunk get_bytes max_results pat seg (offset + chunk) matches'))
      else matches)"
  by pat_completeness auto
termination
  by (relation "measure (\<lambda>(_, _, _, _, seg, offset, _). seg_end seg - seg_start seg - offset)") auto

declare scan_segment.simps [simp del]

fun scan_segments ::
  "nat \<Rightarrow> (nat \<Rightarrow> nat \<Rightarrow> nat list) \<Rightarrow> nat \<Rightarrow> nat option list \<Rightarrow> segment list \<Rightarrow> nat list \<Rightarrow> nat list" where
  "scan_segments chunk get_bytes max_results pat [] matches = matches"
| "scan_segments chunk get_bytes max_results pat (seg # segs) matches =
     (let matches' = scan_segment chunk get_bytes max_results pat seg 0 matches in
      if length matches' \<ge> max_results then matches'
      else scan_segments chunk get_bytes max_results pat segs matches')"

definition CHUNK_SIZE :: nat where
  "CHUNK_SIZE = 1024 * 1024"

definition handle_find_bytes ::
  "(segment list \<times> (nat \<Rightarrow> nat \<Rightarrow> nat list)) option \<Rightarrow> string \<Rightarrow> nat \<Rightarrow> ToolError + json" where
  "handle_find_bytes idb pattern max_results =
     (case idb of
        None \<Rightarrow> Inl NoDatabaseOpen
      | Some (segs, get_bytes) \<Rightarrow>
          (case parse_pattern pattern of
             Inl e \<Rightarrow> Inl e
           | Inr pat \<Rightarrow>
               if pat = [] then Inl (IdaError ''empty pattern'')
               else
                 (let matches = map fmt_hex_alt (scan_segments CHUNK_SIZE get_bytes max_results pat segs []) in
                  Inr (JObj [(''pattern'', JStr pattern), (''matches'', JArr (map JStr matches)),
                             (''count'', JNum (length matches))]))))"

subsection \<open>Text and immediates\<close>

text \<open>The two handlers that collect what an iterator of IDA yields, which is an argument.\<close>

fun collect_addresses :: "nat \<Rightarrow> nat list \<Rightarrow> string list \<Rightarrow> string list" where
  "collect_addresses max_results [] matches = matches"
| "collect_addresses max_results (addr # addrs) matches =
     (let matches' = matches @ [fmt_hex_alt addr] in
      if length matches' \<ge> max_results then matches' else collect_addresses max_results addrs matches')"

definition matches_json :: "string list \<Rightarrow> json" where
  "matches_json matches = JObj [(''matches'', JArr (map JStr matches)), (''count'', JNum (length matches))]"

definition handle_search_text :: "(string \<Rightarrow> nat list) option \<Rightarrow> string \<Rightarrow> nat \<Rightarrow> ToolError + json" where
  "handle_search_text find_text_iter txt max_results =
     (case find_text_iter of
        None \<Rightarrow> Inl NoDatabaseOpen
      | Some find_iter \<Rightarrow> Inr (matches_json (collect_addresses max_results (find_iter txt) [])))"

definition handle_search_imm :: "(nat \<Rightarrow> nat list) option \<Rightarrow> nat \<Rightarrow> nat \<Rightarrow> ToolError + json" where
  "handle_search_imm find_imm_iter imm max_results =
     (case find_imm_iter of
        None \<Rightarrow> Inl NoDatabaseOpen
      | Some find_iter \<Rightarrow> Inr (matches_json (collect_addresses max_results (find_iter (imm mod 2 ^ 32)) [])))"

subsection \<open>The chunked search equals the naive one\<close>

lemma pattern_at_length: "pattern_at pat bs \<Longrightarrow> length pat \<le> length bs"
  by (induction pat bs rule: pattern_at.induct) auto

lemma pattern_at_take: "length pat \<le> n \<Longrightarrow> pattern_at pat (take n bs) \<longleftrightarrow> pattern_at pat bs"
  by (induction pat bs arbitrary: n rule: pattern_at.induct) (auto simp: take_Cons' split: nat.splits)

lemma pattern_at_nth:
  "pattern_at pat (drop i bs) \<longleftrightarrow>
     i + length pat \<le> max i (length bs) \<and> (\<forall>j < length pat. case pat ! j of None \<Rightarrow> True | Some p \<Rightarrow> bs ! (i + j) = p)"
proof -
  have "pattern_at pat cs \<longleftrightarrow>
      length pat \<le> length cs \<and> (\<forall>j < length pat. case pat ! j of None \<Rightarrow> True | Some p \<Rightarrow> cs ! j = p)" for cs
    by (induction pat cs rule: pattern_at.induct) (auto simp: All_less_Suc2 split: option.splits)
  from this[of "drop i bs"] show ?thesis by (auto simp: max_def split: option.splits)
qed

lemma take_append_take: "take n (take n xs @ ys) = take n (xs @ ys)"
  by (simp add: min_def)

lemma fold_push_match:
  "length ms \<le> max_results \<Longrightarrow>
   fold (push_match max_results base pat bytes) is ms =
     take max_results (ms @ map (\<lambda>i. base + i) (filter (\<lambda>i. pattern_at pat (drop i bytes)) is))"
proof (induction "is" arbitrary: ms)
  case (Cons i "is")
  have "length (push_match max_results base pat bytes i ms) \<le> max_results"
    using Cons.prems by (simp add: push_match_def)
  from Cons.IH[OF this] show ?case using Cons.prems by (auto simp: push_match_def take_Cons')
qed simp

lemma filter_upt_extend:
  assumes "a \<le> b" "\<And>i. a \<le> i \<Longrightarrow> i < b \<Longrightarrow> \<not> Q i"
  shows "filter Q [c..<b] = filter Q [c..<a]"
proof (cases "c \<le> a")
  case True
  then have "[c..<b] = [c..<a] @ [a..<b]" using assms(1) by (metis upt_add_eq_append le_add_diff_inverse)
  then show ?thesis using assms(2) by simp
next
  case False
  then show ?thesis using assms(2) by (auto simp: filter_empty_conv)
qed

definition naive_matches :: "nat option list \<Rightarrow> nat list \<Rightarrow> nat \<Rightarrow> nat \<Rightarrow> nat list" where
  "naive_matches pat mem start offset =
     map (\<lambda>i. start + i) (filter (\<lambda>i. pattern_at pat (drop i mem)) [offset..<length mem])"

lemma scan_chunk_mem:
  assumes "length pat \<le> n" "off + n \<le> length mem" "length ms \<le> max_results"
  shows "scan_chunk max_results (start + off) pat (take n (drop off mem)) ms =
    take max_results (ms @ map (\<lambda>i. start + i)
      (filter (\<lambda>i. pattern_at pat (drop i mem)) [off..<off + Suc (n - length pat)]))"
proof -
  have l: "length (take n (drop off mem)) = n" using assms(2) by simp
  have "pattern_at pat (drop i (take n (drop off mem))) \<longleftrightarrow> pattern_at pat (drop (off + i) mem)"
    if "i < Suc (n - length pat)" for i
    using that assms(1) pattern_at_take[of pat "n - i" "drop (off + i) mem"] by (simp add: drop_take add.commute)
  then have "filter (\<lambda>i. pattern_at pat (drop i (take n (drop off mem)))) [0..<Suc (n - length pat)] =
      filter (\<lambda>i. pattern_at pat (drop (off + i) mem)) [0..<Suc (n - length pat)]"
    by (intro filter_cong) (simp_all del: upt_Suc)
  moreover have "map (\<lambda>i. start + off + i) (filter (\<lambda>i. pattern_at pat (drop (off + i) mem)) [0..<m]) =
      map (\<lambda>i. start + i) (filter (\<lambda>i. pattern_at pat (drop i mem)) [off..<off + m])" for m
    by (induction m) (simp_all add: add.assoc)
  ultimately show ?thesis
    unfolding scan_chunk_def l fold_push_match[OF assms(3)] by (simp only:)
qed

lemma scan_segment_step:
  assumes "off < seg_end seg - seg_start seg" "length ms < max_results"
    and "n = min (seg_end seg - seg_start seg - off) (chunk + (length pat - 1))"
    and "get_bytes (seg_start seg + off) n = bytes"
  shows "scan_segment chunk get_bytes max_results pat seg off ms =
    (if length bytes < length pat then ms
     else (let ms' = scan_chunk max_results (seg_start seg + off) pat bytes ms in
           if seg_end seg - seg_start seg - off \<le> chunk \<or> chunk = 0 then ms'
           else scan_segment chunk get_bytes max_results pat seg (off + chunk) ms'))"
  by (subst scan_segment.simps) (simp only: Let_def assms(1,2) assms(3)[symmetric] assms(4) simp_thms if_True)

lemma scan_segment_naive:
  assumes mem: "\<And>off n. off + n \<le> length mem \<Longrightarrow> get_bytes (seg_start seg + off) n = take n (drop off mem)"
    and len: "length mem = seg_end seg - seg_start seg" and pat: "pat \<noteq> []" and chunk: "0 < chunk"
  shows "length ms \<le> max_results \<Longrightarrow>
    scan_segment chunk get_bytes max_results pat seg off ms =
      take max_results (ms @ naive_matches pat mem (seg_start seg) off)"
proof (induction "length mem - off" arbitrary: off ms rule: less_induct)
  case less
  let ?L = "length mem" and ?Q = "\<lambda>i. pattern_at pat (drop i mem)" and ?n = "min (length mem - off) (chunk + (length pat - 1))"
  have noQ: "\<not> ?Q i" if "?L < i + length pat" for i
    using that pattern_at_length[of pat "drop i mem"] pat by (cases pat) auto
  show ?case
  proof (cases "off < ?L \<and> length ms < max_results")
    case False
    then show ?thesis
      using less.prems by (subst scan_segment.simps) (auto simp: Let_def naive_matches_def len)
  next
    case in_range: True
    have b: "get_bytes (seg_start seg + off) ?n = take ?n (drop off mem)" using in_range by (intro mem) (auto simp: min_def)
    have lb: "length (take ?n (drop off mem)) = ?n" by simp
    note step = scan_segment_step[of off seg ms max_results ?n chunk pat get_bytes, unfolded len[symmetric],
        OF _ _ refl b, unfolded lb]
    show ?thesis
    proof (cases "?n < length pat")
      case True
      then have "?L < off + length pat" using chunk in_range by (auto simp: min_def split: if_splits)
      then have "naive_matches pat mem (seg_start seg) off = []"
        using noQ by (auto simp: naive_matches_def filter_empty_conv)
      then show ?thesis
        using less.prems step[OF conjunct1[OF in_range] conjunct2[OF in_range], unfolded if_P[OF True]] by simp
    next
      case False
      let ?ms = "scan_chunk max_results (seg_start seg + off) pat (take ?n (drop off mem)) ms"
      have sc: "?ms = take max_results (ms @ map (\<lambda>i. seg_start seg + i) (filter ?Q [off..<off + Suc (?n - length pat)]))"
        using False less.prems in_range by (intro scan_chunk_mem) (auto simp: min_def split: if_splits)
      show ?thesis
      proof (cases "?L - off \<le> chunk")
        case True
        have "filter ?Q [off..<?L] = filter ?Q [off..<off + Suc (?n - length pat)]"
          using True False in_range pat by (intro filter_upt_extend noQ) (cases pat; auto)+
        then show ?thesis
          using in_range True False sc by (subst step) (simp_all add: Let_def naive_matches_def)
      next
        case more: False
        have f: "filter ?Q [off..<off + chunk] = filter ?Q [off..<off + Suc (?n - length pat)]"
          using more False in_range pat by (intro filter_upt_extend noQ) (cases pat; auto simp: min_def split: if_splits)+
        have "filter ?Q [off..<?L] = filter ?Q [off..<off + chunk] @ filter ?Q [off + chunk..<?L]"
        proof -
          have "[off..<?L] = [off..<off + chunk] @ [off + chunk..<?L]"
            using more in_range upt_add_eq_append[of off "off + chunk" "?L - (off + chunk)"] by simp
          then show ?thesis by simp
        qed
        then have nm: "naive_matches pat mem (seg_start seg) off =
            map (\<lambda>i. seg_start seg + i) (filter ?Q [off..<off + Suc (?n - length pat)]) @
            naive_matches pat mem (seg_start seg) (off + chunk)"
          by (simp add: naive_matches_def f)
        have "length ?ms \<le> max_results" unfolding sc by (simp only: length_take min.cobounded2)
        then have "scan_segment chunk get_bytes max_results pat seg (off + chunk) ?ms =
            take max_results (?ms @ naive_matches pat mem (seg_start seg) (off + chunk))"
          using in_range chunk by (intro less.hyps) auto
        also have "\<dots> = take max_results (ms @ naive_matches pat mem (seg_start seg) off)"
          unfolding sc nm take_append_take append_assoc ..
        finally show ?thesis
          using in_range more False chunk by (subst step) (simp_all add: Let_def)
      qed
    qed
  qed
qed

text \<open>The bytes of a segment, as the reads of the database return them.\<close>

definition segment_image :: "(nat \<Rightarrow> nat \<Rightarrow> nat list) \<Rightarrow> segment \<times> nat list \<Rightarrow> bool" where
  "segment_image get_bytes sm \<longleftrightarrow>
     length (snd sm) = seg_end (fst sm) - seg_start (fst sm) \<and>
     (\<forall>off n. off + n \<le> length (snd sm) \<longrightarrow> get_bytes (seg_start (fst sm) + off) n = take n (drop off (snd sm)))"

lemma scan_segments_naive:
  assumes "\<forall>sm \<in> set sms. segment_image get_bytes sm" "pat \<noteq> []" "0 < chunk" "length ms \<le> max_results"
  shows "scan_segments chunk get_bytes max_results pat (map fst sms) ms =
    take max_results (ms @ concat (map (\<lambda>sm. naive_matches pat (snd sm) (seg_start (fst sm)) 0) sms))"
  using assms(1,4)
proof (induction sms arbitrary: ms)
  case (Cons sm sms)
  have "segment_image get_bytes sm" using Cons.prems(1) by simp
  then have s: "scan_segment chunk get_bytes max_results pat (fst sm) 0 ms =
      take max_results (ms @ naive_matches pat (snd sm) (seg_start (fst sm)) 0)"
    using scan_segment_naive[of "snd sm" get_bytes "fst sm" pat chunk] assms(2,3) Cons.prems(2)
    unfolding segment_image_def by blast
  show ?case
  proof (cases "max_results \<le> length (ms @ naive_matches pat (snd sm) (seg_start (fst sm)) 0)")
    case True
    then show ?thesis using Cons.prems(2) by (auto simp: s Let_def min_def)
  next
    case False
    then have "scan_segment chunk get_bytes max_results pat (fst sm) 0 ms =
        ms @ naive_matches pat (snd sm) (seg_start (fst sm)) 0" by (simp add: s)
    then show ?thesis using Cons.IH[of "ms @ naive_matches pat (snd sm) (seg_start (fst sm)) 0"] Cons.prems False
      by (simp add: Let_def)
  qed
qed simp

text \<open>
  C29. The search for a byte pattern, which reads segments in overlapping chunks, returns what a
  search that compares the pattern at every position returns: the first \<open>max_results\<close> positions
  in address order of the segments, none missed at a chunk border and none reported twice.
\<close>

theorem find_bytes_naive:
  assumes "\<forall>sm \<in> set sms. segment_image get_bytes sm" "parse_pattern pattern = Inr pat" "pat \<noteq> []"
  shows "handle_find_bytes (Some (map fst sms, get_bytes)) pattern max_results =
    (let found = take max_results (concat (map (\<lambda>(seg, mem). map (\<lambda>i. seg_start seg + i)
           (filter (\<lambda>i. i + length pat \<le> length mem \<and>
              (\<forall>j < length pat. case pat ! j of None \<Rightarrow> True | Some p \<Rightarrow> mem ! (i + j) = p)) [0..<length mem])) sms))
     in Inr (JObj [(''pattern'', JStr pattern), (''matches'', JArr (map (\<lambda>a. JStr (fmt_hex_alt a)) found)),
          (''count'', JNum (length found))]))"
proof -
  have "naive_matches pat mem start 0 = map (\<lambda>i. start + i)
      (filter (\<lambda>i. i + length pat \<le> length mem \<and>
         (\<forall>j < length pat. case pat ! j of None \<Rightarrow> True | Some p \<Rightarrow> mem ! (i + j) = p)) [0..<length mem])" for mem start
    unfolding naive_matches_def pattern_at_nth using assms(3) by (intro arg_cong[of _ _ "map _"] filter_cong) auto
  then show ?thesis
    using scan_segments_naive[OF assms(1,3), of CHUNK_SIZE "[]" max_results] assms(2,3)
    by (simp add: handle_find_bytes_def Let_def CHUNK_SIZE_def split_def comp_def)
qed

theorem find_bytes_naive_witness:
  "handle_find_bytes (Some ([\<lparr>seg_start = 4096, seg_end = 4100\<rparr>], \<lambda>a n. take n (drop (a - 4096) [1, 2, 1, 2]))) ''01??'' 5 =
   Inr (JObj [(''pattern'', JStr ''01??''), (''matches'', JArr [JStr ''0x1000'', JStr ''0x1002'']), (''count'', JNum 2)])"
proof -
  let ?g = "\<lambda>a n. take n (drop (a - 4096) [1, 2, 1, 2 :: nat])"
  let ?s = "\<lparr>seg_start = 4096, seg_end = 4100\<rparr>"
  have p: "parse_pattern ''01??'' = Inr [Some 1, None]" by code_simp
  have "\<forall>sm \<in> set [(?s, [1, 2, 1, 2])]. segment_image ?g sm" by (simp add: segment_image_def)
  note found = find_bytes_naive[OF this p, unfolded list.map prod.sel]
  show ?thesis by (subst found) (simp, code_simp)
qed

end
