(* ===== verification/Insn_Search.thy ===== *)
theory Insn_Search
  imports Search
begin

text \<open>
  The searches over disassembled instructions of \<open>src/ida/handlers/search.rs\<close>:
  \<open>handle_find_insns\<close> looks for a sequence of instructions, \<open>handle_find_insn_operands\<close> for text
  in operands. Both walk every segment from one instruction to the next.
\<close>

subsection \<open>Lines and addresses\<close>

definition strip_comment :: "string \<Rightarrow> string" where
  "strip_comment line = takeWhile (\<lambda>c. c \<noteq> CHR '';'') line"

definition split_disasm_line :: "string \<Rightarrow> string \<times> string \<times> string" where
  "split_disasm_line line =
     (let trimmed = trim (strip_comment line) in
      if trimmed = [] then ([], [], [])
      else (trim (takeWhile (\<lambda>c. \<not> is_whitespace c) trimmed),
            trim (tl (dropWhile (\<lambda>c. \<not> is_whitespace c) trimmed)), trimmed))"

text \<open>
  The open database: its segments, the text at an address (\<open>generate_disasm_line\<close>), the length
  of the instruction at an address (\<open>insn_at\<close>) and the next item (\<open>next_head\<close>).
\<close>

record insn_db =
  id_segments :: "segment list"
  id_line :: "nat \<Rightarrow> string option"
  id_insn_len :: "nat \<Rightarrow> nat option"
  id_next_head :: "nat \<Rightarrow> nat option"

definition next_addr :: "insn_db \<Rightarrow> nat \<Rightarrow> nat option" where
  "next_addr db current =
     (case id_insn_len db current of
        Some len \<Rightarrow> if len = 0 then None else Some (min (current + len) (2 ^ 64 - 1))
      | None \<Rightarrow> (case id_next_head db current of
                   Some nxt \<Rightarrow> if nxt > current then Some nxt else None
                 | None \<Rightarrow> None))"

definition matches_pattern :: "string \<Rightarrow> string \<Rightarrow> bool \<Rightarrow> bool" where
  "matches_pattern haystack pattern case_insensitive =
     (if case_insensitive then contains (to_ascii_lowercase haystack) (to_ascii_lowercase pattern)
      else contains haystack pattern)"

definition norm_case :: "bool \<Rightarrow> string \<Rightarrow> string" where
  "norm_case case_insensitive s = (if case_insensitive then to_ascii_lowercase s else s)"

text \<open>A pattern with a space or a comma is looked for in the line, any other in the mnemonic.\<close>

definition insn_hit :: "insn_db \<Rightarrow> bool \<Rightarrow> string \<Rightarrow> nat \<Rightarrow> (string \<times> string) option" where
  "insn_hit db ci pat addr =
     (case id_line db addr of
        None \<Rightarrow> None
      | Some line \<Rightarrow>
          (case split_disasm_line line of (mnemonic, _, clean_line) \<Rightarrow>
           if mnemonic = [] then None
           else if (if contains pat '' '' \<or> contains pat '',''
                    then contains (norm_case ci clean_line) pat
                    else contains (norm_case ci mnemonic) pat)
             then Some (mnemonic, clean_line) else None))"

fun match_sequence :: "insn_db \<Rightarrow> nat \<Rightarrow> bool \<Rightarrow> string list \<Rightarrow> nat \<Rightarrow> nat list option" where
  "match_sequence db stop ci [] current = Some []"
| "match_sequence db stop ci (pat # pats) current =
     (case next_addr db current of
        None \<Rightarrow> None
      | Some nxt \<Rightarrow>
          if nxt < stop \<and> insn_hit db ci pat nxt \<noteq> None
          then map_option (\<lambda>addrs. nxt # addrs) (match_sequence db stop ci pats nxt)
          else None)"

definition insn_match :: "insn_db \<Rightarrow> nat \<Rightarrow> bool \<Rightarrow> string list \<Rightarrow> nat \<Rightarrow> json option" where
  "insn_match db stop ci patterns_norm addr =
     (case insn_hit db ci (hd patterns_norm) addr of
        None \<Rightarrow> None
      | Some (mnemonic, clean_line) \<Rightarrow>
          if length patterns_norm = 1 then
            Some (JObj [(''address'', JStr (fmt_hex_alt addr)), (''mnemonic'', JStr mnemonic),
                        (''line'', JStr clean_line)])
          else map_option (\<lambda>rest.
            JObj [(''address'', JStr (fmt_hex_alt addr)), (''mnemonic'', JStr mnemonic), (''line'', JStr clean_line),
                  (''sequence'', JArr (map (\<lambda>a. JStr (fmt_hex_alt a)) (addr # rest)))])
            (match_sequence db stop ci (tl patterns_norm) addr))"

definition operand_match :: "insn_db \<Rightarrow> bool \<Rightarrow> string list \<Rightarrow> nat \<Rightarrow> json option" where
  "operand_match db ci patterns_norm addr =
     (case id_line db addr of
        None \<Rightarrow> None
      | Some line \<Rightarrow>
          (case split_disasm_line line of (mnemonic, operands, clean_line) \<Rightarrow>
           if mnemonic \<noteq> [] \<and> (\<exists>pat \<in> set patterns_norm. matches_pattern (norm_case ci operands) pat False) then
             Some (JObj [(''address'', JStr (fmt_hex_alt addr)), (''mnemonic'', JStr mnemonic),
                         (''operands'', JStr operands), (''line'', JStr clean_line)])
           else None))"

subsection \<open>The walk over the segments\<close>

definition add_match :: "'a option \<Rightarrow> 'a list \<Rightarrow> 'a list" where
  "add_match m matches = (case m of Some j \<Rightarrow> matches @ [j] | None \<Rightarrow> matches)"

function walk_segment ::
  "insn_db \<Rightarrow> (nat \<Rightarrow> json option) \<Rightarrow> nat \<Rightarrow> nat \<Rightarrow> nat \<Rightarrow> json list \<Rightarrow> json list" where
  "walk_segment db test stop max_results addr matches =
     (if addr < stop \<and> length matches < max_results then
        (let matches' = add_match (test addr) matches in
         case next_addr db addr of
           Some nxt \<Rightarrow> if nxt > addr then walk_segment db test stop max_results nxt matches' else matches'
         | None \<Rightarrow> matches')
      else matches)"
  by pat_completeness auto
termination
  by (relation "measure (\<lambda>(_, _, stop, _, addr, _). stop - addr)") auto

declare walk_segment.simps [simp del]

fun walk_segments ::
  "insn_db \<Rightarrow> (nat \<Rightarrow> nat \<Rightarrow> json option) \<Rightarrow> nat \<Rightarrow> segment list \<Rightarrow> json list \<Rightarrow> json list" where
  "walk_segments db test max_results [] matches = matches"
| "walk_segments db test max_results (seg # segs) matches =
     (let matches' = walk_segment db (test (seg_end seg)) (seg_end seg) max_results (seg_start seg) matches in
      if length matches' \<ge> max_results then matches' else walk_segments db test max_results segs matches')"

definition search_result :: "string list \<Rightarrow> bool \<Rightarrow> json list \<Rightarrow> json" where
  "search_result patterns ci matches =
     JObj [(''patterns'', JArr (map JStr patterns)), (''case_insensitive'', JBool ci),
           (''matches'', JArr matches), (''count'', JNum (length matches))]"

definition handle_find_insns :: "insn_db option \<Rightarrow> string list \<Rightarrow> nat \<Rightarrow> bool \<Rightarrow> ToolError + json" where
  "handle_find_insns idb patterns max_results ci =
     (case idb of
        None \<Rightarrow> Inl NoDatabaseOpen
      | Some db \<Rightarrow>
          if patterns = [] then Inl (InvalidParams ''empty patterns'')
          else
            (let patterns_norm = map (norm_case ci) patterns in
             Inr (search_result patterns ci
               (walk_segments db (\<lambda>stop. insn_match db stop ci patterns_norm) max_results (id_segments db) []))))"

definition handle_find_insn_operands :: "insn_db option \<Rightarrow> string list \<Rightarrow> nat \<Rightarrow> bool \<Rightarrow> ToolError + json" where
  "handle_find_insn_operands idb patterns max_results ci =
     (case idb of
        None \<Rightarrow> Inl NoDatabaseOpen
      | Some db \<Rightarrow>
          if patterns = [] then Inl (InvalidParams ''empty patterns'')
          else
            (let patterns_norm = map (norm_case ci) patterns in
             Inr (search_result patterns ci
               (walk_segments db (\<lambda>_. operand_match db ci patterns_norm) max_results (id_segments db) []))))"

subsection \<open>What the walk visits\<close>

function insn_addrs :: "insn_db \<Rightarrow> nat \<Rightarrow> nat \<Rightarrow> nat list" where
  "insn_addrs db stop addr =
     (if addr < stop then
        addr # (case next_addr db addr of
                  Some nxt \<Rightarrow> if nxt > addr then insn_addrs db stop nxt else []
                | None \<Rightarrow> [])
      else [])"
  by pat_completeness auto
termination
  by (relation "measure (\<lambda>(_, stop, addr). stop - addr)") auto

declare insn_addrs.simps [simp del]

lemma walk_segment_collects:
  "length ms \<le> max_results \<Longrightarrow>
   walk_segment db test stop max_results addr ms =
     take max_results (ms @ List.map_filter test (insn_addrs db stop addr))"
proof (induction db test stop max_results addr ms rule: walk_segment.induct)
  case (1 db test stop max_results addr ms)
  show ?case
  proof (cases "addr < stop \<and> length ms < max_results")
    case False
    then show ?thesis
      using "1.prems" by (subst walk_segment.simps, subst insn_addrs.simps) (auto simp: map_filter_simps)
  next
    case True
    let ?ms = "add_match (test addr) ms"
    have l: "length ?ms \<le> max_results" using True by (auto simp: add_match_def split: option.split)
    have a: "ms @ List.map_filter test (addr # xs) = ?ms @ List.map_filter test xs" for xs
      by (simp add: add_match_def map_filter_simps split: option.split)
    show ?thesis
    proof (cases "\<exists>nxt. next_addr db addr = Some nxt \<and> nxt > addr")
      case more: True
      then obtain nxt where n: "next_addr db addr = Some nxt" "nxt > addr" by blast
      have w: "walk_segment db test stop max_results addr ms = walk_segment db test stop max_results nxt ?ms"
        using True n by (subst walk_segment.simps) simp
      have i: "insn_addrs db stop addr = addr # insn_addrs db stop nxt"
        using True n by (subst insn_addrs.simps) simp
      show ?thesis unfolding w i a using "1.IH"[OF True refl n l] .
    next
      case stop: False
      have w: "walk_segment db test stop max_results addr ms = ?ms"
        using True stop by (subst walk_segment.simps) (auto simp: Let_def split: option.split)
      have i: "insn_addrs db stop addr = [addr]"
        using True stop by (subst insn_addrs.simps) (auto split: option.split)
      show ?thesis unfolding w i a using l by (simp add: map_filter_simps)
    qed
  qed
qed

lemma walk_segments_collects:
  "length ms \<le> max_results \<Longrightarrow>
   walk_segments db test max_results segs ms = take max_results (ms @ concat (map (\<lambda>seg.
     List.map_filter (test (seg_end seg)) (insn_addrs db (seg_end seg) (seg_start seg))) segs))"
proof (induction segs arbitrary: ms)
  case (Cons seg segs)
  let ?f = "List.map_filter (test (seg_end seg)) (insn_addrs db (seg_end seg) (seg_start seg))"
  note w = walk_segment_collects[OF Cons.prems, of db "test (seg_end seg)" "seg_end seg" "seg_start seg"]
  show ?case
  proof (cases "max_results \<le> length (ms @ ?f)")
    case True
    then show ?thesis using Cons.prems by (auto simp: w Let_def min_def)
  next
    case False
    then have "walk_segment db (test (seg_end seg)) (seg_end seg) max_results (seg_start seg) ms = ms @ ?f"
      by (simp add: w)
    then show ?thesis using Cons.IH[of "ms @ ?f"] False by (simp add: Let_def)
  qed
qed simp

lemma insn_addrs_range: "a \<in> set (insn_addrs db stop addr) \<Longrightarrow> addr \<le> a \<and> a < stop"
proof (induction db stop addr rule: insn_addrs.induct)
  case (1 db stop addr)
  have "addr < stop \<and> (a = addr \<or> (\<exists>nxt. next_addr db addr = Some nxt \<and> addr < nxt \<and> a \<in> set (insn_addrs db stop nxt)))"
    using "1.prems" by (subst (asm) insn_addrs.simps) (auto split: if_splits option.splits)
  then show ?case using "1.IH" by (metis less_imp_le_nat less_le_trans order_refl)
qed

text \<open>
  The instructions of a match are consecutive, inside the segment, and each has its pattern.
\<close>

fun consecutive_hits :: "insn_db \<Rightarrow> nat \<Rightarrow> bool \<Rightarrow> nat \<Rightarrow> string list \<Rightarrow> nat list \<Rightarrow> bool" where
  "consecutive_hits db stop ci prev [] [] = True"
| "consecutive_hits db stop ci prev (pat # pats) (a # addrs) =
     (next_addr db prev = Some a \<and> a < stop \<and> insn_hit db ci pat a \<noteq> None \<and>
      consecutive_hits db stop ci a pats addrs)"
| "consecutive_hits db stop ci prev _ _ = False"

lemma match_sequence_iff:
  "match_sequence db stop ci pats prev = Some addrs \<longleftrightarrow> consecutive_hits db stop ci prev pats addrs"
proof (induction pats arbitrary: prev addrs)
  case Nil
  then show ?case by (cases addrs) auto
next
  case (Cons pat pats)
  show ?case
    by (cases addrs) (auto simp: Cons.IH split: option.splits)
qed

text \<open>
  C30. The search for instructions reports, in order and up to the limit, exactly the addresses of
  the walk over each segment where the first pattern is found and the following instructions,
  inside the segment, have the following patterns; it always stops.
\<close>

theorem find_insns_exact:
  assumes "patterns \<noteq> []"
  shows "\<exists>ms. handle_find_insns (Some db) patterns max_results ci = Inr (search_result patterns ci ms) \<and>
    length ms \<le> max_results \<and>
    ms = take max_results (concat (map (\<lambda>seg. List.map_filter
      (insn_match db (seg_end seg) ci (map (norm_case ci) patterns))
      (insn_addrs db (seg_end seg) (seg_start seg))) (id_segments db))) \<and>
    (\<forall>seg \<in> set (id_segments db). \<forall>a \<in> set (insn_addrs db (seg_end seg) (seg_start seg)).
       seg_start seg \<le> a \<and> a < seg_end seg \<and>
       (insn_match db (seg_end seg) ci (map (norm_case ci) patterns) a \<noteq> None \<longleftrightarrow>
        insn_hit db ci (norm_case ci (hd patterns)) a \<noteq> None \<and>
        (\<exists>addrs. consecutive_hits db (seg_end seg) ci a (map (norm_case ci) (tl patterns)) addrs)))"
proof -
  have m: "insn_match db stop ci (map (norm_case ci) patterns) a \<noteq> None \<longleftrightarrow>
      insn_hit db ci (norm_case ci (hd patterns)) a \<noteq> None \<and>
      (\<exists>addrs. consecutive_hits db stop ci a (map (norm_case ci) (tl patterns)) addrs)" for stop a
  proof -
    obtain p ps where ps: "patterns = p # ps" using assms by (cases patterns) auto
    have "ps = [] \<Longrightarrow> consecutive_hits db stop ci a [] []" by simp
    then show ?thesis
      by (cases "ps = []") (auto simp: ps insn_match_def match_sequence_iff[symmetric] split: option.splits)
  qed
  show ?thesis
    using assms insn_addrs_range m walk_segments_collects[of "[]" max_results db
        "\<lambda>stop. insn_match db stop ci (map (norm_case ci) patterns)" "id_segments db"]
    by (intro exI[of _ "walk_segments db (\<lambda>stop. insn_match db stop ci (map (norm_case ci) patterns)) max_results
          (id_segments db) []"]) (auto simp: handle_find_insns_def Let_def)
qed

definition sample_insn_db :: insn_db where
  "sample_insn_db = \<lparr>id_segments = [\<lparr>seg_start = 0, seg_end = 3\<rparr>],
     id_line = (\<lambda>a. if a = 0 then Some ''push rbp'' else if a = 1 then Some ''mov rbp, rsp ; frame'' else Some ''ret''),
     id_insn_len = (\<lambda>_. Some 1), id_next_head = (\<lambda>_. None)\<rparr>"

theorem find_insns_exact_witness:
  "\<exists>ms. handle_find_insns (Some sample_insn_db) [''push'', ''MOV''] 9 True = Inr (search_result [''push'', ''MOV''] True ms) \<and>
     length ms \<le> 9"
  using find_insns_exact[of "[''push'', ''MOV'']" sample_insn_db 9 True] by blast

end
