(* ===== verification/Control_Flow.thy ===== *)
theory Control_Flow
  imports Addresses "HOL-Library.Code_Target_Nat"
begin

text \<open>
  The control flow handlers of \<open>src/ida/handlers/controlflow.rs\<close>: callees and callers of a
  function, paths between two blocks and the call graph. What IDA answers about the open database
  is an argument: functions, cross references in the order of its iterators, items and blocks.
\<close>

subsection \<open>Callees and callers\<close>

record func =
  f_start :: nat
  f_end :: nat
  f_name :: "string option"
  f_len :: nat

datatype xref_type = NearCall | FarCall | OtherRef

record flow_db =
  function_at :: "nat \<Rightarrow> func option"
  xrefs_from :: "nat \<Rightarrow> (xref_type \<times> nat) list"
  xrefs_to :: "nat \<Rightarrow> (xref_type \<times> nat) list"
  next_head :: "nat \<Rightarrow> nat option"

record FunctionInfo =
  fi_address :: string
  fi_name :: string
  fi_size :: nat

definition function_info :: "func \<Rightarrow> FunctionInfo" where
  "function_info f = \<lparr>fi_address = fmt_hex_alt (f_start f),
     fi_name = (case f_name f of Some n \<Rightarrow> n | None \<Rightarrow> ''sub_'' @ fmt_hex (f_start f)), fi_size = f_len f\<rparr>"

definition is_call :: "xref_type \<Rightarrow> bool" where
  "is_call t \<longleftrightarrow> t = NearCall \<or> t = FarCall"

text \<open>One cross reference: a call into a function that was not seen yet is recorded.\<close>

definition note_call ::
  "flow_db \<Rightarrow> xref_type \<times> nat \<Rightarrow> nat list \<times> FunctionInfo list \<Rightarrow> nat list \<times> FunctionInfo list" where
  "note_call db x acc =
     (case acc of (seen, infos) \<Rightarrow>
      if is_call (fst x) then
        (case function_at db (snd x) of
           Some f \<Rightarrow>
             if f_start f \<in> set seen then (seen, infos)
             else (hs_insert (f_start f) seen, infos @ [function_info f])
         | None \<Rightarrow> (seen, infos))
      else (seen, infos))"

function callees_loop ::
  "flow_db \<Rightarrow> nat \<Rightarrow> nat \<Rightarrow> nat list \<times> FunctionInfo list \<Rightarrow> nat list \<times> FunctionInfo list" where
  "callees_loop db stop current acc =
     (if current < stop then
        (let acc' = fold (note_call db) (xrefs_from db current) acc in
         case next_head db current of
           Some nxt \<Rightarrow> if nxt \<le> current then acc' else callees_loop db stop nxt acc'
         | None \<Rightarrow> acc')
      else acc)"
  by pat_completeness auto
termination
  by (relation "measure (\<lambda>(_, stop, current, _). stop - current)") auto

declare callees_loop.simps [simp del]

definition handle_callees :: "flow_db option \<Rightarrow> nat \<Rightarrow> ToolError + FunctionInfo list" where
  "handle_callees idb addr =
     (case idb of
        None \<Rightarrow> Inl NoDatabaseOpen
      | Some db \<Rightarrow>
          (case function_at db addr of
             None \<Rightarrow> Inl (FunctionNotFound addr)
           | Some f \<Rightarrow> Inr (snd (callees_loop db (f_end f) (f_start f) ([], [])))))"

definition handle_callers :: "flow_db option \<Rightarrow> nat \<Rightarrow> ToolError + FunctionInfo list" where
  "handle_callers idb addr =
     (case idb of
        None \<Rightarrow> Inl NoDatabaseOpen
      | Some db \<Rightarrow>
          (case function_at db addr of
             None \<Rightarrow> Inl (FunctionNotFound addr)
           | Some f \<Rightarrow> Inr (snd (fold (note_call db) (xrefs_to db (f_start f)) ([], [])))))"

subsection \<open>The call graph\<close>

record graph_state =
  gs_nodes :: "(nat, FunctionInfo) hashmap"
  gs_edges :: "(nat \<times> nat) list"
  gs_queue :: "(nat \<times> nat) list"

definition visit_callee :: "nat \<Rightarrow> nat \<Rightarrow> nat \<Rightarrow> FunctionInfo \<Rightarrow> graph_state \<Rightarrow> graph_state" where
  "visit_callee max_nodes cur_addr depth callee g =
     (case parse_address_str (fi_address callee) of
        Inl _ \<Rightarrow> g
      | Inr target \<Rightarrow>
          let g1 = g\<lparr>gs_edges := gs_edges g @ [(cur_addr, target)]\<rparr> in
          if hm_get (gs_nodes g1) target = None \<and> length (gs_nodes g1) < max_nodes then
            g1\<lparr>gs_nodes := hm_insert target callee (gs_nodes g1), gs_queue := gs_queue g1 @ [(target, depth + 1)]\<rparr>
          else g1)"

definition callees_or_none :: "flow_db \<Rightarrow> nat \<Rightarrow> FunctionInfo list" where
  "callees_or_none db addr = (case handle_callees (Some db) addr of Inr cs \<Rightarrow> cs | Inl _ \<Rightarrow> [])"

lemma visit_callee_measure:
  "(max_nodes - length (gs_nodes (visit_callee max_nodes c d f g)), length (gs_queue (visit_callee max_nodes c d f g))) =
     (max_nodes - length (gs_nodes g), length (gs_queue g)) \<or>
   max_nodes - length (gs_nodes (visit_callee max_nodes c d f g)) < max_nodes - length (gs_nodes g)"
  by (auto simp: visit_callee_def Let_def hm_insert_fresh split: sum.split)

lemma fold_visit_measure:
  "(max_nodes - length (gs_nodes (fold (visit_callee max_nodes c d) fs g)), length (gs_queue (fold (visit_callee max_nodes c d) fs g))) =
     (max_nodes - length (gs_nodes g), length (gs_queue g)) \<or>
   max_nodes - length (gs_nodes (fold (visit_callee max_nodes c d) fs g)) < max_nodes - length (gs_nodes g)"
proof (induction fs arbitrary: g)
  case (Cons f fs)
  show ?case using Cons.IH[of "visit_callee max_nodes c d f g"] visit_callee_measure[of max_nodes c d f g] by auto
qed simp

function callgraph_loop :: "flow_db \<Rightarrow> nat \<Rightarrow> nat \<Rightarrow> graph_state \<Rightarrow> graph_state" where
  "callgraph_loop db max_depth max_nodes g =
     (case gs_queue g of
        [] \<Rightarrow> g
      | (cur_addr, depth) # rest \<Rightarrow>
          let g1 = g\<lparr>gs_queue := rest\<rparr> in
          if depth \<ge> max_depth then callgraph_loop db max_depth max_nodes g1
          else if length (gs_nodes g1) \<ge> max_nodes then g1
          else callgraph_loop db max_depth max_nodes
                 (fold (visit_callee max_nodes cur_addr depth) (callees_or_none db cur_addr) g1))"
  by pat_completeness auto
termination
proof (relation "inv_image (less_than <*lex*> less_than)
    (\<lambda>(_, _, max_nodes, g). (max_nodes - length (gs_nodes g), length (gs_queue g)))", goal_cases)
  case (3 db max_depth max_nodes g p rest cur_addr depth g1)
  then show ?case
    using fold_visit_measure[of max_nodes cur_addr depth "callees_or_none db cur_addr" g1] by auto
qed auto

declare callgraph_loop.simps [simp del]

definition callgraph_of :: "flow_db \<Rightarrow> func \<Rightarrow> nat \<Rightarrow> nat \<Rightarrow> graph_state" where
  "callgraph_of db root_f max_depth max_nodes =
     callgraph_loop db (max max_depth 1) (max max_nodes 1)
       \<lparr>gs_nodes = [(f_start root_f, function_info root_f)], gs_edges = [], gs_queue = [(f_start root_f, 0)]\<rparr>"

definition node_json :: "FunctionInfo \<Rightarrow> json" where
  "node_json f = JObj [(''address'', JStr (fi_address f)), (''name'', JStr (fi_name f)), (''size'', JNum (fi_size f))]"

definition callgraph_json :: "graph_state \<Rightarrow> json" where
  "callgraph_json g =
     JObj [(''nodes'', JArr (map (\<lambda>(_, f). node_json f) (gs_nodes g))),
           (''edges'', JArr (map (\<lambda>(a, b). JObj [(''from'', JStr (fmt_hex_alt a)), (''to'', JStr (fmt_hex_alt b))]) (gs_edges g)))]"

definition handle_callgraph :: "flow_db option \<Rightarrow> nat \<Rightarrow> nat \<Rightarrow> nat \<Rightarrow> ToolError + json" where
  "handle_callgraph idb addr max_depth max_nodes =
     (case idb of
        None \<Rightarrow> Inl NoDatabaseOpen
      | Some db \<Rightarrow>
          (case function_at db addr of
             None \<Rightarrow> Inl (FunctionNotFound addr)
           | Some root_f \<Rightarrow> Inr (callgraph_json (callgraph_of db root_f max_depth max_nodes))))"

subsection \<open>Paths in a function\<close>

text \<open>
  The blocks of a function with their successors. The index maps the start address of a block to
  its position; a later block of the same start replaces an earlier one.
\<close>

record block =
  b_start :: nat
  b_end :: nat
  b_succs :: "nat list"

definition index_by_start :: "block list \<Rightarrow> (nat, nat) hashmap" where
  "index_by_start blocks = fold (\<lambda>(idx, blk) m. hm_insert (b_start blk) idx m) (enumerate 0 blocks) []"

function dfs :: "block list \<Rightarrow> nat \<Rightarrow> nat \<Rightarrow> nat \<Rightarrow> nat \<Rightarrow> nat list \<Rightarrow> nat list list \<Rightarrow> nat list list"
  and dfs_succs :: "block list \<Rightarrow> nat list \<Rightarrow> nat \<Rightarrow> nat \<Rightarrow> nat \<Rightarrow> nat list \<Rightarrow> nat list list \<Rightarrow> nat list list" where
  "dfs blocks cur target max_depth max_paths path results =
     (if length results \<ge> max_paths then results
      else if length path > max_depth then results
      else if cur = target then results @ [path @ [cur]]
      else dfs_succs blocks (b_succs (blocks ! cur)) target max_depth max_paths (path @ [cur]) results)"
| "dfs_succs blocks [] target max_depth max_paths path results = results"
| "dfs_succs blocks (succ # succs) target max_depth max_paths path results =
     (case hm_get (index_by_start blocks) succ of
        None \<Rightarrow> dfs_succs blocks succs target max_depth max_paths path results
      | Some next_idx \<Rightarrow>
          if next_idx \<in> set path then dfs_succs blocks succs target max_depth max_paths path results
          else
            (let results' = dfs blocks next_idx target max_depth max_paths path results in
             if length results' \<ge> max_paths then results'
             else dfs_succs blocks succs target max_depth max_paths path results'))"
  by pat_completeness auto
termination
  by (relation "inv_image (less_than <*lex*> less_than)
    (\<lambda>x. case x of
       Inl (_, _, _, max_depth, _, path, _) \<Rightarrow> (Suc max_depth - length path, 0)
     | Inr (_, succs, _, max_depth, _, path, _) \<Rightarrow> (Suc max_depth - length path, Suc (length succs)))") auto

declare dfs.simps [simp del] dfs_succs.simps [simp del]

text \<open>\<open>func\<close>, its blocks and \<open>contains_address\<close> come from IDA.\<close>

definition handle_find_paths ::
  "(nat \<Rightarrow> ((nat \<Rightarrow> bool) \<times> (string + block list)) option) option \<Rightarrow> (block \<Rightarrow> nat \<Rightarrow> bool) \<Rightarrow>
   nat \<Rightarrow> nat \<Rightarrow> nat \<Rightarrow> nat \<Rightarrow> ToolError + json" where
  "handle_find_paths idb block_contains start target max_paths max_depth =
     (case idb of
        None \<Rightarrow> Inl NoDatabaseOpen
      | Some func_at \<Rightarrow>
          (case func_at start of
             None \<Rightarrow> Inl (FunctionNotFound start)
           | Some (contains_address, cfg) \<Rightarrow>
               if \<not> contains_address target then
                 Inl (NotSupported ''find_paths only supports addresses within the same function'')
               else
                 (case cfg of
                    Inl e \<Rightarrow> Inl (IdaError e)
                  | Inr blocks \<Rightarrow>
                      (case position (\<lambda>b. block_contains b start) blocks of
                         None \<Rightarrow> Inl (AddressOutOfRange start)
                       | Some start_idx \<Rightarrow>
                           (case position (\<lambda>b. block_contains b target) blocks of
                              None \<Rightarrow> Inl (AddressOutOfRange target)
                            | Some end_idx \<Rightarrow>
                                (let results = dfs blocks start_idx end_idx (max max_depth 1) (max max_paths 1) [] [] in
                                 Inr (JObj [(''paths'', JArr (map (\<lambda>p. JArr (map (\<lambda>i.
                                        JStr (fmt_hex_alt (b_start (blocks ! i)))) p)) results)),
                                      (''count'', JNum (length results))])))))))"

subsection \<open>The search enumerates the simple paths\<close>

fun enum_paths :: "block list \<Rightarrow> nat \<Rightarrow> nat \<Rightarrow> nat list \<Rightarrow> nat \<Rightarrow> nat list list" where
  "enum_paths blocks target 0 path cur = []"
| "enum_paths blocks target (Suc n) path cur =
     (if cur = target then [path @ [cur]]
      else concat (map (\<lambda>succ.
        case hm_get (index_by_start blocks) succ of
          None \<Rightarrow> []
        | Some i \<Rightarrow> if i \<in> set (path @ [cur]) then [] else enum_paths blocks target n (path @ [cur]) i)
        (b_succs (blocks ! cur))))"

definition enum_succs :: "block list \<Rightarrow> nat \<Rightarrow> nat \<Rightarrow> nat list \<Rightarrow> nat list \<Rightarrow> nat list list" where
  "enum_succs blocks target n path succs =
     concat (map (\<lambda>succ.
       case hm_get (index_by_start blocks) succ of
         None \<Rightarrow> []
       | Some i \<Rightarrow> if i \<in> set path then [] else enum_paths blocks target n path i) succs)"

lemma take_results: "length rs \<le> m \<Longrightarrow> m \<le> length (take m (rs @ xs)) \<Longrightarrow> take m (rs @ xs @ ys) = take m (rs @ xs)"
  by (auto simp: min_def split: if_splits)

lemma dfs_enum:
  shows "length results \<le> max_paths \<Longrightarrow> 
      dfs blocks cur target max_depth max_paths path results =
        take max_paths (results @ enum_paths blocks target (Suc max_depth - length path) path cur)"
    and "length results \<le> max_paths \<Longrightarrow>
      dfs_succs blocks succs target max_depth max_paths path results =
        take max_paths (results @ enum_succs blocks target (Suc max_depth - length path) path succs)"
proof (induction blocks cur target max_depth max_paths path results
    and blocks succs target max_depth max_paths path results rule: dfs_dfs_succs.induct)
  case (1 blocks cur target max_depth max_paths path results)
  show ?case
  proof (cases "max_paths \<le> length results \<or> max_depth < length path")
    case True
    then show ?thesis using "1.prems" by (subst dfs.simps) auto
  next
    case False
    then have n: "Suc max_depth - length path = Suc (Suc max_depth - length (path @ [cur]))" by (simp add: Suc_diff_le)
    have e: "enum_paths blocks target (Suc max_depth - length path) path cur =
        (if cur = target then [path @ [cur]]
         else enum_succs blocks target (Suc max_depth - length (path @ [cur])) (path @ [cur]) (b_succs (blocks ! cur)))"
      unfolding n by (simp add: enum_succs_def)
    show ?thesis using False "1.prems" "1.IH" unfolding e by (subst dfs.simps) (simp add: take_Cons')
  qed
next
  case (2 blocks target max_depth max_paths path results)
  then show ?case by (simp add: dfs_succs.simps enum_succs_def)
next
  case (3 blocks succ succs target max_depth max_paths path results)
  let ?n = "Suc max_depth - length path"
  show ?case
  proof (cases "\<exists>i. hm_get (index_by_start blocks) succ = Some i \<and> i \<notin> set path")
    case False
    then have "enum_succs blocks target ?n path (succ # succs) = enum_succs blocks target ?n path succs"
      by (auto simp: enum_succs_def split: option.split)
    then show ?thesis using False 3 by (subst dfs_succs.simps) (auto split: option.split)
  next
    case True
    then obtain i where i: "hm_get (index_by_start blocks) succ = Some i" "i \<notin> set path" by blast
    let ?r = "dfs blocks i target max_depth max_paths path results"
    have r: "?r = take max_paths (results @ enum_paths blocks target ?n path i)"
      using "3.IH"(3)[OF i] "3.prems" by blast
    have e: "enum_succs blocks target ?n path (succ # succs) =
        enum_paths blocks target ?n path i @ enum_succs blocks target ?n path succs"
      using i by (simp add: enum_succs_def)
    have d: "dfs_succs blocks (succ # succs) target max_depth max_paths path results =
        (if length ?r \<ge> max_paths then ?r else dfs_succs blocks succs target max_depth max_paths path ?r)"
      using i by (subst dfs_succs.simps) (simp add: Let_def)
    show ?thesis
    proof (cases "max_paths \<le> length ?r")
      case True
      show ?thesis
        unfolding d if_P[OF True] e using take_results[OF "3.prems" True[unfolded r]] unfolding r by (rule sym)
    next
      case False
      then have "dfs_succs blocks succs target max_depth max_paths path ?r =
          take max_paths (?r @ enum_succs blocks target ?n path succs)"
        using "3.IH"(4)[OF i refl] by simp
      then show ?thesis using False unfolding d e r by simp
    qed
  qed
qed

definition path_edge :: "block list \<Rightarrow> nat \<Rightarrow> nat \<Rightarrow> bool" where
  "path_edge blocks i j \<longleftrightarrow> (\<exists>succ \<in> set (b_succs (blocks ! i)). hm_get (index_by_start blocks) succ = Some j)"

definition simple_path :: "block list \<Rightarrow> nat \<Rightarrow> nat set \<Rightarrow> nat list \<Rightarrow> bool" where
  "simple_path blocks target avoid q \<longleftrightarrow>
     q \<noteq> [] \<and> last q = target \<and> distinct q \<and> successively (path_edge blocks) q \<and> set (tl q) \<inter> avoid = {}"

lemma simple_path_Cons:
  "simple_path blocks target avoid (i # j # q) \<longleftrightarrow>
     i \<noteq> target \<and> path_edge blocks i j \<and> j \<notin> insert i avoid \<and> simple_path blocks target (insert i avoid) (j # q)"
  by (auto simp: simple_path_def)

lemma simple_path_ends: "simple_path blocks target avoid (target # r) \<longleftrightarrow> r = []"
  using last_in_set[of r] by (auto simp: simple_path_def split: if_splits)

lemma enum_paths_Suc_iff:
  assumes "cur \<noteq> target"
  shows "p \<in> set (enum_paths blocks target (Suc n) path cur) \<longleftrightarrow>
    (\<exists>j. path_edge blocks cur j \<and> j \<notin> set (path @ [cur]) \<and> p \<in> set (enum_paths blocks target n (path @ [cur]) j))"
proof -
  have F: "p \<in> set (case m succ of None \<Rightarrow> [] | Some i \<Rightarrow> if i \<in> X then [] else g i) \<longleftrightarrow>
      (\<exists>i. m succ = Some i \<and> i \<notin> X \<and> p \<in> set (g i))" for m :: "nat \<Rightarrow> nat option" and succ X g
    by (cases "m succ") auto
  have "p \<in> set (enum_paths blocks target (Suc n) path cur) \<longleftrightarrow>
      (\<exists>succ \<in> set (b_succs (blocks ! cur)). \<exists>i. hm_get (index_by_start blocks) succ = Some i \<and>
         i \<notin> set (path @ [cur]) \<and> p \<in> set (enum_paths blocks target n (path @ [cur]) i))"
    using assms by (simp only: enum_paths.simps if_False set_concat set_map UN_iff bex_simps F)
  then show ?thesis unfolding path_edge_def by blast
qed

lemma enum_paths_iff:
  "p \<in> set (enum_paths blocks target n path cur) \<longleftrightarrow>
     (\<exists>r. p = path @ cur # r \<and> simple_path blocks target (set path) (cur # r) \<and> Suc (length r) \<le> n)"
proof (induction n arbitrary: path cur)
  case (Suc n)
  show ?case
  proof (cases "cur = target")
    case True
    then show ?thesis by (auto simp: simple_path_ends)
  next
    case False
    have ne: "\<not> simple_path blocks target (set path) [cur]" using False by (simp add: simple_path_def)
    have "p \<in> set (enum_paths blocks target (Suc n) path cur) \<longleftrightarrow>
        (\<exists>j r. path_edge blocks cur j \<and> j \<notin> insert cur (set path) \<and> p = path @ cur # j # r \<and>
           simple_path blocks target (insert cur (set path)) (j # r) \<and> Suc (length (j # r)) \<le> Suc n)"
      unfolding enum_paths_Suc_iff[OF False] Suc.IH by auto
    also have "\<dots> \<longleftrightarrow> (\<exists>j r. p = path @ cur # j # r \<and> simple_path blocks target (set path) (cur # j # r) \<and>
        Suc (length (j # r)) \<le> Suc n)"
      using False unfolding simple_path_Cons by blast
    also have "\<dots> \<longleftrightarrow> (\<exists>r. p = path @ cur # r \<and> simple_path blocks target (set path) (cur # r) \<and> Suc (length r) \<le> Suc n)"
      using ne by (metis neq_Nil_conv)
    finally show ?thesis .
  qed
qed simp

text \<open>
  C28. The path search always stops and reports only simple paths along the edges of the control
  flow graph, from the block of the start to the block of the target, of at most one block more
  than the depth given; it reports at most the number asked for, and when it reports fewer it has
  reported all of them.
\<close>

theorem find_paths_correct:
  assumes "results = dfs blocks start_idx end_idx max_depth max_paths [] []"
  shows "length results \<le> max_paths \<and>
    (\<forall>p \<in> set results. hd p = start_idx \<and> last p = end_idx \<and> distinct p \<and> p \<noteq> [] \<and>
       successively (path_edge blocks) p \<and> length p \<le> Suc max_depth) \<and>
    (length results < max_paths \<longrightarrow>
       (\<forall>p. hd p = start_idx \<and> last p = end_idx \<and> distinct p \<and> p \<noteq> [] \<and>
          successively (path_edge blocks) p \<and> length p \<le> Suc max_depth \<longrightarrow> p \<in> set results))"
proof -
  let ?E = "enum_paths blocks end_idx (Suc max_depth) [] start_idx"
  have r: "results = take max_paths ?E" using assms dfs_enum(1)[of "[]" max_paths blocks start_idx end_idx max_depth "[]"] by simp
  have e: "p \<in> set ?E \<longleftrightarrow> hd p = start_idx \<and> last p = end_idx \<and> distinct p \<and> p \<noteq> [] \<and>
       successively (path_edge blocks) p \<and> length p \<le> Suc max_depth" for p
    unfolding enum_paths_iff by (cases p) (auto simp: simple_path_def)
  have "length results < max_paths \<Longrightarrow> results = ?E" unfolding r by simp
  then show ?thesis using e set_take_subset[of max_paths ?E] unfolding r by (auto simp del: enum_paths.simps)
qed

definition sample_blocks :: "block list" where
  "sample_blocks = [\<lparr>b_start = 10, b_end = 20, b_succs = [20, 30]\<rparr>, \<lparr>b_start = 20, b_end = 30, b_succs = [10, 30]\<rparr>,
     \<lparr>b_start = 30, b_end = 40, b_succs = []\<rparr>]"

theorem find_paths_correct_witness:
  "dfs sample_blocks 0 2 5 9 [] [] = [[0, 1, 2], [0, 2]] \<and> successively (path_edge sample_blocks) [0, 1, 2]"
proof -
  have d: "dfs sample_blocks 0 2 5 9 [] [] = [[0, 1, 2], [0, 2]]" by code_simp
  show ?thesis using find_paths_correct[OF d[symmetric]] d by auto
qed

subsection \<open>The call graph is a bounded breadth-first search\<close>

definition calls :: "flow_db \<Rightarrow> nat \<Rightarrow> nat \<Rightarrow> bool" where
  "calls db a b \<longleftrightarrow> (\<exists>c \<in> set (callees_or_none db a). parse_address_str (fi_address c) = Inr b)"

text \<open>
  \<open>dep\<close> gives the depth at which a node was found. \<open>cg_inv\<close> is the part of the invariant that
  holds at every moment; \<open>cg_closed\<close> says of a node that its callees are in the graph, unless the
  graph is full.
\<close>

definition cg_inv :: "flow_db \<Rightarrow> nat \<Rightarrow> nat \<Rightarrow> nat \<Rightarrow> (nat \<Rightarrow> nat) \<Rightarrow> graph_state \<Rightarrow> bool" where
  "cg_inv db D N r dep g \<longleftrightarrow>
     length (gs_nodes g) \<le> N \<and> r \<in> set (hm_keys (gs_nodes g)) \<and> dep r = 0 \<and>
     (\<forall>n \<in> set (hm_keys (gs_nodes g)). (calls db ^^ dep n) r n \<and> dep n \<le> D) \<and>
     (\<forall>(a, b) \<in> set (gs_edges g). a \<in> set (hm_keys (gs_nodes g)) \<and> calls db a b) \<and>
     (\<forall>(a, d) \<in> set (gs_queue g). a \<in> set (hm_keys (gs_nodes g)) \<and> dep a = d) \<and>
     sorted (map snd (gs_queue g))"

definition cg_closed :: "flow_db \<Rightarrow> nat \<Rightarrow> (nat \<Rightarrow> nat) \<Rightarrow> graph_state \<Rightarrow> nat \<Rightarrow> bool" where
  "cg_closed db N dep g n \<longleftrightarrow>
     (length (gs_nodes g) < N \<longrightarrow>
      (\<forall>b. calls db n b \<longrightarrow> b \<in> set (hm_keys (gs_nodes g)) \<and> dep b \<le> Suc (dep n)))"

definition cg_outer :: "flow_db \<Rightarrow> nat \<Rightarrow> nat \<Rightarrow> nat \<Rightarrow> (nat \<Rightarrow> nat) \<Rightarrow> graph_state \<Rightarrow> bool" where
  "cg_outer db D N r dep g \<longleftrightarrow>
     cg_inv db D N r dep g \<and>
     (\<forall>(a, d) \<in> set (gs_queue g). \<forall>n \<in> set (hm_keys (gs_nodes g)). dep n \<le> Suc d) \<and>
     (\<forall>n \<in> set (hm_keys (gs_nodes g)). n \<notin> fst ` set (gs_queue g) \<and> dep n < D \<longrightarrow> cg_closed db N dep g n)"

text \<open>While the callees of \<open>cur\<close> at depth \<open>d\<close> are visited, \<open>done\<close> are those visited so far.\<close>

definition cg_inner ::
  "flow_db \<Rightarrow> nat \<Rightarrow> nat \<Rightarrow> nat \<Rightarrow> nat \<Rightarrow> nat \<Rightarrow> FunctionInfo set \<Rightarrow> (nat \<Rightarrow> nat) \<Rightarrow> graph_state \<Rightarrow> bool" where
  "cg_inner db D N r cur d visited dep g \<longleftrightarrow>
     cg_inv db D N r dep g \<and> cur \<in> set (hm_keys (gs_nodes g)) \<and> dep cur = d \<and>
     (\<forall>(a, e) \<in> set (gs_queue g). d \<le> e \<and> e \<le> Suc d) \<and>
     (\<forall>n \<in> set (hm_keys (gs_nodes g)). dep n \<le> Suc d) \<and>
     (\<forall>n \<in> set (hm_keys (gs_nodes g)). n \<notin> fst ` set (gs_queue g) \<and> n \<noteq> cur \<and> dep n < D \<longrightarrow> cg_closed db N dep g n) \<and>
     (length (gs_nodes g) < N \<longrightarrow> (\<forall>c \<in> visited. \<forall>b. parse_address_str (fi_address c) = Inr b \<longrightarrow>
        b \<in> set (hm_keys (gs_nodes g))))"

lemma visit_callee_inner:
  assumes I: "cg_inner db D N r cur d visited dep g" and c: "c \<in> set (callees_or_none db cur)" and d: "d < D"
  shows "\<exists>dep'. cg_inner db D N r cur d (insert c visited) dep' (visit_callee N cur d c g)"
proof (cases "parse_address_str (fi_address c)")
  case (Inl e)
  then have "cg_inner db D N r cur d (insert c visited) dep (visit_callee N cur d c g)"
    using I by (simp add: visit_callee_def cg_inner_def)
  then show ?thesis by blast
next
  case (Inr b)
  let ?g = "visit_callee N cur d c g" and ?K = "set (hm_keys (gs_nodes g))"
  have cb: "calls db cur b" using c Inr by (auto simp: calls_def)
  note inv = I[unfolded cg_inner_def cg_inv_def]
  show ?thesis
  proof (cases "b \<notin> ?K \<and> length (gs_nodes g) < N")
    case False
    then have g': "?g = g\<lparr>gs_edges := gs_edges g @ [(cur, b)]\<rparr>"
      by (auto simp: visit_callee_def Inr Let_def map_of_eq_None_iff)
    have "cg_inner db D N r cur d (insert c visited) dep ?g"
      using inv False Inr cb unfolding cg_inner_def cg_inv_def cg_closed_def g' by auto
    then show ?thesis by blast
  next
    case True
    then have b: "b \<notin> ?K" by blast
    then have none: "map_of (gs_nodes g) b = None" by (simp add: map_of_eq_None_iff)
    let ?dep = "dep(b := Suc d)"
    have g': "gs_nodes ?g = gs_nodes g @ [(b, c)]" "gs_edges ?g = gs_edges g @ [(cur, b)]"
      "gs_queue ?g = gs_queue g @ [(b, Suc d)]"
      using True none by (simp_all add: visit_callee_def Inr Let_def hm_insert_fresh)
    have keys: "set (hm_keys (gs_nodes ?g)) = insert b ?K" by (simp add: g')
    have same: "n \<in> ?K \<Longrightarrow> ?dep n = dep n" for n using b by auto
    have curK: "cur \<in> ?K" "dep cur = d" using inv by blast+
    have "(calls db ^^ Suc d) r b" using inv curK cb by (metis relpowp_Suc_I)
    then have i: "cg_inv db D N r ?dep ?g"
      using inv True d same cb curK unfolding cg_inv_def keys g'
      by (auto simp: sorted_append)
    have "cg_closed db N ?dep ?g n" if "n \<in> ?K" "cg_closed db N dep g n" for n
      using that same b unfolding cg_closed_def keys by (auto simp: g')
    then have "cg_inner db D N r cur d (insert c visited) ?dep ?g"
      using i inv curK same b Inr unfolding cg_inner_def keys g' by (auto split: if_splits)
    then show ?thesis by blast
  qed
qed

lemma fold_visit_inner:
  assumes "cg_inner db D N r cur d visited dep g" "set cs \<subseteq> set (callees_or_none db cur)" "d < D"
  shows "\<exists>dep'. cg_inner db D N r cur d (visited \<union> set cs) dep' (fold (visit_callee N cur d) cs g)"
  using assms(1,2)
proof (induction cs arbitrary: visited dep g)
  case (Cons c cs)
  obtain dep1 where "cg_inner db D N r cur d (insert c visited) dep1 (visit_callee N cur d c g)"
    using visit_callee_inner[OF Cons.prems(1) _ assms(3)] Cons.prems(2) by auto
  from Cons.IH[OF this] Cons.prems(2) show ?case by simp
qed auto

lemma cg_step:
  assumes O: "cg_outer db D N r dep g" and q: "gs_queue g = (cur, d) # rest" and d: "d < D"
  shows "\<exists>dep'. cg_outer db D N r dep'
    (fold (visit_callee N cur d) (callees_or_none db cur) (g\<lparr>gs_queue := rest\<rparr>))"
proof -
  let ?K = "set (hm_keys (gs_nodes g))"
  note inv = O[unfolded cg_outer_def cg_inv_def]
  have dep: "\<forall>n \<in> ?K. dep n \<le> Suc d" "cur \<in> ?K" "dep cur = d" using inv q by auto
  have Q1: "\<forall>(a, e) \<in> set (gs_queue g). a \<in> ?K \<and> dep a = e" using inv by (elim conjE) assumption
  have Q2: "sorted (map snd (gs_queue g))" using inv by (elim conjE) assumption
  have "d \<le> e \<and> e \<le> Suc d" if r: "(a, e) \<in> set rest" for a e
  proof -
    have "a \<in> ?K \<and> dep a = e" using Q1 r unfolding q by auto
    moreover have "\<forall>x \<in> set rest. d \<le> snd x" using Q2 unfolding q by simp
    then have "d \<le> e" using r by fastforce
    ultimately show ?thesis using dep(1) by blast
  qed
  then have "\<forall>(a, e) \<in> set rest. d \<le> e \<and> e \<le> Suc d" by blast
  moreover have "cg_closed db N dep (g\<lparr>gs_queue := rest\<rparr>) n"
    if "n \<in> ?K" "n \<notin> fst ` set rest" "n \<noteq> cur" "dep n < D" for n
    using inv that q by (auto simp: cg_closed_def)
  ultimately have "cg_inner db D N r cur d {} dep (g\<lparr>gs_queue := rest\<rparr>)"
    using inv q dep unfolding cg_inner_def cg_inv_def by auto
  from fold_visit_inner[OF this subset_refl d] obtain dep' where
    I: "cg_inner db D N r cur d (set (callees_or_none db cur)) dep'
      (fold (visit_callee N cur d) (callees_or_none db cur) (g\<lparr>gs_queue := rest\<rparr>))"
    (is "cg_inner db D N r cur d _ dep' ?g") by auto
  have "cg_closed db N dep' ?g cur"
    using I unfolding cg_inner_def cg_closed_def calls_def by blast
  then have "n \<in> set (hm_keys (gs_nodes ?g)) \<Longrightarrow> n \<notin> fst ` set (gs_queue ?g) \<Longrightarrow> dep' n < D \<Longrightarrow> cg_closed db N dep' ?g n" for n
    using I unfolding cg_inner_def by (cases "n = cur") blast+
  moreover have "dep' n \<le> Suc e" if "(a, e) \<in> set (gs_queue ?g)" "n \<in> set (hm_keys (gs_nodes ?g))" for a e n
  proof -
    have "dep' n \<le> Suc d" "d \<le> e" using I that unfolding cg_inner_def by blast+
    then show ?thesis by simp
  qed
  moreover have "cg_inv db D N r dep' ?g" using I unfolding cg_inner_def by blast
  ultimately have "cg_outer db D N r dep' ?g" unfolding cg_outer_def by blast
  then show ?thesis by blast
qed

lemma cg_skip:
  assumes "cg_outer db D N r dep g" "gs_queue g = (cur, d) # rest" "D \<le> d"
  shows "cg_outer db D N r dep (g\<lparr>gs_queue := rest\<rparr>)"
proof -
  have "dep cur = d" using assms(1,2) by (auto simp: cg_outer_def cg_inv_def)
  then show ?thesis using assms unfolding cg_outer_def cg_inv_def cg_closed_def by auto
qed

text \<open>When the loop ends, the queue is empty or the graph is full.\<close>

lemma callgraph_loop_inv:
  "cg_outer db D N r dep g \<Longrightarrow>
   \<exists>dep'. cg_inv db D N r dep' (callgraph_loop db D N g) \<and>
     (length (gs_nodes (callgraph_loop db D N g)) < N \<longrightarrow>
        (\<forall>n \<in> set (hm_keys (gs_nodes (callgraph_loop db D N g))). dep' n < D \<longrightarrow>
           cg_closed db N dep' (callgraph_loop db D N g) n))"
proof (induction db D N g arbitrary: dep rule: callgraph_loop.induct)
  case (1 db D N g)
  show ?case
  proof (cases "gs_queue g")
    case Nil
    then have "callgraph_loop db D N g = g" by (simp add: callgraph_loop.simps)
    then show ?thesis using "1.prems" Nil by (auto simp: cg_outer_def)
  next
    case (Cons p rest)
    obtain cur d where p: "p = (cur, d)" by (cases p)
    note q = Cons[unfolded p]
    consider "D \<le> d" | "d < D" "N \<le> length (gs_nodes g)" | "d < D" "length (gs_nodes g) < N" by linarith
    then show ?thesis
    proof cases
      case 1
      have "callgraph_loop db D N g = callgraph_loop db D N (g\<lparr>gs_queue := rest\<rparr>)"
        using q 1 by (subst callgraph_loop.simps) (simp add: Let_def)
      then show ?thesis using "1.IH"(1)[OF q refl refl 1 cg_skip[OF "1.prems" q 1]] by simp
    next
      case 2
      have l: "callgraph_loop db D N g = g\<lparr>gs_queue := rest\<rparr>"
        using q 2 by (subst callgraph_loop.simps) (simp add: Let_def)
      have "cg_inv db D N r dep (g\<lparr>gs_queue := rest\<rparr>)"
        using "1.prems" q unfolding cg_outer_def cg_inv_def by auto
      then show ?thesis unfolding l using 2(2) by auto
    next
      case 3
      let ?g = "fold (visit_callee N cur d) (callees_or_none db cur) (g\<lparr>gs_queue := rest\<rparr>)"
      obtain dep1 where d1: "cg_outer db D N r dep1 ?g" using cg_step[OF "1.prems" q 3(1)] by blast
      have l: "callgraph_loop db D N g = callgraph_loop db D N ?g"
        using q 3 by (subst callgraph_loop.simps) (simp add: Let_def)
      show ?thesis unfolding l using 3 by (intro "1.IH"(2)[OF q refl refl _ _ d1]) simp_all
    qed
  qed
qed

text \<open>
  C27. The call graph always ends, has at most the number of nodes asked for, contains its root,
  and each of its nodes is called from the root through at most the depth asked for; each edge is
  a call of one of its nodes. When it has fewer nodes than asked for, it contains every function
  called from the root through that depth.
\<close>

theorem callgraph_correct:
  assumes "g = callgraph_of db root_f max_depth max_nodes"
  shows "length (gs_nodes g) \<le> max max_nodes 1 \<and> f_start root_f \<in> set (hm_keys (gs_nodes g)) \<and>
    (\<forall>n \<in> set (hm_keys (gs_nodes g)). \<exists>k \<le> max max_depth 1. (calls db ^^ k) (f_start root_f) n) \<and>
    (\<forall>(a, b) \<in> set (gs_edges g). a \<in> set (hm_keys (gs_nodes g)) \<and> calls db a b) \<and>
    (length (gs_nodes g) < max max_nodes 1 \<longrightarrow>
       (\<forall>k n. k \<le> max max_depth 1 \<and> (calls db ^^ k) (f_start root_f) n \<longrightarrow> n \<in> set (hm_keys (gs_nodes g))))"
proof -
  let ?D = "max max_depth 1" and ?N = "max max_nodes 1" and ?r = "f_start root_f"
  let ?g0 = "\<lparr>gs_nodes = [(?r, function_info root_f)], gs_edges = [], gs_queue = [(?r, 0)]\<rparr>"
  have "cg_outer db ?D ?N ?r (\<lambda>_. 0) ?g0" by (simp add: cg_outer_def cg_inv_def)
  from callgraph_loop_inv[OF this] obtain dep where i: "cg_inv db ?D ?N ?r dep g"
    and cl: "length (gs_nodes g) < ?N \<longrightarrow> (\<forall>n \<in> set (hm_keys (gs_nodes g)). dep n < ?D \<longrightarrow> cg_closed db ?N dep g n)"
    unfolding assms callgraph_of_def by blast
  have "n \<in> set (hm_keys (gs_nodes g)) \<and> dep n \<le> k"
    if "length (gs_nodes g) < ?N" "k \<le> ?D" "(calls db ^^ k) ?r n" for k n
    using that(2,3)
  proof (induction k arbitrary: n)
    case 0
    then show ?case using i by (auto simp: cg_inv_def)
  next
    case (Suc k)
    from Suc.prems(2) obtain m where m: "(calls db ^^ k) ?r m" "calls db m n" by auto
    have "m \<in> set (hm_keys (gs_nodes g)) \<and> dep m \<le> k" using Suc.IH[OF _ m(1)] Suc.prems(1) by simp
    then show ?case using cl that(1) m(2) Suc.prems(1) unfolding cg_closed_def by fastforce
  qed
  then show ?thesis using i unfolding cg_inv_def by blast
qed

definition sample_flow_db :: flow_db where
  "sample_flow_db = \<lparr>function_at = (\<lambda>a. if a < 10 then Some \<lparr>f_start = 0, f_end = 2, f_name = None, f_len = 2\<rparr>
        else Some \<lparr>f_start = 10, f_end = 12, f_name = Some ''g'', f_len = 2\<rparr>),
     xrefs_from = (\<lambda>a. if a = 0 then [(NearCall, 11)] else []), xrefs_to = (\<lambda>_. []), next_head = (\<lambda>a. Some (a + 1))\<rparr>"

theorem callgraph_correct_witness:
  "hm_keys (gs_nodes (callgraph_of sample_flow_db \<lparr>f_start = 0, f_end = 2, f_name = None, f_len = 2\<rparr> 3 9)) = [0, 10] \<and>
   length (gs_nodes (callgraph_of sample_flow_db \<lparr>f_start = 0, f_end = 2, f_name = None, f_len = 2\<rparr> 3 9)) \<le> 9"
proof -
  let ?g = "callgraph_of sample_flow_db \<lparr>f_start = 0, f_end = 2, f_name = None, f_len = 2\<rparr> 3 9"
  have "length (gs_nodes ?g) \<le> 9" using callgraph_correct[OF refl, of sample_flow_db _ 3 9] by auto
  moreover have "hm_keys (gs_nodes ?g) = [0, 10]" by code_simp
  ultimately show ?thesis by blast
qed

end
