(* ===== verification/Tool_Registry.thy ===== *)
theory Tool_Registry
  imports Rust_Text "HOL-Library.Code_Target_Numeral"
begin

text \<open>
  The tool registry of \<open>src/tool_registry.rs\<close>: the static table of tools with its lookups by name
  and alias, by category and by free text. The table is transcribed in twelve parts, in order.
  Case folding is that of ASCII, which the table's texts are up to one dash.
\<close>

subsection \<open>Categories\<close>

datatype ToolCategory =
    Core | Functions | Disassembly | Decompile | Xrefs | ControlFlow | Memory | Search
  | Metadata | Types | Editing | Debug | Ui | Scripting

fun category_as_str :: "ToolCategory \<Rightarrow> string" where
  "category_as_str Core = ''core''"
| "category_as_str Functions = ''functions''"
| "category_as_str Disassembly = ''disassembly''"
| "category_as_str Decompile = ''decompile''"
| "category_as_str Xrefs = ''xrefs''"
| "category_as_str ControlFlow = ''control_flow''"
| "category_as_str Memory = ''memory''"
| "category_as_str Search = ''search''"
| "category_as_str Metadata = ''metadata''"
| "category_as_str Types = ''types''"
| "category_as_str Editing = ''editing''"
| "category_as_str Debug = ''debug''"
| "category_as_str Ui = ''ui''"
| "category_as_str Scripting = ''scripting''"

definition all_categories :: "ToolCategory list" where
  "all_categories =
     [Core, Functions, Disassembly, Decompile, Xrefs, ControlFlow, Memory, Search, Metadata,
      Types, Editing, Debug, Ui, Scripting]"

definition category_from_str :: "string \<Rightarrow> ToolCategory option" where
  "category_from_str input =
     (let normalized = map (\<lambda>c. if c = CHR ''-'' \<or> c = CHR '' '' then CHR ''_'' else c)
                         (to_ascii_lowercase (trim input))
      in if normalized = ''core'' then Some Core
         else if normalized \<in> {''functions'', ''function''} then Some Functions
         else if normalized \<in> {''disassembly'', ''disasm''} then Some Disassembly
         else if normalized \<in> {''decompile'', ''decompiler''} then Some Decompile
         else if normalized \<in> {''xrefs'', ''xref'', ''references''} then Some Xrefs
         else if normalized \<in> {''control_flow'', ''controlflow'', ''cfg''} then Some ControlFlow
         else if normalized \<in> {''memory'', ''data''} then Some Memory
         else if normalized = ''search'' then Some Search
         else if normalized \<in> {''metadata'', ''meta'', ''info''} then Some Metadata
         else if normalized \<in> {''types'', ''type'', ''structs''} then Some Types
         else if normalized \<in> {''editing'', ''edit''} then Some Editing
         else if normalized \<in> {''debug'', ''debugger''} then Some Debug
         else if normalized = ''ui'' then Some Ui
         else if normalized \<in> {''scripting'', ''script'', ''eval''} then Some Scripting
         else None)"

text \<open>The fields of a tool, in the order of the struct.\<close>

datatype ToolInfo =
  ToolInfo (tool_name: string) (tool_category: ToolCategory) (short_desc: string)
    (full_desc: string) (tool_example: string) (tool_default: bool)
    (tool_keywords: "string list") (tool_aliases: "string list")

subsection \<open>The table\<close>

definition TOOL_REGISTRY_1 :: "ToolInfo list" where
  \<open>TOOL_REGISTRY_1 =
    [ToolInfo ''open_idb'' Core
       ''Open an IDA database or raw binary''
       ''Open an IDA Pro database file or a raw binary for analysis. Supports .i64 (64-bit) and .idb (32-bit) databases, as well as raw binaries like Mach-O/ELF/PE. Raw binaries are auto-analyzed and saved as .i64 alongside the input. If opening a raw binary with no existing .i64 and a sibling .dSYM is present, its DWARF debug info is loaded automatically. Set load_debug_info=true to force loading external debug info after open (optionally specify debug_info_path). The database must be opened before using any other analysis tools. Call close_idb when finished to release database locks; in multi-client servers, coordinate before closing. In HTTP/SSE mode, open_idb returns a close_token that must be provided to close_idb. Returns metadata about the binary: file type, processor, bitness, function count.''
       ''{"path": "/path/to/binary", "load_debug_info": true}''
       True
       [''open'', ''load'', ''database'', ''binary'', ''idb'', ''i64'', ''macho'', ''elf'', ''pe'']
       [],
     ToolInfo ''open_dsc'' Core
       ''Open a dyld_shared_cache and load one module; use dsc_add_dylib/dsc_add_region for more''
       ''Open an Apple dyld_shared_cache file and extract a single dylib for analysis. Handles DSC-specific loader selection and dscu plugin orchestration automatically. After opening, runs ObjC type and block analysis on the loaded module. Use this instead of open_idb when working with dyld_shared_cache files. Optionally load additional frameworks to resolve cross-module references. To load more code modules after the initial open, call dsc_add_dylib. To load additional data/GOT/stub regions by address, call dsc_add_region.''
       ''{"path": "/path/to/dyld_shared_cache_arm64e", "arch": "arm64e", "module": "/usr/lib/libobjc.A.dylib", "frameworks": ["/System/Library/Frameworks/Foundation.framework/Foundation"]}''
       False
       [''open'', ''dsc'', ''dyld'', ''shared'', ''cache'', ''dylib'', ''module'', ''region'', ''apple'', ''macos'', ''ios'']
       [],
     ToolInfo ''dsc_add_dylib'' Core
       ''Load an additional dylib into an open DSC database (light analysis only)''
       ''Incrementally load a single dylib into a database previously opened via open_dsc. Uses the dscu plugin to add the module, then runs ObjC type analysis. Skips full auto-analysis to keep the operation fast. Call once per module; then check analysis_status. If auto_is_ok is false, run analyze_funcs before relying on xrefs/decompile. Requires: database opened via open_dsc.''
       ''{"module": "/System/Library/Frameworks/Foundation.framework/Foundation", "timeout_secs": 300}''
       False
       [''dsc'', ''dyld'', ''dylib'', ''module'', ''load'', ''add'', ''framework'', ''cache'']
       [],
     ToolInfo ''dsc_add_region'' Core
       ''Load a DSC memory region by address (data/GOT/stubs)''
       ''Incrementally load a specific region from the currently open DSC database by address. Accepts exactly one address per call. Uses the dscu plugin region mode for on-demand data/GOT/stub loading. This does not force full auto-analysis; check analysis_status and run analyze_funcs when deeper cross-reference/decompile fidelity is required after loading. Requires: database opened via open_dsc.''
       ''{"address": "0x180116000", "timeout_secs": 300}''
       False
       [''dsc'', ''dyld'', ''region'', ''memory'', ''address'', ''got'', ''stubs'', ''data'', ''load'']
       [],
     ToolInfo ''load_debug_info'' Core
       ''Load external debug info (e.g., dSYM/DWARF)''
       ''Load external debug info (e.g., DWARF from a dSYM) into the current database. If path is omitted, attempts to locate a sibling .dSYM for the currently-open database. Returns whether the load succeeded.''
       ''{"path": "/path/to/binary.dSYM/Contents/Resources/DWARF/binary"}''
       False
       [''debug'', ''dwarf'', ''dsym'', ''symbols'', ''load'']
       [],
     ToolInfo ''get_analysis_status'' Core
       ''Report auto-analysis status''
       ''Report auto-analysis status (auto_is_ok, auto_state) so clients can determine whether analysis-dependent tools like xrefs or decompile are fully ready.''
       ''{}''
       True
       [''analysis'', ''autoanalysis'', ''status'', ''xrefs'', ''decompile'']
       [''analysis_status''],
     ToolInfo ''close_idb'' Core
       ''Close the current database (release locks)''
       ''Close the currently open IDA database, releasing resources. Call this when done with analysis or before opening a different database. In multi-client servers, coordinate before closing to avoid interrupting others. In HTTP/SSE mode, provide the close_token returned by open_idb.''
       ''{"close_token": "token-from-open-idb"}''
       True
       [''close'', ''unload'', ''database'']
       []]\<close>

definition TOOL_REGISTRY_2 :: "ToolInfo list" where
  \<open>TOOL_REGISTRY_2 =
    [ToolInfo ''tool_catalog'' Core
       ''Discover available tools by query or category''
       (''Search for relevant tools based on what you'' @ [CHR 0x27] @ ''re trying to accomplish. Returns tool names with short descriptions and relevance reasons. Use this to find the right tool before calling tool_help for full details.'')
       ''{"query": "find all callers of a function"}''
       True
       [''discover'', ''find'', ''search'', ''tools'', ''help'', ''catalog'']
       [],
     ToolInfo ''tool_help'' Core
       ''Get full documentation for a tool''
       ''Returns complete documentation for a specific tool including: full description, parameter schema, and example invocation. Use tool_catalog first to find the tool name.''
       ''{"name": "list_functions"}''
       True
       [''help'', ''docs'', ''documentation'', ''schema'', ''usage'']
       [],
     ToolInfo ''get_task_status'' Core
       ''Check status of a background task (e.g. DSC loading)''
       (''Check the status of a background task started by open_dsc. Returns '' @ [CHR 0x27] @ ''running'' @ [CHR 0x27] @ '' (with progress message), '' @ [CHR 0x27] @ ''completed'' @ [CHR 0x27] @ '' (with db_info '' @ [CHR 0xE2, CHR 0x80, CHR 0x94] @ '' database is already open and ready for analysis), or '' @ [CHR 0x27] @ ''failed'' @ [CHR 0x27] @ '' (with error). Use the task_id returned by open_dsc when a new .i64 must be created.'')
       ''{"task_id": "dsc-abc123"}''
       True
       [''task'', ''status'', ''poll'', ''background'', ''dsc'', ''progress'']
       [''task_status''],
     ToolInfo ''get_database_info'' Core
       ''Get database metadata and summary''
       ''Returns metadata about the currently open database: file type, processor architecture, bitness, entry points, segment count, function count, and other summary info.''
       ''{}''
       True
       [''info'', ''metadata'', ''summary'', ''database'', ''binary'']
       [''idb_meta''],
     ToolInfo ''list_functions'' Functions
       ''List functions with pagination and filtering''
       ''List all functions in the database with optional name filtering. Supports pagination via offset/limit. Returns function address, name, and size. Use filter parameter to search by substring in function name.''
       ''{"offset": 0, "limit": 100, "filter": "init"}''
       False
       [''functions'', ''list'', ''enumerate'', ''find'', ''filter'', ''subroutines'']
       [''list_funcs''],
     ToolInfo ''get_function_by_name'' Functions
       ''Find function address by name''
       (''Resolve a function name to its address. Supports exact names and demangled names. Returns the function'' @ [CHR 0x27] @ ''s address, full name, and size if found.'')
       ''{"name": "main"}''
       False
       [''resolve'', ''find'', ''lookup'', ''function'', ''name'', ''address'']
       [''resolve_function''],
     ToolInfo ''get_function_prototype'' Functions
       ''Get the type/prototype declaration of a function''
       (''Retrieve the type declaration (prototype string) for a function. Uses IDA'' @ [CHR 0x27] @ ''s type system to extract the C prototype. Returns: address, prototype string, type kind.'')
       ''{"address": "0x100000f00"}''
       False
       [''prototype'', ''type'', ''function'', ''declaration'', ''signature'']
       [],
     ToolInfo ''get_function_at_address'' Functions
       ''Find the function containing an address''
       ''Return the function that contains the given address, including start/end and size. Useful for mapping PC/LR to a function.''
       ''{"address": "0x1000"}''
       False
       [''function'', ''address'', ''pc'', ''lr'', ''containing'']
       [''function_at''],
     ToolInfo ''batch_lookup_functions'' Functions
       ''Batch lookup multiple functions by name''
       ''Look up multiple function names at once. Returns address and size for each found function. More efficient than multiple get_function_by_name calls.''
       ''{"names": ["main", "printf", "malloc"]}''
       False
       [''lookup'', ''batch'', ''multiple'', ''functions'', ''names'']
       [''lookup_funcs'']]\<close>

definition TOOL_REGISTRY_3 :: "ToolInfo list" where
  \<open>TOOL_REGISTRY_3 =
    [ToolInfo ''run_auto_analysis'' Functions
       ''Run auto-analysis and wait for completion''
       ''Run IDA auto-analysis and wait for completion. Returns whether analysis completed and current function count.''
       ''{"timeout_secs": 120}''
       False
       [''analyze'', ''functions'', ''analysis'', ''auto'']
       [''analyze_funcs''],
     ToolInfo ''disassemble'' Disassembly
       ''Disassemble instructions at an address''
       ''Disassemble machine code starting at the given address. Returns assembly instructions with addresses and opcodes. Specify count to control how many instructions to disassemble.''
       ''{"address": "0x1000", "count": 20}''
       False
       [''disassemble'', ''disasm'', ''assembly'', ''instructions'', ''code'']
       [''disasm''],
     ToolInfo ''disassemble_function'' Disassembly
       ''Disassemble a function by name''
       ''Disassemble a function given its name. Resolves the name to an address and disassembles the specified number of instructions.''
       ''{"name": "main", "count": 50}''
       False
       [''disassemble'', ''function'', ''name'', ''assembly'']
       [''disasm_by_name''],
     ToolInfo ''disassemble_function_at'' Disassembly
       ''Disassemble the function containing an address''
       ''Disassemble the function that contains the provided address. Useful when you only have a PC/LR.''
       ''{"address": "0x1000", "count": 200}''
       False
       [''disassemble'', ''function'', ''address'', ''pc'', ''lr'']
       [''disasm_function_at''],
     ToolInfo ''decompile_function'' Decompile
       ''Decompile function to C pseudocode''
       ''Decompile a function using Hex-Rays decompiler (if available). Returns C-like pseudocode. Accepts address or function name.''
       ''{"address": "0x1000"}''
       False
       [''decompile'', ''pseudocode'', ''c'', ''source'', ''hex-rays'']
       [''decompile''],
     ToolInfo ''get_pseudocode_at'' Decompile
       ''Get pseudocode for specific address/range''
       ''Get decompiled pseudocode for a specific address or address range (e.g., a basic block). Unlike decompile_function which returns the full function, this returns only statements corresponding to the given address(es).''
       ''{"address": "0x1000", "end_address": "0x1020"}''
       False
       [''pseudocode'', ''decompile'', ''block'', ''range'', ''statement'']
       [''pseudocode_at''],
     ToolInfo ''decompile_structured'' Decompile
       ''Decompile function to structured AST (ctree JSON)''
       (''Decompile a function and return the Hex-Rays ctree as structured JSON. Each node has an '' @ [CHR 0x27] @ ''op'' @ [CHR 0x27] @ '' field (if/while/call/asg/add/var/num/...) with recursive children. Includes local variables with types and function signature. Useful for programmatic analysis rather than reading pseudocode text.'')
       ''{"address": "0x1000", "max_depth": 20, "include_types": true}''
       False
       [''decompile'', ''structured'', ''ast'', ''ctree'', ''json'', ''hex-rays'', ''tree'']
       [],
     ToolInfo ''batch_decompile'' Decompile
       ''Decompile multiple functions at once''
       ''Decompile multiple functions in a single call. Accepts an array of addresses (hex strings or numbers). Returns pseudocode for each address, with success/error status per entry. Useful for bulk analysis without repeated round-trips.''
       ''{"addresses": ["0x1000", "0x2000", "0x3000"]}''
       False
       [''decompile'', ''batch'', ''multiple'', ''bulk'', ''pseudocode'']
       [],
     ToolInfo ''search_pseudocode'' Search
       ''Search decompiled pseudocode for a text pattern''
       ''Iterate over all functions, decompile each, and return those whose pseudocode contains the given pattern (case-sensitive substring match). No regex crate used. Returns matching function addresses, names, and full pseudocode. Use limit to cap results and timeout_secs to bound execution time.''
       ''{"pattern": "malloc", "limit": 10}''
       False
       [''search'', ''pseudocode'', ''decompile'', ''pattern'', ''find'', ''grep'']
       []]\<close>

definition TOOL_REGISTRY_4 :: "ToolInfo list" where
  \<open>TOOL_REGISTRY_4 =
    [ToolInfo ''scan_memory_table'' Memory
       ''Scan a memory table by reading entries at stride intervals''
       ''Read memory at a base address, stepping by stride bytes for count entries. Useful for scanning vtables, function pointer tables, or any regular-stride data structure. Returns hex bytes for each entry. Default stride is 8 bytes (pointer size on 64-bit), max count is 256.''
       ''{"base_address": "0x1000", "stride": 8, "count": 16}''
       False
       [''table'', ''scan'', ''memory'', ''vtable'', ''pointer'', ''stride'', ''bytes'']
       [''table_scan''],
     ToolInfo ''diff_pseudocode'' Decompile
       (''Diff two functions'' @ [CHR 0x27] @ '' decompiled pseudocode line by line'')
       (''Decompile two functions and produce a line-by-line diff of their pseudocode. Lines prefixed with '' @ [CHR 0x27] @ '' '' @ [CHR 0x27] @ '' are identical, '' @ [CHR 0x27] @ ''-'' @ [CHR 0x27] @ '' only in function1, '' @ [CHR 0x27] @ ''+'' @ [CHR 0x27] @ '' only in function2. Returns similarity_ratio (0.0-1.0), full pseudocode for both, and diff_lines array. No external diff crate used - pure std comparison.'')
       ''{"addr1": "0x1000", "addr2": "0x2000"}''
       False
       [''diff'', ''compare'', ''functions'', ''decompile'', ''pseudocode'', ''similarity'']
       [''diff_functions''],
     ToolInfo ''get_xrefs_to'' Xrefs
       ''Find all references TO an address''
       ''Find all cross-references pointing to the given address. Shows what code/data references this location. Useful for finding callers, data usage, etc.''
       ''{"address": "0x1000"}''
       False
       [''xrefs'', ''references'', ''to'', ''callers'', ''usage'']
       [''xrefs_to''],
     ToolInfo ''get_xrefs_from'' Xrefs
       ''Find all references FROM an address''
       ''Find all cross-references originating from the given address. Shows what this instruction/data references. Useful for finding callees, data accesses, etc.''
       ''{"address": "0x1000"}''
       False
       [''xrefs'', ''references'', ''from'', ''callees'', ''targets'']
       [''xrefs_from''],
     ToolInfo ''get_xrefs_to_string'' Xrefs
       ''Find xrefs to strings matching a query''
       (''Find strings that match a query and return xrefs to each match. Useful for '' @ [CHR 0x27] @ ''xref to cstring'' @ [CHR 0x27] @ '' workflows.'')
       ''{"query": "value=%d", "limit": 10}''
       False
       [''xrefs'', ''strings'', ''cstring'', ''references'', ''usage'']
       [''xrefs_to_string''],
     ToolInfo ''build_xref_matrix'' Xrefs
       ''Build xref matrix between addresses''
       ''Build a cross-reference matrix showing relationships between multiple addresses. Returns a boolean matrix indicating which addresses reference which others.''
       ''{"addresses": ["0x1000", "0x2000", "0x3000"]}''
       False
       [''xrefs'', ''matrix'', ''relationships'', ''graph'']
       [''xref_matrix''],
     ToolInfo ''get_basic_blocks'' ControlFlow
       ''Get basic blocks of a function''
       ''Get the control flow graph basic blocks for a function. Returns block addresses, sizes, and successor relationships.''
       ''{"address": "0x1000"}''
       False
       [''basic'', ''blocks'', ''cfg'', ''control'', ''flow'', ''graph'']
       [''basic_blocks''],
     ToolInfo ''get_callers'' ControlFlow
       ''Find all callers of a function''
       ''Find all functions that call the specified function. Returns caller addresses and names.''
       ''{"address": "0x1000"}''
       False
       [''callers'', ''called'', ''by'', ''references'', ''xrefs'']
       [''callers''],
     ToolInfo ''get_callees'' ControlFlow
       ''Find all functions called by a function''
       ''Find all functions that are called by the specified function. Returns callee addresses and names.''
       ''{"address": "0x1000"}''
       False
       [''callees'', ''calls'', ''targets'', ''functions'']
       [''callees'']]\<close>

definition TOOL_REGISTRY_5 :: "ToolInfo list" where
  \<open>TOOL_REGISTRY_5 =
    [ToolInfo ''build_callgraph'' ControlFlow
       ''Build call graph from a function''
       ''Build a call graph starting from a function, exploring callers/callees up to the specified depth. Returns nodes and edges.''
       ''{"roots": "0x1000", "max_depth": 2, "max_nodes": 256}''
       False
       [''callgraph'', ''call'', ''graph'', ''depth'', ''tree'']
       [''callgraph''],
     ToolInfo ''find_control_flow_paths'' ControlFlow
       ''Find control-flow paths between two addresses''
       ''Find control-flow paths between two addresses within the same function. Returns all paths up to max_depth. Both addresses must be in the same function.''
       ''{"start": "0x1000", "end": "0x2000", "max_depth": 5}''
       False
       [''paths'', ''route'', ''flow'', ''between'', ''reach'']
       [''find_paths''],
     ToolInfo ''read_bytes'' Memory
       ''Read raw bytes from an address''
       ''Read raw bytes from the database at the specified address. Returns bytes as hex string. Useful for examining data. You can also supply a symbol/function name with an optional offset.''
       ''{"name": "interesting_function", "offset": 0, "size": 32}''
       False
       [''bytes'', ''read'', ''memory'', ''data'', ''raw'', ''hex'']
       [''get_bytes''],
     ToolInfo ''read_string'' Memory
       ''Read string at an address''
       ''Read a null-terminated string at the specified address. Supports C strings and other string types recognized by IDA.''
       ''{"address": "0x1000"}''
       False
       [''string'', ''read'', ''text'', ''ascii'', ''data'']
       [''get_string''],
     ToolInfo ''read_byte'' Memory
       ''Read 8-bit value''
       ''Read an unsigned 8-bit value (byte) at the specified address.''
       ''{"address": "0x1000"}''
       False
       [''byte'', ''u8'', ''read'', ''value'']
       [''get_u8''],
     ToolInfo ''read_word'' Memory
       ''Read 16-bit value''
       ''Read an unsigned 16-bit value (word) at the specified address.''
       ''{"address": "0x1000"}''
       False
       [''word'', ''u16'', ''read'', ''value'']
       [''get_u16''],
     ToolInfo ''read_dword'' Memory
       ''Read 32-bit value''
       ''Read an unsigned 32-bit value (dword) at the specified address.''
       ''{"address": "0x1000"}''
       False
       [''dword'', ''u32'', ''read'', ''value'']
       [''get_u32''],
     ToolInfo ''read_qword'' Memory
       ''Read 64-bit value''
       ''Read an unsigned 64-bit value (qword) at the specified address.''
       ''{"address": "0x1000"}''
       False
       [''qword'', ''u64'', ''read'', ''value'']
       [''get_u64''],
     ToolInfo ''read_global_variable'' Memory
       ''Read global value by name or address''
       ''Read a global value by name or address. Returns value and raw bytes.''
       ''{"query": "g_flag"}''
       False
       [''global'', ''value'', ''read'', ''symbol'', ''data'']
       [''get_global_value''],
     ToolInfo ''convert_number'' Memory
       ''Convert integers between bases''
       ''Convert integers between decimal/hex/binary and show ASCII bytes when possible.''
       ''{"inputs": ["0x41424344", 1234]}''
       False
       [''int'', ''convert'', ''hex'', ''decimal'', ''ascii'']
       [''int_convert'']]\<close>

definition TOOL_REGISTRY_6 :: "ToolInfo list" where
  \<open>TOOL_REGISTRY_6 =
    [ToolInfo ''search_bytes'' Search
       ''Search for byte pattern''
       ''Search for a byte pattern in the database. Supports wildcards. Returns all matching addresses up to the limit.''
       ''{"pattern": "48 89 5C 24", "limit": 100}''
       False
       [''find'', ''search'', ''bytes'', ''pattern'', ''hex'']
       [''find_bytes''],
     ToolInfo ''search_text'' Search
       ''Search for text or immediate values''
       ''General search tool. Searches for text strings or immediate values in instructions. Use search_bytes for byte-pattern searches.''
       ''{"targets": "password", "kind": "text"}''
       False
       [''search'', ''find'', ''text'', ''string'', ''immediate'']
       [''search''],
     ToolInfo ''list_strings'' Search
       ''List all strings in the database''
       ''List strings found in the database with pagination and optional substring filter (filter/query). Returns address and content.''
       ''{"offset": 0, "limit": 100, "filter": "http"}''
       False
       [''strings'', ''list'', ''text'', ''data'']
       [''strings'', ''find_string'', ''analyze_strings''],
     ToolInfo ''search_instructions'' Search
       ''Find instruction sequences by mnemonic''
       ''Search for instruction mnemonic patterns. If patterns is an array, matches contiguous sequences. Each pattern matches the mnemonic substring unless it contains whitespace or commas (then full line match).''
       ''{"patterns": ["mov", "bl"], "limit": 5}''
       False
       [''find'', ''instructions'', ''sequence'', ''pattern'']
       [''find_insns''],
     ToolInfo ''search_instruction_operands'' Search
       ''Find instructions by operand substring''
       ''Search for instructions whose operand text matches any provided substring. Returns address, mnemonic, operands, and disasm line.''
       ''{"patterns": ["sp", "0x10"], "limit": 5}''
       False
       [''find'', ''operands'', ''instructions'', ''pattern'']
       [''find_insn_operands''],
     ToolInfo ''list_segments'' Metadata
       ''List all segments''
       ''List all segments in the database with their addresses, sizes, names, and permissions (read/write/execute).''
       ''{}''
       False
       [''segments'', ''sections'', ''memory'', ''layout'']
       [''segments''],
     ToolInfo ''get_address_info'' Metadata
       ''Resolve address to segment/function/symbol''
       ''Return address context including segment info, containing function, and nearest named symbol.''
       ''{"address": "0x1000"}''
       False
       [''address'', ''segment'', ''function'', ''symbol'', ''context'']
       [''addr_info''],
     ToolInfo ''list_imports'' Metadata
       ''List imported functions''
       ''List all imported external symbols with their addresses and names.''
       ''{"offset": 0, "limit": 100}''
       False
       [''imports'', ''external'', ''libraries'', ''api'']
       [''imports''],
     ToolInfo ''list_exports'' Metadata
       ''List exported functions''
       ''List all exported functions/symbols with their addresses and names.''
       ''{"offset": 0, "limit": 100}''
       False
       [''exports'', ''symbols'', ''public'', ''api'']
       [''exports''],
     ToolInfo ''export_functions'' Metadata
       ''Export functions (JSON)''
       ''Export functions in JSON format. If addrs is provided, only export those functions.''
       ''{"addrs": ["0x1000", "0x2000"], "format": "json"}''
       False
       [''export'', ''functions'', ''json'', ''dump'']
       [''export_funcs'']]\<close>

definition TOOL_REGISTRY_7 :: "ToolInfo list" where
  \<open>TOOL_REGISTRY_7 =
    [ToolInfo ''list_entry_points'' Metadata
       ''List entry points''
       ''List all entry points in the binary (main, DllMain, etc.).''
       ''{}''
       False
       [''entry'', ''start'', ''main'', ''entrypoint'']
       [''entrypoints''],
     ToolInfo ''list_globals'' Metadata
       ''List global variables''
       ''List global variables and data items with their addresses, names, and types.''
       ''{"offset": 0, "limit": 100}''
       False
       [''globals'', ''variables'', ''data'', ''symbols'']
       [],
     ToolInfo ''list_local_types'' Types
       ''List local types''
       ''List local types (typedefs, enums, structs, etc.) with pagination and optional filter.''
       ''{"query": "struct", "limit": 50}''
       False
       [''types'', ''local'', ''typedef'']
       [''local_types''],
     ToolInfo ''get_xrefs_to_struct_field'' Xrefs
       ''Xrefs to a struct field''
       ''Get cross-references to a struct field by struct name/ordinal and member name/index.''
       ''{"name": "Outer", "member_name": "inner", "limit": 25}''
       False
       [''xrefs'', ''struct'', ''field'', ''member'']
       [''xrefs_to_field''],
     ToolInfo ''declare_c_type'' Types
       ''Declare a type in the local type library''
       ''Parse a C declaration and store it in the local type library (optionally replacing existing).''
       ''{"decl": "typedef int mcp_int_t;", "replace": true}''
       False
       [''type'', ''declare'', ''typedef'']
       [''declare_type''],
     ToolInfo ''apply_type'' Types
       ''Apply a type to an address or stack variable''
       ''Apply a named type or C declaration to an address/symbol. For stack vars, provide stack_offset or stack_name plus decl.''
       ''{"name": "interesting_function", "stack_offset": -16, "decl": "int mcp_local;"}''
       False
       [''types'', ''apply'', ''annotations'']
       [''apply_types''],
     ToolInfo ''infer_type'' Types
       ''Infer/guess type at an address''
       (''Guess a type for an address or symbol using IDA'' @ [CHR 0x27] @ ''s heuristics.'')
       ''{"name": "interesting_function"}''
       False
       [''types'', ''infer'', ''analysis'']
       [''infer_types''],
     ToolInfo ''get_stack_frame'' Types
       ''Get stack frame info''
       ''Get stack frame layout for the function at an address, including args/locals ranges and per-member type info.''
       ''{"address": "0x1000"}''
       False
       [''stack'', ''frame'', ''locals'']
       [''stack_frame''],
     ToolInfo ''create_stack_variable'' Types
       ''Declare a stack variable''
       ''Define a stack variable in a function frame using a C declaration. Provide function address/name and stack offset (negative for locals).''
       ''{"name": "interesting_function", "offset": -16, "var_name": "mcp_local", "decl": "int mcp_local;"}''
       False
       [''stack'', ''declare'', ''variable'']
       [''declare_stack''],
     ToolInfo ''delete_stack_variable'' Types
       ''Delete a stack variable''
       ''Delete a stack variable by name or offset in a function frame.''
       ''{"name": "interesting_function", "offset": -16}''
       False
       [''stack'', ''delete'', ''variable'']
       [''delete_stack''],
     ToolInfo ''list_enums'' Types
       ''List all enum types in the database''
       ''List all enum type definitions in the IDA local types database. Returns each enum name and C declaration. Supports filtering by name substring and pagination.''
       ''{"filter": "Error", "limit": 20}''
       False
       [''enum'', ''types'', ''local'', ''list'', ''names'']
       []]\<close>

definition TOOL_REGISTRY_8 :: "ToolInfo list" where
  \<open>TOOL_REGISTRY_8 =
    [ToolInfo ''create_enum'' Types
       ''Create an enum type from a C declaration''
       ''Create a new enum type in the IDA local types database from a C declaration string. Example: "enum ErrorCode { OK = 0, ERR_INVALID = 1, ERR_OVERFLOW = 2 };". Use list_enums to verify. Use declare_c_type for structs.''
       ''{"decl": "enum SwapResult { SWAP_OK = 0, SWAP_ERR_SLIPPAGE = 1, SWAP_ERR_FUNDS = 2 };"}''
       False
       [''enum'', ''create'', ''type'', ''declare'', ''define'']
       [],
     ToolInfo ''list_structs'' Types
       ''List structs with pagination''
       ''List structs (UDTs) in the database with optional name filtering.''
       ''{"limit": 50, "filter": "objc"}''
       False
       [''structs'', ''types'', ''list'']
       [''structs''],
     ToolInfo ''get_struct_info'' Types
       ''Get struct info by name or ordinal''
       ''Get struct details including member layout and sizes.''
       ''{"name": "MyStruct"}''
       False
       [''struct'', ''info'', ''types'']
       [''struct_info''],
     ToolInfo ''read_struct_at_address'' Types
       ''Read a struct instance at an address''
       ''Read raw bytes for each struct member at a given address.''
       ''{"address": "0x1000", "name": "MyStruct"}''
       False
       [''struct'', ''read'', ''values'']
       [''read_struct''],
     ToolInfo ''search_structs'' Types
       ''Search structs by name''
       ''Search for structs by name with optional filter and pagination. Returns the same structure list output as structs.''
       ''{"query": "my_struct", "limit": 20}''
       False
       [''struct'', ''search'', ''types'']
       [],
     ToolInfo ''set_comment'' Editing
       ''Set comments at an address''
       ''Set a non-repeatable or repeatable comment at an address. Empty string clears the comment. You can also supply a symbol/function name with an optional offset.''
       ''{"name": "interesting_function", "comment": "note", "repeatable": false}''
       False
       [''comments'', ''set'', ''annotate'']
       [''set_comments''],
     ToolInfo ''set_function_comment'' Editing
       ''Set a function-level comment (visible at function entry)''
       (''Set a comment at the function entry point using IDA'' @ [CHR 0x27] @ ''s function comment API. This differs from set_comment (per-address) and set_decompiler_comment (per-decompiler-line). Function comments are shown in function listings and navigation views.'')
       ''{"name": "process_swap", "comment": "Handles swap instruction routing"}''
       False
       [''comment'', ''function'', ''annotate'', ''note'']
       [],
     ToolInfo ''patch_assembly'' Editing
       ''Patch instructions with assembly text''
       ''Assemble a single instruction line at the target address and patch the bytes. Requires a processor module with assembler support; may fail on some targets. You can supply an address or a symbol name with an optional offset.''
       ''{"name": "interesting_function", "offset": 0, "line": "nop"}''
       False
       [''patch'', ''asm'', ''edit'', ''modify'']
       [''patch_asm''],
     ToolInfo ''patch_bytes'' Editing
       ''Patch bytes at an address''
       ''Patch bytes in the database at the given address. You can also supply a symbol/function name with an optional offset.''
       ''{"name": "interesting_function", "offset": 0, "bytes": "1f 20 03 d5"}''
       False
       [''patch'', ''bytes'', ''edit'', ''modify'']
       [''patch''],
     ToolInfo ''rename_symbol'' Editing
       ''Rename symbols''
       ''Rename a symbol at an address. Optional flags map to IDA set_name flags. You can also supply the current name instead of an address.''
       ''{"current_name": "interesting_function", "name": "interesting_function_renamed", "flags": 0}''
       False
       [''rename'', ''symbol'', ''edit'']
       [''rename'']]\<close>

definition TOOL_REGISTRY_9 :: "ToolInfo list" where
  \<open>TOOL_REGISTRY_9 =
    [ToolInfo ''batch_rename'' Editing
       ''Rename multiple symbols at once''
       ''Rename multiple symbols in one call. Each entry specifies an address or current name plus the new name. Results are returned per-entry (success/error). Useful for leaf-first renaming workflows to reduce round-trips.''
       ''{"renames": [{"address": "0x1000", "new_name": "process_swap"}, {"current_name": "sub_2000", "new_name": "validate_amount"}]}''
       False
       [''rename'', ''batch'', ''bulk'', ''symbol'', ''multiple'']
       [],
     ToolInfo ''set_function_prototype'' Editing
       ''Apply a C prototype declaration to a function''
       (''Apply a C function prototype string to a function in the IDA database. The prototype is parsed and applied using IDA'' @ [CHR 0x27] @ ''s type system. Example prototype: "int __fastcall foo(void *ctx, int len)"'')
       ''{"address": "0x100000f00", "prototype": "int __fastcall process_swap(void *ctx, int amount)"}''
       False
       [''prototype'', ''type'', ''function'', ''set'', ''declaration'', ''signature'', ''apply'']
       [],
     ToolInfo ''rename_local_variable'' Editing
       ''Rename a local variable in decompiled pseudocode''
       ''Rename a local variable in the Hex-Rays decompiled pseudocode. Requires Hex-Rays decompiler. The change is persisted to the IDB.''
       ''{"func_address": "0x100000f00", "lvar_name": "v1", "new_name": "buffer_size"}''
       False
       [''rename'', ''lvar'', ''local'', ''variable'', ''decompiler'', ''pseudocode'']
       [''rename_lvar''],
     ToolInfo ''set_local_variable_type'' Editing
       ''Set the type of a local variable in decompiled pseudocode''
       ''Change the type of a local variable in the Hex-Rays decompiled pseudocode. Accepts C type declaration strings (e.g. "int *", "DWORD"). Requires Hex-Rays decompiler.''
       ''{"func_address": "0x100000f00", "lvar_name": "v1", "type_str": "char *"}''
       False
       [''type'', ''lvar'', ''local'', ''variable'', ''decompiler'', ''pseudocode'', ''retype'']
       [''set_lvar_type''],
     ToolInfo ''rename_stack_variable'' Editing
       ''Rename a stack frame variable in a function''
       ''Rename a local variable in a function stack frame. Locates the variable by its current name and renames it. Requires a valid function address or name.''
       ''{"func_address": "0x100000f00", "name": "var_4", "new_name": "buffer_size"}''
       False
       [''rename'', ''stack'', ''variable'', ''frame'', ''local'']
       [],
     ToolInfo ''set_stack_variable_type'' Editing
       ''Set the type of a stack frame variable''
       ''Set the type of a local variable in a function stack frame. Accepts C type declaration strings (e.g. "char *", "DWORD", "void *"). Different from set_local_variable_type which works on Hex-Rays variables.''
       ''{"func_address": "0x100000f00", "name": "buffer_size", "type_decl": "int"}''
       False
       [''type'', ''stack'', ''variable'', ''frame'', ''local'', ''retype'']
       [],
     ToolInfo ''set_decompiler_comment'' Editing
       ''Set a comment in decompiled pseudocode''
       ''Attach a comment to a specific address in the Hex-Rays decompiled pseudocode. Use itp=69 (ITP_SEMI) for end-of-line comments, itp=74 (ITP_BLOCK1) for block comments. Empty comment string clears an existing comment. Requires Hex-Rays decompiler.''
       ''{"func_address": "0x100000f00", "address": "0x100000f10", "comment": "check buffer size"}''
       False
       [''comment'', ''decompiler'', ''pseudocode'', ''annotate'', ''hex-rays'']
       [],
     ToolInfo ''run_script'' Scripting
       ''Execute Python code via IDAPython''
       (''Execute a Python script via IDAPython in the currently open database. Provide either '' @ [CHR 0x27] @ ''code'' @ [CHR 0x27] @ '' (inline Python) or '' @ [CHR 0x27] @ ''file'' @ [CHR 0x27] @ '' (path to a .py file). Has full access to all ida_* modules (ida_funcs, ida_bytes, ida_segment, etc.), idc, and idautils. stdout and stderr are captured and returned. Use this for custom analysis that goes beyond the built-in tools. Requires that the IDAPython plugin is loaded (available by default in IDA Pro). API reference: https://python.docs.hex-rays.com'')
       (''{"code": "import idautils'' @ [CHR 0x5C] @ ''nfor f in idautils.Functions():'' @ [CHR 0x5C] @ ''n    print(hex(f))"}'')
       False
       [''script'', ''python'', ''execute'', ''eval'', ''idapython'', ''run'', ''code'', ''file'']
       []]\<close>

definition TOOL_REGISTRY_10 :: "ToolInfo list" where
  \<open>TOOL_REGISTRY_10 =
    [ToolInfo ''dbg_load_debugger'' Debug
       ''Load a debugger module for the current binary''
       (''Load a debugger module (e.g. '' @ [CHR 0x27] @ ''mac'' @ [CHR 0x27] @ '', '' @ [CHR 0x27] @ ''linux'' @ [CHR 0x27] @ '', '' @ [CHR 0x27] @ ''gdb'' @ [CHR 0x27] @ '', '' @ [CHR 0x27] @ ''win32'' @ [CHR 0x27] @ ''). Must be called before starting or attaching to a debug session. Automatically disables exception dialogs for headless operation via set_debugger_options(0).'')
       ''{"debugger_name": "mac"}''
       False
       [''debug'', ''debugger'', ''load'', ''attach'', ''mac'', ''linux'', ''gdb'']
       [],
     ToolInfo ''dbg_start_process'' Debug
       ''Start the target process under the debugger''
       ''Launch the target binary under the IDA debugger. Auto-loads the native debugger if not already loaded. Waits for the first suspension event (breakpoint or exception) before returning. Returns IP, event code, and process state.''
       ''{"path": "/usr/bin/ls", "args": "-la /tmp"}''
       False
       [''debug'', ''process'', ''start'', ''launch'', ''run'', ''execute'']
       [],
     ToolInfo ''dbg_attach_process'' Debug
       ''Attach the debugger to a running process by PID''
       (''Attach IDA'' @ [CHR 0x27] @ ''s debugger to an already-running process identified by PID. Waits for the process to suspend after attachment.'')
       ''{"pid": 1234}''
       False
       [''debug'', ''process'', ''attach'', ''pid'', ''running'']
       [],
     ToolInfo ''dbg_detach_process'' Debug
       ''Detach the debugger without killing the process''
       (''Detach IDA'' @ [CHR 0x27] @ ''s debugger from the current process, leaving the process running independently. The debug session ends but the process continues.'')
       ''{}''
       False
       [''debug'', ''process'', ''detach'', ''stop'', ''disconnect'']
       [],
     ToolInfo ''dbg_exit_process'' Debug
       ''Terminate the debugged process''
       ''Forcibly terminate the process currently being debugged and end the debug session.''
       ''{}''
       False
       [''debug'', ''process'', ''exit'', ''kill'', ''terminate'', ''stop'']
       [],
     ToolInfo ''dbg_get_state'' Debug
       ''Get current debugger and process state''
       ''Query the current debugger state: DSTATE_NOTASK (no process), DSTATE_RUN (running), or DSTATE_SUSP (suspended at breakpoint). When suspended, also returns IP, SP, and current thread.''
       ''{}''
       False
       [''debug'', ''state'', ''status'', ''process'', ''running'', ''suspended'']
       [],
     ToolInfo ''dbg_add_breakpoint'' Debug
       ''Set a breakpoint at an address''
       (''Add a software, execution, or memory access breakpoint at the given address. Breakpoint types: '' @ [CHR 0x27] @ ''soft'' @ [CHR 0x27] @ '' (software, default), '' @ [CHR 0x27] @ ''exec'' @ [CHR 0x27] @ '' (hardware execution), '' @ [CHR 0x27] @ ''write'' @ [CHR 0x27] @ '' (hardware write watchpoint), '' @ [CHR 0x27] @ ''read'' @ [CHR 0x27] @ '' (hardware read watchpoint), '' @ [CHR 0x27] @ ''rdwr'' @ [CHR 0x27] @ '' (hardware read/write watchpoint). Optional condition expression supported.'')
       ''{"address": "0x100001234", "bpt_type": "soft"}''
       False
       [''debug'', ''breakpoint'', ''bpt'', ''break'', ''software'', ''hardware'', ''watchpoint'', ''set'']
       [],
     ToolInfo ''dbg_del_breakpoint'' Debug
       ''Delete a breakpoint at an address''
       ''Remove an existing breakpoint at the given address from the IDA database.''
       ''{"address": "0x100001234"}''
       False
       [''debug'', ''breakpoint'', ''bpt'', ''delete'', ''remove'', ''clear'']
       [],
     ToolInfo ''dbg_enable_breakpoint'' Debug
       ''Enable or disable a breakpoint''
       ''Toggle a breakpoint on or off without deleting it. Useful for temporarily disabling breakpoints without losing their configuration.''
       ''{"address": "0x100001234", "enable": false}''
       False
       [''debug'', ''breakpoint'', ''bpt'', ''enable'', ''disable'', ''toggle'']
       [],
     ToolInfo ''dbg_list_breakpoints'' Debug
       ''List all breakpoints in the database''
       ''Enumerate all breakpoints currently defined in the IDA database, including their address, type, size, enabled status, and optional condition.''
       ''{}''
       False
       [''debug'', ''breakpoint'', ''bpt'', ''list'', ''enumerate'', ''show'']
       []]\<close>

definition TOOL_REGISTRY_11 :: "ToolInfo list" where
  \<open>TOOL_REGISTRY_11 =
    [ToolInfo ''dbg_continue'' Debug
       ''Continue execution until the next debug event''
       ''Resume execution of the suspended process and wait for the next breakpoint hit, exception, or other debug event. Returns event code, new IP, and process state. Process must be in DSTATE_SUSP state.''
       ''{"timeout_secs": 30}''
       False
       [''debug'', ''continue'', ''resume'', ''run'', ''execute'', ''go'']
       [],
     ToolInfo ''dbg_step_into'' Debug
       ''Single-step into the next instruction (follows calls)''
       ''Execute exactly one instruction, following call instructions into callees. Returns the new IP after stepping. Process must be in DSTATE_SUSP state.''
       ''{"timeout_secs": 5}''
       False
       [''debug'', ''step'', ''into'', ''single'', ''instruction'', ''trace'']
       [],
     ToolInfo ''dbg_step_over'' Debug
       ''Single-step over the next instruction (skips calls)''
       ''Execute exactly one instruction, treating calls as single steps (does not follow into callees). Returns the new IP after stepping. Process must be in DSTATE_SUSP state.''
       ''{"timeout_secs": 5}''
       False
       [''debug'', ''step'', ''over'', ''next'', ''instruction'', ''skip'']
       [],
     ToolInfo ''dbg_step_until_ret'' Debug
       ''Step until the current function returns''
       ''Continue stepping until the current function executes a return instruction. Useful for quickly exiting a function during debugging. Process must be suspended.''
       ''{"timeout_secs": 60}''
       False
       [''debug'', ''step'', ''return'', ''ret'', ''finish'', ''until'', ''out'']
       [],
     ToolInfo ''dbg_run_to'' Debug
       ''Run to a specific address''
       ''Continue execution and stop when the given address is reached. Sets a temporary breakpoint at the target address, continues, then removes it. Process must be in DSTATE_SUSP state.''
       ''{"address": "0x100001500", "timeout_secs": 30}''
       False
       [''debug'', ''run'', ''to'', ''goto'', ''reach'', ''cursor'', ''until'']
       [],
     ToolInfo ''dbg_get_registers'' Debug
       ''Read register values from the suspended process''
       ''Read the current values of all or selected CPU registers from the suspended process. Returns register values as hex strings plus IP and SP. Process must be in DSTATE_SUSP state.''
       ''{"register_names": ["rax", "rbx", "rip", "rsp"]}''
       False
       [''debug'', ''register'', ''reg'', ''ip'', ''sp'', ''pc'', ''value'', ''read'', ''cpu'']
       [],
     ToolInfo ''dbg_set_register'' Debug
       ''Set a CPU register value in the suspended process''
       ''Write a new value to a CPU register in the suspended process. Accepts hex (0x...) or decimal values. Process must be in DSTATE_SUSP state.''
       ''{"register_name": "rax", "value": "0x1234"}''
       False
       [''debug'', ''register'', ''reg'', ''set'', ''write'', ''modify'', ''patch'']
       [],
     ToolInfo ''dbg_read_memory'' Debug
       ''Read bytes from the debugged process memory''
       (''Read up to 4096 bytes from the suspended process'' @ [CHR 0x27] @ ''s memory at the given address. Returns hex-encoded bytes and ASCII representation. Process must be in DSTATE_SUSP state.'')
       ''{"address": "0x100001000", "size": 64}''
       False
       [''debug'', ''memory'', ''read'', ''dump'', ''hex'', ''bytes'', ''inspect'']
       [],
     ToolInfo ''dbg_write_memory'' Debug
       ''Write bytes to the debugged process memory''
       (''Patch memory in the suspended process at runtime. Data is provided as a hex string (e.g. '' @ [CHR 0x27] @ ''4889c7'' @ [CHR 0x27] @ '' or '' @ [CHR 0x27] @ ''48 89 c7'' @ [CHR 0x27] @ ''). Process must be in DSTATE_SUSP state.'')
       ''{"address": "0x100001000", "data": "90909090"}''
       False
       [''debug'', ''memory'', ''write'', ''patch'', ''modify'', ''bytes'', ''inject'']
       [],
     ToolInfo ''dbg_get_memory_info'' Debug
       ''List memory regions of the debugged process''
       ''Enumerate all mapped memory regions in the debugged process, including start/end addresses, region names, permissions (rwx), and segment class.''
       ''{}''
       False
       [''debug'', ''memory'', ''map'', ''regions'', ''segments'', ''info'', ''layout'']
       []]\<close>

definition TOOL_REGISTRY_12 :: "ToolInfo list" where
  \<open>TOOL_REGISTRY_12 =
    [ToolInfo ''dbg_list_threads'' Debug
       ''List all threads in the debugged process''
       ''Enumerate all threads in the currently debugged process, with their thread IDs, names, and indices. Also shows the current active thread.''
       ''{}''
       False
       [''debug'', ''thread'', ''list'', ''enumerate'', ''tls'', ''concurrent'']
       [],
     ToolInfo ''dbg_select_thread'' Debug
       ''Select a thread as the current debugging context''
       (''Switch the active debugging context to a specific thread by its thread ID. Subsequent register reads and memory inspections use this thread'' @ [CHR 0x27] @ ''s context. Process must be in DSTATE_SUSP state.'')
       ''{"thread_id": 12345}''
       False
       [''debug'', ''thread'', ''select'', ''switch'', ''context'', ''focus'']
       [],
     ToolInfo ''dbg_wait_event'' Debug
       ''Wait for the next debug event''
       ''Block until the next debug event occurs (breakpoint hit, exception, library load, process exit, etc.). Returns the event code, type, and new process state. Always includes WFNE_SILENT for headless safety.''
       ''{"timeout_secs": 10}''
       False
       [''debug'', ''event'', ''wait'', ''notification'', ''breakpoint'', ''exception'', ''trap'']
       []]\<close>

definition TOOL_REGISTRY :: "ToolInfo list" where
  "TOOL_REGISTRY = TOOL_REGISTRY_1 @ TOOL_REGISTRY_2 @ TOOL_REGISTRY_3 @
     TOOL_REGISTRY_4 @ TOOL_REGISTRY_5 @ TOOL_REGISTRY_6 @
     TOOL_REGISTRY_7 @ TOOL_REGISTRY_8 @ TOOL_REGISTRY_9 @
     TOOL_REGISTRY_10 @ TOOL_REGISTRY_11 @ TOOL_REGISTRY_12"

subsection \<open>Lookups\<close>

definition default_tools :: "ToolInfo list" where
  "default_tools = filter tool_default TOOL_REGISTRY"

text \<open>The lookups take the table as an argument: the program's table is \<^const>\<open>TOOL_REGISTRY\<close>.\<close>

definition find_by_alias :: "ToolInfo list \<Rightarrow> string \<Rightarrow> ToolInfo option" where
  "find_by_alias reg name = find (\<lambda>t. tool_name t = name \<or> name \<in> set (tool_aliases t)) reg"

definition get_tool_by_alias :: "string \<Rightarrow> ToolInfo option" where
  "get_tool_by_alias name = find_by_alias TOOL_REGISTRY name"

definition get_tool :: "string \<Rightarrow> ToolInfo option" where
  "get_tool name = get_tool_by_alias name"

definition primary_name_for :: "string \<Rightarrow> string" where
  "primary_name_for name = (case get_tool_by_alias name of Some tool \<Rightarrow> tool_name tool | None \<Rightarrow> name)"

definition tools_by_category :: "ToolCategory \<Rightarrow> ToolInfo list" where
  "tools_by_category c = filter (\<lambda>t. tool_category t = c) TOOL_REGISTRY"

subsection \<open>Names and aliases\<close>

definition tool_names :: "ToolInfo \<Rightarrow> string list" where
  "tool_names t = tool_name t # tool_aliases t"

lemma find_distinct:
  assumes "distinct (concat (map names reg))" "t \<in> set reg" "n \<in> set (names t)"
  shows "find (\<lambda>t. n \<in> set (names t)) reg = Some t"
  using assms by (induction reg) auto

lemma find_by_alias_names: "find_by_alias reg n = find (\<lambda>t. n \<in> set (tool_names t)) reg"
  by (simp add: find_by_alias_def tool_names_def eq_commute)

text \<open>The names, and the names with their aliases, in the order of the table.\<close>

lemma registry_names:
  "map tool_name TOOL_REGISTRY =
    [''open_idb'', ''open_dsc'', ''dsc_add_dylib'', ''dsc_add_region'', ''load_debug_info'',
     ''get_analysis_status'', ''close_idb'', ''tool_catalog'', ''tool_help'',
     ''get_task_status'', ''get_database_info'', ''list_functions'', ''get_function_by_name'',
     ''get_function_prototype'', ''get_function_at_address'', ''batch_lookup_functions'',
     ''run_auto_analysis'', ''disassemble'', ''disassemble_function'',
     ''disassemble_function_at'', ''decompile_function'', ''get_pseudocode_at'',
     ''decompile_structured'', ''batch_decompile'', ''search_pseudocode'',
     ''scan_memory_table'', ''diff_pseudocode'', ''get_xrefs_to'', ''get_xrefs_from'',
     ''get_xrefs_to_string'', ''build_xref_matrix'', ''get_basic_blocks'', ''get_callers'',
     ''get_callees'', ''build_callgraph'', ''find_control_flow_paths'', ''read_bytes'',
     ''read_string'', ''read_byte'', ''read_word'', ''read_dword'', ''read_qword'',
     ''read_global_variable'', ''convert_number'', ''search_bytes'', ''search_text'',
     ''list_strings'', ''search_instructions'', ''search_instruction_operands'',
     ''list_segments'', ''get_address_info'', ''list_imports'', ''list_exports'',
     ''export_functions'', ''list_entry_points'', ''list_globals'', ''list_local_types'',
     ''get_xrefs_to_struct_field'', ''declare_c_type'', ''apply_type'', ''infer_type'',
     ''get_stack_frame'', ''create_stack_variable'', ''delete_stack_variable'', ''list_enums'',
     ''create_enum'', ''list_structs'', ''get_struct_info'', ''read_struct_at_address'',
     ''search_structs'', ''set_comment'', ''set_function_comment'', ''patch_assembly'',
     ''patch_bytes'', ''rename_symbol'', ''batch_rename'', ''set_function_prototype'',
     ''rename_local_variable'', ''set_local_variable_type'', ''rename_stack_variable'',
     ''set_stack_variable_type'', ''set_decompiler_comment'', ''run_script'',
     ''dbg_load_debugger'', ''dbg_start_process'', ''dbg_attach_process'',
     ''dbg_detach_process'', ''dbg_exit_process'', ''dbg_get_state'', ''dbg_add_breakpoint'',
     ''dbg_del_breakpoint'', ''dbg_enable_breakpoint'', ''dbg_list_breakpoints'',
     ''dbg_continue'', ''dbg_step_into'', ''dbg_step_over'', ''dbg_step_until_ret'',
     ''dbg_run_to'', ''dbg_get_registers'', ''dbg_set_register'', ''dbg_read_memory'',
     ''dbg_write_memory'', ''dbg_get_memory_info'', ''dbg_list_threads'', ''dbg_select_thread'',
     ''dbg_wait_event'']"
  by (simp add: TOOL_REGISTRY_def
      TOOL_REGISTRY_1_def TOOL_REGISTRY_2_def TOOL_REGISTRY_3_def TOOL_REGISTRY_4_def
      TOOL_REGISTRY_5_def TOOL_REGISTRY_6_def TOOL_REGISTRY_7_def TOOL_REGISTRY_8_def
      TOOL_REGISTRY_9_def TOOL_REGISTRY_10_def TOOL_REGISTRY_11_def TOOL_REGISTRY_12_def)

lemma registry_all_names:
  "concat (map tool_names TOOL_REGISTRY) =
    [''open_idb'', ''open_dsc'', ''dsc_add_dylib'', ''dsc_add_region'', ''load_debug_info'',
     ''get_analysis_status'', ''analysis_status'', ''close_idb'', ''tool_catalog'',
     ''tool_help'', ''get_task_status'', ''task_status'', ''get_database_info'', ''idb_meta'',
     ''list_functions'', ''list_funcs'', ''get_function_by_name'', ''resolve_function'',
     ''get_function_prototype'', ''get_function_at_address'', ''function_at'',
     ''batch_lookup_functions'', ''lookup_funcs'', ''run_auto_analysis'', ''analyze_funcs'',
     ''disassemble'', ''disasm'', ''disassemble_function'', ''disasm_by_name'',
     ''disassemble_function_at'', ''disasm_function_at'', ''decompile_function'', ''decompile'',
     ''get_pseudocode_at'', ''pseudocode_at'', ''decompile_structured'', ''batch_decompile'',
     ''search_pseudocode'', ''scan_memory_table'', ''table_scan'', ''diff_pseudocode'',
     ''diff_functions'', ''get_xrefs_to'', ''xrefs_to'', ''get_xrefs_from'', ''xrefs_from'',
     ''get_xrefs_to_string'', ''xrefs_to_string'', ''build_xref_matrix'', ''xref_matrix'',
     ''get_basic_blocks'', ''basic_blocks'', ''get_callers'', ''callers'', ''get_callees'',
     ''callees'', ''build_callgraph'', ''callgraph'', ''find_control_flow_paths'',
     ''find_paths'', ''read_bytes'', ''get_bytes'', ''read_string'', ''get_string'',
     ''read_byte'', ''get_u8'', ''read_word'', ''get_u16'', ''read_dword'', ''get_u32'',
     ''read_qword'', ''get_u64'', ''read_global_variable'', ''get_global_value'',
     ''convert_number'', ''int_convert'', ''search_bytes'', ''find_bytes'', ''search_text'',
     ''search'', ''list_strings'', ''strings'', ''find_string'', ''analyze_strings'',
     ''search_instructions'', ''find_insns'', ''search_instruction_operands'',
     ''find_insn_operands'', ''list_segments'', ''segments'', ''get_address_info'',
     ''addr_info'', ''list_imports'', ''imports'', ''list_exports'', ''exports'',
     ''export_functions'', ''export_funcs'', ''list_entry_points'', ''entrypoints'',
     ''list_globals'', ''list_local_types'', ''local_types'', ''get_xrefs_to_struct_field'',
     ''xrefs_to_field'', ''declare_c_type'', ''declare_type'', ''apply_type'', ''apply_types'',
     ''infer_type'', ''infer_types'', ''get_stack_frame'', ''stack_frame'',
     ''create_stack_variable'', ''declare_stack'', ''delete_stack_variable'', ''delete_stack'',
     ''list_enums'', ''create_enum'', ''list_structs'', ''structs'', ''get_struct_info'',
     ''struct_info'', ''read_struct_at_address'', ''read_struct'', ''search_structs'',
     ''set_comment'', ''set_comments'', ''set_function_comment'', ''patch_assembly'',
     ''patch_asm'', ''patch_bytes'', ''patch'', ''rename_symbol'', ''rename'', ''batch_rename'',
     ''set_function_prototype'', ''rename_local_variable'', ''rename_lvar'',
     ''set_local_variable_type'', ''set_lvar_type'', ''rename_stack_variable'',
     ''set_stack_variable_type'', ''set_decompiler_comment'', ''run_script'',
     ''dbg_load_debugger'', ''dbg_start_process'', ''dbg_attach_process'',
     ''dbg_detach_process'', ''dbg_exit_process'', ''dbg_get_state'', ''dbg_add_breakpoint'',
     ''dbg_del_breakpoint'', ''dbg_enable_breakpoint'', ''dbg_list_breakpoints'',
     ''dbg_continue'', ''dbg_step_into'', ''dbg_step_over'', ''dbg_step_until_ret'',
     ''dbg_run_to'', ''dbg_get_registers'', ''dbg_set_register'', ''dbg_read_memory'',
     ''dbg_write_memory'', ''dbg_get_memory_info'', ''dbg_list_threads'', ''dbg_select_thread'',
     ''dbg_wait_event'']"
  by (simp add: tool_names_def TOOL_REGISTRY_def
      TOOL_REGISTRY_1_def TOOL_REGISTRY_2_def TOOL_REGISTRY_3_def TOOL_REGISTRY_4_def
      TOOL_REGISTRY_5_def TOOL_REGISTRY_6_def TOOL_REGISTRY_7_def TOOL_REGISTRY_8_def
      TOOL_REGISTRY_9_def TOOL_REGISTRY_10_def TOOL_REGISTRY_11_def TOOL_REGISTRY_12_def)

text \<open>
  No two entries of the table share a name or an alias. The names are told apart by a number:
  sorting numbers takes fewer comparisons than comparing each name with each other.
\<close>

fun name_number :: "string \<Rightarrow> integer" where
  "name_number [] = 0"
| "name_number (c # cs) = integer_of_char c + 2 * name_number cs"

fun ascending :: "integer list \<Rightarrow> bool" where
  "ascending (x # y # xs) \<longleftrightarrow> x < y \<and> ascending (y # xs)"
| "ascending _ \<longleftrightarrow> True"

lemma ascending_sorted: "ascending xs \<Longrightarrow> sorted_wrt (<) xs"
  by (induction xs rule: ascending.induct) fastforce+

lemma ascending_distinct: "ascending xs \<Longrightarrow> distinct xs"
  using ascending_sorted strict_sorted_iff by blast

lemma ascending_names: "ascending (sort (map name_number (concat (map tool_names TOOL_REGISTRY))))"
  unfolding registry_all_names by code_simp

lemma names_distinct: "distinct (concat (map tool_names TOOL_REGISTRY))"
proof -
  have "distinct (map name_number (concat (map tool_names TOOL_REGISTRY)))"
    using ascending_distinct[OF ascending_names] by simp
  then show ?thesis by (simp add: distinct_map)
qed

lemma get_tool_by_alias_names:
  "t \<in> set TOOL_REGISTRY \<Longrightarrow> n \<in> set (tool_names t) \<Longrightarrow> get_tool_by_alias n = Some t"
  using find_distinct[OF names_distinct] by (simp add: get_tool_by_alias_def find_by_alias_names)

lemma primary_name_for_names:
  "t \<in> set TOOL_REGISTRY \<Longrightarrow> n \<in> set (tool_names t) \<Longrightarrow> primary_name_for n = tool_name t"
  by (simp add: primary_name_for_def get_tool_by_alias_names)

lemma get_tool_by_alias_Some:
  "get_tool_by_alias n = Some t \<Longrightarrow> t \<in> set TOOL_REGISTRY \<and> n \<in> set (tool_names t)"
  by (auto simp: get_tool_by_alias_def find_by_alias_names find_Some_iff)

lemma primary_name_for_idem: "primary_name_for (primary_name_for n) = primary_name_for n"
proof (cases "get_tool_by_alias n")
  case (Some t)
  then show ?thesis
    using get_tool_by_alias_Some[OF Some] primary_name_for_names[of t "tool_name t"]
    by (simp add: primary_name_for_def[of n] tool_names_def)
qed (simp add: primary_name_for_def)

end
