(* ===== verification/Tool_Search.thy ===== *)
theory Tool_Search
  imports Tool_Registry Addresses
begin

text \<open>
  The free-text search over the tool registry, \<open>search_tools\<close> of \<open>src/tool_registry.rs\<close>. A tool
  scores for each word of the query in its name, short description, keywords, aliases and
  category; the best tools come first, and tools of equal score in the order of the table.
\<close>

subsection \<open>Scores\<close>

text \<open>The pushes and points of one keyword or alias, over the words of the query.\<close>

fun score_words :: "(string \<Rightarrow> bool) \<Rightarrow> nat \<Rightarrow> string \<Rightarrow> string list \<Rightarrow> string list \<times> nat \<Rightarrow> string list \<times> nat" where
  "score_words hit points label [] acc = acc"
| "score_words hit points label (word # words) (matched, score) =
     score_words hit points label words
       (if hit word then (if label \<in> set matched then matched else matched @ [label], score + points)
        else (matched, score))"

definition name_score :: "ToolInfo \<Rightarrow> string list \<Rightarrow> string list \<times> nat" where
  "name_score tool words =
     (let hits = filter (contains (to_ascii_lowercase (tool_name tool))) words
      in (map (\<lambda>_. ''name match'') hits, 10 * length hits))"

definition desc_score :: "ToolInfo \<Rightarrow> string list \<Rightarrow> nat" where
  "desc_score tool words = 5 * length (filter (contains (to_ascii_lowercase (short_desc tool))) words)"

definition keyword_hit :: "string \<Rightarrow> string \<Rightarrow> bool" where
  "keyword_hit keyword word =
     (let kw_lower = to_ascii_lowercase keyword in contains kw_lower word \<or> contains word kw_lower)"

definition alias_hit :: "string \<Rightarrow> string \<Rightarrow> bool" where
  "alias_hit alias word = contains (to_ascii_lowercase alias) word"

definition category_hits :: "ToolInfo \<Rightarrow> string list \<Rightarrow> string list" where
  "category_hits tool words =
     filter (contains (to_ascii_lowercase (category_as_str (tool_category tool)))) words"

definition score_tool :: "string list \<Rightarrow> ToolInfo \<Rightarrow> string list \<times> nat" where
  "score_tool words tool =
     (let (matched0, s0) = name_score tool words;
          s1 = s0 + desc_score tool words;
          acc2 = fold (\<lambda>k. score_words (keyword_hit k) 3 k words) (tool_keywords tool) (matched0, s1);
          (matched3, s3) = fold (\<lambda>a. score_words (alias_hit a) 8 a words) (tool_aliases tool) acc2;
          cats = category_hits tool words
      in (matched3 @ map (\<lambda>_. category_as_str (tool_category tool)) cats, s3 + 2 * length cats))"

definition query_words :: "string \<Rightarrow> string list" where
  "query_words query = split_whitespace (to_ascii_lowercase query)"

text \<open>The scored tools of a table, best first; \<open>sort_key\<close> is stable, as \<open>sort_by\<close> is.\<close>

definition rank_tools :: "string list \<Rightarrow> ToolInfo list \<Rightarrow> (ToolInfo \<times> string list \<times> nat) list" where
  "rank_tools words reg =
     sort_key (\<lambda>(_, _, score). - int score)
       (filter (\<lambda>(_, _, score). score > 0) (map (\<lambda>tool. (tool, score_tool words tool)) reg))"

definition search_tools :: "string \<Rightarrow> nat \<Rightarrow> (ToolInfo \<times> string list) list" where
  "search_tools query limit =
     map (\<lambda>(tool, keywords, _). (tool, keywords)) (take limit (rank_tools (query_words query) TOOL_REGISTRY))"

subsection \<open>What a search returns\<close>

definition tool_score :: "string list \<Rightarrow> ToolInfo \<Rightarrow> nat" where
  "tool_score words tool = snd (score_tool words tool)"

lemma rank_tools_set:
  "set (rank_tools words reg) = {(t, score_tool words t) | t. t \<in> set reg \<and> tool_score words t > 0}"
  by (auto simp: rank_tools_def tool_score_def split_beta image_iff)

lemma rank_tools_sorted: "sorted_wrt (\<lambda>x y. snd (snd x) \<ge> snd (snd y)) (rank_tools words reg)"
proof -
  have "sorted (map (\<lambda>(_, _, score). - int score) (rank_tools words reg))"
    unfolding rank_tools_def by (rule sorted_sort_key)
  then show ?thesis unfolding sorted_map by (rule sorted_wrt_mono_rel[rotated]) auto
qed

lemma take_before_drop:
  assumes "sorted_wrt P xs" "x \<in> set (take n xs)" "y \<in> set (drop n xs)"
  shows "P x y"
proof -
  have "sorted_wrt P (take n xs @ drop n xs)" using assms(1) by simp
  then show ?thesis unfolding sorted_wrt_append using assms(2,3) by blast
qed

text \<open>The tools found, and that they are the first ones of the ranking.\<close>

definition found_tools :: "string \<Rightarrow> nat \<Rightarrow> ToolInfo list" where
  "found_tools query limit = map fst (search_tools query limit)"

lemma found_tools_rank: "found_tools query limit = map fst (take limit (rank_tools (query_words query) TOOL_REGISTRY))"
  by (simp add: found_tools_def search_tools_def comp_def split_beta)

lemma found_tools_score:
  assumes "t \<in> set (found_tools query limit)"
  shows "t \<in> set TOOL_REGISTRY \<and> tool_score (query_words query) t > 0 \<and>
    (t, score_tool (query_words query) t) \<in> set (take limit (rank_tools (query_words query) TOOL_REGISTRY))"
proof -
  obtain x where x: "x \<in> set (take limit (rank_tools (query_words query) TOOL_REGISTRY))" "t = fst x"
    using assms unfolding found_tools_rank set_map by (rule imageE)
  then obtain u where "x = (u, score_tool (query_words query) u)" "u \<in> set TOOL_REGISTRY"
      "tool_score (query_words query) u > 0"
    using in_set_takeD[OF x(1)] unfolding rank_tools_set by blast
  then show ?thesis using x by simp
qed

text \<open>
  The search returns the best tools: at most \<open>limit\<close>, each of a positive score and from the table,
  and no tool left out scores more than one returned.
\<close>

lemma search_tools_best:
  assumes t: "t \<in> set (found_tools query limit)"
    and u: "u \<in> set TOOL_REGISTRY" "u \<notin> set (found_tools query limit)"
  shows "tool_score (query_words query) u \<le> tool_score (query_words query) t"
proof (cases "tool_score (query_words query) u > 0")
  case True
  let ?r = "rank_tools (query_words query) TOOL_REGISTRY"
  have mem: "(u, score_tool (query_words query) u) \<in> set (take limit ?r) \<union> set (drop limit ?r)"
    using u(1) True unfolding set_append[symmetric] append_take_drop_id by (simp add: rank_tools_set)
  have "(u, score_tool (query_words query) u) \<notin> set (take limit ?r)"
    using u(2) unfolding found_tools_rank set_map by (metis fst_conv imageI)
  then have "(u, score_tool (query_words query) u) \<in> set (drop limit ?r)" using mem by blast
  then show ?thesis
    using take_before_drop[OF rank_tools_sorted] found_tools_score[OF t] by (fastforce simp: tool_score_def)
qed simp

lemma search_tools_limit: "length (search_tools query limit) \<le> limit"
  by (simp add: search_tools_def)

end
