(* ===== verification/Serde.thy ===== *)
theory Serde
  imports Json "HOL-Library.Monad_Syntax"
begin

text \<open>
  The \<open>Deserialize\<close> and \<open>Serialize\<close> implementations that the derive attributes of
  \<open>src/server/requests.rs\<close> ask for, on \<open>serde_json\<close> values. A field of a struct is given by its
  name followed by its aliases, and by whether it carries \<open>#[serde(default)]\<close>. An object may name
  a field at most once, by any of its names; an array gives the fields by position. Deserialising
  answers \<open>None\<close> where serde answers an error: the text of that error is serde's.
\<close>

type_synonym field_spec = "string list \<times> bool"

abbreviation plain_field :: "string list \<Rightarrow> field_spec" where
  "plain_field names \<equiv> (names, False)"

abbreviation default_field :: "string list \<Rightarrow> field_spec" where
  "default_field names \<equiv> (names, True)"

subsection \<open>The fields of a struct\<close>

definition field_value :: "string list \<Rightarrow> (string \<times> json) list \<Rightarrow> json option option" where
  "field_value names kvs =
     (case filter (\<lambda>(k, _). k \<in> set names) kvs of
        [] \<Rightarrow> Some None
      | [(_, v)] \<Rightarrow> Some (Some v)
      | _ \<Rightarrow> None)"

fun seq_fields :: "field_spec list \<Rightarrow> json list \<Rightarrow> json option list option" where
  "seq_fields [] [] = Some []"
| "seq_fields [] (x # xs) = None"
| "seq_fields ((names, dflt) # specs) [] =
     (if dflt then map_option (Cons None) (seq_fields specs []) else None)"
| "seq_fields (spec # specs) (x # xs) = map_option (Cons (Some x)) (seq_fields specs xs)"

definition struct_fields :: "field_spec list \<Rightarrow> json \<Rightarrow> json option list option" where
  "struct_fields specs v =
     (case v of
        JObj kvs \<Rightarrow> those (map (\<lambda>(names, _). field_value names kvs) specs)
      | JArr xs \<Rightarrow> seq_fields specs xs
      | _ \<Rightarrow> None)"

definition field_at :: "json option list \<Rightarrow> nat \<Rightarrow> json option" where
  "field_at fs i = (if i < length fs then fs ! i else None)"

subsection \<open>The values of the fields\<close>

fun de_string :: "json \<Rightarrow> string option" where
  "de_string (JStr s) = Some s"
| "de_string _ = None"

fun de_bool :: "json \<Rightarrow> bool option" where
  "de_bool (JBool b) = Some b"
| "de_bool _ = None"

text \<open>An unsigned and a signed integer of \<open>w\<close> bits: a value out of range is refused.\<close>

fun de_uint :: "nat \<Rightarrow> json \<Rightarrow> nat option" where
  "de_uint w (JNum n) = (if n < 2 ^ w then Some n else None)"
| "de_uint w _ = None"

fun de_int :: "nat \<Rightarrow> json \<Rightarrow> int option" where
  "de_int w (JNum n) = (if n < 2 ^ (w - 1) then Some (int n) else None)"
| "de_int w (JNeg i) = (if - (2 ^ (w - 1)) \<le> i \<and> i < 2 ^ (w - 1) then Some i else None)"
| "de_int w _ = None"

fun de_value :: "json \<Rightarrow> json option" where
  "de_value v = Some v"

fun de_vec :: "(json \<Rightarrow> 'a option) \<Rightarrow> json \<Rightarrow> 'a list option" where
  "de_vec de (JArr xs) = those (map de xs)"
| "de_vec de _ = None"

text \<open>An \<open>Option\<close> field may be absent or null; any other field must be present.\<close>

definition opt_field :: "(json \<Rightarrow> 'a option) \<Rightarrow> json option \<Rightarrow> 'a option option" where
  "opt_field de f =
     (case f of
        None \<Rightarrow> Some None
      | Some v \<Rightarrow> if v = JNull then Some None else map_option Some (de v))"

definition req_field :: "(json \<Rightarrow> 'a option) \<Rightarrow> json option \<Rightarrow> 'a option" where
  "req_field de f = (case f of None \<Rightarrow> None | Some v \<Rightarrow> de v)"

subsection \<open>Serialising\<close>

definition ser_int :: "int \<Rightarrow> json" where
  "ser_int i = (if 0 \<le> i then JNum (nat i) else JNeg i)"

definition ser_opt :: "('a \<Rightarrow> json) \<Rightarrow> 'a option \<Rightarrow> json" where
  "ser_opt ser x = (case x of None \<Rightarrow> JNull | Some a \<Rightarrow> ser a)"

text \<open>\<open>skip_serializing_if = "Option::is_none"\<close> leaves an absent field out.\<close>

definition ser_skip :: "string \<Rightarrow> ('a \<Rightarrow> json) \<Rightarrow> 'a option \<Rightarrow> (string \<times> json) list" where
  "ser_skip name ser x = (case x of None \<Rightarrow> [] | Some a \<Rightarrow> [(name, ser a)])"

subsection \<open>What a value of each type is\<close>

definition u64_ok :: "nat \<Rightarrow> bool" where
  "u64_ok n \<longleftrightarrow> n < 2 ^ 64"

definition u32_ok :: "nat \<Rightarrow> bool" where
  "u32_ok n \<longleftrightarrow> n < 2 ^ 32"

definition i64_ok :: "int \<Rightarrow> bool" where
  "i64_ok i \<longleftrightarrow> - (2 ^ 63) \<le> i \<and> i < 2 ^ 63"

definition i32_ok :: "int \<Rightarrow> bool" where
  "i32_ok i \<longleftrightarrow> - (2 ^ 31) \<le> i \<and> i < 2 ^ 31"

text \<open>A number \<open>serde_json\<close> holds as an unsigned integer fits 64 bits.\<close>

fun json_ok :: "json \<Rightarrow> bool" where
  "json_ok (JNum n) \<longleftrightarrow> u64_ok n"
| "json_ok (JNeg i) \<longleftrightarrow> i64_ok i \<and> i < 0"
| "json_ok (JArr xs) \<longleftrightarrow> (\<forall>x \<in> set xs. json_ok x)"
| "json_ok (JObj kvs) \<longleftrightarrow> (\<forall>kv \<in> set kvs. json_ok (snd kv))"
| "json_ok _ \<longleftrightarrow> True"

named_theorems serde_eval \<open>evaluation of the derived deserialisers on serialised structs\<close>
named_theorems de_roundtrip \<open>a struct is read back from its serialisation\<close>

lemma those_Some: "those xs = Some ys \<longleftrightarrow> xs = map Some ys"
  by (induction xs arbitrary: ys) (auto split: option.splits simp: map_eq_Cons_conv)

lemma those_map_Some: "(\<And>x. x \<in> set xs \<Longrightarrow> f (g x) = Some x) \<Longrightarrow> those (map (f \<circ> g) xs) = Some xs"
  by (induction xs) auto

lemma de_string_ser: "opt_field de_string (Some (ser_opt JStr x)) = Some x"
  by (cases x) (simp_all add: opt_field_def ser_opt_def)

lemma de_bool_ser: "opt_field de_bool (Some (ser_opt JBool x)) = Some x"
  by (cases x) (simp_all add: opt_field_def ser_opt_def)

lemma de_u64_ser: "pred_option u64_ok x \<Longrightarrow> opt_field (de_uint 64) (Some (ser_opt JNum x)) = Some x"
  by (cases x) (simp_all add: opt_field_def ser_opt_def u64_ok_def)

lemma de_u32_ser: "pred_option u32_ok x \<Longrightarrow> opt_field (de_uint 32) (Some (ser_opt JNum x)) = Some x"
  by (cases x) (simp_all add: opt_field_def ser_opt_def u32_ok_def)

lemma de_i64_ser1: "i64_ok i \<Longrightarrow> de_int 64 (ser_int i) = Some i"
  by (auto simp: ser_int_def i64_ok_def)

lemma de_i64_ser: "pred_option i64_ok x \<Longrightarrow> opt_field (de_int 64) (Some (ser_opt ser_int x)) = Some x"
  using de_i64_ser1 by (cases x) (auto simp: opt_field_def ser_opt_def ser_int_def)

lemma de_i32_ser: "pred_option i32_ok x \<Longrightarrow> opt_field (de_int 32) (Some (ser_opt ser_int x)) = Some x"
  by (cases x) (auto simp: opt_field_def ser_opt_def ser_int_def i32_ok_def)

lemma de_value_ser:
  "x \<noteq> Some JNull \<Longrightarrow> opt_field de_value (Some (ser_opt (\<lambda>v. v) x)) = Some x"
  by (cases x) (auto simp: opt_field_def ser_opt_def)

lemma opt_field_absent: "opt_field de None = Some None"
  by (simp add: opt_field_def)

lemma opt_field_string: "opt_field de_string (Some (JStr s)) = Some (Some s)"
  by (simp add: opt_field_def)

lemma req_field_present: "req_field de (Some v) = de v"
  by (simp add: req_field_def)

lemma field_value_obj [serde_eval]:
  "field_value names [] = Some None"
  "field_value names ((k, v) # kvs) =
     (if k \<in> set names
      then (if field_value names kvs = Some None then Some (Some v) else None)
      else field_value names kvs)"
  by (auto simp: field_value_def split: list.splits prod.splits)

lemma field_value_skip [serde_eval]:
  "field_value names (ser_skip k ser x @ kvs) =
     (if k \<in> set names
      then (if field_value names kvs = Some None then Some (map_option ser x)
            else if x = None then field_value names kvs else None)
      else field_value names kvs)"
  by (cases x) (simp_all add: ser_skip_def field_value_obj)

lemma opt_field_string_skip [serde_eval]: "opt_field de_string (map_option JStr x) = Some x"
  by (cases x) (simp_all add: opt_field_def)

lemmas [serde_eval] =
  struct_fields_def field_at_def de_string_ser de_bool_ser de_u64_ser de_u32_ser de_i64_ser de_i64_ser1
  de_i32_ser de_value_ser req_field_present

text \<open>An object that names a field twice is refused, whatever the names used.\<close>

lemma field_value_duplicate:
  assumes "(k, v) \<in> set kvs" "(k', v') \<in> set kvs" "(k, v) \<noteq> (k', v')" "k \<in> set names" "k' \<in> set names"
  shows "field_value names kvs = None"
proof -
  let ?f = "filter (\<lambda>(k, _). k \<in> set names) kvs"
  have mem: "(k, v) \<in> set ?f" "(k', v') \<in> set ?f" using assms by auto
  then obtain a b fs where "?f = a # b # fs"
    using assms(3) by (cases ?f; cases "tl ?f") auto
  then show ?thesis by (simp add: field_value_def split: prod.splits)
qed

end
