(* ===== verification/Worker_Calls.thy ===== *)
theory Worker_Calls
  imports Json Serde "HOL-Library.State_Monad"
begin

text \<open>
  The trait \<open>WorkerDispatch\<close> of \<open>src/ida/worker_trait.rs\<close>: the methods of a worker that the
  dispatcher calls. A method with its arguments is a value; the methods are split by the type
  they return. A worker is a record of stateful functions on a state of its own, so that the
  calls of one request are made in order and each sees the effects of those before. A typed
  result that the dispatcher only hands on is given as its \<open>serde_json::to_value\<close>.
\<close>

subsection \<open>Methods\<close>

datatype unit_method = w_close | w_shutdown

datatype text_method =
    w_disasm nat nat
  | w_disasm_by_name string nat
  | w_disasm_function_at "nat option" "string option" nat nat
  | w_decompile nat

datatype session_method =
    w_open string bool "string option" bool bool "string option" bool "string list"
  | w_load_debug_info "string option" bool
  | w_analysis_status
  | w_segments
  | w_imports nat nat
  | w_exports nat nat
  | w_entrypoints
  | w_idb_meta
  | w_analyze_funcs "nat option"
  | w_run_script string "nat option"

datatype function_method =
    w_list_functions nat nat "string option" "nat option"
  | w_resolve_function string
  | w_get_function_prototype "nat option" "string option"
  | w_function_at "nat option" "string option" nat
  | w_lookup_funcs "string list"
  | w_export_funcs nat nat
  | w_pseudocode_at nat "nat option"
  | w_addr_info "nat option" "string option" nat
  | w_basic_blocks nat
  | w_callees nat
  | w_callers nat
  | w_callgraph nat nat nat
  | w_find_paths nat nat nat nat

datatype search_method =
    w_strings nat nat "string option" "nat option"
  | w_find_string string bool bool nat nat "nat option"
  | w_xrefs_to_string string bool bool nat nat nat "nat option"
  | w_list_globals "string option" nat nat "nat option"
  | w_find_bytes string nat "nat option"
  | w_search_text string nat "nat option"
  | w_search_imm nat nat "nat option"
  | w_find_insns "string list" nat bool "nat option"
  | w_find_insn_operands "string list" nat bool "nat option"
  | w_search_pseudocode string nat "nat option"

datatype type_method =
    w_local_types nat nat "string option" "nat option"
  | w_declare_type string bool bool bool
  | w_apply_types "nat option" "string option" nat "int option" "string option" "string option"
      "string option" bool bool bool
  | w_infer_types "nat option" "string option" nat
  | w_set_function_prototype "nat option" "string option" string
  | w_list_enums "string option" nat nat
  | w_create_enum string bool
  | w_structs nat nat "string option" "nat option"
  | w_struct_info "nat option" "string option"
  | w_read_struct nat "nat option" "string option"

datatype data_method =
    w_xrefs_to nat
  | w_xrefs_from nat
  | w_xrefs_to_field "nat option" "string option" "nat option" "string option" nat
  | w_xref_matrix "nat list"
  | w_read_int nat nat
  | w_get_string nat nat
  | w_get_global_value string
  | w_stack_frame nat

datatype edit_method =
    w_declare_stack "nat option" "string option" int "string option" string bool
  | w_delete_stack "nat option" "string option" "int option" "string option"
  | w_rename_stack_variable "nat option" "string option" string string
  | w_set_stack_variable_type "nat option" "string option" string string
  | w_set_comments "nat option" "string option" nat string bool
  | w_set_function_comment "nat option" "string option" string bool
  | w_rename "nat option" "string option" string int
  | w_batch_rename "(nat option \<times> string option \<times> string) list"
  | w_rename_lvar nat string string
  | w_set_lvar_type nat string string
  | w_set_decompiler_comment nat nat int string
  | w_patch_bytes "nat option" "string option" nat "nat list"
  | w_patch_asm "nat option" "string option" nat string

datatype value_method =
    Session session_method
  | Func function_method
  | Find search_method
  | Type type_method
  | Data data_method
  | Edit edit_method

datatype BytesResult = BytesResult (br_address: string) (br_bytes: string) (br_length: nat)

definition ser_BytesResult :: "BytesResult \<Rightarrow> json" where
  "ser_BytesResult r =
     JObj [(''address'', JStr (br_address r)), (''bytes'', JStr (br_bytes r)), (''length'', JNum (br_length r))]"

record 'w worker =
  unit_call :: "unit_method \<Rightarrow> ('w, ToolError + unit) state"
  text_call :: "text_method \<Rightarrow> ('w, ToolError + string) state"
  get_bytes :: "nat option \<Rightarrow> string option \<Rightarrow> nat \<Rightarrow> nat \<Rightarrow> ('w, ToolError + BytesResult) state"
  value_call :: "value_method \<Rightarrow> ('w, ToolError + json) state"

text \<open>
  A call of a worker method, whatever its result type. \<open>call_ok\<close> says that the arguments are
  values of the Rust types of the trait: addresses, offsets and limits are of 64 bits, ordinals
  of 32, patch bytes of 8.
\<close>

datatype any_call =
    UnitCall unit_method
  | TextCall text_method
  | BytesCall "nat option" "string option" nat nat
  | ValueCall value_method

abbreviation opt_u64 :: "nat option \<Rightarrow> bool" where
  "opt_u64 x \<equiv> pred_option u64_ok x"

abbreviation opt_u32 :: "nat option \<Rightarrow> bool" where
  "opt_u32 x \<equiv> pred_option u32_ok x"

abbreviation opt_i64 :: "int option \<Rightarrow> bool" where
  "opt_i64 x \<equiv> pred_option i64_ok x"

fun text_method_ok :: "text_method \<Rightarrow> bool" where
  "text_method_ok (w_disasm a n) \<longleftrightarrow> u64_ok a \<and> u64_ok n"
| "text_method_ok (w_disasm_by_name s n) \<longleftrightarrow> u64_ok n"
| "text_method_ok (w_disasm_function_at a s off n) \<longleftrightarrow> opt_u64 a \<and> u64_ok off \<and> u64_ok n"
| "text_method_ok (w_decompile a) \<longleftrightarrow> u64_ok a"

fun session_method_ok :: "session_method \<Rightarrow> bool" where
  "session_method_ok (w_imports x0 x1) \<longleftrightarrow> u64_ok x0 \<and> u64_ok x1"
| "session_method_ok (w_exports x0 x1) \<longleftrightarrow> u64_ok x0 \<and> u64_ok x1"
| "session_method_ok (w_analyze_funcs x0) \<longleftrightarrow> opt_u64 x0"
| "session_method_ok (w_run_script _ x1) \<longleftrightarrow> opt_u64 x1"
| "session_method_ok _ \<longleftrightarrow> True"

fun function_method_ok :: "function_method \<Rightarrow> bool" where
  "function_method_ok (w_list_functions x0 x1 _ x3) \<longleftrightarrow> u64_ok x0 \<and> u64_ok x1 \<and> opt_u64 x3"
| "function_method_ok (w_get_function_prototype x0 _) \<longleftrightarrow> opt_u64 x0"
| "function_method_ok (w_function_at x0 _ x2) \<longleftrightarrow> opt_u64 x0 \<and> u64_ok x2"
| "function_method_ok (w_export_funcs x0 x1) \<longleftrightarrow> u64_ok x0 \<and> u64_ok x1"
| "function_method_ok (w_pseudocode_at x0 x1) \<longleftrightarrow> u64_ok x0 \<and> opt_u64 x1"
| "function_method_ok (w_addr_info x0 _ x2) \<longleftrightarrow> opt_u64 x0 \<and> u64_ok x2"
| "function_method_ok (w_basic_blocks x0) \<longleftrightarrow> u64_ok x0"
| "function_method_ok (w_callees x0) \<longleftrightarrow> u64_ok x0"
| "function_method_ok (w_callers x0) \<longleftrightarrow> u64_ok x0"
| "function_method_ok (w_callgraph x0 x1 x2) \<longleftrightarrow> u64_ok x0 \<and> u64_ok x1 \<and> u64_ok x2"
| "function_method_ok (w_find_paths x0 x1 x2 x3) \<longleftrightarrow> u64_ok x0 \<and> u64_ok x1 \<and> u64_ok x2 \<and> u64_ok x3"
| "function_method_ok _ \<longleftrightarrow> True"

fun search_method_ok :: "search_method \<Rightarrow> bool" where
  "search_method_ok (w_strings x0 x1 _ x3) \<longleftrightarrow> u64_ok x0 \<and> u64_ok x1 \<and> opt_u64 x3"
| "search_method_ok (w_find_string _ _ _ x3 x4 x5) \<longleftrightarrow> u64_ok x3 \<and> u64_ok x4 \<and> opt_u64 x5"
| "search_method_ok (w_xrefs_to_string _ _ _ x3 x4 x5 x6) \<longleftrightarrow> u64_ok x3 \<and> u64_ok x4 \<and> u64_ok x5 \<and> opt_u64 x6"
| "search_method_ok (w_list_globals _ x1 x2 x3) \<longleftrightarrow> u64_ok x1 \<and> u64_ok x2 \<and> opt_u64 x3"
| "search_method_ok (w_find_bytes _ x1 x2) \<longleftrightarrow> u64_ok x1 \<and> opt_u64 x2"
| "search_method_ok (w_search_text _ x1 x2) \<longleftrightarrow> u64_ok x1 \<and> opt_u64 x2"
| "search_method_ok (w_search_imm x0 x1 x2) \<longleftrightarrow> u64_ok x0 \<and> u64_ok x1 \<and> opt_u64 x2"
| "search_method_ok (w_find_insns _ x1 _ x3) \<longleftrightarrow> u64_ok x1 \<and> opt_u64 x3"
| "search_method_ok (w_find_insn_operands _ x1 _ x3) \<longleftrightarrow> u64_ok x1 \<and> opt_u64 x3"
| "search_method_ok (w_search_pseudocode _ x1 x2) \<longleftrightarrow> u64_ok x1 \<and> opt_u64 x2"

fun type_method_ok :: "type_method \<Rightarrow> bool" where
  "type_method_ok (w_local_types x0 x1 _ x3) \<longleftrightarrow> u64_ok x0 \<and> u64_ok x1 \<and> opt_u64 x3"
| "type_method_ok (w_apply_types x0 _ x2 x3 _ _ _ _ _ _) \<longleftrightarrow> opt_u64 x0 \<and> u64_ok x2 \<and> opt_i64 x3"
| "type_method_ok (w_infer_types x0 _ x2) \<longleftrightarrow> opt_u64 x0 \<and> u64_ok x2"
| "type_method_ok (w_set_function_prototype x0 _ _) \<longleftrightarrow> opt_u64 x0"
| "type_method_ok (w_list_enums _ x1 x2) \<longleftrightarrow> u64_ok x1 \<and> u64_ok x2"
| "type_method_ok (w_structs x0 x1 _ x3) \<longleftrightarrow> u64_ok x0 \<and> u64_ok x1 \<and> opt_u64 x3"
| "type_method_ok (w_struct_info x0 _) \<longleftrightarrow> opt_u32 x0"
| "type_method_ok (w_read_struct x0 x1 _) \<longleftrightarrow> u64_ok x0 \<and> opt_u32 x1"
| "type_method_ok _ \<longleftrightarrow> True"

fun data_method_ok :: "data_method \<Rightarrow> bool" where
  "data_method_ok (w_xrefs_to x0) \<longleftrightarrow> u64_ok x0"
| "data_method_ok (w_xrefs_from x0) \<longleftrightarrow> u64_ok x0"
| "data_method_ok (w_xrefs_to_field x0 _ x2 _ x4) \<longleftrightarrow> opt_u32 x0 \<and> opt_u32 x2 \<and> u64_ok x4"
| "data_method_ok (w_xref_matrix x0) \<longleftrightarrow> list_all u64_ok x0"
| "data_method_ok (w_read_int x0 x1) \<longleftrightarrow> u64_ok x0 \<and> u64_ok x1"
| "data_method_ok (w_get_string x0 x1) \<longleftrightarrow> u64_ok x0 \<and> u64_ok x1"
| "data_method_ok (w_stack_frame x0) \<longleftrightarrow> u64_ok x0"
| "data_method_ok _ \<longleftrightarrow> True"

fun edit_method_ok :: "edit_method \<Rightarrow> bool" where
  "edit_method_ok (w_declare_stack x0 _ x2 _ _ _) \<longleftrightarrow> opt_u64 x0 \<and> i64_ok x2"
| "edit_method_ok (w_delete_stack x0 _ x2 _) \<longleftrightarrow> opt_u64 x0 \<and> opt_i64 x2"
| "edit_method_ok (w_rename_stack_variable x0 _ _ _) \<longleftrightarrow> opt_u64 x0"
| "edit_method_ok (w_set_stack_variable_type x0 _ _ _) \<longleftrightarrow> opt_u64 x0"
| "edit_method_ok (w_set_comments x0 _ x2 _ _) \<longleftrightarrow> opt_u64 x0 \<and> u64_ok x2"
| "edit_method_ok (w_set_function_comment x0 _ _ _) \<longleftrightarrow> opt_u64 x0"
| "edit_method_ok (w_rename x0 _ _ x3) \<longleftrightarrow> opt_u64 x0 \<and> i32_ok x3"
| "edit_method_ok (w_batch_rename x0) \<longleftrightarrow> list_all (\<lambda>(a, _, _). opt_u64 a) x0"
| "edit_method_ok (w_rename_lvar x0 _ _) \<longleftrightarrow> u64_ok x0"
| "edit_method_ok (w_set_lvar_type x0 _ _) \<longleftrightarrow> u64_ok x0"
| "edit_method_ok (w_set_decompiler_comment x0 x1 x2 _) \<longleftrightarrow> u64_ok x0 \<and> u64_ok x1 \<and> i32_ok x2"
| "edit_method_ok (w_patch_bytes x0 _ x2 x3) \<longleftrightarrow> opt_u64 x0 \<and> u64_ok x2 \<and> list_all (\<lambda>b. b < 256) x3"
| "edit_method_ok (w_patch_asm x0 _ x2 _) \<longleftrightarrow> opt_u64 x0 \<and> u64_ok x2"

fun value_method_ok :: "value_method \<Rightarrow> bool" where
  "value_method_ok (Session m) \<longleftrightarrow> session_method_ok m"
| "value_method_ok (Func m) \<longleftrightarrow> function_method_ok m"
| "value_method_ok (Find m) \<longleftrightarrow> search_method_ok m"
| "value_method_ok (Type m) \<longleftrightarrow> type_method_ok m"
| "value_method_ok (Data m) \<longleftrightarrow> data_method_ok m"
| "value_method_ok (Edit m) \<longleftrightarrow> edit_method_ok m"

fun call_ok :: "any_call \<Rightarrow> bool" where
  "call_ok (UnitCall _) \<longleftrightarrow> True"
| "call_ok (TextCall m) \<longleftrightarrow> text_method_ok m"
| "call_ok (BytesCall a _ off n) \<longleftrightarrow> opt_u64 a \<and> u64_ok off \<and> u64_ok n"
| "call_ok (ValueCall m) \<longleftrightarrow> value_method_ok m"

text \<open>
  \<open>worker_within R w\<close>: a call with arguments of the trait's types moves the state of the worker
  along \<open>R\<close>. Nothing is asked of a call outside those types.
\<close>

definition worker_within :: "('w \<Rightarrow> 'w \<Rightarrow> bool) \<Rightarrow> 'w worker \<Rightarrow> bool" where
  "worker_within R w \<longleftrightarrow>
     (\<forall>m. state_io_rel R (unit_call w m)) \<and>
     (\<forall>m. text_method_ok m \<longrightarrow> state_io_rel R (text_call w m)) \<and>
     (\<forall>a s off n. opt_u64 a \<and> u64_ok off \<and> u64_ok n \<longrightarrow> state_io_rel R (get_bytes w a s off n)) \<and>
     (\<forall>m. value_method_ok m \<longrightarrow> state_io_rel R (value_call w m))"

text \<open>A worker that only records the calls it gets and answers all alike.\<close>

definition record_call :: "any_call \<Rightarrow> 'r \<Rightarrow> (any_call list, 'r) state" where
  "record_call c r = State (\<lambda>calls. (r, calls @ [c]))"

definition recorder :: "(text_method \<Rightarrow> ToolError + string) \<Rightarrow> (value_method \<Rightarrow> ToolError + json) \<Rightarrow> any_call list worker" where
  "recorder texts values =
     \<lparr>unit_call = (\<lambda>m. record_call (UnitCall m) (Inr ())),
      text_call = (\<lambda>m. record_call (TextCall m) (texts m)),
      get_bytes = (\<lambda>a s off n. record_call (BytesCall a s off n) (Inl (IdaError ''unreadable''))),
      value_call = (\<lambda>m. record_call (ValueCall m) (values m))\<rparr>"

lemma run_record_call [simp]: "run_state (record_call c r) calls = (r, calls @ [c])"
  by (simp add: record_call_def)

lemma recorder_sel [simp]:
  "unit_call (recorder texts values) m = record_call (UnitCall m) (Inr ())"
  "text_call (recorder texts values) t = record_call (TextCall t) (texts t)"
  "get_bytes (recorder texts values) a s off n = record_call (BytesCall a s off n) (Inl (IdaError ''unreadable''))"
  "value_call (recorder texts values) v = record_call (ValueCall v) (values v)"
  by (simp_all add: recorder_def)

lemma recorder_within:
  "worker_within (\<lambda>s s'. list_all call_ok s \<longrightarrow> list_all call_ok s') (recorder texts values)"
  unfolding worker_within_def by (auto simp: state_io_rel_def)

end
