(* ===== verification/Worker_Queue.thy ===== *)
theory Worker_Queue
  imports Worker_Calls
begin

text \<open>
  The queue between the callers of a worker and the thread that owns the IDA library:
  \<open>IdaWorker\<close> of \<open>src/ida/worker.rs\<close>, the requests of \<open>src/ida/request.rs\<close> and \<open>run_ida_loop\<close> of
  \<open>src/ida/loop_impl.rs\<close>. The channel is bounded, a caller waits on a one-shot channel, for ever or
  up to a timeout, and the loop drops a request whose caller has gone or that has waited too long.
  Times are in milliseconds. The handlers that run on the database are the argument \<open>handle\<close>, and
  a reply is given as a JSON value.
\<close>

subsection \<open>Requests and their callers\<close>

text \<open>
  What a method sends to the loop has no timeout: it is kept by the caller, who waits either for
  ever (\<open>rx.await\<close>) or with \<open>recv_with_timeout\<close>.
\<close>

datatype waiting = Forever | Within "nat option"

fun session_waiting :: "session_method \<Rightarrow> waiting" where
  "session_waiting (w_analyze_funcs timeout) = Within timeout"
| "session_waiting (w_run_script code timeout) = Within timeout"
| "session_waiting _ = Forever"

fun function_waiting :: "function_method \<Rightarrow> waiting" where
  "function_waiting (w_list_functions offset limit filter_by timeout) = Within timeout"
| "function_waiting _ = Forever"

fun search_waiting :: "search_method \<Rightarrow> waiting" where
  "search_waiting (w_strings offset limit filter_by timeout) = Within timeout"
| "search_waiting (w_find_string query exact ci offset limit timeout) = Within timeout"
| "search_waiting (w_xrefs_to_string query exact ci offset limit max_xrefs timeout) = Within timeout"
| "search_waiting (w_list_globals query offset limit timeout) = Within timeout"
| "search_waiting (w_find_bytes pattern max_results timeout) = Within timeout"
| "search_waiting (w_search_text query max_results timeout) = Within timeout"
| "search_waiting (w_search_imm imm max_results timeout) = Within timeout"
| "search_waiting (w_find_insns patterns max_results ci timeout) = Within timeout"
| "search_waiting (w_find_insn_operands patterns max_results ci timeout) = Within timeout"
| "search_waiting (w_search_pseudocode pattern limit timeout) = Within timeout"

fun type_waiting :: "type_method \<Rightarrow> waiting" where
  "type_waiting (w_local_types offset limit filter_by timeout) = Within timeout"
| "type_waiting (w_structs offset limit filter_by timeout) = Within timeout"
| "type_waiting _ = Forever"

fun call_waiting :: "any_call \<Rightarrow> waiting" where
  "call_waiting (ValueCall (Session m)) = session_waiting m"
| "call_waiting (ValueCall (Func m)) = function_waiting m"
| "call_waiting (ValueCall (Find m)) = search_waiting m"
| "call_waiting (ValueCall (Type m)) = type_waiting m"
| "call_waiting _ = Forever"

text \<open>The request that a call enqueues: its arguments without the timeout.\<close>

fun session_request :: "session_method \<Rightarrow> session_method" where
  "session_request (w_analyze_funcs timeout) = w_analyze_funcs None"
| "session_request (w_run_script code timeout) = w_run_script code None"
| "session_request m = m"

fun function_request :: "function_method \<Rightarrow> function_method" where
  "function_request (w_list_functions offset limit filter_by timeout) = w_list_functions offset limit filter_by None"
| "function_request m = m"

fun find_request :: "search_method \<Rightarrow> search_method" where
  "find_request (w_strings offset limit filter_by timeout) = w_strings offset limit filter_by None"
| "find_request (w_find_string query exact ci offset limit timeout) = w_find_string query exact ci offset limit None"
| "find_request (w_xrefs_to_string query exact ci offset limit max_xrefs timeout) =
     w_xrefs_to_string query exact ci offset limit max_xrefs None"
| "find_request (w_list_globals query offset limit timeout) = w_list_globals query offset limit None"
| "find_request (w_find_bytes pattern max_results timeout) = w_find_bytes pattern max_results None"
| "find_request (w_search_text query max_results timeout) = w_search_text query max_results None"
| "find_request (w_search_imm imm max_results timeout) = w_search_imm imm max_results None"
| "find_request (w_find_insns patterns max_results ci timeout) = w_find_insns patterns max_results ci None"
| "find_request (w_find_insn_operands patterns max_results ci timeout) =
     w_find_insn_operands patterns max_results ci None"
| "find_request (w_search_pseudocode pattern limit timeout) = w_search_pseudocode pattern limit None"

fun type_request :: "type_method \<Rightarrow> type_method" where
  "type_request (w_local_types offset limit filter_by timeout) = w_local_types offset limit filter_by None"
| "type_request (w_structs offset limit filter_by timeout) = w_structs offset limit filter_by None"
| "type_request m = m"

fun ida_request :: "any_call \<Rightarrow> any_call" where
  "ida_request (ValueCall (Session m)) = ValueCall (Session (session_request m))"
| "ida_request (ValueCall (Func m)) = ValueCall (Func (function_request m))"
| "ida_request (ValueCall (Find m)) = ValueCall (Find (find_request m))"
| "ida_request (ValueCall (Type m)) = ValueCall (Type (type_request m))"
| "ida_request c = c"

definition DEFAULT_TIMEOUT_SECS :: nat where "DEFAULT_TIMEOUT_SECS = 120"
definition MAX_TIMEOUT_SECS :: nat where "MAX_TIMEOUT_SECS = 600"
definition CLOSE_SEND_TIMEOUT_SECS :: nat where "CLOSE_SEND_TIMEOUT_SECS = 5"
definition DEFAULT_DEADLINE_SECS :: nat where "DEFAULT_DEADLINE_SECS = 120"
definition REQUEST_QUEUE_CAPACITY :: nat where "REQUEST_QUEUE_CAPACITY = 64"

definition is_control :: "any_call \<Rightarrow> bool" where
  "is_control c \<longleftrightarrow> c = UnitCall w_close \<or> c = UnitCall w_shutdown"

text \<open>
  A queued request. The number stands for its one-shot channel.
\<close>

record EnqueuedRequest =
  eq_chan :: nat
  eq_call :: any_call
  enqueued_at :: nat

text \<open>What becomes of an accepted request; a dropped sender is seen by the caller as \<open>WorkerClosed\<close>.\<close>

datatype fate = Ran "ToolError + json" | SkippedCancelled | SkippedExpired | Discarded

fun recv_result :: "fate \<Rightarrow> ToolError + json" where
  "recv_result (Ran r) = r"
| "recv_result _ = Inl WorkerClosed"

definition recv_with_timeout :: "nat option \<Rightarrow> nat \<Rightarrow> fate \<Rightarrow> ToolError + json" where
  "recv_with_timeout timeout_secs elapsed f =
     (let timeout = min (unwrap_or timeout_secs DEFAULT_TIMEOUT_SECS) MAX_TIMEOUT_SECS in
      if elapsed \<le> timeout * 1000 then recv_result f else Inl (Timeout timeout))"

fun caller_result :: "waiting \<Rightarrow> nat \<Rightarrow> fate \<Rightarrow> ToolError + json" where
  "caller_result Forever elapsed f = recv_result f"
| "caller_result (Within timeout) elapsed f = recv_with_timeout timeout elapsed f"

subsection \<open>The channel and the loop\<close>

text \<open>
  The state of the channel and of the loop. \<open>lq_gone\<close> are the channels whose receiver was dropped,
  by a timeout or by the end of the caller; \<open>lq_log\<close> records the fate of each request.
\<close>

record 'd ida_loop =
  lq_queue :: "EnqueuedRequest list"
  lq_alive :: bool
  lq_gone :: "nat set"
  lq_initialized :: bool
  lq_db :: 'd
  lq_log :: "(EnqueuedRequest \<times> fate) list"

definition loop_start :: "'d \<Rightarrow> 'd ida_loop" where
  "loop_start d = \<lparr>lq_queue = [], lq_alive = True, lq_gone = {}, lq_initialized = False, lq_db = d, lq_log = []\<rparr>"

definition try_send :: "nat \<Rightarrow> EnqueuedRequest \<Rightarrow> 'd ida_loop \<Rightarrow> (ToolError + unit) \<times> 'd ida_loop" where
  "try_send capacity e s =
     (if \<not> lq_alive s then (Inl WorkerClosed, s)
      else if length (lq_queue s) \<ge> capacity then (Inl Busy, s)
      else (Inr (), s\<lparr>lq_queue := lq_queue s @ [e]\<rparr>))"

text \<open>One round of \<open>send_with_retry\<close>; \<open>None\<close> is to sleep and try again.\<close>

definition retry_send ::
  "nat \<Rightarrow> nat option \<Rightarrow> nat \<Rightarrow> nat \<Rightarrow> EnqueuedRequest \<Rightarrow> 'd ida_loop \<Rightarrow> (ToolError + unit) option \<times> 'd ida_loop" where
  "retry_send capacity max_wait start now e s =
     (case try_send capacity e s of
        (Inl Busy, s') \<Rightarrow>
          (case max_wait of
             Some m \<Rightarrow> (if now - start \<ge> m then Some (Inl Busy) else None, s')
           | None \<Rightarrow> (None, s'))
      | (r, s') \<Rightarrow> (Some r, s'))"

text \<open>The library is initialised before the first request that is handled.\<close>

definition library_db :: "('d \<Rightarrow> 'd) \<Rightarrow> 'd ida_loop \<Rightarrow> 'd" where
  "library_db init_library s = (if lq_initialized s then lq_db s else init_library (lq_db s))"

definition handle_request ::
  "(any_call \<Rightarrow> 'd \<Rightarrow> (ToolError + json) \<times> 'd) \<Rightarrow> ('d \<Rightarrow> 'd) \<Rightarrow> EnqueuedRequest \<Rightarrow> 'd ida_loop \<Rightarrow> 'd ida_loop" where
  "handle_request handle init_library e s =
     (case handle (ida_request (eq_call e)) (library_db init_library s) of (r, d') \<Rightarrow>
        let s' = s\<lparr>lq_initialized := True, lq_db := d', lq_log := lq_log s @ [(e, Ran r)]\<rparr> in
        if eq_call e = UnitCall w_shutdown then
          s'\<lparr>lq_alive := False, lq_queue := [],
             lq_log := lq_log s' @ map (\<lambda>x. (x, Discarded)) (lq_queue s')\<rparr>
        else s')"

definition skip_request :: "EnqueuedRequest \<Rightarrow> fate \<Rightarrow> 'd ida_loop \<Rightarrow> 'd ida_loop" where
  "skip_request e f s = s\<lparr>lq_log := lq_log s @ [(e, f)]\<rparr>"

text \<open>One round of \<open>run_ida_loop\<close> at time \<open>now\<close>; with an empty queue the loop waits.\<close>

definition run_ida_loop_step ::
  "(any_call \<Rightarrow> 'd \<Rightarrow> (ToolError + json) \<times> 'd) \<Rightarrow> ('d \<Rightarrow> 'd) \<Rightarrow> nat \<Rightarrow> 'd ida_loop \<Rightarrow> 'd ida_loop" where
  "run_ida_loop_step handle init_library now s =
     (case lq_queue s of
        [] \<Rightarrow> s
      | e # rest \<Rightarrow>
          let wait_ms = now - enqueued_at e;
              s1 = s\<lparr>lq_queue := rest\<rparr>
          in if \<not> is_control (eq_call e) \<and> eq_chan e \<in> lq_gone s then skip_request e SkippedCancelled s1
             else if \<not> is_control (eq_call e) \<and> wait_ms > DEFAULT_DEADLINE_SECS * 1000
             then skip_request e SkippedExpired s1
             else handle_request handle init_library e s1)"

subsection \<open>Every interleaving of callers and loop\<close>

text \<open>
  A caller sends a request on a channel of its own, at once or, for a control request, after
  retries; a receiver is dropped at any time; the loop takes the next request.
\<close>

record 'd queue_sys =
  qs_loop :: "'d ida_loop"
  qs_clock :: nat
  qs_accepted :: "EnqueuedRequest list"
  qs_refused :: "(EnqueuedRequest \<times> ToolError) list"

definition queue_start :: "'d \<Rightarrow> 'd queue_sys" where
  "queue_start d = \<lparr>qs_loop = loop_start d, qs_clock = 0, qs_accepted = [], qs_refused = []\<rparr>"

definition fresh_chan :: "nat \<Rightarrow> 'd queue_sys \<Rightarrow> bool" where
  "fresh_chan n s \<longleftrightarrow> n \<notin> eq_chan ` set (qs_accepted s) \<and> n \<notin> lq_gone (qs_loop s)"

inductive queue_step ::
  "nat \<Rightarrow> (any_call \<Rightarrow> 'd \<Rightarrow> (ToolError + json) \<times> 'd) \<Rightarrow> ('d \<Rightarrow> 'd) \<Rightarrow> 'd queue_sys \<Rightarrow> 'd queue_sys \<Rightarrow> bool"
  for capacity :: nat and handle init_library where
  q_send: "try_send capacity e (qs_loop s) = (r, l') \<Longrightarrow> fresh_chan (eq_chan e) s \<Longrightarrow>
     enqueued_at e = qs_clock s \<Longrightarrow>
     queue_step capacity handle init_library s (s\<lparr>qs_loop := l',
       qs_accepted := (case r of Inr _ \<Rightarrow> qs_accepted s @ [e] | Inl _ \<Rightarrow> qs_accepted s),
       qs_refused := (case r of Inr _ \<Rightarrow> qs_refused s | Inl x \<Rightarrow> qs_refused s @ [(e, x)])\<rparr>)"
| q_retry: "retry_send capacity max_wait (enqueued_at e) (qs_clock s) e (qs_loop s) = (r, l') \<Longrightarrow>
     is_control (eq_call e) \<Longrightarrow> fresh_chan (eq_chan e) s \<Longrightarrow> enqueued_at e \<le> qs_clock s \<Longrightarrow>
     queue_step capacity handle init_library s (s\<lparr>qs_loop := l',
       qs_accepted := (case r of Some (Inr _) \<Rightarrow> qs_accepted s @ [e] | _ \<Rightarrow> qs_accepted s),
       qs_refused := (case r of Some (Inl x) \<Rightarrow> qs_refused s @ [(e, x)] | _ \<Rightarrow> qs_refused s)\<rparr>)"
| q_gone: "queue_step capacity handle init_library s
     (s\<lparr>qs_loop := (qs_loop s)\<lparr>lq_gone := insert n (lq_gone (qs_loop s))\<rparr>\<rparr>)"
| q_loop: "lq_alive (qs_loop s) \<Longrightarrow>
     queue_step capacity handle init_library s
       (s\<lparr>qs_loop := run_ida_loop_step handle init_library (qs_clock s) (qs_loop s)\<rparr>)"
| q_time: "qs_clock s \<le> now \<Longrightarrow> queue_step capacity handle init_library s (s\<lparr>qs_clock := now\<rparr>)"

abbreviation queue_steps ::
  "nat \<Rightarrow> (any_call \<Rightarrow> 'd \<Rightarrow> (ToolError + json) \<times> 'd) \<Rightarrow> ('d \<Rightarrow> 'd) \<Rightarrow> 'd queue_sys \<Rightarrow> 'd queue_sys \<Rightarrow> bool" where
  "queue_steps capacity handle init_library \<equiv> (queue_step capacity handle init_library)\<^sup>*\<^sup>*"

subsection \<open>One request at a time, in order\<close>

text \<open>
  The sequential run that a log stands for: the handled requests one after the other, each with
  the reply that its handler gives; \<open>None\<close> if a reply is another.
\<close>

fun replay ::
  "(any_call \<Rightarrow> 'd \<Rightarrow> (ToolError + json) \<times> 'd) \<Rightarrow> (EnqueuedRequest \<times> fate) list \<Rightarrow> 'd \<Rightarrow> 'd option" where
  "replay handle [] d = Some d"
| "replay handle ((e, Ran r) # entries) d =
     (case handle (ida_request (eq_call e)) d of (r', d') \<Rightarrow> if r' = r then replay handle entries d' else None)"
| "replay handle ((e, f) # entries) d = replay handle entries d"

lemma replay_append: "replay handle (xs @ ys) d = Option.bind (replay handle xs d) (replay handle ys)"
  by (induction handle xs d rule: replay.induct) (auto split: prod.splits)

lemma replay_skipped: "(\<And>x. x \<in> set entries \<Longrightarrow> \<forall>r. snd x \<noteq> Ran r) \<Longrightarrow> replay handle entries d = Some d"
proof (induction entries)
  case (Cons x entries)
  then have "replay handle entries d = Some d" by simp
  moreover obtain e f where "x = (e, f)" by (cases x)
  ultimately show ?case using Cons.prems[of x] by (cases f) auto
qed simp

definition loop_ok ::
  "(any_call \<Rightarrow> 'd \<Rightarrow> (ToolError + json) \<times> 'd) \<Rightarrow> ('d \<Rightarrow> 'd) \<Rightarrow> 'd \<Rightarrow> 'd ida_loop \<Rightarrow> bool" where
  "loop_ok handle init_library d l \<longleftrightarrow>
     (if lq_initialized l then replay handle (lq_log l) (init_library d) = Some (lq_db l)
      else lq_db l = d \<and> (\<forall>x \<in> set (lq_log l). \<forall>r. snd x \<noteq> Ran r)) \<and>
     (\<not> lq_alive l \<longrightarrow> lq_queue l = []) \<and>
     (\<forall>x \<in> set (lq_log l). is_control (eq_call (fst x)) \<longrightarrow> snd x \<notin> {SkippedCancelled, SkippedExpired})"

lemma loop_okD:
  assumes "loop_ok handle init_library d l"
  shows "replay handle (lq_log l) (if lq_initialized l then init_library d else d) = Some (lq_db l)"
    and "replay handle (lq_log l) (init_library d) = Some (library_db init_library l)"
    and "\<not> lq_alive l \<Longrightarrow> lq_queue l = []"
  using assms by (auto simp: loop_ok_def library_db_def intro!: replay_skipped split: if_splits)

lemma loop_ok_skip:
  assumes "loop_ok handle init_library d l" "lq_queue l = e # rest" "\<forall>r. f \<noteq> Ran r" "\<not> is_control (eq_call e)"
  shows "loop_ok handle init_library d (skip_request e f (l\<lparr>lq_queue := rest\<rparr>))"
proof -
  have "replay handle [(e, f)] x = Some x" for x using assms(3) by (cases f) auto
  then show ?thesis using assms by (auto simp: loop_ok_def skip_request_def replay_append split: if_splits)
qed

lemma replay_discarded: "replay handle (map (\<lambda>x. (x, Discarded)) xs) d = Some d"
  by (rule replay_skipped) auto

lemma loop_ok_handle:
  assumes "loop_ok handle init_library d l" "lq_queue l = e # rest" "lq_alive l"
  shows "loop_ok handle init_library d (handle_request handle init_library e (l\<lparr>lq_queue := rest\<rparr>))"
proof -
  obtain r d' where h: "handle (ida_request (eq_call e)) (library_db init_library l) = (r, d')" by fastforce
  have lib: "library_db init_library (l\<lparr>lq_queue := rest\<rparr>) = library_db init_library l"
    by (simp add: library_db_def)
  let ?s = "handle_request handle init_library e (l\<lparr>lq_queue := rest\<rparr>)"
  let ?rest = "if eq_call e = UnitCall w_shutdown then map (\<lambda>x. (x, Discarded)) rest else []"
  have f: "lq_initialized ?s" "lq_db ?s = d'" "lq_log ?s = lq_log l @ (e, Ran r) # ?rest"
    "lq_alive ?s \<longleftrightarrow> eq_call e \<noteq> UnitCall w_shutdown" "eq_call e = UnitCall w_shutdown \<Longrightarrow> lq_queue ?s = []"
    using h assms(3) by (simp_all add: handle_request_def Let_def lib)
  have "replay handle (lq_log l @ (e, Ran r) # ?rest) (init_library d) = Some d'"
    using loop_okD(2)[OF assms(1)] h by (simp add: replay_append replay_discarded)
  moreover have "is_control (eq_call (fst x)) \<longrightarrow> snd x \<notin> {SkippedCancelled, SkippedExpired}"
    if "x \<in> set (lq_log l @ (e, Ran r) # ?rest)" for x
    using that assms(1) by (auto simp: loop_ok_def split: if_splits)
  ultimately show ?thesis unfolding loop_ok_def f(2,3) using f(1,4,5) by simp
qed

lemma loop_ok_step:
  assumes "loop_ok handle init_library d l" "lq_alive l"
  shows "loop_ok handle init_library d (run_ida_loop_step handle init_library now l)"
proof (cases "lq_queue l")
  case Nil
  then show ?thesis using assms by (simp add: run_ida_loop_step_def)
next
  case (Cons e rest)
  then show ?thesis
    using loop_ok_skip[OF assms(1) Cons] loop_ok_handle[OF assms(1) Cons assms(2)]
    by (simp add: run_ida_loop_step_def Let_def)
qed

lemma step_log_queue:
  "map fst (lq_log (run_ida_loop_step handle init_library now l)) @ lq_queue (run_ida_loop_step handle init_library now l) =
   map fst (lq_log l) @ lq_queue l"
  "length (lq_queue (run_ida_loop_step handle init_library now l)) = length (lq_queue l) - 1 \<or>
   lq_queue (run_ida_loop_step handle init_library now l) = []"
  "lq_gone (run_ida_loop_step handle init_library now l) = lq_gone l"
  by (auto simp: run_ida_loop_step_def skip_request_def handle_request_def Let_def comp_def
      split: list.splits prod.splits)

definition queue_ok ::
  "nat \<Rightarrow> (any_call \<Rightarrow> 'd \<Rightarrow> (ToolError + json) \<times> 'd) \<Rightarrow> ('d \<Rightarrow> 'd) \<Rightarrow> 'd \<Rightarrow> 'd queue_sys \<Rightarrow> bool" where
  "queue_ok capacity handle init_library d s \<longleftrightarrow>
     loop_ok handle init_library d (qs_loop s) \<and>
     map fst (lq_log (qs_loop s)) @ lq_queue (qs_loop s) = qs_accepted s \<and>
     distinct (map eq_chan (qs_accepted s)) \<and> length (lq_queue (qs_loop s)) \<le> capacity \<and>
     (\<forall>x \<in> set (qs_refused s). snd x \<in> {Busy, WorkerClosed})"

lemma try_send_cases:
  assumes "try_send capacity e l = (r, l')"
  obtains x where "r = Inl x" "l' = l" "x \<in> {Busy, WorkerClosed}"
    | "r = Inr ()" "l' = l\<lparr>lq_queue := lq_queue l @ [e]\<rparr>" "lq_alive l" "length (lq_queue l) < capacity"
  using assms by (auto simp: try_send_def split: if_splits)

lemma retry_send_cases:
  assumes "retry_send capacity max_wait start now e l = (r, l')"
  obtains "r = None" "l' = l" | r' where "r = Some r'" "try_send capacity e l = (r', l')"
proof -
  obtain r' l'' where t: "try_send capacity e l = (r', l'')" by fastforce
  show thesis
  proof (cases "r' = Inl Busy")
    case True
    then have "l'' = l" using t by (auto simp: try_send_def split: if_splits)
    then show thesis using that assms t True by (auto simp: retry_send_def split: option.splits if_splits)
  next
    case False
    then have "retry_send capacity max_wait start now e l = (Some r', l'')"
      using t by (auto simp: retry_send_def split: sum.splits ToolError.splits)
    then show thesis using that(2) assms t by simp
  qed
qed

lemma loop_ok_append:
  "loop_ok handle init_library d l \<Longrightarrow> lq_alive l \<Longrightarrow> loop_ok handle init_library d (l\<lparr>lq_queue := q\<rparr>)"
  by (simp add: loop_ok_def)

lemma queue_ok_accept:
  assumes "queue_ok capacity handle init_library d s" "fresh_chan (eq_chan e) s"
    and "try_send capacity e (qs_loop s) = (r, l')"
    and "s' = s\<lparr>qs_loop := l',
      qs_accepted := (case r of Inr _ \<Rightarrow> qs_accepted s @ [e] | Inl _ \<Rightarrow> qs_accepted s),
      qs_refused := (case r of Inr _ \<Rightarrow> qs_refused s | Inl x \<Rightarrow> qs_refused s @ [(e, x)])\<rparr>"
  shows "queue_ok capacity handle init_library d s'"
  using assms(3)
proof (cases rule: try_send_cases)
  case (1 x)
  then show ?thesis using assms(1,4) by (auto simp: queue_ok_def)
next
  case 2
  have "map fst (lq_log (qs_loop s)) @ lq_queue (qs_loop s) @ [e] = qs_accepted s @ [e]"
    using assms(1) unfolding queue_ok_def append_assoc[symmetric] by simp
  then show ?thesis
    using 2 assms(1,2,4) loop_ok_append[of handle init_library d "qs_loop s"]
    by (simp add: queue_ok_def fresh_chan_def)
qed

lemma queue_step_ok:
  assumes "queue_step capacity handle init_library s s'" "queue_ok capacity handle init_library d s"
  shows "queue_ok capacity handle init_library d s'"
  using assms(1)
proof cases
  case (q_send e r l')
  then show ?thesis by (intro queue_ok_accept[OF assms(2) q_send(3,2)]) simp_all
next
  case (q_retry max_wait e r l')
  from q_retry(2) show ?thesis
  proof (cases rule: retry_send_cases)
    case 1
    then show ?thesis using assms(2) q_retry(1) by simp
  next
    case (2 r')
    then show ?thesis
      by (intro queue_ok_accept[OF assms(2) q_retry(4) 2(2)]) (simp add: q_retry(1) split: sum.splits)
  qed
next
  case (q_gone n)
  then show ?thesis using assms(2) by (simp add: queue_ok_def loop_ok_def)
next
  case q_loop
  let ?l = "run_ida_loop_step handle init_library (qs_clock s) (qs_loop s)"
  have "loop_ok handle init_library d ?l"
    using assms(2) q_loop(2) by (intro loop_ok_step) (simp_all add: queue_ok_def)
  moreover have "length (lq_queue ?l) \<le> capacity"
    using step_log_queue(2)[of handle init_library "qs_clock s" "qs_loop s"] assms(2)
    by (auto simp: queue_ok_def)
  ultimately show ?thesis
    using assms(2) step_log_queue(1)[of handle init_library "qs_clock s" "qs_loop s"] q_loop(1)
    by (simp add: queue_ok_def)
next
  case (q_time now)
  then show ?thesis using assms(2) by (simp add: queue_ok_def)
qed

lemma queue_reachable_ok:
  assumes "queue_steps capacity handle init_library (queue_start d) s"
  shows "queue_ok capacity handle init_library d s"
  using assms
proof (induction rule: rtranclp_induct)
  case base
  show ?case by (simp add: queue_ok_def loop_ok_def queue_start_def loop_start_def)
next
  case (step s s')
  show ?case by (rule queue_step_ok[OF step(2) step.IH])
qed

text \<open>
  C9. The worker runs one request at a time, in the order in which requests were accepted,
  whatever its callers do. Each accepted request is waiting or has met exactly one fate; the
  handled ones form a sequential run of the handlers that ends in the present database, in which
  each reply is the one the handler gives at that point; the queue never exceeds its capacity; a
  request to close or to shut down is never skipped; and a refusal is for a full queue or a
  closed worker.
\<close>

theorem worker_queue_sequential:
  assumes "queue_steps capacity handle init_library (queue_start d) s"
  defines "l \<equiv> qs_loop s"
  shows "qs_accepted s = map fst (lq_log l) @ lq_queue l \<and> distinct (map eq_chan (qs_accepted s)) \<and>
    replay handle (lq_log l) (if lq_initialized l then init_library d else d) = Some (lq_db l) \<and>
    length (lq_queue l) \<le> capacity \<and>
    (\<forall>e f. (e, f) \<in> set (lq_log l) \<and> is_control (eq_call e) \<longrightarrow> f \<notin> {SkippedCancelled, SkippedExpired}) \<and>
    (\<forall>e x. (e, x) \<in> set (qs_refused s) \<longrightarrow> x \<in> {Busy, WorkerClosed})"
proof -
  have ok: "queue_ok capacity handle init_library d s" by (rule queue_reachable_ok[OF assms(1)])
  then have "loop_ok handle init_library d l" by (simp add: queue_ok_def l_def)
  then show ?thesis
    using ok loop_okD(1)[of handle init_library d l] unfolding queue_ok_def loop_ok_def l_def[symmetric] by fastforce
qed

text \<open>A sample run used by the witnesses: bytes are searched from time 0 and the database counts calls.\<close>

definition sample_request :: EnqueuedRequest where
  "sample_request = \<lparr>eq_chan = 0, eq_call = ValueCall (Find (w_find_bytes ''90'' 10 (Some 600))), enqueued_at = 0\<rparr>"

definition sample_handle :: "any_call \<Rightarrow> nat \<Rightarrow> (ToolError + json) \<times> nat" where
  "sample_handle c n = (Inr JNull, Suc n)"

definition sample_sent :: "nat queue_sys" where
  "sample_sent = (queue_start 0)\<lparr>qs_loop := (loop_start 0)\<lparr>lq_queue := [sample_request]\<rparr>, qs_accepted := [sample_request]\<rparr>"

lemma sample_sent_reachable: "queue_steps 64 sample_handle id (queue_start 0) sample_sent"
proof -
  have "try_send 64 sample_request (qs_loop (queue_start 0)) = (Inr (), (loop_start 0)\<lparr>lq_queue := [sample_request]\<rparr>)"
    by (simp add: try_send_def queue_start_def loop_start_def)
  moreover have "fresh_chan (eq_chan sample_request) (queue_start 0)" "enqueued_at sample_request = qs_clock (queue_start 0)"
    by (simp_all add: fresh_chan_def queue_start_def loop_start_def sample_request_def)
  ultimately have "queue_step 64 sample_handle id (queue_start 0) sample_sent"
    using q_send[of 64 sample_request "queue_start 0" "Inr ()" _ sample_handle id]
    by (simp add: sample_sent_def queue_start_def)
  then show ?thesis by blast
qed

theorem worker_queue_sequential_witness:
  "qs_accepted sample_sent = map fst (lq_log (qs_loop sample_sent)) @ [sample_request] \<and>
   length (lq_queue (qs_loop sample_sent)) \<le> 64"
  using worker_queue_sequential[OF sample_sent_reachable] by (simp add: sample_sent_def)

subsection \<open>Callers that leave\<close>






subsection \<open>Requests that wait too long\<close>

text \<open>
  A request that is taken from the queue more than 120 seconds after it was sent is dropped
  unhandled even though its caller is still there: a caller that asked for a longer timeout, up
  to the 600 seconds that are allowed, and a caller without a timeout are told that the worker is
  closed, while the worker goes on to serve the requests behind it.
\<close>

lemma patient_caller_is_dropped:
  assumes "lq_queue l = e # rest" "\<not> is_control (eq_call e)" "eq_chan e \<notin> lq_gone l"
    and "now - enqueued_at e > 120 * 1000"
    and "call_waiting (eq_call e) = Within (Some t) \<and> now - enqueued_at e \<le> min t 600 * 1000 \<or>
      call_waiting (eq_call e) = Forever"
  shows "run_ida_loop_step handle init_library now l =
      l\<lparr>lq_queue := rest, lq_log := lq_log l @ [(e, SkippedExpired)]\<rparr> \<and>
    caller_result (call_waiting (eq_call e)) (now - enqueued_at e) SkippedExpired = Inl WorkerClosed"
  using assms
  by (auto simp: run_ida_loop_step_def skip_request_def Let_def DEFAULT_DEADLINE_SECS_def
      recv_with_timeout_def MAX_TIMEOUT_SECS_def unwrap_or_def)

theorem patient_caller_is_dropped_witness:
  "let l = (qs_loop sample_sent) in
   lq_log (run_ida_loop_step sample_handle id 130000 l) = [(sample_request, SkippedExpired)] \<and>
   caller_result (call_waiting (eq_call sample_request)) 130000 SkippedExpired = Inl WorkerClosed"
  using patient_caller_is_dropped[of "qs_loop sample_sent" sample_request "[]" 130000 600 sample_handle id]
  by (simp add: sample_sent_def sample_request_def is_control_def loop_start_def)

subsection \<open>A worker without other callers\<close>

text \<open>
  The loop gives every waiting request a fate: as many rounds as there are requests empty the
  queue.
\<close>

lemma loop_drains:
  "lq_queue ((run_ida_loop_step handle init_library now ^^ length (lq_queue l)) l) = []"
proof -
  have "length (lq_queue ((run_ida_loop_step handle init_library now ^^ n) l)) \<le> length (lq_queue l) - n" for n
  proof (induction n)
    case (Suc n)
    then show ?case
      using step_log_queue(2)[of handle init_library now "(run_ida_loop_step handle init_library now ^^ n) l"] by auto
  qed simp
  from this[of "length (lq_queue l)"] show ?thesis by simp
qed

end
