(* ===== verification/Federation.thy ===== *)
theory Federation
  imports Tasks Worker_Table Complex_Main
begin

text \<open>
  The federation of routers: \<open>src/federation.rs\<close>, and the table of nodes and
  \<open>enqueue_federated_task\<close> of \<open>src/router/mod.rs\<close>. A task is given to the least loaded of the nodes
  that are ready and support it, and is then followed by polling. The network is the record
  \<open>net\<close>: the parser of URLs and the two HTTP requests. A double is a rational number, and each
  operation on doubles rounds the exact result with \<open>fl\<close>. Instants are in milliseconds.
\<close>

subsection \<open>Nodes\<close>

record FederationNodeConfig =
  fc_name :: string
  fc_url :: string
  fc_weight :: nat
  fc_enabled :: bool
  fc_capabilities :: "string list"
  fc_tenant_allow :: "string list"
  fc_node_id :: "string option"

record FederationNodeStatus =
  fs_name :: string
  fs_url :: string
  fs_enabled :: bool
  fs_source :: string
  fs_last_seen_iso :: "string option"
  fs_capabilities :: "string list"
  fs_tenant_allow :: "string list"
  fs_node_id :: "string option"
  fs_healthy :: bool
  fs_ready :: bool
  fs_worker_count :: "nat option"
  fs_max_workers :: "nat option"
  fs_route_queue_depth :: "nat option"
  fs_prewarm_queue_depth :: "nat option"
  fs_load_score :: "rat option"
  fs_detail :: string
  fs_stale :: bool

record FederationNodeRecord =
  fr_config :: FederationNodeConfig
  fr_source :: string
  fr_last_seen_at :: "nat option"
  fr_last_seen_iso :: "string option"

definition node_record_new :: "FederationNodeConfig \<Rightarrow> string \<Rightarrow> FederationNodeRecord" where
  "node_record_new config source =
     \<lparr>fr_config = config, fr_source = source, fr_last_seen_at = None, fr_last_seen_iso = None\<rparr>"

definition node_record_touch :: "nat \<Rightarrow> string \<Rightarrow> FederationNodeRecord \<Rightarrow> FederationNodeRecord" where
  "node_record_touch inst stamp r = r\<lparr>fr_last_seen_at := Some inst, fr_last_seen_iso := Some stamp\<rparr>"

definition heartbeat_ttl :: "environment \<Rightarrow> nat" where
  "heartbeat_ttl env = 1000 * unwrap_or (env_u64 env ''IDA_CLI_FEDERATION_HEARTBEAT_TTL_SECS'') 30"

type_synonym node_map = "(string, FederationNodeRecord) hashmap"

definition load_node_map :: "FederationNodeConfig list \<Rightarrow> node_map" where
  "load_node_map nodes = fold (\<lambda>node m. hm_insert (fc_name node) (node_record_new node ''static'') m) nodes []"

definition config_json :: "FederationNodeConfig \<Rightarrow> json" where
  "config_json n =
     JObj [(''name'', JStr (fc_name n)), (''url'', JStr (fc_url n)), (''weight'', JNum (fc_weight n)),
           (''enabled'', JBool (fc_enabled n)), (''capabilities'', JArr (map JStr (fc_capabilities n))),
           (''tenant_allow'', JArr (map JStr (fc_tenant_allow n))),
           (''node_id'', json_opt (map_option JStr (fc_node_id n)))]"

definition federation_nodes_snapshot :: "node_map \<Rightarrow> FederationNodeRecord list" where
  "federation_nodes_snapshot nodes = map snd nodes"

definition register_federation_node :: "FederationNodeConfig \<Rightarrow> node_map \<Rightarrow> json \<times> node_map" where
  "register_federation_node node nodes =
     (JObj [(''ok'', JBool True), (''replaced'', JBool (hm_get nodes (fc_name node) \<noteq> None)),
            (''node'', config_json node)],
      hm_insert (fc_name node) (node_record_new node ''dynamic'') nodes)"

definition heartbeat_federation_node :: "clock \<Rightarrow> FederationNodeConfig \<Rightarrow> node_map \<Rightarrow> json \<times> node_map" where
  "heartbeat_federation_node clk node nodes =
     (let record0 = unwrap_or (hm_get nodes (fc_name node)) (node_record_new node ''heartbeat'');
          record1 = record0\<lparr>fr_config := node, fr_source := ''heartbeat''\<rparr>
      in (JObj [(''ok'', JBool True), (''node'', config_json node)],
          hm_insert (fc_name node) (node_record_touch (fst clk) (iso_now (snd clk)) record1)
            (hm_remove (fc_name node) nodes)))"

definition unregister_federation_node :: "string \<Rightarrow> node_map \<Rightarrow> json \<times> node_map" where
  "unregister_federation_node name nodes =
     (JObj [(''ok'', JBool (hm_get nodes name \<noteq> None)), (''name'', JStr name)], hm_remove name nodes)"

subsection \<open>Probing and ranking\<close>

record uri =
  u_scheme :: "string option"
  u_host :: "string option"
  u_port :: "nat option"

record net =
  parse_uri :: "string \<Rightarrow> string + uri"
  fetch_json :: "string \<Rightarrow> nat \<Rightarrow> string \<Rightarrow> string + json"
  post_json :: "string \<Rightarrow> nat \<Rightarrow> string \<Rightarrow> json \<Rightarrow> string + json"

definition supports_request :: "FederationNodeConfig \<Rightarrow> string option \<Rightarrow> string option \<Rightarrow> bool" where
  "supports_request node meth tenant =
     (let tenant' = unwrap_or tenant ''default'';
          tenant_ok = (fc_tenant_allow node = [] \<or> tenant' \<in> set (fc_tenant_allow node));
          method_ok = (case meth of
             None \<Rightarrow> True
           | Some m \<Rightarrow> fc_capabilities node = [] \<or> ''*'' \<in> set (fc_capabilities node) \<or>
               m \<in> set (fc_capabilities node))
      in tenant_ok \<and> method_ok)"

definition compute_load_score ::
  "(rat \<Rightarrow> rat) \<Rightarrow> nat option \<Rightarrow> nat option \<Rightarrow> nat option \<Rightarrow> nat option \<Rightarrow> rat option" where
  "compute_load_score fl count_now count_max route_queue_depth prewarm_queue_depth =
     (case (count_now, count_max) of
        (Some current, Some m) \<Rightarrow>
          if m > 0 then
            let worker_score = fl (fl (of_nat current) / fl (of_nat m));
                route_penalty = fl (fl (of_nat (unwrap_or route_queue_depth 0)) / 100);
                prewarm_penalty = fl (fl (of_nat (unwrap_or prewarm_queue_depth 0)) / 100)
            in Some (fl (fl (worker_score + route_penalty) + prewarm_penalty))
          else None
      | _ \<Rightarrow> None)"

definition node_rank :: "(rat \<Rightarrow> rat) \<Rightarrow> FederationNodeConfig \<Rightarrow> FederationNodeStatus \<Rightarrow> rat" where
  "node_rank fl node status =
     fl (unwrap_or (fs_load_score status) 10 + fl (1 / fl (of_nat (max (fc_weight node) 1))))"

text \<open>The status of a node that is not asked, with the reason.\<close>

definition offline_status :: "FederationNodeRecord \<Rightarrow> bool \<Rightarrow> string \<Rightarrow> bool \<Rightarrow> FederationNodeStatus" where
  "offline_status r enabled detail stale =
     (let node = fr_config r in
      \<lparr>fs_name = fc_name node, fs_url = fc_url node, fs_enabled = enabled, fs_source = fr_source r,
       fs_last_seen_iso = fr_last_seen_iso r, fs_capabilities = fc_capabilities node,
       fs_tenant_allow = fc_tenant_allow node, fs_node_id = fc_node_id node, fs_healthy = False,
       fs_ready = False, fs_worker_count = None, fs_max_workers = None, fs_route_queue_depth = None,
       fs_prewarm_queue_depth = None, fs_load_score = None, fs_detail = detail, fs_stale = stale\<rparr>)"

definition answers_ok :: "string + json \<Rightarrow> bool" where
  "answers_ok r =
     (case r of Inl _ \<Rightarrow> False
      | Inr v \<Rightarrow> unwrap_or (Option.bind (json_get v ''ok'') as_bool) False)"

definition status_field :: "string + json \<Rightarrow> string \<Rightarrow> json option" where
  "status_field statusz key = (case statusz of Inl _ \<Rightarrow> None | Inr v \<Rightarrow> json_get v key)"

definition online_status :: "(rat \<Rightarrow> rat) \<Rightarrow> net \<Rightarrow> FederationNodeRecord \<Rightarrow> string \<Rightarrow> nat \<Rightarrow> FederationNodeStatus" where
  "online_status fl n r host port =
     (let statusz = fetch_json n host port ''/statusz'';
          healthy = answers_ok (fetch_json n host port ''/healthz'');
          ready = answers_ok (fetch_json n host port ''/readyz'');
          worker_count = Option.bind (status_field statusz ''worker_count'') as_u64;
          max_workers = Option.bind (status_field statusz ''max_workers'') as_u64;
          route_queue_depth = map_option length (Option.bind (status_field statusz ''route_queue'') as_array);
          prewarm_queue_depth = map_option length (Option.bind (status_field statusz ''prewarm_queue'') as_array)
      in (offline_status r True (if healthy \<or> ready then ''ok'' else ''unreachable or unhealthy'') False)
           \<lparr>fs_healthy := healthy, fs_ready := ready, fs_worker_count := worker_count,
            fs_max_workers := max_workers, fs_route_queue_depth := route_queue_depth,
            fs_prewarm_queue_depth := prewarm_queue_depth,
            fs_load_score := compute_load_score fl worker_count max_workers route_queue_depth prewarm_queue_depth\<rparr>)"

definition node_stale :: "nat \<Rightarrow> nat \<Rightarrow> FederationNodeRecord \<Rightarrow> bool" where
  "node_stale ttl now r \<longleftrightarrow>
     fr_source r = ''heartbeat'' \<and>
     (case fr_last_seen_at r of Some seen \<Rightarrow> now - seen > ttl | None \<Rightarrow> True)"

definition probe_record :: "(rat \<Rightarrow> rat) \<Rightarrow> net \<Rightarrow> nat \<Rightarrow> nat \<Rightarrow> FederationNodeRecord \<Rightarrow> FederationNodeStatus" where
  "probe_record fl n ttl now r =
     (let node = fr_config r in
      if \<not> fc_enabled node then offline_status r False ''disabled'' False
      else if node_stale ttl now r then offline_status r True ''heartbeat expired'' True
      else
        (case parse_uri n (fc_url node) of
           Inl e \<Rightarrow> offline_status r True (''invalid url: '' @ e) False
         | Inr u \<Rightarrow>
             if u_scheme u \<noteq> Some ''http'' then
               offline_status r True ''only http federation urls are currently supported'' False
             else
               (case u_host u of
                  None \<Rightarrow> offline_status r True ''missing host'' False
                | Some host \<Rightarrow> online_status fl n r host (unwrap_or (u_port u) 80))))"

definition probe_nodes :: "(rat \<Rightarrow> rat) \<Rightarrow> net \<Rightarrow> nat \<Rightarrow> nat \<Rightarrow> FederationNodeRecord list \<Rightarrow> FederationNodeStatus list" where
  "probe_nodes fl n ttl now nodes = map (probe_record fl n ttl now) nodes"

definition ready_nodes ::
  "(rat \<Rightarrow> rat) \<Rightarrow> net \<Rightarrow> nat \<Rightarrow> nat \<Rightarrow> FederationNodeRecord list \<Rightarrow> string option \<Rightarrow> string option \<Rightarrow>
   (FederationNodeConfig \<times> FederationNodeStatus) list" where
  "ready_nodes fl n ttl now nodes meth tenant =
     List.map_filter (\<lambda>r. let status = probe_record fl n ttl now r in
         if fs_ready status then Some (fr_config r, status) else None)
       (filter (\<lambda>r. supports_request (fr_config r) meth tenant) (filter (\<lambda>r. fc_enabled (fr_config r)) nodes))"

definition choose_ready_nodes ::
  "(rat \<Rightarrow> rat) \<Rightarrow> net \<Rightarrow> nat \<Rightarrow> nat \<Rightarrow> FederationNodeRecord list \<Rightarrow> string option \<Rightarrow> string option \<Rightarrow>
   FederationNodeConfig list" where
  "choose_ready_nodes fl n ttl now nodes meth tenant =
     map fst (sort_key (\<lambda>(node, status). node_rank fl node status) (ready_nodes fl n ttl now nodes meth tenant))"


subsection \<open>Giving a task to a node\<close>

definition node_host :: "net \<Rightarrow> FederationNodeConfig \<Rightarrow> string + string \<times> nat" where
  "node_host n node =
     (case parse_uri n (fc_url node) of
        Inl e \<Rightarrow> Inl e
      | Inr u \<Rightarrow>
          (case u_host u of
             None \<Rightarrow> Inl ''missing host in node url''
           | Some host \<Rightarrow> Inr (host, unwrap_or (u_port u) 80)))"

definition submit_enqueue :: "net \<Rightarrow> FederationNodeConfig \<Rightarrow> json \<Rightarrow> string + json" where
  "submit_enqueue n node payload =
     (case node_host n node of
        Inl e \<Rightarrow> Inl e
      | Inr (host, port) \<Rightarrow> post_json n host port ''/enqueuez'' payload)"

definition fetch_remote_task :: "net \<Rightarrow> FederationNodeConfig \<Rightarrow> string \<Rightarrow> string + json" where
  "fetch_remote_task n node task_id =
     (case node_host n node of
        Inl e \<Rightarrow> Inl e
      | Inr (host, port) \<Rightarrow> fetch_json n host port (''/taskz/'' @ task_id))"

definition federated_payload ::
  "string \<Rightarrow> string \<Rightarrow> json \<Rightarrow> string \<Rightarrow> nat \<Rightarrow> string option \<Rightarrow> json" where
  "federated_payload path meth params tenant priority dedupe_key =
     JObj [(''path'', JStr path), (''method'', JStr meth), (''priority'', JNum priority),
           (''tenant_id'', JStr tenant), (''dedupe_key'', json_opt (map_option JStr dedupe_key)),
           (''task_params'', params), (''federate'', JBool False)]"

text \<open>The loop over the candidates, with the last error so far.\<close>

fun submit_to_first ::
  "net \<Rightarrow> json \<Rightarrow> string option \<Rightarrow> FederationNodeConfig list \<Rightarrow>
   string option + FederationNodeConfig \<times> string" where
  "submit_to_first n payload last_error [] = Inl last_error"
| "submit_to_first n payload last_error (node # nodes) =
     (case submit_enqueue n node payload of
        Inl e \<Rightarrow> submit_to_first n payload (Some (fc_name node @ '': '' @ e)) nodes
      | Inr response \<Rightarrow>
          (case Option.bind (json_get response ''task_id'') as_str of
             Some task \<Rightarrow> Inr (node, task)
           | None \<Rightarrow> submit_to_first n payload
               (Some (''remote node '' @ fc_name node @ '' did not return task_id'')) nodes))"

text \<open>The task that polls a node: the local task, the node and the task there.\<close>

record poller =
  pl_task :: string
  pl_node :: FederationNodeConfig
  pl_remote :: string

definition federated_meta :: "string \<Rightarrow> string \<Rightarrow> string \<Rightarrow> nat \<Rightarrow> json" where
  "federated_meta tenant path meth priority =
     JObj [(''tenant_id'', JStr tenant), (''path'', JStr path), (''method'', JStr meth),
           (''priority'', JNum priority), (''remote'', JBool True)]"

definition federated_reply :: "string \<Rightarrow> string \<Rightarrow> string \<Rightarrow> string \<Rightarrow> nat \<Rightarrow> FederationNodeConfig \<Rightarrow> json" where
  "federated_reply task_id path meth tenant priority node =
     JObj [(''task_id'', JStr task_id), (''status'', JStr ''queued''), (''path'', JStr path),
           (''method'', JStr meth), (''tenant_id'', JStr tenant), (''priority'', JNum priority),
           (''remote'', JBool True), (''node'', JStr (fc_name node)), (''url'', JStr (fc_url node))]"

definition enqueue_federated_task ::
  "(rat \<Rightarrow> rat) \<Rightarrow> net \<Rightarrow> nat \<Rightarrow> clock \<Rightarrow> join_handle \<Rightarrow> node_map \<Rightarrow> string \<Rightarrow> string \<Rightarrow> json \<Rightarrow> string option \<Rightarrow> nat \<Rightarrow>
   string option \<Rightarrow> TaskRegistry \<Rightarrow> (ToolError + json) \<times> poller option \<times> TaskRegistry" where
  "enqueue_federated_task fl n ttl clk handle nodes path meth params tenant_id priority dedupe_key reg =
     (let tenant = normalize_tenant tenant_id;
          candidates = choose_ready_nodes fl n ttl (fst clk) (federation_nodes_snapshot nodes) (Some meth) (Some tenant)
      in if candidates = [] then (Inl (IdaError ''no ready federation node available''), None, reg)
         else
           (case create_with_key clk ''federated'' dedupe_key (''Dispatching '' @ meth @ '' to federation'') reg of
              (created, reg1) \<Rightarrow>
            let task_id = (case created of Inr i \<Rightarrow> i | Inl existing \<Rightarrow> existing);
                reg2 = merge_meta clk task_id (federated_meta tenant path meth priority) reg1
            in case submit_to_first n (federated_payload path meth params tenant priority dedupe_key) None candidates of
                 Inl last_error \<Rightarrow>
                   (Inl (IdaError (''federation enqueue failed across all candidate nodes: '' @
                      unwrap_or last_error ''unknown error'')), None, reg2)
               | Inr (node, remote) \<Rightarrow>
                   (case task_get reg2 task_id of
                      Some state \<Rightarrow>
                        if ts_status state = Running then
                          (Inr (federated_reply task_id path meth tenant priority node),
                           Some \<lparr>pl_task = task_id, pl_node = node, pl_remote = remote\<rparr>,
                           set_handle task_id handle
                             (merge_meta clk task_id (JObj [(''node'', JStr (fc_name node)),
                                (''url'', JStr (fc_url node)), (''remote_task_id'', JStr remote)])
                             (update_message clk task_id
                                (''Queued remotely on '' @ fc_name node @ '' as '' @ remote) reg2)))
                        else (Inr (federated_reply task_id path meth tenant priority node), None, reg2)
                    | None \<Rightarrow> (Inr (federated_reply task_id path meth tenant priority node), None, reg2))))"

text \<open>One round of the poll loop; the result says whether the loop goes on.\<close>

definition poll_remote :: "net \<Rightarrow> clock \<Rightarrow> poller \<Rightarrow> TaskRegistry \<Rightarrow> bool \<times> TaskRegistry" where
  "poll_remote n clk p reg =
     (let name = fc_name (pl_node p) in
      case fetch_remote_task n (pl_node p) (pl_remote p) of
        Inl e \<Rightarrow> (True, update_message clk (pl_task p) (''remote poll error: '' @ e) reg)
      | Inr payload \<Rightarrow>
          let status = unwrap_or (Option.bind (json_get payload ''status'') as_str) ''unknown'';
              message = unwrap_or (Option.bind (json_get payload ''message'') as_str) status;
              reg1 = update_message clk (pl_task p) (''remote '' @ name @ '': '' @ message) reg
          in if status = ''completed'' then
               (False, task_complete clk (pl_task p)
                  (JObj [(''remote'', JBool True), (''node'', JStr name), (''url'', JStr (fc_url (pl_node p))),
                         (''remote_task_id'', JStr (pl_remote p)), (''payload'', payload)]) reg1)
             else if status = ''failed'' then
               (False, task_fail clk (pl_task p) (''remote '' @ name @ '' failed: '' @ message) reg1)
             else if status = ''cancelled'' then
               (False, task_fail clk (pl_task p) (''remote '' @ name @ '' cancelled'') reg1)
             else (True, reg1))"

fun poll_loop :: "poller \<Rightarrow> (clock \<times> net) list \<Rightarrow> TaskRegistry \<Rightarrow> bool \<times> TaskRegistry" where
  "poll_loop p [] reg = (True, reg)"
| "poll_loop p ((clk, n) # rounds) reg =
     (case poll_remote n clk p reg of
        (True, reg') \<Rightarrow> poll_loop p rounds reg'
      | (False, reg') \<Rightarrow> (False, reg'))"

subsection \<open>The choice of a node\<close>

text \<open>
  What the ranking relies on of rounding to double precision: it keeps order, and 0 and 1 are
  exact.
\<close>

definition rounds :: "(rat \<Rightarrow> rat) \<Rightarrow> bool" where
  "rounds fl \<longleftrightarrow> mono fl \<and> fl 0 = 0 \<and> fl 1 = 1"








text \<open>A node and a network used by the witnesses: the node answers that it is ready, and takes no task.\<close>

definition sample_node :: FederationNodeConfig where
  "sample_node = \<lparr>fc_name = ''a'', fc_url = ''u'', fc_weight = 1, fc_enabled = True, fc_capabilities = [],
     fc_tenant_allow = [], fc_node_id = None\<rparr>"

definition sample_net :: "(string + json) \<Rightarrow> net" where
  "sample_net posted = \<lparr>parse_uri = (\<lambda>_. Inr \<lparr>u_scheme = Some ''http'', u_host = Some ''h'', u_port = None\<rparr>),
     fetch_json = (\<lambda>_ _ _. Inr (JObj [(''ok'', JBool True), (''status'', JStr ''completed'')])),
     post_json = (\<lambda>_ _ _ _. posted)\<rparr>"

definition sample_nodes :: node_map where
  "sample_nodes = load_node_map [sample_node]"

lemma sample_candidates:
  "choose_ready_nodes id (sample_net posted) ttl now (federation_nodes_snapshot sample_nodes) (Some meth) (Some tenant) =
   [sample_node]"
  by (simp add: choose_ready_nodes_def ready_nodes_def sample_nodes_def federation_nodes_snapshot_def
      load_node_map_def node_record_new_def sample_node_def sample_net_def probe_record_def online_status_def
      offline_status_def answers_ok_def node_stale_def supports_request_def List.map_filter_def
      unwrap_or_def Let_def)


subsection \<open>The local task of a federated one\<close>

lemma status_update:
  "map_option ts_status (task_get (update_message clk tid msg r) t) = map_option ts_status (task_get r t)"
  "map_option ts_status (task_get (merge_meta clk tid patch r) t) = map_option ts_status (task_get r t)"
  "map_option ts_status (task_get (set_handle tid h r) t) = map_option ts_status (task_get r t)"
  by (auto simp: task_get_def update_message_def merge_meta_def set_handle_def hm_simps refresh_updated_def
      now_with_iso_def option.map_comp comp_def)

definition takes_task :: "net \<Rightarrow> json \<Rightarrow> FederationNodeConfig \<Rightarrow> string option" where
  "takes_task n payload node =
     (case submit_enqueue n node payload of
        Inl _ \<Rightarrow> None
      | Inr response \<Rightarrow> Option.bind (json_get response ''task_id'') as_str)"

lemma submit_to_first_spec:
  "case submit_to_first n payload e nodes of
     Inl _ \<Rightarrow> \<forall>node \<in> set nodes. takes_task n payload node = None
   | Inr (node, remote) \<Rightarrow> \<exists>pre post. nodes = pre @ node # post \<and> takes_task n payload node = Some remote \<and>
       (\<forall>x \<in> set pre. takes_task n payload x = None)"
proof (induction n payload e nodes rule: submit_to_first.induct)
  case (2 n payload e node nodes)
  show ?case
  proof (cases "takes_task n payload node")
    case None
    then obtain e' where r: "submit_to_first n payload e (node # nodes) = submit_to_first n payload e' nodes"
      and IH: "case submit_to_first n payload e' nodes of
         Inl _ \<Rightarrow> \<forall>node \<in> set nodes. takes_task n payload node = None
       | Inr (node, remote) \<Rightarrow> \<exists>pre post. nodes = pre @ node # post \<and> takes_task n payload node = Some remote \<and>
           (\<forall>x \<in> set pre. takes_task n payload x = None)"
      using 2 by (cases "submit_enqueue n node payload") (auto simp: takes_task_def)
    show ?thesis
    proof (cases "submit_to_first n payload e' nodes")
      case (Inr x)
      then obtain nd rt where x: "x = (nd, rt)" by (cases x)
      then obtain pre post where "nodes = pre @ nd # post" "takes_task n payload nd = Some rt"
        "\<forall>x \<in> set pre. takes_task n payload x = None"
        using IH Inr by auto
      then have "node # nodes = (node # pre) @ nd # post \<and> takes_task n payload nd = Some rt \<and>
          (\<forall>x \<in> set (node # pre). takes_task n payload x = None)"
        using None by simp
      then show ?thesis unfolding r Inr x by (simp only: sum.case prod.case) blast
    qed (use IH None r in auto)
  next
    case (Some remote)
    then have "submit_to_first n payload e (node # nodes) = Inr (node, remote)"
      by (auto simp: takes_task_def split: sum.splits option.splits)
    then show ?thesis using Some by fastforce
  qed
qed simp



lemma poll_remote_settles:
  assumes "poll_remote n clk p reg = (False, reg')"
  shows "\<forall>st. task_get reg' (pl_task p) = Some st \<longrightarrow> ts_status st \<noteq> Running"
  using assms
  by (auto simp: poll_remote_def task_get_def task_complete_def task_fail_def update_message_def Let_def
      prune_get hm_simps refresh_updated_def now_with_iso_def split: sum.splits if_splits)

lemma poll_remote_continues:
  assumes "poll_remote n clk p reg = (True, reg')"
  shows "map_option ts_status (task_get reg' t) = map_option ts_status (task_get reg t)"
  using assms by (auto simp: poll_remote_def status_update Let_def split: sum.splits if_splits)

lemma poll_loop_status:
  "poll_loop p ticks reg = (go, reg') \<Longrightarrow>
     if go then map_option ts_status (task_get reg' t) = map_option ts_status (task_get reg t)
     else \<forall>st. task_get reg' (pl_task p) = Some st \<longrightarrow> ts_status st \<noteq> Running"
proof (induction p ticks reg rule: poll_loop.induct)
  case (2 p clk n ticks reg)
  obtain go1 reg1 where r: "poll_remote n clk p reg = (go1, reg1)" by fastforce
  show ?case
  proof (cases go1)
    case True
    then have "poll_loop p ticks reg1 = (go, reg')" using 2(2) r by simp
    then show ?thesis using 2(1)[OF r[symmetric]] True poll_remote_continues[of n clk p reg reg1] r by simp
  next
    case False
    then show ?thesis using 2(2) r poll_remote_settles[of n clk p reg reg1] by simp
  qed
qed simp

lemma federated_taken:
  assumes "enqueue_federated_task fl n ttl clk handle nodes path meth params tenant priority key reg =
      (Inr reply, Some p, reg')"
  obtains node remote where
    "submit_to_first n (federated_payload path meth params (normalize_tenant tenant) priority key) None
       (choose_ready_nodes fl n ttl (fst clk) (federation_nodes_snapshot nodes) (Some meth)
         (Some (normalize_tenant tenant))) = Inr (node, remote)"
    "pl_node p = node" "pl_remote p = remote"
    "map_option ts_status (task_get reg' (pl_task p)) = Some Running"
proof -
  obtain node remote reg2 state m1 m2 where r:
    "submit_to_first n (federated_payload path meth params (normalize_tenant tenant) priority key) None
       (choose_ready_nodes fl n ttl (fst clk) (federation_nodes_snapshot nodes) (Some meth)
         (Some (normalize_tenant tenant))) = Inr (node, remote)"
    "pl_node p = node" "pl_remote p = remote" "task_get reg2 (pl_task p) = Some state" "ts_status state = Running"
    "reg' = set_handle (pl_task p) handle (merge_meta clk (pl_task p) m1 (update_message clk (pl_task p) m2 reg2))"
    using assms unfolding enqueue_federated_task_def Let_def
    by (auto split: if_splits prod.splits sum.splits option.splits)
  have "map_option ts_status (task_get reg' (pl_task p)) = map_option ts_status (task_get reg2 (pl_task p))"
    unfolding r(6) by (simp only: status_update)
  then show thesis using that r(1-5) by simp
qed

text \<open>
  C38. A federated task that was taken is followed to its end. It is with the first candidate that
  took it, all before it having refused; the local task is running when polling starts; as long
  as polling goes on, it changes the status of no task; and when polling stops the local task is
  no longer running.
\<close>

theorem federated_task_followed:
  assumes "enqueue_federated_task fl n ttl clk handle nodes path meth params tenant priority key reg =
      (Inr reply, Some p, reg')"
  shows "(\<exists>pre post. choose_ready_nodes fl n ttl (fst clk) (federation_nodes_snapshot nodes) (Some meth)
        (Some (normalize_tenant tenant)) = pre @ pl_node p # post \<and>
      takes_task n (federated_payload path meth params (normalize_tenant tenant) priority key) (pl_node p) =
        Some (pl_remote p) \<and>
      (\<forall>x \<in> set pre. takes_task n (federated_payload path meth params (normalize_tenant tenant) priority key) x = None)) \<and>
    map_option ts_status (task_get reg' (pl_task p)) = Some Running \<and>
    (\<forall>ticks reg1 reg2. poll_loop p ticks reg1 = (True, reg2) \<longrightarrow>
       map_option ts_status (task_get reg2 t) = map_option ts_status (task_get reg1 t)) \<and>
    (\<forall>ticks reg1 reg2 st. poll_loop p ticks reg1 = (False, reg2) \<and> task_get reg2 (pl_task p) = Some st \<longrightarrow>
       ts_status st \<noteq> Running)"
proof -
  let ?c = "choose_ready_nodes fl n ttl (fst clk) (federation_nodes_snapshot nodes) (Some meth) (Some (normalize_tenant tenant))"
  let ?p = "federated_payload path meth params (normalize_tenant tenant) priority key"
  obtain node remote where s: "submit_to_first n ?p None ?c = Inr (node, remote)"
    and p: "pl_node p = node" "pl_remote p = remote"
    and run: "map_option ts_status (task_get reg' (pl_task p)) = Some Running"
    by (rule federated_taken[OF assms])
  note first = submit_to_first_spec[where n = n and payload = ?p and e = None and nodes = ?c]
  show ?thesis
    using first poll_loop_status[of p] run unfolding s p by fastforce
qed

theorem federated_task_followed_witness:
  "let (res, poll, reg) = enqueue_federated_task id (sample_net (Inr (JObj [(''task_id'', JStr ''job-7'')]))) 30000
       (5, 0) 1 sample_nodes ''/a'' ''open'' JNull None 0 None new_registry
   in map_option pl_remote poll = Some ''job-7'' \<and>
      map_option ts_status (task_get reg (pl_task (the poll))) = Some Running"
proof -
  let ?n = "sample_net (Inr (JObj [(''task_id'', JStr ''job-7'')]))"
  obtain res poll reg where e: "enqueue_federated_task id ?n 30000 (5, 0) 1 sample_nodes ''/a'' ''open'' JNull
      None 0 None new_registry = (res, poll, reg)" by (metis prod_cases3)
  have "submit_to_first ?n pl None [sample_node] = Inr (sample_node, ''job-7'')" for pl
    by (simp add: submit_enqueue_def node_host_def sample_net_def unwrap_or_def)
  then obtain reply p where r: "res = Inr reply" "poll = Some p" "pl_remote p = ''job-7''"
    using e
    by (auto simp: enqueue_federated_task_def sample_candidates Let_def create_with_key_def create_internal_unfold
        task_get_def merge_meta_def hm_simps refresh_updated_def now_with_iso_def new_registry_def
        prune_terminal_tasks_def terminal_ids_def new_task_entry_def TERMINAL_TASK_CAP_def)
  show ?thesis
    using federated_task_followed[OF e[unfolded r(1,2)]] e r by simp
qed

end
