(* ===== verification/Lock_File.thy ===== *)
theory Lock_File
  imports Addresses
begin

text \<open>
  The lock files of \<open>ida/lock.rs\<close>, which keep two worker processes from opening one database, over a
  small model of what the operating system does with them: a directory that maps paths to files, a
  text and an advisory \<open>fcntl\<close> write lock for each file, and processes that may die at any moment.  A
  removed file lives on while a process has it open, and closing a file drops the lock of the closing
  process.

  The operations are kept as the sequences of system calls they are, so that two processes can be
  interleaved between them.  The lemmas show that the locks exclude each other when the sequences do
  not interleave, whichever processes die in the middle of them, and that removing the file before
  the lock on it is given up breaks the exclusion when they do.
\<close>

section \<open>Files and locks\<close>

record lock_fs =
  dir :: "string \<Rightarrow> nat option"
  texts :: "nat \<Rightarrow> string"
  owner :: "nat \<Rightarrow> nat option"
  fresh :: nat

text \<open>
  What the lock code reads of its surroundings: why a path cannot be opened, if it cannot, whether it
  can be read and removed, and the host, executable and time it notes.
\<close>
record lock_os =
  open_error :: "string \<Rightarrow> string option"
  can_read :: "string \<Rightarrow> bool"
  can_remove :: "string \<Rightarrow> bool"
  host_name :: string
  exe_name :: string
  opened_at :: nat

definition close_file :: "nat \<Rightarrow> nat \<Rightarrow> 'a lock_fs_scheme \<Rightarrow> 'a lock_fs_scheme" where
  "close_file pid i s = (if owner s i = Some pid then s\<lparr>owner := (owner s)(i := None)\<rparr> else s)"

definition remove_file :: "string \<Rightarrow> 'a lock_fs_scheme \<Rightarrow> 'a lock_fs_scheme" where
  "remove_file path s = s\<lparr>dir := (dir s)(path := None)\<rparr>"

text \<open>\<open>set_extension("imcp")\<close>.\<close>
definition lock_path :: "string \<Rightarrow> string" where
  "lock_path db = without_extension db @ ''.imcp''"

text \<open>
  \<open>try_lock_file\<close>: \<open>F_SETLK\<close> fails when another process has the lock, and \<open>F_GETLK\<close> then names it.
\<close>
definition try_lock_file :: "nat \<Rightarrow> nat \<Rightarrow> 'a lock_fs_scheme \<Rightarrow> nat + 'a lock_fs_scheme" where
  "try_lock_file pid i s =
     (case owner s i of
        Some q \<Rightarrow> if q = pid then Inr s else Inl q
      | None \<Rightarrow> Inr (s\<lparr>owner := (owner s)(i := Some pid)\<rparr>))"

definition lock_info :: "lock_os \<Rightarrow> nat \<Rightarrow> string" where
  "lock_info os pid =
     ''pid='' @ fmt_dec pid @ [CHR 0x0A] @ ''host='' @ host_name os @ [CHR 0x0A] @
     ''exe='' @ exe_name os @ [CHR 0x0A] @ ''opened_at='' @ fmt_dec (opened_at os) @ [CHR 0x0A]"

text \<open>\<open>acquire_mcp_lock\<close>, up to the open file and from there.\<close>

definition acquire_open :: "lock_os \<Rightarrow> string \<Rightarrow> 'a lock_fs_scheme \<Rightarrow> ToolError + nat \<times> 'a lock_fs_scheme" where
  "acquire_open os path s =
     (case open_error os path of
        Some e \<Rightarrow> Inl (OpenFailed (path @ '': '' @ e))
      | None \<Rightarrow>
          (case dir s path of
             Some i \<Rightarrow> Inr (i, s\<lparr>texts := (texts s)(i := [])\<rparr>)
           | None \<Rightarrow>
               Inr (fresh s, s\<lparr>dir := (dir s)(path \<mapsto> fresh s), texts := (texts s)(fresh s := []),
                               fresh := fresh s + 1\<rparr>)))"

definition acquire_lock ::
  "lock_os \<Rightarrow> nat \<Rightarrow> string \<Rightarrow> nat \<Rightarrow> 'a lock_fs_scheme \<Rightarrow> (ToolError + unit) \<times> 'a lock_fs_scheme" where
  "acquire_lock os pid path i s =
     (case try_lock_file pid i s of
        Inl q \<Rightarrow>
          (Inl (DatabaseLocked (if 0 < q then path @ '' (locked by pid '' @ fmt_dec q @ '')'' else path)),
           close_file pid i s)
      | Inr s' \<Rightarrow> (Inr (), s'\<lparr>texts := (texts s')(i := lock_info os pid)\<rparr>))"

definition read_lock_file_pid :: "string \<Rightarrow> nat option" where
  "read_lock_file_pid text =
     (case find (starts_with ''pid='') (str_lines text) of
        None \<Rightarrow> None
      | Some line \<Rightarrow> from_str_radix 32 10 (trim (drop 4 line)))"

datatype stale_lock_info = StaleLockInfo string nat string

text \<open>
  \<open>clean_stale_mcp_lock\<close>.  Reading the file closes it again, and so does the check of its lock.
\<close>
definition clean_stale_mcp_lock ::
  "lock_os \<Rightarrow> (nat \<Rightarrow> bool) \<Rightarrow> nat \<Rightarrow> string \<Rightarrow> 'a lock_fs_scheme \<Rightarrow> stale_lock_info option \<times> 'a lock_fs_scheme" where
  "clean_stale_mcp_lock os is_process_running pid db s =
     (let path = lock_path db in
      case dir s path of
        None \<Rightarrow> (None, s)
      | Some i \<Rightarrow>
          let (found, s1) = (if can_read os path
                             then (read_lock_file_pid (texts s i), close_file pid i s)
                             else (None, s)) in
          case found of
            None \<Rightarrow>
              (if open_error os path \<noteq> None then (None, s1)
               else (case try_lock_file pid i s1 of
                       Inl _ \<Rightarrow> (None, close_file pid i s1)
                     | Inr s2 \<Rightarrow>
                         if can_remove os path
                         then (Some (StaleLockInfo path 0 ''no valid PID and no fcntl lock held''),
                               remove_file path (close_file pid i s2))
                         else (None, close_file pid i s2)))
          | Some q \<Rightarrow>
              (if is_process_running q \<or> \<not> can_remove os path then (None, s1)
               else (Some (StaleLockInfo path q (''process '' @ fmt_dec q @ '' is no longer running'')),
                     remove_file path s1)))"

section \<open>Processes\<close>

text \<open>
  What a process is doing with its lock: it does not exist, it has no database, it has opened the lock
  file without locking it yet, it holds the lock, or it has removed the file and not closed it yet.
\<close>
datatype phase =
    Gone
  | Idle
  | Opened string nat
  | Holding string nat
  | Unlinked nat

record lock_sys = lock_fs +
  phase_of :: "nat \<Rightarrow> phase"

datatype lock_call =
    Spawn nat
  | Clean nat string
  | Open_lock nat string
  | Lock nat
  | Unlink nat
  | Close nat
  | Die nat

fun caller :: "lock_call \<Rightarrow> nat" where
  "caller (Spawn p) = p"
| "caller (Clean p db) = p"
| "caller (Open_lock p db) = p"
| "caller (Lock p) = p"
| "caller (Unlink p) = p"
| "caller (Close p) = p"
| "caller (Die p) = p"

definition set_phase :: "nat \<Rightarrow> phase \<Rightarrow> lock_sys \<Rightarrow> lock_sys" where
  "set_phase p ph s = s\<lparr>phase_of := (phase_of s)(p := ph)\<rparr>"

text \<open>
  One call.  \<open>kill\<close> finds a process when it exists; a process number is positive and within
  \<open>pid_t\<close>.  A process that dies loses its locks, and its files stay.
\<close>
fun lock_step :: "lock_os \<Rightarrow> lock_call \<Rightarrow> lock_sys \<Rightarrow> lock_sys" where
  "lock_step os (Spawn p) s =
     (if phase_of s p = Gone \<and> 0 < p \<and> p < 2 ^ 31 then set_phase p Idle s else s)"
| "lock_step os (Clean p db) s =
     (if phase_of s p = Idle then snd (clean_stale_mcp_lock os (\<lambda>q. phase_of s q \<noteq> Gone) p db s) else s)"
| "lock_step os (Open_lock p db) s =
     (if phase_of s p = Idle
      then (case acquire_open os (lock_path db) s of
              Inl _ \<Rightarrow> s
            | Inr (i, s') \<Rightarrow> set_phase p (Opened (lock_path db) i) s')
      else s)"
| "lock_step os (Lock p) s =
     (case phase_of s p of
        Opened path i \<Rightarrow>
          (case acquire_lock os p path i s of
             (Inl _, s') \<Rightarrow> set_phase p Idle s'
           | (Inr _, s') \<Rightarrow> set_phase p (Holding path i) s')
      | _ \<Rightarrow> s)"
| "lock_step os (Unlink p) s =
     (case phase_of s p of
        Holding path i \<Rightarrow>
          set_phase p (Unlinked i) (if can_remove os path then remove_file path s else s)
      | _ \<Rightarrow> s)"
| "lock_step os (Close p) s =
     (case phase_of s p of Unlinked i \<Rightarrow> set_phase p Idle (close_file p i s) | _ \<Rightarrow> s)"
| "lock_step os (Die p) s =
     set_phase p Gone (s\<lparr>owner := (\<lambda>i. if owner s i = Some p then None else owner s i)\<rparr>)"

definition run_calls :: "lock_os \<Rightarrow> lock_call list \<Rightarrow> lock_sys \<Rightarrow> lock_sys" where
  "run_calls os cs s = fold (lock_step os) cs s"

definition no_locks :: lock_sys where
  "no_locks = \<lparr>dir = (\<lambda>_. None), texts = (\<lambda>_. []), owner = (\<lambda>_. None), fresh = 0, phase_of = (\<lambda>_. Gone)\<rparr>"

text \<open>
  The calls of \<open>handle_open\<close>, of a failed or finished use of the database (\<open>release_mcp_lock\<close>,
  \<open>release_mcp_lock_file\<close>), and the places where a process may die in them.
\<close>
datatype lock_section =
    Start nat
  | Open_database nat string
  | Open_and_die nat string
  | Close_database nat
  | Close_and_die nat
  | Crash nat

fun section_calls :: "lock_section \<Rightarrow> lock_call list" where
  "section_calls (Start p) = [Spawn p]"
| "section_calls (Open_database p db) = [Clean p db, Open_lock p db, Lock p]"
| "section_calls (Open_and_die p db) = [Clean p db, Open_lock p db, Die p]"
| "section_calls (Close_database p) = [Unlink p, Close p]"
| "section_calls (Close_and_die p) = [Unlink p, Die p]"
| "section_calls (Crash p) = [Die p]"

section \<open>The owner can be read back\<close>

lemma split_on_first:
  "\<forall>x \<in> set s. \<not> sep x \<Longrightarrow> sep c \<Longrightarrow> split_on sep (s @ c # t) = s # split_on sep t"
  by (induction s) auto

lemma split_on_not_Nil [simp]: "split_on sep s \<noteq> []"
  by (cases s) (auto split: list.splits)

lemma str_lines_first:
  assumes "CHR 0x0A \<notin> set s" "CHR 0x0D \<notin> set s"
  shows "str_lines (s @ CHR 0x0A # t) = s # str_lines t"
proof -
  have "strip_cr s = s" using assms(2) by (auto simp: strip_cr_def dest: last_in_set)
  moreover have "\<forall>x \<in> set s. x \<noteq> CHR 0x0A" using assms(1) by auto
  then have "split_on (\<lambda>c. c = CHR 0x0A) (s @ CHR 0x0A # t) = s # split_on (\<lambda>c. c = CHR 0x0A) t"
    by (simp add: split_on_first)
  ultimately show ?thesis by (simp add: str_lines_def Let_def)
qed

lemma read_lock_file_pid_empty: "read_lock_file_pid [] = None"
  by (simp add: read_lock_file_pid_def str_lines_def)

lemma fmt_dec_digits:
  "code_of c < 48 \<or> 57 < code_of c \<and> code_of c < 97 \<Longrightarrow> c \<notin> set (fmt_dec n)"
  unfolding fmt_dec_def by (rule radix_str_not_mem) auto

lemma fmt_dec_trim: "trim (fmt_dec n) = fmt_dec n"
proof (rule trim_id, rule ballI, rule notI)
  fix c assume "c \<in> set (fmt_dec n)" "is_whitespace c"
  then show False using fmt_dec_digits [of c n] by (auto simp: is_whitespace_def)
qed

lemma read_lock_info:
  assumes "pid < 2 ^ 31"
  shows "read_lock_file_pid (lock_info os pid) = Some pid"
proof -
  have "CHR 0x0A \<notin> set (''pid='' @ fmt_dec pid)" "CHR 0x0D \<notin> set (''pid='' @ fmt_dec pid)"
    by (simp_all add: fmt_dec_digits code_of_def)
  from str_lines_first [OF this]
  have "\<exists>ls. str_lines (lock_info os pid) = (''pid='' @ fmt_dec pid) # ls"
    unfolding lock_info_def by (metis append.assoc append_Cons append_Nil)
  then obtain ls where "str_lines (lock_info os pid) = (''pid='' @ fmt_dec pid) # ls" by blast
  moreover have "from_str_radix 32 10 (fmt_dec pid) = Some pid"
    unfolding fmt_dec_def by (rule from_str_radix_radix_str) (use assms in auto)
  ultimately show ?thesis
    by (simp add: read_lock_file_pid_def starts_with_def fmt_dec_trim)
qed

section \<open>Sections that do not interleave\<close>

definition holders_ok :: "lock_sys \<Rightarrow> bool" where
  "holders_ok s \<longleftrightarrow> (\<forall>p path i. phase_of s p = Holding path i \<longrightarrow>
     dir s path = Some i \<and> owner s i = Some p \<and> read_lock_file_pid (texts s i) \<in> {None, Some p})"

definition owners_ok :: "lock_sys \<Rightarrow> bool" where
  "owners_ok s \<longleftrightarrow> (\<forall>p i. owner s i = Some p \<longrightarrow>
     i < fresh s \<and> ((\<exists>path. phase_of s p = Holding path i) \<or> phase_of s p = Unlinked i))"

definition files_ok :: "lock_sys \<Rightarrow> bool" where
  "files_ok s \<longleftrightarrow>
     (\<forall>path i. dir s path = Some i \<longrightarrow> i < fresh s) \<and>
     (\<forall>p path i. phase_of s p = Opened path i \<longrightarrow> dir s path = Some i) \<and>
     (\<forall>p. phase_of s p \<noteq> Gone \<longrightarrow> p < 2 ^ 31)"

definition locks_ok :: "lock_sys \<Rightarrow> bool" where
  "locks_ok s \<longleftrightarrow> holders_ok s \<and> owners_ok s \<and> files_ok s"

lemmas locks_ok_defs = locks_ok_def holders_ok_def owners_ok_def files_ok_def

text \<open>No process but \<open>p\<close> is between opening the lock file and locking it.\<close>
definition solo :: "nat \<Rightarrow> lock_sys \<Rightarrow> bool" where
  "solo p s \<longleftrightarrow> (\<forall>q path i. phase_of s q = Opened path i \<longrightarrow> q = p)"

definition quiet :: "lock_sys \<Rightarrow> bool" where
  "quiet s \<longleftrightarrow> (\<forall>q path i. phase_of s q \<noteq> Opened path i)"

lemma no_locks_ok: "locks_ok no_locks" "quiet no_locks"
  by (simp_all add: locks_ok_defs quiet_def no_locks_def)

lemma close_file_idle: "locks_ok s \<Longrightarrow> phase_of s p = Idle \<Longrightarrow> close_file p i s = s"
  by (fastforce simp: locks_ok_defs close_file_def)

text \<open>An idle process that looks for a stale lock file leaves every lock that is held in place.\<close>
lemma clean_keeps_held:
  assumes "locks_ok s" "phase_of s p = Idle"
  shows "snd (clean_stale_mcp_lock os (\<lambda>q. phase_of s q \<noteq> Gone) p db s) \<in>
           {s} \<union> {remove_file path s | path. \<forall>q i. phase_of s q \<noteq> Holding path i}"
proof (cases "dir s (lock_path db)")
  case (Some i)
  have close: "close_file p i s = s" using assms by (rule close_file_idle)
  show ?thesis
  proof (cases "\<exists>q j. phase_of s q = Holding (lock_path db) j")
    case True
    then obtain q where q: "phase_of s q = Holding (lock_path db) i" "owner s i = Some q"
      "read_lock_file_pid (texts s i) \<in> {None, Some q}"
      using assms(1) Some by (fastforce simp: locks_ok_defs)
    moreover from q(1) assms(2) have "q \<noteq> p" by auto
    ultimately show ?thesis
      using Some by (auto simp: clean_stale_mcp_lock_def close try_lock_file_def Let_def)
  next
    case False
    have "close_file p i (s\<lparr>owner := (owner s)(i := Some p)\<rparr>) = s" if "owner s i = None"
      using that by (simp add: close_file_def fun_upd_idem)
    moreover have "owner s i \<noteq> Some p" using assms by (fastforce simp: locks_ok_defs)
    ultimately show ?thesis
      using Some False
      by (auto simp: clean_stale_mcp_lock_def close try_lock_file_def Let_def split: option.splits)
  qed
qed (simp add: clean_stale_mcp_lock_def)

lemma remove_unheld_ok:
  "locks_ok s \<Longrightarrow> solo p s \<Longrightarrow> phase_of s p = Idle \<Longrightarrow> \<forall>q i. phase_of s q \<noteq> Holding path i \<Longrightarrow>
   locks_ok (remove_file path s)"
  by (fastforce simp: locks_ok_defs remove_file_def solo_def)

lemma clean_ok:
  assumes "locks_ok s" "solo p s"
  shows "locks_ok (lock_step os (Clean p db) s)" "phase_of (lock_step os (Clean p db) s) = phase_of s"
proof -
  have "lock_step os (Clean p db) s = s \<or> (phase_of s p = Idle \<and>
      (\<exists>path. lock_step os (Clean p db) s = remove_file path s \<and> (\<forall>q i. phase_of s q \<noteq> Holding path i)))"
    using clean_keeps_held [OF assms(1), of p os db] by auto
  then show "locks_ok (lock_step os (Clean p db) s)" "phase_of (lock_step os (Clean p db) s) = phase_of s"
    using assms remove_unheld_ok by (auto simp: remove_file_def)
qed

lemma locks_okI:
  assumes "\<And>p path i. phase_of s p = Holding path i \<Longrightarrow> dir s path = Some i \<and> owner s i = Some p \<and>
      read_lock_file_pid (texts s i) \<in> {None, Some p}"
    and "\<And>p i. owner s i = Some p \<Longrightarrow>
      i < fresh s \<and> ((\<exists>path. phase_of s p = Holding path i) \<or> phase_of s p = Unlinked i)"
    and "\<And>path i. dir s path = Some i \<Longrightarrow> i < fresh s"
    and "\<And>p path i. phase_of s p = Opened path i \<Longrightarrow> dir s path = Some i"
    and "\<And>p. phase_of s p \<noteq> Gone \<Longrightarrow> p < 2 ^ 31"
  shows "locks_ok s"
  using assms unfolding locks_ok_defs by blast

lemma locks_okD:
  assumes "locks_ok s"
  shows "phase_of s p = Holding path i \<Longrightarrow> dir s path = Some i"
    and "phase_of s p = Holding path i \<Longrightarrow> owner s i = Some p"
    and "phase_of s p = Holding path i \<Longrightarrow> read_lock_file_pid (texts s i) \<in> {None, Some p}"
    and "owner s i = Some p \<Longrightarrow> i < fresh s"
    and "owner s i = Some p \<Longrightarrow> (\<exists>path. phase_of s p = Holding path i) \<or> phase_of s p = Unlinked i"
    and "dir s path = Some i \<Longrightarrow> i < fresh s"
    and "phase_of s p = Opened path i \<Longrightarrow> dir s path = Some i"
    and "phase_of s p \<noteq> Gone \<Longrightarrow> p < 2 ^ 31"
  using assms unfolding locks_ok_defs by blast+

text \<open>Opening the lock file empties it, and makes a new one where there is none.\<close>
lemma truncate_ok:
  assumes "locks_ok s" "phase_of s p = Idle" "dir s path = Some i"
  shows "locks_ok (set_phase p (Opened path i) (s\<lparr>texts := (texts s)(i := [])\<rparr>))"
  by (rule locks_okI)
    (use assms locks_okD [OF assms(1)] in
      \<open>auto simp: set_phase_def read_lock_file_pid_empty split: if_splits, fastforce+\<close>)

lemma create_ok:
  assumes "locks_ok s" "phase_of s p = Idle" "dir s path = None"
  shows "locks_ok (set_phase p (Opened path (fresh s))
    (s\<lparr>dir := (dir s)(path \<mapsto> fresh s), texts := (texts s)(fresh s := []), fresh := fresh s + 1\<rparr>))"
proof (rule locks_okI, goal_cases)
  case (1 q l j)
  then have h: "phase_of s q = Holding l j" by (auto simp: set_phase_def split: if_splits)
  with locks_okD [OF assms(1)] have "dir s l = Some j" "j < fresh s" by blast+
  with h assms(3) locks_okD(2,3) [OF assms(1) h] show ?case by (auto simp: set_phase_def)
next
  case (2 q j)
  then have "owner s j = Some q" by (simp add: set_phase_def)
  then show ?case using locks_okD(4,5) [OF assms(1)] assms(2) by (fastforce simp: set_phase_def)
next
  case (3 l j)
  then show ?case
    using locks_okD(6) [OF assms(1)] by (auto simp: set_phase_def less_SucI split: if_splits)
next
  case (4 q l j)
  then show ?case
    using locks_okD(7) [OF assms(1)] assms(3) by (fastforce simp: set_phase_def split: if_splits)
next
  case (5 q)
  then show ?case
    using locks_okD(8) [OF assms(1)] assms(2) by (fastforce simp: set_phase_def split: if_splits)
qed

lemma open_ok:
  assumes "locks_ok s"
  shows "locks_ok (lock_step os (Open_lock p db) s)"
  using assms truncate_ok [OF assms] create_ok [OF assms]
  by (auto simp: acquire_open_def split: option.splits)

lemma lock_taken_ok:
  assumes "locks_ok s" "phase_of s p = Opened path i" "owner s i = None"
  shows "locks_ok (set_phase p (Holding path i)
    (s\<lparr>owner := (owner s)(i := Some p), texts := (texts s)(i := lock_info os p)\<rparr>))"
proof (rule locks_okI, goal_cases)
  case (1 q l j)
  have "read_lock_file_pid (lock_info os p) = Some p"
    using locks_okD(8) [OF assms(1)] assms(2) by (fastforce intro: read_lock_info)
  moreover have "dir s path = Some i" using locks_okD(7) [OF assms(1,2)] .
  moreover have "dir s l = Some j" "owner s j = Some q" "read_lock_file_pid (texts s j) \<in> {None, Some q}"
    if "q \<noteq> p"
    using that 1 locks_okD(1-3) [OF assms(1), of q l j] by (simp_all add: set_phase_def)
  ultimately show ?case
    using 1 assms(3) by (cases "q = p"; cases "j = i") (auto simp: set_phase_def)
next
  case (2 q j)
  then show ?case
    using locks_okD(4-7) [OF assms(1)] assms(2) by (fastforce simp: set_phase_def split: if_splits)
next
  case (3 l j)
  then show ?case using locks_okD(6) [OF assms(1)] by (simp add: set_phase_def)
next
  case (4 q l j)
  then show ?case
    using locks_okD(7) [OF assms(1)] by (auto simp: set_phase_def split: if_splits)
next
  case (5 q)
  then show ?case
    using locks_okD(8) [OF assms(1)] assms(2) by (fastforce simp: set_phase_def split: if_splits)
qed

lemma give_up_ok:
  assumes "locks_ok s" "phase_of s p = Opened path i"
  shows "locks_ok (set_phase p Idle s)"
proof (rule locks_okI, goal_cases)
  case (2 q j)
  then show ?case
    using locks_okD(4,5) [OF assms(1)] assms(2) by (fastforce simp: set_phase_def)
next
  case (5 q)
  then show ?case
    using locks_okD(8) [OF assms(1)] assms(2) by (fastforce simp: set_phase_def split: if_splits)
qed (use locks_okD [OF assms(1)] in \<open>auto simp: set_phase_def split: if_splits\<close>)

lemma lock_ok:
  assumes "locks_ok s"
  shows "locks_ok (lock_step os (Lock p) s)"
proof (cases "phase_of s p")
  case (Opened path i)
  have "owner s i \<noteq> Some p"
    using locks_okD(5) [OF assms, of i p] Opened by auto
  then show ?thesis
    using lock_taken_ok [OF assms Opened] give_up_ok [OF assms Opened] Opened
    by (cases "owner s i") (auto simp: acquire_lock_def try_lock_file_def close_file_def)
qed (use assms in simp_all)

lemma unlink_ok:
  assumes "locks_ok s" "solo p s"
  shows "locks_ok (lock_step os (Unlink p) s)"
proof (cases "phase_of s p")
  case (Holding path i)
  have alone: "q = p" if "phase_of s q = Holding path j" for q j
    using locks_okD(1,2) [OF assms(1) that] locks_okD(1,2) [OF assms(1) Holding] by simp
  have "locks_ok (set_phase p (Unlinked i) (if can_remove os path then remove_file path s else s))"
  proof (rule locks_okI, goal_cases)
    case (1 q l j)
    then have h: "q \<noteq> p" "phase_of s q = Holding l j"
      by (auto simp: set_phase_def remove_file_def split: if_splits)
    then have "l \<noteq> path" using alone by auto
    then show ?case
      using h locks_okD(1-3) [OF assms(1) h(2)] by (auto simp: set_phase_def remove_file_def)
  next
    case (2 q j)
    then have "owner s j = Some q" by (simp add: set_phase_def remove_file_def split: if_splits)
    then have "j < fresh s" "(\<exists>l. phase_of s q = Holding l j) \<or> phase_of s q = Unlinked j"
      using locks_okD(4,5) [OF assms(1)] by blast+
    then show ?case using Holding by (cases "q = p") (auto simp: set_phase_def remove_file_def)
  next
    case (3 l j)
    then show ?case
      using locks_okD(6) [OF assms(1)] by (auto simp: set_phase_def remove_file_def split: if_splits)
  next
    case (4 q l j)
    then show ?case
      using assms(2) by (auto simp: set_phase_def remove_file_def solo_def split: if_splits)
  next
    case (5 q)
    then show ?case
      using locks_okD(8) [OF assms(1)] Holding
      by (fastforce simp: set_phase_def remove_file_def split: if_splits)
  qed
  then show ?thesis using Holding by simp
qed (use assms in simp_all)

lemma close_ok:
  assumes "locks_ok s"
  shows "locks_ok (lock_step os (Close p) s)"
proof (cases "phase_of s p")
  case (Unlinked i)
  have "locks_ok (set_phase p Idle (close_file p i s))"
  proof (rule locks_okI, goal_cases)
    case (1 q l j)
    then have h: "q \<noteq> p" "phase_of s q = Holding l j"
      by (auto simp: set_phase_def close_file_def split: if_splits)
    then show ?case
      using locks_okD(1-3) [OF assms h(2)] by (auto simp: set_phase_def close_file_def)
  next
    case (2 q j)
    then have o: "owner s j = Some q" "q \<noteq> p \<or> j \<noteq> i"
      by (auto simp: set_phase_def close_file_def split: if_splits)
    then have "q \<noteq> p" using locks_okD(5) [OF assms o(1)] Unlinked by auto
    then show ?case
      using locks_okD(4,5) [OF assms o(1)] by (auto simp: set_phase_def close_file_def)
  next
    case (3 l j)
    then show ?case
      using locks_okD(6) [OF assms] by (auto simp: set_phase_def close_file_def split: if_splits)
  next
    case (4 q l j)
    then show ?case
      using locks_okD(7) [OF assms] by (auto simp: set_phase_def close_file_def split: if_splits)
  next
    case (5 q)
    then have "phase_of s q \<noteq> Gone"
      using Unlinked by (auto simp: set_phase_def close_file_def split: if_splits)
    then show ?case by (rule locks_okD(8) [OF assms])
  qed
  then show ?thesis using Unlinked by simp
qed (use assms in simp_all)

lemma die_ok: "locks_ok s \<Longrightarrow> locks_ok (lock_step os (Die p) s)"
  by (fastforce simp: set_phase_def locks_ok_defs)

lemma spawn_ok: "locks_ok s \<Longrightarrow> locks_ok (lock_step os (Spawn p) s)"
  by (fastforce simp: set_phase_def locks_ok_defs)

lemma lock_step_ok: "locks_ok s \<Longrightarrow> solo (caller c) s \<Longrightarrow> locks_ok (lock_step os c s)"
  using clean_ok(1) open_ok lock_ok unlink_ok close_ok die_ok spawn_ok by (cases c) auto

text \<open>A call changes the phase of its caller only.\<close>
lemma lock_step_phase: "q \<noteq> caller c \<Longrightarrow> phase_of (lock_step os c s) q = phase_of s q"
  by (cases c) (auto simp: set_phase_def clean_stale_mcp_lock_def acquire_open_def acquire_lock_def
      try_lock_file_def close_file_def remove_file_def Let_def split: phase.splits option.splits sum.splits)

lemma solo_step: "solo (caller c) s \<Longrightarrow> solo (caller c) (lock_step os c s)"
  using lock_step_phase [of _ c os s] unfolding solo_def by metis

lemma run_solo:
  "\<forall>c \<in> set cs. caller c = p \<Longrightarrow> locks_ok s \<Longrightarrow> solo p s \<Longrightarrow>
   locks_ok (run_calls os cs s) \<and> solo p (run_calls os cs s)"
proof (induction cs arbitrary: s)
  case (Cons c cs)
  then have "locks_ok (lock_step os c s)" "solo p (lock_step os c s)"
    using lock_step_ok [of s c os] solo_step [of c s os] by auto
  with Cons show ?case by (simp add: run_calls_def)
qed (simp add: run_calls_def)

lemma run_phase: "\<forall>c \<in> set cs. caller c \<noteq> q \<Longrightarrow> phase_of (run_calls os cs s) q = phase_of s q"
  by (induction cs arbitrary: s) (auto simp: run_calls_def lock_step_phase)

text \<open>Every section is one process, which is not left with an unlocked file.\<close>

fun section_process :: "lock_section \<Rightarrow> nat" where
  "section_process (Start p) = p"
| "section_process (Open_database p db) = p"
| "section_process (Open_and_die p db) = p"
| "section_process (Close_database p) = p"
| "section_process (Close_and_die p) = p"
| "section_process (Crash p) = p"

lemma section_caller: "\<forall>c \<in> set (section_calls sec). caller c = section_process sec"
  by (cases sec) auto

lemma lock_not_opened: "phase_of (lock_step os (Lock p) s) p \<noteq> Opened path i"
  by (auto simp: set_phase_def split: phase.splits prod.splits sum.splits)

lemma section_not_opened:
  assumes "quiet s"
  shows "phase_of (run_calls os (section_calls sec) s) (section_process sec) \<noteq> Opened path i"
  using assms
  by (cases sec) (auto simp: run_calls_def quiet_def set_phase_def lock_not_opened close_file_def
      remove_file_def split: phase.splits prod.splits sum.splits)

lemma section_ok:
  assumes "locks_ok s" "quiet s"
  shows "locks_ok (run_calls os (section_calls sec) s) \<and> quiet (run_calls os (section_calls sec) s)"
proof -
  have "solo (section_process sec) s" using assms(2) by (simp add: solo_def quiet_def)
  from run_solo [OF section_caller assms(1) this] section_not_opened [OF assms(2)] show ?thesis
    unfolding solo_def quiet_def by metis
qed

lemma sections_ok:
  "locks_ok s \<Longrightarrow> quiet s \<Longrightarrow>
   locks_ok (run_calls os (concat (map section_calls secs)) s) \<and>
   quiet (run_calls os (concat (map section_calls secs)) s)"
proof (induction secs arbitrary: s)
  case (Cons sec secs)
  with section_ok [of s os sec] show ?case by (simp add: run_calls_def)
qed (simp add: run_calls_def)

lemma contender_refused:
  assumes "locks_ok s" "quiet s" "phase_of s p = Holding (lock_path db) i" "phase_of s q = Idle"
    and "open_error os (lock_path db) = None"
  shows "phase_of (run_calls os (section_calls (Open_database q db)) s) q = Idle"
proof -
  let ?s1 = "lock_step os (Clean q db) s" and ?s2 = "lock_step os (Open_lock q db) (lock_step os (Clean q db) s)"
  have "solo q s" using assms(2) by (simp add: solo_def quiet_def)
  note clean = clean_ok [OF assms(1) this, of os db]
  have "phase_of ?s1 p = Holding (lock_path db) i" using assms(3) clean(2) by simp
  then have "dir ?s1 (lock_path db) = Some i" "owner ?s1 i = Some p"
    using locks_okD(1,2) [OF clean(1)] by blast+
  then have "phase_of ?s2 q = Opened (lock_path db) i" "owner ?s2 i = Some p"
    using assms(4,5) clean(2) by (simp_all add: acquire_open_def set_phase_def del: lock_step.simps(2))
  moreover have "p \<noteq> q" using assms(3,4) by auto
  ultimately show ?thesis
    by (simp add: run_calls_def acquire_lock_def try_lock_file_def set_phase_def del: lock_step.simps(2,3))
qed

section \<open>Two runs\<close>

lemma run_calls_Cons: "run_calls os (c # cs) s = run_calls os cs (lock_step os c s)"
  and run_calls_Nil: "run_calls os [] s = s"
  by (simp_all add: run_calls_def)

lemmas call_simps = run_calls_Cons run_calls_Nil no_locks_def set_phase_def clean_stale_mcp_lock_def
  acquire_open_def acquire_lock_def try_lock_file_def close_file_def remove_file_def read_lock_info
  read_lock_file_pid_empty Let_def

lemma two_processes_run:
  assumes "open_error os = (\<lambda>_. None)" "can_read os = (\<lambda>_. True)" "can_remove os = (\<lambda>_. True)"
    and "s = run_calls os (concat (map section_calls [Start 1, Start 2, Open_database 1 db])) no_locks"
  shows "phase_of s 1 = Holding (lock_path db) 0" "phase_of s 2 = Idle"
  by (simp_all add: assms call_simps)

text \<open>Process 2 opens the lock file before process 1 removes it, and locks it afterwards.\<close>
lemma race_run:
  assumes "open_error os = (\<lambda>_. None)" "can_read os = (\<lambda>_. True)" "can_remove os = (\<lambda>_. True)"
    and "s = run_calls os
               ([Spawn 1, Spawn 2, Spawn 3] @ section_calls (Open_database 1 db) @
                [Clean 2 db, Open_lock 2 db] @ section_calls (Close_database 1) @ [Lock 2] @
                section_calls (Open_database 3 db)) no_locks"
  shows "phase_of s 2 = Holding (lock_path db) 0" "phase_of s 3 = Holding (lock_path db) 1"
  by (simp_all add: assms call_simps)

section \<open>Exclusion\<close>

text \<open>
  C11. When the calls of different processes are not interleaved within an open or a close, whatever
  processes start, crash, and die half way through an open or a close, a process that holds a lock
  has its file in place and its \<open>fcntl\<close> lock on it.  No other process holds a lock under that path.
  A process that tries to open a database with that lock path, after looking for a stale lock, is
  refused and stays without a database, although it empties the file, and the holder keeps the lock.
\<close>

theorem lock_exclusion:
  assumes "s = run_calls os (concat (map section_calls secs)) no_locks"
    and "phase_of s p = Holding path i"
  shows "dir s path = Some i \<and> owner s i = Some p \<and>
    (\<forall>q j. phase_of s q = Holding path j \<longrightarrow> q = p) \<and>
    (\<forall>q db. phase_of s q = Idle \<and> lock_path db = path \<and> open_error os path = None \<longrightarrow>
       phase_of (run_calls os (section_calls (Open_database q db)) s) q = Idle \<and>
       phase_of (run_calls os (section_calls (Open_database q db)) s) p = Holding path i)"
proof -
  have ok: "locks_ok s" "quiet s" using sections_ok [OF no_locks_ok] assms(1) by auto
  have "q = p" if "phase_of s q = Holding path j" for q j
    using locks_okD(1,2) [OF ok(1) that] locks_okD(1,2) [OF ok(1) assms(2)] by simp
  moreover have "phase_of (run_calls os (section_calls (Open_database q db)) s) p = Holding path i"
    if "phase_of s q = Idle" for q db
    using that assms(2) by (subst run_phase) auto
  ultimately show ?thesis
    using locks_okD(1,2) [OF ok(1) assms(2)] contender_refused [OF ok, of p _ i _ os] assms(2) by blast
qed

abbreviation plain_os :: lock_os where
  "plain_os \<equiv> \<lparr>open_error = \<lambda>_. None, can_read = \<lambda>_. True, can_remove = \<lambda>_. True,
    host_name = ''h'', exe_name = ''ida'', opened_at = 7\<rparr>"

theorem lock_exclusion_witness:
  "\<exists>s. s = run_calls plain_os (concat (map section_calls
          [Start 1, Start 2, Open_database 1 ''/d/a.so''])) no_locks \<and>
     phase_of s 1 = Holding ''/d/a.imcp'' 0 \<and> phase_of s 2 = Idle \<and>
     phase_of (run_calls plain_os (section_calls (Open_database 2 ''/d/a.i64'')) s) 2 = Idle"
proof -
  let ?s = "run_calls plain_os (concat (map section_calls
          [Start 1, Start 2, Open_database 1 ''/d/a.so''])) no_locks"
  have path: "lock_path ''/d/a.so'' = ''/d/a.imcp''" "lock_path ''/d/a.i64'' = ''/d/a.imcp''"
    by code_simp+
  have h: "phase_of ?s 1 = Holding ''/d/a.imcp'' 0" "phase_of ?s 2 = Idle"
    using two_processes_run [of plain_os ?s "''/d/a.so''"] unfolding path by simp_all
  from lock_exclusion [OF refl h(1)] h(2) path(2)
  have "phase_of (run_calls plain_os (section_calls (Open_database 2 ''/d/a.i64'')) ?s) 2 = Idle"
    by (metis lock_os.select_convs(1))
  with h show ?thesis by blast
qed

text \<open>
  C40. The exclusion is lost when a process is between opening and locking the lock file while the
  holder releases it.  Process 1 holds the lock; process 2 opens the lock file; process 1 closes its
  database, which removes the file and gives up the lock; process 2 locks the file it has open, which
  no path names any more; process 3 makes a new lock file and locks it.  Processes 2 and 3 then hold
  the lock of the same database, each with the answer that it may open it.
\<close>

theorem lock_race_two_holders:
  "let os = \<lparr>open_error = \<lambda>_. None, can_read = \<lambda>_. True, can_remove = \<lambda>_. True,
             host_name = h, exe_name = e, opened_at = t\<rparr>;
       s = run_calls os
             ([Spawn 1, Spawn 2, Spawn 3] @ section_calls (Open_database 1 db) @
              [Clean 2 db, Open_lock 2 db] @ section_calls (Close_database 1) @ [Lock 2] @
              section_calls (Open_database 3 db)) no_locks
   in phase_of s 2 = Holding (lock_path db) 0 \<and> phase_of s 3 = Holding (lock_path db) 1"
  unfolding Let_def by (intro conjI race_run [OF _ _ _ refl]) simp_all

end
