(* ===== verification/Dsc_Scripts.thy ===== *)
theory Dsc_Scripts
  imports Rust_Text
begin

text \<open>
  The texts \<open>dsc.rs\<close> generates for a dyld shared cache: the loader selector, the command line of
  \<open>idat\<close>, and the IDAPython scripts that load modules, a single dylib or an address region.  The
  module and framework names come from the client and are pasted into double-quoted Python literals
  after \<open>escape_python_string\<close>.

  \<open>py_run\<close> reads a script the way the Python lexer reads double-quoted literals: it separates the
  literals, with the text they denote, from the characters of the program.  The lemmas show that
  whatever the names are, the program part of the script is the same, and the literals denote exactly
  the names the client sent.
\<close>

section \<open>Escaping and scripts\<close>

text \<open>\<open>str::replace\<close> with a character as pattern.\<close>
definition replace_char :: "char \<Rightarrow> string \<Rightarrow> string \<Rightarrow> string" where
  \<open>replace_char c t s = concat (map (\<lambda>x. if x = c then t else [x]) s)\<close>

definition escape_python_string :: "string \<Rightarrow> string" where
  \<open>escape_python_string s =
     replace_char (CHR 0x0D) [CHR 0x5C, CHR ''r'']
       (replace_char (CHR 0x0A) [CHR 0x5C, CHR ''n'']
         (replace_char (CHR 0x22) [CHR 0x5C, CHR 0x22]
           (replace_char (CHR 0x5C) [CHR 0x5C, CHR 0x5C] s)))\<close>

definition dsc_file_type :: "string \<Rightarrow> nat \<Rightarrow> string" where
  \<open>dsc_file_type arch ida_version =
     (let mode = if 9 \<le> ida_version then ''select module(s)'' else ''single module''
      in ''Apple DYLD cache for '' @ arch @ '' ('' @ mode @ '')'')\<close>

definition idat_dsc_args ::
  "string \<Rightarrow> string \<Rightarrow> string \<Rightarrow> string \<Rightarrow> string option \<Rightarrow> string list" where
  \<open>idat_dsc_args dsc_path out_i64 script_path file_type log_path =
     [''-a-'', ''-A'', ''-P+'', ''-Oobjc:+l''] @
     (case log_path of None \<Rightarrow> [] | Some l \<Rightarrow> [''-L'' @ l]) @
     [''-S'' @ script_path, ''-T'' @ file_type, ''-o'' @ out_i64, dsc_path]\<close>

text \<open>A text given by its lines, each ended by a newline.\<close>
definition text_lines :: "string list \<Rightarrow> string" where
  \<open>text_lines ls = concat (map (\<lambda>l. l @ [CHR 0x0A]) ls)\<close>

definition run_plugin_checked_python :: "string" where
  \<open>run_plugin_checked_python =
   text_lines
     ['''',
      ''def run_plugin_checked(name, arg, context, strict_nonzero=False):'',
      ''    def plugin_failed():'',
      ''        raise RuntimeError(f"{name} plugin failed during {context} (return={rc!r})")'',
      '''',
      ''    rc = load_and_run_plugin(name, arg)'',
      ''    if rc is None:'',
      ''        plugin_failed()'',
      ''    if strict_nonzero and (rc is False or (isinstance(rc, int) and rc <= 0)):'',
      ''        plugin_failed()'',
      ''    if isinstance(rc, int) and rc < 0:'',
      ''        plugin_failed()'',
      ''    return rc'']\<close>

definition dsc_load_head :: "string" where
  \<open>dsc_load_head =
   text_lines
     [''import idaapi'',
      ''from idc import *'',
      '''',
      ''def dscu_load_module(module):'',
      ''    node = idaapi.netnode()'',
      ''    node.create("$ dscu")'',
      ''    node.supset(2, module)'',
      ''    load_and_run_plugin("dscu", 1)'']\<close>

definition dsc_load_passes :: "string" where
  \<open>dsc_load_passes =
   text_lines
     ['''',
      ''# ObjC type analysis'',
      ''print("[ida-cli] analyzing objc types")'',
      ''load_and_run_plugin("objc", 1)'',
      ''print("[ida-cli] analyzing NSConcreteGlobalBlock objects")'',
      ''load_and_run_plugin("objc", 4)'',
      '''',
      ''# Auto-analysis'',
      ''print("[ida-cli] performing auto-analysis...")'',
      ''auto_mark_range(0, BADADDR, AU_FINAL)'',
      ''auto_wait()'',
      '''',
      ''# Stack block analysis'',
      ''print("[ida-cli] analyzing NSConcreteStackBlock objects")'',
      ''load_and_run_plugin("objc", 5)'',
      '''',
      ''print("[ida-cli] DSC module loading complete")'']\<close>

definition dsc_dylib_head :: "string" where
  \<open>dsc_dylib_head =
   text_lines
     [''import idaapi'',
      ''from idc import *'',
      ''''] @
   run_plugin_checked_python @
   text_lines
     ['''',
      '''',
      ''def dscu_load_module(module):'',
      ''    node = idaapi.netnode()'',
      ''    node.create("$ dscu")'',
      ''    node.supset(2, module)'',
      ''    run_plugin_checked("dscu", 1, f"loading module {module}", True)'',
      '''']\<close>

definition dsc_dylib_passes :: "string" where
  \<open>dsc_dylib_passes =
   text_lines
     ['''',
      ''# ObjC type analysis (lightweight, no full auto-analysis)'',
      ''print("[ida-cli] analyzing objc types")'',
      ''run_plugin_checked("objc", 1, "objc type analysis", False)'',
      ''print("[ida-cli] analyzing NSConcreteGlobalBlock objects")'',
      ''run_plugin_checked("objc", 4, "objc global block analysis", False)'',
      '''']\<close>

definition dsc_region_head :: "string" where
  \<open>dsc_region_head =
   text_lines
     [''import idaapi'',
      ''from idc import *'',
      ''''] @
   run_plugin_checked_python @
   text_lines
     ['''',
      '''',
      ''def dscu_load_region(ea):'',
      ''    node = idaapi.netnode()'',
      ''    node.create("$ dscu")'',
      ''    node.altset(3, ea)'',
      ''    run_plugin_checked("dscu", 2, f"loading region 0x{ea:x}", True)'',
      '''']\<close>

definition dsc_load_framework :: "string \<Rightarrow> string" where
  \<open>dsc_load_framework fw =
   text_lines [''''] @ ''print("[ida-cli] loading framework: '' @
   escape_python_string fw @
   text_lines [''")''] @ ''dscu_load_module("'' @
   escape_python_string fw @
   text_lines [''")'']\<close>

definition dsc_load_script :: "string \<Rightarrow> string list \<Rightarrow> string" where
  \<open>dsc_load_script module frameworks =
   dsc_load_head @
   text_lines ['''',
      ''# Load primary module''] @ ''print("[ida-cli] loading module: '' @
   escape_python_string module @
   text_lines [''")''] @ ''dscu_load_module("'' @
   escape_python_string module @
   text_lines [''")''] @
   concat (map dsc_load_framework frameworks) @
   dsc_load_passes\<close>

definition dsc_add_dylib_script :: "string \<Rightarrow> string" where
  \<open>dsc_add_dylib_script module =
   dsc_dylib_head @
   ''print("[ida-cli] loading additional dylib: '' @
   escape_python_string module @
   text_lines [''")''] @ ''dscu_load_module("'' @
   escape_python_string module @
   text_lines [''")''] @
   dsc_dylib_passes @
   ''print("[ida-cli] dsc_add_dylib complete for: '' @
   escape_python_string module @
   text_lines [''")'']\<close>

definition dsc_add_region_script :: "nat \<Rightarrow> string" where
  \<open>dsc_add_region_script ea =
   dsc_region_head @
   ''print("[ida-cli] loading DSC region: '' @
   fmt_hex_alt ea @
   text_lines [''")''] @ ''dscu_load_region('' @
   fmt_dec ea @
   text_lines ['')''] @ ''print("[ida-cli] dsc_add_region complete for: '' @
   fmt_hex_alt ea @
   text_lines [''")'']\<close>

section \<open>Reading a script as Python does\<close>

datatype py_token = Code_char char | Literal string

text \<open>
  Where the lexer stands: in the program, in a double-quoted literal with the text read so far, after
  a backslash in it, or stopped by a lexical error.  A literal may not contain an end of line, and the
  escapes are those the scripts use.
\<close>
datatype py_place = In_code | In_literal string | In_escape string | Lex_error

fun py_char :: "py_place \<Rightarrow> char \<Rightarrow> py_token list \<times> py_place" where
  "py_char In_code c = (if c = CHR 0x22 then ([], In_literal []) else ([Code_char c], In_code))"
| "py_char (In_literal t) c =
     (if c = CHR 0x22 then ([Literal t], In_code)
      else if c = CHR 0x5C then ([], In_escape t)
      else if c = CHR 0x0A \<or> c = CHR 0x0D then ([], Lex_error)
      else ([], In_literal (t @ [c])))"
| "py_char (In_escape t) c =
     (if c = CHR 0x5C \<or> c = CHR 0x22 then ([], In_literal (t @ [c]))
      else if c = CHR ''n'' then ([], In_literal (t @ [CHR 0x0A]))
      else if c = CHR ''r'' then ([], In_literal (t @ [CHR 0x0D]))
      else ([], Lex_error))"
| "py_char Lex_error c = ([], Lex_error)"

fun py_run :: "py_place \<Rightarrow> string \<Rightarrow> py_token list \<times> py_place" where
  "py_run p [] = ([], p)"
| "py_run p (c # s) = (let (ts, q) = py_char p c; (us, r) = py_run q s in (ts @ us, r))"

lemma py_run_append:
  "py_run p s = (ts, q) \<Longrightarrow> py_run q t = (us, r) \<Longrightarrow> py_run p (s @ t) = (ts @ us, r)"
  by (induction s arbitrary: p ts) (auto simp: Let_def split: prod.splits)

lemma escape_python_string_Nil: "escape_python_string [] = []"
  by (simp add: escape_python_string_def replace_char_def)

lemma escape_python_string_Cons:
  "escape_python_string (c # s) =
     (if c = CHR 0x5C then [CHR 0x5C, CHR 0x5C]
      else if c = CHR 0x22 then [CHR 0x5C, CHR 0x22]
      else if c = CHR 0x0A then [CHR 0x5C, CHR ''n'']
      else if c = CHR 0x0D then [CHR 0x5C, CHR ''r''] else [c]) @ escape_python_string s"
  by (simp add: escape_python_string_def replace_char_def)

lemma py_run_escaped: "py_run (In_literal t) (escape_python_string s) = ([], In_literal (t @ s))"
  by (induction s arbitrary: t) (simp_all add: escape_python_string_Nil escape_python_string_Cons)

text \<open>
  The tokens of a text and the place the lexer ends at; what is left of the tokens when the contents
  of the literals are ignored, and when only they are kept.
\<close>
definition tokens :: "py_place \<Rightarrow> string \<Rightarrow> py_token list" where
  "tokens p s = fst (py_run p s)"

definition place :: "py_place \<Rightarrow> string \<Rightarrow> py_place" where
  "place p s = snd (py_run p s)"

definition program :: "py_token list \<Rightarrow> char option list" where
  "program ts = map (\<lambda>t. case t of Code_char c \<Rightarrow> Some c | Literal _ \<Rightarrow> None) ts"

definition literals :: "py_token list \<Rightarrow> string list" where
  "literals ts = concat (map (\<lambda>t. case t of Code_char _ \<Rightarrow> [] | Literal s \<Rightarrow> [s]) ts)"

lemma tokens_append: "tokens p (s @ t) = tokens p s @ tokens (place p s) t"
  and place_append: "place p (s @ t) = place (place p s) t"
  using py_run_append [of p s "tokens p s" "place p s" t "tokens (place p s) t" "place (place p s) t"]
  by (simp_all add: tokens_def place_def)

lemma tokens_escaped: "tokens (In_literal t) (escape_python_string s) = []"
  and place_escaped: "place (In_literal t) (escape_python_string s) = In_literal (t @ s)"
  by (simp_all add: tokens_def place_def py_run_escaped)

lemma tokens_Nil: "tokens p [] = []" and place_Nil: "place p [] = p"
  by (simp_all add: tokens_def place_def)

lemma tokens_Cons: "tokens p (c # s) = fst (py_char p c) @ tokens (snd (py_char p c)) s"
  and place_Cons: "place p (c # s) = place (snd (py_char p c)) s"
  by (simp_all add: tokens_def place_def Let_def split_beta)

lemma program_append: "program (ts @ us) = program ts @ program us"
  and literals_append: "literals (ts @ us) = literals ts @ literals us"
  by (simp_all add: program_def literals_def)

lemma program_Cons: "program [] = []" "program (Literal s # ts) = None # program ts"
    "program (Code_char c # ts) = Some c # program ts"
  and literals_Cons: "literals [] = []" "literals (Literal s # ts) = s # literals ts"
    "literals (Code_char c # ts) = literals ts"
  by (simp_all add: program_def literals_def)

lemmas lexer_simps = tokens_append place_append tokens_escaped place_escaped tokens_Nil place_Nil
  tokens_Cons place_Cons program_append literals_append program_Cons literals_Cons text_lines_def

text \<open>The fixed texts are balanced, with these literals.\<close>

definition load_head_literals :: "string list" where
  "load_head_literals = [''$ dscu'', ''dscu'']"

definition load_passes_literals :: "string list" where
  "load_passes_literals =
     [''[ida-cli] analyzing objc types'', ''objc'',
      ''[ida-cli] analyzing NSConcreteGlobalBlock objects'', ''objc'',
      ''[ida-cli] performing auto-analysis...'',
      ''[ida-cli] analyzing NSConcreteStackBlock objects'', ''objc'',
      ''[ida-cli] DSC module loading complete'']"

definition dylib_head_literals :: "string list" where
  "dylib_head_literals =
     [''{name} plugin failed during {context} (return={rc!r})'', ''$ dscu'', ''dscu'',
      ''loading module {module}'']"

definition dylib_passes_literals :: "string list" where
  "dylib_passes_literals =
     [''[ida-cli] analyzing objc types'', ''objc'', ''objc type analysis'',
      ''[ida-cli] analyzing NSConcreteGlobalBlock objects'', ''objc'', ''objc global block analysis'']"

lemma dsc_load_head_lexed:
  "place In_code dsc_load_head = In_code"
  "literals (tokens In_code dsc_load_head) = load_head_literals"
  by code_simp+

lemma dsc_load_passes_lexed:
  "place In_code dsc_load_passes = In_code"
  "literals (tokens In_code dsc_load_passes) = load_passes_literals"
  by code_simp+

lemma dsc_dylib_head_lexed:
  "place In_code dsc_dylib_head = In_code"
  "literals (tokens In_code dsc_dylib_head) = dylib_head_literals"
  by code_simp+

lemma dsc_dylib_passes_lexed:
  "place In_code dsc_dylib_passes = In_code"
  "literals (tokens In_code dsc_dylib_passes) = dylib_passes_literals"
  by code_simp+

lemmas fixed_text_simps = dsc_load_head_lexed dsc_load_passes_lexed
  dsc_dylib_head_lexed dsc_dylib_passes_lexed

section \<open>No name reaches the program\<close>

lemma framework_lexed:
  "place In_code (dsc_load_framework fw) = In_code"
  "literals (tokens In_code (dsc_load_framework fw)) = [''[ida-cli] loading framework: '' @ fw, fw]"
  "program (tokens In_code (dsc_load_framework fw)) = program (tokens In_code (dsc_load_framework []))"
  by (simp_all add: dsc_load_framework_def lexer_simps)

lemma frameworks_lexed:
  "place In_code (concat (map dsc_load_framework fws)) = In_code"
  "literals (tokens In_code (concat (map dsc_load_framework fws))) =
     concat (map (\<lambda>fw. [''[ida-cli] loading framework: '' @ fw, fw]) fws)"
  by (induction fws)
    (simp_all add: tokens_append place_append tokens_Nil place_Nil literals_append literals_Cons
      framework_lexed(1,2))

lemma frameworks_program:
  "program (tokens In_code (concat (map dsc_load_framework fws))) =
     concat (replicate (length fws) (program (tokens In_code (dsc_load_framework []))))"
proof (induction fws)
  case (Cons f fws)
  then show ?case
    by (simp add: tokens_append program_append framework_lexed(1) framework_lexed(3) [of f])
qed (simp add: tokens_Nil program_Cons)

text \<open>The part of the script before the framework lines.\<close>
definition load_module_part :: "string \<Rightarrow> string" where
  "load_module_part m = dsc_load_head @
     text_lines ['''', ''# Load primary module''] @ ''print('' @ [CHR 0x22] @ ''[ida-cli] loading module: '' @ escape_python_string m @
     text_lines [[CHR 0x22] @ '')''] @ ''dscu_load_module('' @ [CHR 0x22] @ escape_python_string m @ text_lines [[CHR 0x22] @ '')'']"

lemma load_script_split:
  "dsc_load_script m fws = load_module_part m @ concat (map dsc_load_framework fws) @ dsc_load_passes"
  by (simp add: dsc_load_script_def load_module_part_def)

lemma module_part_lexed:
  "place In_code (load_module_part m) = In_code"
  "literals (tokens In_code (load_module_part m)) =
     load_head_literals @ [''[ida-cli] loading module: '' @ m, m]"
  "program (tokens In_code (load_module_part m)) = program (tokens In_code (load_module_part []))"
  by (simp_all add: load_module_part_def lexer_simps fixed_text_simps)

lemma load_script_lexed:
  "place In_code (dsc_load_script m fws) = In_code"
  "program (tokens In_code (dsc_load_script m fws)) =
     program (tokens In_code (dsc_load_script [] (replicate (length fws) [])))"
  "literals (tokens In_code (dsc_load_script m fws)) =
     load_head_literals @ [''[ida-cli] loading module: '' @ m, m] @
     concat (map (\<lambda>fw. [''[ida-cli] loading framework: '' @ fw, fw]) fws) @ load_passes_literals"
  by (simp_all only: load_script_split tokens_append place_append program_append literals_append
      module_part_lexed(1,2) module_part_lexed(3) [of m] frameworks_lexed frameworks_program
      fixed_text_simps      length_replicate append_assoc)

lemma dylib_script_lexed:
  "place In_code (dsc_add_dylib_script m) = In_code"
  "program (tokens In_code (dsc_add_dylib_script m)) = program (tokens In_code (dsc_add_dylib_script []))"
  "literals (tokens In_code (dsc_add_dylib_script m)) =
     dylib_head_literals @ [''[ida-cli] loading additional dylib: '' @ m, m] @
     dylib_passes_literals @ [''[ida-cli] dsc_add_dylib complete for: '' @ m]"
  by (simp_all add: dsc_add_dylib_script_def lexer_simps fixed_text_simps)

text \<open>
  C12. The names a client sends for a shared cache cannot inject code into the generated IDAPython
  scripts.  Whatever the module and framework names contain (quotes, backslashes, line ends), the
  lexer ends outside every literal, the program text between the literals is that of the same script
  for empty names, and the literals are the fixed ones with the names standing in them unchanged.
\<close>

theorem dsc_scripts_no_injection:
  "place In_code (dsc_load_script m fws) = In_code \<and>
   program (tokens In_code (dsc_load_script m fws)) =
     program (tokens In_code (dsc_load_script [] (replicate (length fws) []))) \<and>
   literals (tokens In_code (dsc_load_script m fws)) =
     load_head_literals @ [''[ida-cli] loading module: '' @ m, m] @
     concat (map (\<lambda>fw. [''[ida-cli] loading framework: '' @ fw, fw]) fws) @ load_passes_literals \<and>
   place In_code (dsc_add_dylib_script m) = In_code \<and>
   program (tokens In_code (dsc_add_dylib_script m)) = program (tokens In_code (dsc_add_dylib_script [])) \<and>
   literals (tokens In_code (dsc_add_dylib_script m)) =
     dylib_head_literals @ [''[ida-cli] loading additional dylib: '' @ m, m] @
     dylib_passes_literals @ [''[ida-cli] dsc_add_dylib complete for: '' @ m]"
  by (intro conjI load_script_lexed dylib_script_lexed)

text \<open>
  The region script pastes only digits: the hexadecimal address into two messages, and the decimal
  address as the argument of the call.
\<close>
lemma plain_literal:
  assumes "\<forall>c \<in> set s. c \<noteq> CHR 0x22 \<and> c \<noteq> CHR 0x5C \<and> c \<noteq> CHR 0x0A \<and> c \<noteq> CHR 0x0D"
  shows "tokens (In_literal t) s = []" "place (In_literal t) s = In_literal (t @ s)"
  using assms by (induction s arbitrary: t) (simp_all add: tokens_Nil place_Nil tokens_Cons place_Cons)

lemma plain_code:
  assumes "CHR 0x22 \<notin> set s"
  shows "tokens In_code s = map Code_char s" "place In_code s = In_code"
  using assms by (induction s) (auto simp: tokens_Nil place_Nil tokens_Cons place_Cons)

lemma fmt_hex_alt_plain:
  "\<forall>c \<in> set (fmt_hex_alt n). c \<noteq> CHR 0x22 \<and> c \<noteq> CHR 0x5C \<and> c \<noteq> CHR 0x0A \<and> c \<noteq> CHR 0x0D"
  using radix_str_not_mem [of 16 _ n] by (auto simp: fmt_hex_alt_def fmt_hex_def code_of_def)

lemma fmt_dec_plain: "CHR 0x22 \<notin> set (fmt_dec n)"
  unfolding fmt_dec_def by (rule radix_str_not_mem) (simp_all add: code_of_def)

lemma region_script_lexed:
  "place In_code (dsc_add_region_script ea) = In_code"
  "tokens In_code (dsc_add_region_script ea) =
     tokens In_code dsc_region_head @ map Code_char ''print('' @
     [Literal (''[ida-cli] loading DSC region: '' @ fmt_hex_alt ea)] @
     map Code_char ('')'' @ [CHR 0x0A] @ ''dscu_load_region('' @ fmt_dec ea @ '')'' @ [CHR 0x0A] @ ''print('') @
     [Literal (''[ida-cli] dsc_add_region complete for: '' @ fmt_hex_alt ea), Code_char CHR '')'', Code_char (CHR 0x0A)]"
proof -
  have "place In_code dsc_region_head = In_code" by code_simp
  then show "place In_code (dsc_add_region_script ea) = In_code"
    "tokens In_code (dsc_add_region_script ea) =
     tokens In_code dsc_region_head @ map Code_char ''print('' @
     [Literal (''[ida-cli] loading DSC region: '' @ fmt_hex_alt ea)] @
     map Code_char ('')'' @ [CHR 0x0A] @ ''dscu_load_region('' @ fmt_dec ea @ '')'' @ [CHR 0x0A] @ ''print('') @
     [Literal (''[ida-cli] dsc_add_region complete for: '' @ fmt_hex_alt ea), Code_char CHR '')'', Code_char (CHR 0x0A)]"
    by (simp_all add: dsc_add_region_script_def lexer_simps plain_literal [OF fmt_hex_alt_plain]
        plain_code [OF fmt_dec_plain])
qed

end
