(* ===== verification/Requests.thy ===== *)
theory Requests
  imports Serde
begin

text \<open>
  The request structs of \<open>src/server/requests.rs\<close> that the server's tools and the worker's
  dispatcher read. Each struct
  is a datatype with one constructor, whose arguments are the fields in the order of the source,
  and a deserialiser \<open>de_\<close> from the field names, aliases and \<open>serde\<close> attributes written there.
  The structs that the server forwards whole have also a serialiser \<open>ser_\<close>, a predicate \<open>_ok\<close>
  for the range of their integer fields, and the lemma that the worker reads back the request
  the server had. An \<open>Option<Value>\<close> field holding \<open>null\<close> is read back as an absent one.
\<close>

datatype LoadDebugInfoRequest =
  LoadDebugInfoRequest "string option" "string option" "bool option"

definition de_LoadDebugInfoRequest :: "json \<Rightarrow> LoadDebugInfoRequest option" where
  "de_LoadDebugInfoRequest v = do {
     fs \<leftarrow> struct_fields
       [default_field [''db_handle''],
        plain_field [''path''],
        plain_field [''verbose'']] v;
     db_handle \<leftarrow> opt_field de_string (field_at fs 0);
     path \<leftarrow> opt_field de_string (field_at fs 1);
     verbose \<leftarrow> opt_field de_bool (field_at fs 2);
     Some (LoadDebugInfoRequest db_handle path verbose)
   }"

datatype ListFunctionsRequest =
  ListFunctionsRequest "string option" "nat option" "nat option" "string option" "nat option"

definition de_ListFunctionsRequest :: "json \<Rightarrow> ListFunctionsRequest option" where
  "de_ListFunctionsRequest v = do {
     fs \<leftarrow> struct_fields
       [default_field [''db_handle''],
        plain_field [''offset''],
        plain_field [''limit'', ''count''],
        plain_field [''filter'', ''query'', ''queries''],
        plain_field [''timeout_secs'']] v;
     db_handle \<leftarrow> opt_field de_string (field_at fs 0);
     offset \<leftarrow> opt_field (de_uint 64) (field_at fs 1);
     limit \<leftarrow> opt_field (de_uint 64) (field_at fs 2);
     filter_by \<leftarrow> opt_field de_string (field_at fs 3);
     timeout_secs \<leftarrow> opt_field (de_uint 64) (field_at fs 4);
     Some (ListFunctionsRequest db_handle offset limit filter_by timeout_secs)
   }"

fun ser_ListFunctionsRequest :: "ListFunctionsRequest \<Rightarrow> json" where
  "ser_ListFunctionsRequest (ListFunctionsRequest db_handle offset limit filter_by timeout_secs) =
     JObj (ser_skip ''db_handle'' JStr db_handle @
       [(''offset'', ser_opt JNum offset),
        (''limit'', ser_opt JNum limit),
        (''filter'', ser_opt JStr filter_by),
        (''timeout_secs'', ser_opt JNum timeout_secs)])"

fun ListFunctionsRequest_ok :: "ListFunctionsRequest \<Rightarrow> bool" where
  "ListFunctionsRequest_ok (ListFunctionsRequest _ offset limit _ timeout_secs) \<longleftrightarrow> pred_option u64_ok offset \<and>
     pred_option u64_ok limit \<and>
     pred_option u64_ok timeout_secs"

lemma ListFunctionsRequest_roundtrip [de_roundtrip]: "ListFunctionsRequest_ok r \<Longrightarrow> de_ListFunctionsRequest (ser_ListFunctionsRequest r) = Some r"
  by (cases r) (simp add: de_ListFunctionsRequest_def serde_eval)

datatype AnalyzeFuncsRequest =
  AnalyzeFuncsRequest "string option" "nat option"

definition de_AnalyzeFuncsRequest :: "json \<Rightarrow> AnalyzeFuncsRequest option" where
  "de_AnalyzeFuncsRequest v = do {
     fs \<leftarrow> struct_fields
       [default_field [''db_handle''],
        plain_field [''timeout_secs'']] v;
     db_handle \<leftarrow> opt_field de_string (field_at fs 0);
     timeout_secs \<leftarrow> opt_field (de_uint 64) (field_at fs 1);
     Some (AnalyzeFuncsRequest db_handle timeout_secs)
   }"

datatype ResolveFunctionRequest =
  ResolveFunctionRequest "string option" string

definition de_ResolveFunctionRequest :: "json \<Rightarrow> ResolveFunctionRequest option" where
  "de_ResolveFunctionRequest v = do {
     fs \<leftarrow> struct_fields
       [default_field [''db_handle''],
        plain_field [''name'']] v;
     db_handle \<leftarrow> opt_field de_string (field_at fs 0);
     name \<leftarrow> req_field de_string (field_at fs 1);
     Some (ResolveFunctionRequest db_handle name)
   }"

datatype GetFunctionPrototypeRequest =
  GetFunctionPrototypeRequest "string option" "json option" "string option"

definition de_GetFunctionPrototypeRequest :: "json \<Rightarrow> GetFunctionPrototypeRequest option" where
  "de_GetFunctionPrototypeRequest v = do {
     fs \<leftarrow> struct_fields
       [default_field [''db_handle''],
        plain_field [''address'', ''ea'', ''addr''],
        plain_field [''name'']] v;
     db_handle \<leftarrow> opt_field de_string (field_at fs 0);
     address \<leftarrow> opt_field de_value (field_at fs 1);
     name \<leftarrow> opt_field de_string (field_at fs 2);
     Some (GetFunctionPrototypeRequest db_handle address name)
   }"

datatype SetFunctionPrototypeRequest =
  SetFunctionPrototypeRequest "string option" "json option" "string option" string

definition de_SetFunctionPrototypeRequest :: "json \<Rightarrow> SetFunctionPrototypeRequest option" where
  "de_SetFunctionPrototypeRequest v = do {
     fs \<leftarrow> struct_fields
       [default_field [''db_handle''],
        plain_field [''address'', ''ea'', ''addr''],
        plain_field [''name''],
        plain_field [''prototype'']] v;
     db_handle \<leftarrow> opt_field de_string (field_at fs 0);
     address \<leftarrow> opt_field de_value (field_at fs 1);
     name \<leftarrow> opt_field de_string (field_at fs 2);
     prototype \<leftarrow> req_field de_string (field_at fs 3);
     Some (SetFunctionPrototypeRequest db_handle address name prototype)
   }"

fun ser_SetFunctionPrototypeRequest :: "SetFunctionPrototypeRequest \<Rightarrow> json" where
  "ser_SetFunctionPrototypeRequest (SetFunctionPrototypeRequest db_handle address name prototype) =
     JObj (ser_skip ''db_handle'' JStr db_handle @
       [(''address'', ser_opt (\<lambda>v. v) address),
        (''name'', ser_opt JStr name),
        (''prototype'', JStr prototype)])"

fun SetFunctionPrototypeRequest_ok :: "SetFunctionPrototypeRequest \<Rightarrow> bool" where
  "SetFunctionPrototypeRequest_ok (SetFunctionPrototypeRequest _ address _ _) \<longleftrightarrow> address \<noteq> Some JNull"

lemma SetFunctionPrototypeRequest_roundtrip [de_roundtrip]: "SetFunctionPrototypeRequest_ok r \<Longrightarrow> de_SetFunctionPrototypeRequest (ser_SetFunctionPrototypeRequest r) = Some r"
  by (cases r) (simp add: de_SetFunctionPrototypeRequest_def serde_eval)

datatype AddrInfoRequest =
  AddrInfoRequest "string option" "json option" "string option" "nat option"

definition de_AddrInfoRequest :: "json \<Rightarrow> AddrInfoRequest option" where
  "de_AddrInfoRequest v = do {
     fs \<leftarrow> struct_fields
       [default_field [''db_handle''],
        plain_field [''address'', ''ea'', ''addr'', ''addresses''],
        plain_field [''target_name'', ''name'', ''symbol''],
        plain_field [''offset'']] v;
     db_handle \<leftarrow> opt_field de_string (field_at fs 0);
     address \<leftarrow> opt_field de_value (field_at fs 1);
     target_name \<leftarrow> opt_field de_string (field_at fs 2);
     offset \<leftarrow> opt_field (de_uint 64) (field_at fs 3);
     Some (AddrInfoRequest db_handle address target_name offset)
   }"

datatype FunctionAtRequest =
  FunctionAtRequest "string option" "json option" "string option" "nat option"

definition de_FunctionAtRequest :: "json \<Rightarrow> FunctionAtRequest option" where
  "de_FunctionAtRequest v = do {
     fs \<leftarrow> struct_fields
       [default_field [''db_handle''],
        plain_field [''address'', ''ea'', ''addr'', ''addresses''],
        plain_field [''target_name'', ''name'', ''symbol''],
        plain_field [''offset'']] v;
     db_handle \<leftarrow> opt_field de_string (field_at fs 0);
     address \<leftarrow> opt_field de_value (field_at fs 1);
     target_name \<leftarrow> opt_field de_string (field_at fs 2);
     offset \<leftarrow> opt_field (de_uint 64) (field_at fs 3);
     Some (FunctionAtRequest db_handle address target_name offset)
   }"

datatype DisasmFunctionAtRequest =
  DisasmFunctionAtRequest "string option" "json option" "string option" "nat option" "nat option"

definition de_DisasmFunctionAtRequest :: "json \<Rightarrow> DisasmFunctionAtRequest option" where
  "de_DisasmFunctionAtRequest v = do {
     fs \<leftarrow> struct_fields
       [default_field [''db_handle''],
        plain_field [''address'', ''ea'', ''addr'', ''addresses''],
        plain_field [''target_name'', ''name'', ''symbol''],
        plain_field [''offset''],
        plain_field [''count'']] v;
     db_handle \<leftarrow> opt_field de_string (field_at fs 0);
     address \<leftarrow> opt_field de_value (field_at fs 1);
     target_name \<leftarrow> opt_field de_string (field_at fs 2);
     offset \<leftarrow> opt_field (de_uint 64) (field_at fs 3);
     count_of \<leftarrow> opt_field (de_uint 64) (field_at fs 4);
     Some (DisasmFunctionAtRequest db_handle address target_name offset count_of)
   }"

fun ser_DisasmFunctionAtRequest :: "DisasmFunctionAtRequest \<Rightarrow> json" where
  "ser_DisasmFunctionAtRequest (DisasmFunctionAtRequest db_handle address target_name offset count_of) =
     JObj (ser_skip ''db_handle'' JStr db_handle @
       [(''address'', ser_opt (\<lambda>v. v) address),
        (''target_name'', ser_opt JStr target_name),
        (''offset'', ser_opt JNum offset),
        (''count'', ser_opt JNum count_of)])"

fun DisasmFunctionAtRequest_ok :: "DisasmFunctionAtRequest \<Rightarrow> bool" where
  "DisasmFunctionAtRequest_ok (DisasmFunctionAtRequest _ address _ offset count_of) \<longleftrightarrow> address \<noteq> Some JNull \<and>
     pred_option u64_ok offset \<and>
     pred_option u64_ok count_of"

lemma DisasmFunctionAtRequest_roundtrip [de_roundtrip]: "DisasmFunctionAtRequest_ok r \<Longrightarrow> de_DisasmFunctionAtRequest (ser_DisasmFunctionAtRequest r) = Some r"
  by (cases r) (simp add: de_DisasmFunctionAtRequest_def serde_eval)

datatype DisasmRequest =
  DisasmRequest "string option" json "nat option"

definition de_DisasmRequest :: "json \<Rightarrow> DisasmRequest option" where
  "de_DisasmRequest v = do {
     fs \<leftarrow> struct_fields
       [default_field [''db_handle''],
        plain_field [''address'', ''addrs'', ''addr'', ''addresses''],
        plain_field [''count'']] v;
     db_handle \<leftarrow> opt_field de_string (field_at fs 0);
     address \<leftarrow> req_field de_value (field_at fs 1);
     count_of \<leftarrow> opt_field (de_uint 64) (field_at fs 2);
     Some (DisasmRequest db_handle address count_of)
   }"

datatype DisasmByNameRequest =
  DisasmByNameRequest "string option" string "nat option"

definition de_DisasmByNameRequest :: "json \<Rightarrow> DisasmByNameRequest option" where
  "de_DisasmByNameRequest v = do {
     fs \<leftarrow> struct_fields
       [default_field [''db_handle''],
        plain_field [''name''],
        plain_field [''count'']] v;
     db_handle \<leftarrow> opt_field de_string (field_at fs 0);
     name \<leftarrow> req_field de_string (field_at fs 1);
     count_of \<leftarrow> opt_field (de_uint 64) (field_at fs 2);
     Some (DisasmByNameRequest db_handle name count_of)
   }"

datatype DecompileRequest =
  DecompileRequest "string option" json

definition de_DecompileRequest :: "json \<Rightarrow> DecompileRequest option" where
  "de_DecompileRequest v = do {
     fs \<leftarrow> struct_fields
       [default_field [''db_handle''],
        plain_field [''address'', ''addrs'', ''addr'', ''addresses'']] v;
     db_handle \<leftarrow> opt_field de_string (field_at fs 0);
     address \<leftarrow> req_field de_value (field_at fs 1);
     Some (DecompileRequest db_handle address)
   }"

datatype BatchDecompileRequest =
  BatchDecompileRequest "string option" json

definition de_BatchDecompileRequest :: "json \<Rightarrow> BatchDecompileRequest option" where
  "de_BatchDecompileRequest v = do {
     fs \<leftarrow> struct_fields
       [default_field [''db_handle''],
        plain_field [''addresses'', ''addrs'', ''address'']] v;
     db_handle \<leftarrow> opt_field de_string (field_at fs 0);
     addresses \<leftarrow> req_field de_value (field_at fs 1);
     Some (BatchDecompileRequest db_handle addresses)
   }"

datatype SearchPseudocodeRequest =
  SearchPseudocodeRequest "string option" string "nat option" "nat option"

definition de_SearchPseudocodeRequest :: "json \<Rightarrow> SearchPseudocodeRequest option" where
  "de_SearchPseudocodeRequest v = do {
     fs \<leftarrow> struct_fields
       [default_field [''db_handle''],
        plain_field [''pattern''],
        default_field [''limit''],
        default_field [''timeout_secs'']] v;
     db_handle \<leftarrow> opt_field de_string (field_at fs 0);
     pattern \<leftarrow> req_field de_string (field_at fs 1);
     limit \<leftarrow> opt_field (de_uint 64) (field_at fs 2);
     timeout_secs \<leftarrow> opt_field (de_uint 64) (field_at fs 3);
     Some (SearchPseudocodeRequest db_handle pattern limit timeout_secs)
   }"

datatype TableScanRequest =
  TableScanRequest "string option" json "nat option" "nat option"

definition de_TableScanRequest :: "json \<Rightarrow> TableScanRequest option" where
  "de_TableScanRequest v = do {
     fs \<leftarrow> struct_fields
       [default_field [''db_handle''],
        plain_field [''base_address'', ''addr'', ''base''],
        default_field [''stride''],
        default_field [''count'']] v;
     db_handle \<leftarrow> opt_field de_string (field_at fs 0);
     base_address \<leftarrow> req_field de_value (field_at fs 1);
     stride \<leftarrow> opt_field (de_uint 64) (field_at fs 2);
     count_of \<leftarrow> opt_field (de_uint 64) (field_at fs 3);
     Some (TableScanRequest db_handle base_address stride count_of)
   }"

datatype DiffFunctionsRequest =
  DiffFunctionsRequest "string option" json json

definition de_DiffFunctionsRequest :: "json \<Rightarrow> DiffFunctionsRequest option" where
  "de_DiffFunctionsRequest v = do {
     fs \<leftarrow> struct_fields
       [default_field [''db_handle''],
        plain_field [''addr1'', ''address1'', ''func1''],
        plain_field [''addr2'', ''address2'', ''func2'']] v;
     db_handle \<leftarrow> opt_field de_string (field_at fs 0);
     addr1 \<leftarrow> req_field de_value (field_at fs 1);
     addr2 \<leftarrow> req_field de_value (field_at fs 2);
     Some (DiffFunctionsRequest db_handle addr1 addr2)
   }"

datatype ListStringsRequest =
  ListStringsRequest "string option" "string option" "string option" "bool option" "bool option" "nat option" "nat option" "nat option"

definition de_ListStringsRequest :: "json \<Rightarrow> ListStringsRequest option" where
  "de_ListStringsRequest v = do {
     fs \<leftarrow> struct_fields
       [default_field [''db_handle''],
        plain_field [''query''],
        plain_field [''filter''],
        plain_field [''exact''],
        plain_field [''case_insensitive''],
        plain_field [''offset''],
        plain_field [''limit'', ''count''],
        plain_field [''timeout_secs'']] v;
     db_handle \<leftarrow> opt_field de_string (field_at fs 0);
     query \<leftarrow> opt_field de_string (field_at fs 1);
     filter_by \<leftarrow> opt_field de_string (field_at fs 2);
     exact \<leftarrow> opt_field de_bool (field_at fs 3);
     case_insensitive \<leftarrow> opt_field de_bool (field_at fs 4);
     offset \<leftarrow> opt_field (de_uint 64) (field_at fs 5);
     limit \<leftarrow> opt_field (de_uint 64) (field_at fs 6);
     timeout_secs \<leftarrow> opt_field (de_uint 64) (field_at fs 7);
     Some (ListStringsRequest db_handle query filter_by exact case_insensitive offset limit timeout_secs)
   }"

datatype XrefsToStringRequest =
  XrefsToStringRequest "string option" string "bool option" "bool option" "nat option" "nat option" "nat option" "nat option"

definition de_XrefsToStringRequest :: "json \<Rightarrow> XrefsToStringRequest option" where
  "de_XrefsToStringRequest v = do {
     fs \<leftarrow> struct_fields
       [default_field [''db_handle''],
        plain_field [''query''],
        plain_field [''exact''],
        plain_field [''case_insensitive''],
        plain_field [''offset''],
        plain_field [''limit'', ''count''],
        plain_field [''max_xrefs''],
        plain_field [''timeout_secs'']] v;
     db_handle \<leftarrow> opt_field de_string (field_at fs 0);
     query \<leftarrow> req_field de_string (field_at fs 1);
     exact \<leftarrow> opt_field de_bool (field_at fs 2);
     case_insensitive \<leftarrow> opt_field de_bool (field_at fs 3);
     offset \<leftarrow> opt_field (de_uint 64) (field_at fs 4);
     limit \<leftarrow> opt_field (de_uint 64) (field_at fs 5);
     max_xrefs \<leftarrow> opt_field (de_uint 64) (field_at fs 6);
     timeout_secs \<leftarrow> opt_field (de_uint 64) (field_at fs 7);
     Some (XrefsToStringRequest db_handle query exact case_insensitive offset limit max_xrefs timeout_secs)
   }"

fun ser_XrefsToStringRequest :: "XrefsToStringRequest \<Rightarrow> json" where
  "ser_XrefsToStringRequest (XrefsToStringRequest db_handle query exact case_insensitive offset limit max_xrefs timeout_secs) =
     JObj (ser_skip ''db_handle'' JStr db_handle @
       [(''query'', JStr query),
        (''exact'', ser_opt JBool exact),
        (''case_insensitive'', ser_opt JBool case_insensitive),
        (''offset'', ser_opt JNum offset),
        (''limit'', ser_opt JNum limit),
        (''max_xrefs'', ser_opt JNum max_xrefs),
        (''timeout_secs'', ser_opt JNum timeout_secs)])"

fun XrefsToStringRequest_ok :: "XrefsToStringRequest \<Rightarrow> bool" where
  "XrefsToStringRequest_ok (XrefsToStringRequest _ _ _ _ offset limit max_xrefs timeout_secs) \<longleftrightarrow> pred_option u64_ok offset \<and>
     pred_option u64_ok limit \<and>
     pred_option u64_ok max_xrefs \<and>
     pred_option u64_ok timeout_secs"

lemma XrefsToStringRequest_roundtrip [de_roundtrip]: "XrefsToStringRequest_ok r \<Longrightarrow> de_XrefsToStringRequest (ser_XrefsToStringRequest r) = Some r"
  by (cases r) (simp add: de_XrefsToStringRequest_def serde_eval)

datatype LocalTypesRequest =
  LocalTypesRequest "string option" "nat option" "nat option" "string option" "nat option"

definition de_LocalTypesRequest :: "json \<Rightarrow> LocalTypesRequest option" where
  "de_LocalTypesRequest v = do {
     fs \<leftarrow> struct_fields
       [default_field [''db_handle''],
        plain_field [''offset''],
        plain_field [''limit'', ''count''],
        plain_field [''filter'', ''query''],
        plain_field [''timeout_secs'']] v;
     db_handle \<leftarrow> opt_field de_string (field_at fs 0);
     offset \<leftarrow> opt_field (de_uint 64) (field_at fs 1);
     limit \<leftarrow> opt_field (de_uint 64) (field_at fs 2);
     filter_by \<leftarrow> opt_field de_string (field_at fs 3);
     timeout_secs \<leftarrow> opt_field (de_uint 64) (field_at fs 4);
     Some (LocalTypesRequest db_handle offset limit filter_by timeout_secs)
   }"

fun ser_LocalTypesRequest :: "LocalTypesRequest \<Rightarrow> json" where
  "ser_LocalTypesRequest (LocalTypesRequest db_handle offset limit filter_by timeout_secs) =
     JObj (ser_skip ''db_handle'' JStr db_handle @
       [(''offset'', ser_opt JNum offset),
        (''limit'', ser_opt JNum limit),
        (''filter'', ser_opt JStr filter_by),
        (''timeout_secs'', ser_opt JNum timeout_secs)])"

fun LocalTypesRequest_ok :: "LocalTypesRequest \<Rightarrow> bool" where
  "LocalTypesRequest_ok (LocalTypesRequest _ offset limit _ timeout_secs) \<longleftrightarrow> pred_option u64_ok offset \<and>
     pred_option u64_ok limit \<and>
     pred_option u64_ok timeout_secs"

lemma LocalTypesRequest_roundtrip [de_roundtrip]: "LocalTypesRequest_ok r \<Longrightarrow> de_LocalTypesRequest (ser_LocalTypesRequest r) = Some r"
  by (cases r) (simp add: de_LocalTypesRequest_def serde_eval)

datatype DeclareTypeRequest =
  DeclareTypeRequest "string option" string "bool option" "bool option" "bool option"

definition de_DeclareTypeRequest :: "json \<Rightarrow> DeclareTypeRequest option" where
  "de_DeclareTypeRequest v = do {
     fs \<leftarrow> struct_fields
       [default_field [''db_handle''],
        plain_field [''decl''],
        plain_field [''relaxed''],
        plain_field [''replace''],
        plain_field [''multi'']] v;
     db_handle \<leftarrow> opt_field de_string (field_at fs 0);
     decl \<leftarrow> req_field de_string (field_at fs 1);
     relaxed \<leftarrow> opt_field de_bool (field_at fs 2);
     replace \<leftarrow> opt_field de_bool (field_at fs 3);
     multi \<leftarrow> opt_field de_bool (field_at fs 4);
     Some (DeclareTypeRequest db_handle decl relaxed replace multi)
   }"

fun ser_DeclareTypeRequest :: "DeclareTypeRequest \<Rightarrow> json" where
  "ser_DeclareTypeRequest (DeclareTypeRequest db_handle decl relaxed replace multi) =
     JObj (ser_skip ''db_handle'' JStr db_handle @
       [(''decl'', JStr decl),
        (''relaxed'', ser_opt JBool relaxed),
        (''replace'', ser_opt JBool replace),
        (''multi'', ser_opt JBool multi)])"

lemma DeclareTypeRequest_roundtrip [de_roundtrip]: "de_DeclareTypeRequest (ser_DeclareTypeRequest r) = Some r"
  by (cases r) (simp add: de_DeclareTypeRequest_def serde_eval)

datatype StructsRequest =
  StructsRequest "string option" "nat option" "nat option" "string option" "nat option"

definition de_StructsRequest :: "json \<Rightarrow> StructsRequest option" where
  "de_StructsRequest v = do {
     fs \<leftarrow> struct_fields
       [default_field [''db_handle''],
        plain_field [''offset''],
        plain_field [''limit'', ''count''],
        plain_field [''filter'', ''query''],
        plain_field [''timeout_secs'']] v;
     db_handle \<leftarrow> opt_field de_string (field_at fs 0);
     offset \<leftarrow> opt_field (de_uint 64) (field_at fs 1);
     limit \<leftarrow> opt_field (de_uint 64) (field_at fs 2);
     filter_by \<leftarrow> opt_field de_string (field_at fs 3);
     timeout_secs \<leftarrow> opt_field (de_uint 64) (field_at fs 4);
     Some (StructsRequest db_handle offset limit filter_by timeout_secs)
   }"

fun ser_StructsRequest :: "StructsRequest \<Rightarrow> json" where
  "ser_StructsRequest (StructsRequest db_handle offset limit filter_by timeout_secs) =
     JObj (ser_skip ''db_handle'' JStr db_handle @
       [(''offset'', ser_opt JNum offset),
        (''limit'', ser_opt JNum limit),
        (''filter'', ser_opt JStr filter_by),
        (''timeout_secs'', ser_opt JNum timeout_secs)])"

fun StructsRequest_ok :: "StructsRequest \<Rightarrow> bool" where
  "StructsRequest_ok (StructsRequest _ offset limit _ timeout_secs) \<longleftrightarrow> pred_option u64_ok offset \<and>
     pred_option u64_ok limit \<and>
     pred_option u64_ok timeout_secs"

lemma StructsRequest_roundtrip [de_roundtrip]: "StructsRequest_ok r \<Longrightarrow> de_StructsRequest (ser_StructsRequest r) = Some r"
  by (cases r) (simp add: de_StructsRequest_def serde_eval)

datatype StructInfoRequest =
  StructInfoRequest "string option" "nat option" "string option"

definition de_StructInfoRequest :: "json \<Rightarrow> StructInfoRequest option" where
  "de_StructInfoRequest v = do {
     fs \<leftarrow> struct_fields
       [default_field [''db_handle''],
        plain_field [''ordinal''],
        plain_field [''name'', ''struct_name'', ''type_name'']] v;
     db_handle \<leftarrow> opt_field de_string (field_at fs 0);
     ordinal \<leftarrow> opt_field (de_uint 32) (field_at fs 1);
     name \<leftarrow> opt_field de_string (field_at fs 2);
     Some (StructInfoRequest db_handle ordinal name)
   }"

datatype ReadStructRequest =
  ReadStructRequest "string option" json "nat option" "string option"

definition de_ReadStructRequest :: "json \<Rightarrow> ReadStructRequest option" where
  "de_ReadStructRequest v = do {
     fs \<leftarrow> struct_fields
       [default_field [''db_handle''],
        plain_field [''address'', ''ea'', ''addr'', ''addresses''],
        plain_field [''ordinal''],
        plain_field [''name'', ''struct_name'', ''type_name'']] v;
     db_handle \<leftarrow> opt_field de_string (field_at fs 0);
     address \<leftarrow> req_field de_value (field_at fs 1);
     ordinal \<leftarrow> opt_field (de_uint 32) (field_at fs 2);
     name \<leftarrow> opt_field de_string (field_at fs 3);
     Some (ReadStructRequest db_handle address ordinal name)
   }"

datatype ApplyTypesRequest =
  ApplyTypesRequest "string option" "json option" "string option" "nat option" "int option" "string option" "string option" "string option" "bool option" "bool option" "bool option"

definition de_ApplyTypesRequest :: "json \<Rightarrow> ApplyTypesRequest option" where
  "de_ApplyTypesRequest v = do {
     fs \<leftarrow> struct_fields
       [default_field [''db_handle''],
        plain_field [''address'', ''ea'', ''addr'', ''addresses''],
        plain_field [''target_name'', ''name'', ''symbol''],
        plain_field [''offset''],
        plain_field [''stack_offset''],
        plain_field [''stack_name''],
        plain_field [''type_name''],
        plain_field [''decl''],
        plain_field [''relaxed''],
        plain_field [''delay''],
        plain_field [''strict'']] v;
     db_handle \<leftarrow> opt_field de_string (field_at fs 0);
     address \<leftarrow> opt_field de_value (field_at fs 1);
     target_name \<leftarrow> opt_field de_string (field_at fs 2);
     offset \<leftarrow> opt_field (de_uint 64) (field_at fs 3);
     stack_offset \<leftarrow> opt_field (de_int 64) (field_at fs 4);
     stack_name \<leftarrow> opt_field de_string (field_at fs 5);
     type_name \<leftarrow> opt_field de_string (field_at fs 6);
     decl \<leftarrow> opt_field de_string (field_at fs 7);
     relaxed \<leftarrow> opt_field de_bool (field_at fs 8);
     delay \<leftarrow> opt_field de_bool (field_at fs 9);
     strict \<leftarrow> opt_field de_bool (field_at fs 10);
     Some (ApplyTypesRequest db_handle address target_name offset stack_offset stack_name type_name decl relaxed delay strict)
   }"

fun ser_ApplyTypesRequest :: "ApplyTypesRequest \<Rightarrow> json" where
  "ser_ApplyTypesRequest (ApplyTypesRequest db_handle address target_name offset stack_offset stack_name type_name decl relaxed delay strict) =
     JObj (ser_skip ''db_handle'' JStr db_handle @
       [(''address'', ser_opt (\<lambda>v. v) address),
        (''target_name'', ser_opt JStr target_name),
        (''offset'', ser_opt JNum offset),
        (''stack_offset'', ser_opt ser_int stack_offset),
        (''stack_name'', ser_opt JStr stack_name),
        (''type_name'', ser_opt JStr type_name),
        (''decl'', ser_opt JStr decl),
        (''relaxed'', ser_opt JBool relaxed),
        (''delay'', ser_opt JBool delay),
        (''strict'', ser_opt JBool strict)])"

fun ApplyTypesRequest_ok :: "ApplyTypesRequest \<Rightarrow> bool" where
  "ApplyTypesRequest_ok (ApplyTypesRequest _ address _ offset stack_offset _ _ _ _ _ _) \<longleftrightarrow> address \<noteq> Some JNull \<and>
     pred_option u64_ok offset \<and>
     pred_option i64_ok stack_offset"

lemma ApplyTypesRequest_roundtrip [de_roundtrip]: "ApplyTypesRequest_ok r \<Longrightarrow> de_ApplyTypesRequest (ser_ApplyTypesRequest r) = Some r"
  by (cases r) (simp add: de_ApplyTypesRequest_def serde_eval)

datatype InferTypesRequest =
  InferTypesRequest "string option" "json option" "string option" "nat option"

definition de_InferTypesRequest :: "json \<Rightarrow> InferTypesRequest option" where
  "de_InferTypesRequest v = do {
     fs \<leftarrow> struct_fields
       [default_field [''db_handle''],
        plain_field [''address'', ''ea'', ''addr'', ''addresses''],
        plain_field [''target_name'', ''name'', ''symbol''],
        plain_field [''offset'']] v;
     db_handle \<leftarrow> opt_field de_string (field_at fs 0);
     address \<leftarrow> opt_field de_value (field_at fs 1);
     target_name \<leftarrow> opt_field de_string (field_at fs 2);
     offset \<leftarrow> opt_field (de_uint 64) (field_at fs 3);
     Some (InferTypesRequest db_handle address target_name offset)
   }"

datatype DeclareStackRequest =
  DeclareStackRequest "string option" "json option" "string option" int "string option" string "bool option"

definition de_DeclareStackRequest :: "json \<Rightarrow> DeclareStackRequest option" where
  "de_DeclareStackRequest v = do {
     fs \<leftarrow> struct_fields
       [default_field [''db_handle''],
        plain_field [''address'', ''ea'', ''addr'', ''addresses''],
        plain_field [''target_name'', ''function'', ''name''],
        plain_field [''offset''],
        plain_field [''var_name''],
        plain_field [''decl''],
        plain_field [''relaxed'']] v;
     db_handle \<leftarrow> opt_field de_string (field_at fs 0);
     address \<leftarrow> opt_field de_value (field_at fs 1);
     target_name \<leftarrow> opt_field de_string (field_at fs 2);
     offset \<leftarrow> req_field (de_int 64) (field_at fs 3);
     var_name \<leftarrow> opt_field de_string (field_at fs 4);
     decl \<leftarrow> req_field de_string (field_at fs 5);
     relaxed \<leftarrow> opt_field de_bool (field_at fs 6);
     Some (DeclareStackRequest db_handle address target_name offset var_name decl relaxed)
   }"

fun ser_DeclareStackRequest :: "DeclareStackRequest \<Rightarrow> json" where
  "ser_DeclareStackRequest (DeclareStackRequest db_handle address target_name offset var_name decl relaxed) =
     JObj (ser_skip ''db_handle'' JStr db_handle @
       [(''address'', ser_opt (\<lambda>v. v) address),
        (''target_name'', ser_opt JStr target_name),
        (''offset'', ser_int offset),
        (''var_name'', ser_opt JStr var_name),
        (''decl'', JStr decl),
        (''relaxed'', ser_opt JBool relaxed)])"

fun DeclareStackRequest_ok :: "DeclareStackRequest \<Rightarrow> bool" where
  "DeclareStackRequest_ok (DeclareStackRequest _ address _ offset _ _ _) \<longleftrightarrow> address \<noteq> Some JNull \<and>
     i64_ok offset"

lemma DeclareStackRequest_roundtrip [de_roundtrip]: "DeclareStackRequest_ok r \<Longrightarrow> de_DeclareStackRequest (ser_DeclareStackRequest r) = Some r"
  by (cases r) (simp add: de_DeclareStackRequest_def serde_eval)

datatype DeleteStackRequest =
  DeleteStackRequest "string option" "json option" "string option" "int option" "string option"

definition de_DeleteStackRequest :: "json \<Rightarrow> DeleteStackRequest option" where
  "de_DeleteStackRequest v = do {
     fs \<leftarrow> struct_fields
       [default_field [''db_handle''],
        plain_field [''address'', ''ea'', ''addr'', ''addresses''],
        plain_field [''target_name'', ''function'', ''name''],
        plain_field [''offset''],
        plain_field [''var_name'']] v;
     db_handle \<leftarrow> opt_field de_string (field_at fs 0);
     address \<leftarrow> opt_field de_value (field_at fs 1);
     target_name \<leftarrow> opt_field de_string (field_at fs 2);
     offset \<leftarrow> opt_field (de_int 64) (field_at fs 3);
     var_name \<leftarrow> opt_field de_string (field_at fs 4);
     Some (DeleteStackRequest db_handle address target_name offset var_name)
   }"

fun ser_DeleteStackRequest :: "DeleteStackRequest \<Rightarrow> json" where
  "ser_DeleteStackRequest (DeleteStackRequest db_handle address target_name offset var_name) =
     JObj (ser_skip ''db_handle'' JStr db_handle @
       [(''address'', ser_opt (\<lambda>v. v) address),
        (''target_name'', ser_opt JStr target_name),
        (''offset'', ser_opt ser_int offset),
        (''var_name'', ser_opt JStr var_name)])"

fun DeleteStackRequest_ok :: "DeleteStackRequest \<Rightarrow> bool" where
  "DeleteStackRequest_ok (DeleteStackRequest _ address _ offset _) \<longleftrightarrow> address \<noteq> Some JNull \<and>
     pred_option i64_ok offset"

lemma DeleteStackRequest_roundtrip [de_roundtrip]: "DeleteStackRequest_ok r \<Longrightarrow> de_DeleteStackRequest (ser_DeleteStackRequest r) = Some r"
  by (cases r) (simp add: de_DeleteStackRequest_def serde_eval)

datatype RenameStackVariableRequest =
  RenameStackVariableRequest "json option" "string option" string string "string option"

definition de_RenameStackVariableRequest :: "json \<Rightarrow> RenameStackVariableRequest option" where
  "de_RenameStackVariableRequest v = do {
     fs \<leftarrow> struct_fields
       [plain_field [''func_address''],
        plain_field [''func_name''],
        plain_field [''name''],
        plain_field [''new_name''],
        plain_field [''db_handle'']] v;
     func_address \<leftarrow> opt_field de_value (field_at fs 0);
     func_name \<leftarrow> opt_field de_string (field_at fs 1);
     name \<leftarrow> req_field de_string (field_at fs 2);
     new_name \<leftarrow> req_field de_string (field_at fs 3);
     db_handle \<leftarrow> opt_field de_string (field_at fs 4);
     Some (RenameStackVariableRequest func_address func_name name new_name db_handle)
   }"

fun ser_RenameStackVariableRequest :: "RenameStackVariableRequest \<Rightarrow> json" where
  "ser_RenameStackVariableRequest (RenameStackVariableRequest func_address func_name name new_name db_handle) =
     JObj ([(''func_address'', ser_opt (\<lambda>v. v) func_address),
        (''func_name'', ser_opt JStr func_name),
        (''name'', JStr name),
        (''new_name'', JStr new_name),
        (''db_handle'', ser_opt JStr db_handle)])"

fun RenameStackVariableRequest_ok :: "RenameStackVariableRequest \<Rightarrow> bool" where
  "RenameStackVariableRequest_ok (RenameStackVariableRequest func_address _ _ _ _) \<longleftrightarrow> func_address \<noteq> Some JNull"

lemma RenameStackVariableRequest_roundtrip [de_roundtrip]: "RenameStackVariableRequest_ok r \<Longrightarrow> de_RenameStackVariableRequest (ser_RenameStackVariableRequest r) = Some r"
  by (cases r) (simp add: de_RenameStackVariableRequest_def serde_eval)

datatype SetStackVariableTypeRequest =
  SetStackVariableTypeRequest "json option" "string option" string string "string option"

definition de_SetStackVariableTypeRequest :: "json \<Rightarrow> SetStackVariableTypeRequest option" where
  "de_SetStackVariableTypeRequest v = do {
     fs \<leftarrow> struct_fields
       [plain_field [''func_address''],
        plain_field [''func_name''],
        plain_field [''name''],
        plain_field [''type_decl''],
        plain_field [''db_handle'']] v;
     func_address \<leftarrow> opt_field de_value (field_at fs 0);
     func_name \<leftarrow> opt_field de_string (field_at fs 1);
     name \<leftarrow> req_field de_string (field_at fs 2);
     type_decl \<leftarrow> req_field de_string (field_at fs 3);
     db_handle \<leftarrow> opt_field de_string (field_at fs 4);
     Some (SetStackVariableTypeRequest func_address func_name name type_decl db_handle)
   }"

fun ser_SetStackVariableTypeRequest :: "SetStackVariableTypeRequest \<Rightarrow> json" where
  "ser_SetStackVariableTypeRequest (SetStackVariableTypeRequest func_address func_name name type_decl db_handle) =
     JObj ([(''func_address'', ser_opt (\<lambda>v. v) func_address),
        (''func_name'', ser_opt JStr func_name),
        (''name'', JStr name),
        (''type_decl'', JStr type_decl),
        (''db_handle'', ser_opt JStr db_handle)])"

fun SetStackVariableTypeRequest_ok :: "SetStackVariableTypeRequest \<Rightarrow> bool" where
  "SetStackVariableTypeRequest_ok (SetStackVariableTypeRequest func_address _ _ _ _) \<longleftrightarrow> func_address \<noteq> Some JNull"

lemma SetStackVariableTypeRequest_roundtrip [de_roundtrip]: "SetStackVariableTypeRequest_ok r \<Longrightarrow> de_SetStackVariableTypeRequest (ser_SetStackVariableTypeRequest r) = Some r"
  by (cases r) (simp add: de_SetStackVariableTypeRequest_def serde_eval)

datatype ListEnumsRequest =
  ListEnumsRequest "string option" "nat option" "nat option" "string option"

definition de_ListEnumsRequest :: "json \<Rightarrow> ListEnumsRequest option" where
  "de_ListEnumsRequest v = do {
     fs \<leftarrow> struct_fields
       [plain_field [''filter''],
        plain_field [''offset''],
        plain_field [''limit''],
        plain_field [''db_handle'']] v;
     filter_by \<leftarrow> opt_field de_string (field_at fs 0);
     offset \<leftarrow> opt_field (de_uint 64) (field_at fs 1);
     limit \<leftarrow> opt_field (de_uint 64) (field_at fs 2);
     db_handle \<leftarrow> opt_field de_string (field_at fs 3);
     Some (ListEnumsRequest filter_by offset limit db_handle)
   }"

fun ser_ListEnumsRequest :: "ListEnumsRequest \<Rightarrow> json" where
  "ser_ListEnumsRequest (ListEnumsRequest filter_by offset limit db_handle) =
     JObj ([(''filter'', ser_opt JStr filter_by),
        (''offset'', ser_opt JNum offset),
        (''limit'', ser_opt JNum limit),
        (''db_handle'', ser_opt JStr db_handle)])"

fun ListEnumsRequest_ok :: "ListEnumsRequest \<Rightarrow> bool" where
  "ListEnumsRequest_ok (ListEnumsRequest _ offset limit _) \<longleftrightarrow> pred_option u64_ok offset \<and>
     pred_option u64_ok limit"

lemma ListEnumsRequest_roundtrip [de_roundtrip]: "ListEnumsRequest_ok r \<Longrightarrow> de_ListEnumsRequest (ser_ListEnumsRequest r) = Some r"
  by (cases r) (simp add: de_ListEnumsRequest_def serde_eval)

datatype CreateEnumRequest =
  CreateEnumRequest string "bool option" "string option"

definition de_CreateEnumRequest :: "json \<Rightarrow> CreateEnumRequest option" where
  "de_CreateEnumRequest v = do {
     fs \<leftarrow> struct_fields
       [plain_field [''decl''],
        plain_field [''replace''],
        plain_field [''db_handle'']] v;
     decl \<leftarrow> req_field de_string (field_at fs 0);
     replace \<leftarrow> opt_field de_bool (field_at fs 1);
     db_handle \<leftarrow> opt_field de_string (field_at fs 2);
     Some (CreateEnumRequest decl replace db_handle)
   }"

fun ser_CreateEnumRequest :: "CreateEnumRequest \<Rightarrow> json" where
  "ser_CreateEnumRequest (CreateEnumRequest decl replace db_handle) =
     JObj ([(''decl'', JStr decl),
        (''replace'', ser_opt JBool replace),
        (''db_handle'', ser_opt JStr db_handle)])"

lemma CreateEnumRequest_roundtrip [de_roundtrip]: "de_CreateEnumRequest (ser_CreateEnumRequest r) = Some r"
  by (cases r) (simp add: de_CreateEnumRequest_def serde_eval)

datatype XrefsToFieldRequest =
  XrefsToFieldRequest "string option" "nat option" "string option" "nat option" "string option" "nat option"

definition de_XrefsToFieldRequest :: "json \<Rightarrow> XrefsToFieldRequest option" where
  "de_XrefsToFieldRequest v = do {
     fs \<leftarrow> struct_fields
       [default_field [''db_handle''],
        plain_field [''ordinal''],
        plain_field [''name'', ''struct_name'', ''type_name''],
        plain_field [''member_index''],
        plain_field [''member_name'', ''member'', ''field'', ''field_name''],
        plain_field [''limit'', ''count'']] v;
     db_handle \<leftarrow> opt_field de_string (field_at fs 0);
     ordinal \<leftarrow> opt_field (de_uint 32) (field_at fs 1);
     name \<leftarrow> opt_field de_string (field_at fs 2);
     member_index \<leftarrow> opt_field (de_uint 32) (field_at fs 3);
     member_name \<leftarrow> opt_field de_string (field_at fs 4);
     limit \<leftarrow> opt_field (de_uint 64) (field_at fs 5);
     Some (XrefsToFieldRequest db_handle ordinal name member_index member_name limit)
   }"

fun ser_XrefsToFieldRequest :: "XrefsToFieldRequest \<Rightarrow> json" where
  "ser_XrefsToFieldRequest (XrefsToFieldRequest db_handle ordinal name member_index member_name limit) =
     JObj (ser_skip ''db_handle'' JStr db_handle @
       [(''ordinal'', ser_opt JNum ordinal),
        (''name'', ser_opt JStr name),
        (''member_index'', ser_opt JNum member_index),
        (''member_name'', ser_opt JStr member_name),
        (''limit'', ser_opt JNum limit)])"

fun XrefsToFieldRequest_ok :: "XrefsToFieldRequest \<Rightarrow> bool" where
  "XrefsToFieldRequest_ok (XrefsToFieldRequest _ ordinal _ member_index _ limit) \<longleftrightarrow> pred_option u32_ok ordinal \<and>
     pred_option u32_ok member_index \<and>
     pred_option u64_ok limit"

lemma XrefsToFieldRequest_roundtrip [de_roundtrip]: "XrefsToFieldRequest_ok r \<Longrightarrow> de_XrefsToFieldRequest (ser_XrefsToFieldRequest r) = Some r"
  by (cases r) (simp add: de_XrefsToFieldRequest_def serde_eval)

datatype AddressRequest =
  AddressRequest "string option" json

definition de_AddressRequest :: "json \<Rightarrow> AddressRequest option" where
  "de_AddressRequest v = do {
     fs \<leftarrow> struct_fields
       [default_field [''db_handle''],
        plain_field [''address'', ''addrs'', ''addr'', ''addresses'']] v;
     db_handle \<leftarrow> opt_field de_string (field_at fs 0);
     address \<leftarrow> req_field de_value (field_at fs 1);
     Some (AddressRequest db_handle address)
   }"

datatype GetBytesRequest =
  GetBytesRequest "string option" "json option" "string option" "nat option" "nat option"

definition de_GetBytesRequest :: "json \<Rightarrow> GetBytesRequest option" where
  "de_GetBytesRequest v = do {
     fs \<leftarrow> struct_fields
       [default_field [''db_handle''],
        plain_field [''address'', ''addrs'', ''addr'', ''addresses''],
        plain_field [''target_name'', ''name'', ''symbol''],
        plain_field [''offset''],
        plain_field [''size'', ''count'']] v;
     db_handle \<leftarrow> opt_field de_string (field_at fs 0);
     address \<leftarrow> opt_field de_value (field_at fs 1);
     target_name \<leftarrow> opt_field de_string (field_at fs 2);
     offset \<leftarrow> opt_field (de_uint 64) (field_at fs 3);
     size_of \<leftarrow> opt_field (de_uint 64) (field_at fs 4);
     Some (GetBytesRequest db_handle address target_name offset size_of)
   }"

fun ser_GetBytesRequest :: "GetBytesRequest \<Rightarrow> json" where
  "ser_GetBytesRequest (GetBytesRequest db_handle address target_name offset size_of) =
     JObj (ser_skip ''db_handle'' JStr db_handle @
       [(''address'', ser_opt (\<lambda>v. v) address),
        (''target_name'', ser_opt JStr target_name),
        (''offset'', ser_opt JNum offset),
        (''size'', ser_opt JNum size_of)])"

fun GetBytesRequest_ok :: "GetBytesRequest \<Rightarrow> bool" where
  "GetBytesRequest_ok (GetBytesRequest _ address _ offset size_of) \<longleftrightarrow> address \<noteq> Some JNull \<and>
     pred_option u64_ok offset \<and>
     pred_option u64_ok size_of"

lemma GetBytesRequest_roundtrip [de_roundtrip]: "GetBytesRequest_ok r \<Longrightarrow> de_GetBytesRequest (ser_GetBytesRequest r) = Some r"
  by (cases r) (simp add: de_GetBytesRequest_def serde_eval)

datatype SetCommentsRequest =
  SetCommentsRequest "string option" "json option" "string option" "nat option" string "bool option"

definition de_SetCommentsRequest :: "json \<Rightarrow> SetCommentsRequest option" where
  "de_SetCommentsRequest v = do {
     fs \<leftarrow> struct_fields
       [default_field [''db_handle''],
        plain_field [''address'', ''ea'', ''addr'', ''addresses''],
        plain_field [''target_name'', ''name'', ''symbol''],
        plain_field [''offset''],
        plain_field [''comment'', ''text''],
        plain_field [''repeatable'', ''rptble'']] v;
     db_handle \<leftarrow> opt_field de_string (field_at fs 0);
     address \<leftarrow> opt_field de_value (field_at fs 1);
     target_name \<leftarrow> opt_field de_string (field_at fs 2);
     offset \<leftarrow> opt_field (de_uint 64) (field_at fs 3);
     comment \<leftarrow> req_field de_string (field_at fs 4);
     repeatable \<leftarrow> opt_field de_bool (field_at fs 5);
     Some (SetCommentsRequest db_handle address target_name offset comment repeatable)
   }"

fun ser_SetCommentsRequest :: "SetCommentsRequest \<Rightarrow> json" where
  "ser_SetCommentsRequest (SetCommentsRequest db_handle address target_name offset comment repeatable) =
     JObj (ser_skip ''db_handle'' JStr db_handle @
       [(''address'', ser_opt (\<lambda>v. v) address),
        (''target_name'', ser_opt JStr target_name),
        (''offset'', ser_opt JNum offset),
        (''comment'', JStr comment),
        (''repeatable'', ser_opt JBool repeatable)])"

fun SetCommentsRequest_ok :: "SetCommentsRequest \<Rightarrow> bool" where
  "SetCommentsRequest_ok (SetCommentsRequest _ address _ offset _ _) \<longleftrightarrow> address \<noteq> Some JNull \<and>
     pred_option u64_ok offset"

lemma SetCommentsRequest_roundtrip [de_roundtrip]: "SetCommentsRequest_ok r \<Longrightarrow> de_SetCommentsRequest (ser_SetCommentsRequest r) = Some r"
  by (cases r) (simp add: de_SetCommentsRequest_def serde_eval)

datatype SetFunctionCommentRequest =
  SetFunctionCommentRequest "string option" "json option" "string option" string "bool option"

definition de_SetFunctionCommentRequest :: "json \<Rightarrow> SetFunctionCommentRequest option" where
  "de_SetFunctionCommentRequest v = do {
     fs \<leftarrow> struct_fields
       [default_field [''db_handle''],
        plain_field [''address'', ''ea'', ''addr''],
        plain_field [''name''],
        plain_field [''comment''],
        plain_field [''repeatable'']] v;
     db_handle \<leftarrow> opt_field de_string (field_at fs 0);
     address \<leftarrow> opt_field de_value (field_at fs 1);
     name \<leftarrow> opt_field de_string (field_at fs 2);
     comment \<leftarrow> req_field de_string (field_at fs 3);
     repeatable \<leftarrow> opt_field de_bool (field_at fs 4);
     Some (SetFunctionCommentRequest db_handle address name comment repeatable)
   }"

fun ser_SetFunctionCommentRequest :: "SetFunctionCommentRequest \<Rightarrow> json" where
  "ser_SetFunctionCommentRequest (SetFunctionCommentRequest db_handle address name comment repeatable) =
     JObj (ser_skip ''db_handle'' JStr db_handle @
       [(''address'', ser_opt (\<lambda>v. v) address),
        (''name'', ser_opt JStr name),
        (''comment'', JStr comment),
        (''repeatable'', ser_opt JBool repeatable)])"

fun SetFunctionCommentRequest_ok :: "SetFunctionCommentRequest \<Rightarrow> bool" where
  "SetFunctionCommentRequest_ok (SetFunctionCommentRequest _ address _ _ _) \<longleftrightarrow> address \<noteq> Some JNull"

lemma SetFunctionCommentRequest_roundtrip [de_roundtrip]: "SetFunctionCommentRequest_ok r \<Longrightarrow> de_SetFunctionCommentRequest (ser_SetFunctionCommentRequest r) = Some r"
  by (cases r) (simp add: de_SetFunctionCommentRequest_def serde_eval)

datatype RenameRequest =
  RenameRequest "string option" "json option" "string option" string "int option"

definition de_RenameRequest :: "json \<Rightarrow> RenameRequest option" where
  "de_RenameRequest v = do {
     fs \<leftarrow> struct_fields
       [default_field [''db_handle''],
        plain_field [''address'', ''ea'', ''addr'', ''addresses''],
        plain_field [''current_name'', ''current'', ''old_name'', ''from''],
        plain_field [''name'', ''new_name''],
        plain_field [''flags'']] v;
     db_handle \<leftarrow> opt_field de_string (field_at fs 0);
     address \<leftarrow> opt_field de_value (field_at fs 1);
     current_name \<leftarrow> opt_field de_string (field_at fs 2);
     name \<leftarrow> req_field de_string (field_at fs 3);
     flags \<leftarrow> opt_field (de_int 32) (field_at fs 4);
     Some (RenameRequest db_handle address current_name name flags)
   }"

fun ser_RenameRequest :: "RenameRequest \<Rightarrow> json" where
  "ser_RenameRequest (RenameRequest db_handle address current_name name flags) =
     JObj (ser_skip ''db_handle'' JStr db_handle @
       [(''address'', ser_opt (\<lambda>v. v) address),
        (''current_name'', ser_opt JStr current_name),
        (''name'', JStr name),
        (''flags'', ser_opt ser_int flags)])"

fun RenameRequest_ok :: "RenameRequest \<Rightarrow> bool" where
  "RenameRequest_ok (RenameRequest _ address _ _ flags) \<longleftrightarrow> address \<noteq> Some JNull \<and>
     pred_option i32_ok flags"

lemma RenameRequest_roundtrip [de_roundtrip]: "RenameRequest_ok r \<Longrightarrow> de_RenameRequest (ser_RenameRequest r) = Some r"
  by (cases r) (simp add: de_RenameRequest_def serde_eval)

datatype BatchRenameEntry =
  BatchRenameEntry "json option" "string option" string

definition de_BatchRenameEntry :: "json \<Rightarrow> BatchRenameEntry option" where
  "de_BatchRenameEntry v = do {
     fs \<leftarrow> struct_fields
       [plain_field [''address'', ''ea'', ''addr''],
        plain_field [''current_name''],
        plain_field [''new_name'']] v;
     address \<leftarrow> opt_field de_value (field_at fs 0);
     current_name \<leftarrow> opt_field de_string (field_at fs 1);
     new_name \<leftarrow> req_field de_string (field_at fs 2);
     Some (BatchRenameEntry address current_name new_name)
   }"

fun ser_BatchRenameEntry :: "BatchRenameEntry \<Rightarrow> json" where
  "ser_BatchRenameEntry (BatchRenameEntry address current_name new_name) =
     JObj ([(''address'', ser_opt (\<lambda>v. v) address),
        (''current_name'', ser_opt JStr current_name),
        (''new_name'', JStr new_name)])"

fun BatchRenameEntry_ok :: "BatchRenameEntry \<Rightarrow> bool" where
  "BatchRenameEntry_ok (BatchRenameEntry address _ _) \<longleftrightarrow> address \<noteq> Some JNull"

lemma BatchRenameEntry_roundtrip [de_roundtrip]: "BatchRenameEntry_ok r \<Longrightarrow> de_BatchRenameEntry (ser_BatchRenameEntry r) = Some r"
  by (cases r) (simp add: de_BatchRenameEntry_def serde_eval)

lemma de_BatchRenameEntry_vec:
  "list_all BatchRenameEntry_ok xs \<Longrightarrow> those (map (de_BatchRenameEntry \<circ> ser_BatchRenameEntry) xs) = Some xs"
  by (rule those_map_Some) (simp add: list_all_iff BatchRenameEntry_roundtrip)

datatype BatchRenameRequest =
  BatchRenameRequest "string option" "BatchRenameEntry list"

definition de_BatchRenameRequest :: "json \<Rightarrow> BatchRenameRequest option" where
  "de_BatchRenameRequest v = do {
     fs \<leftarrow> struct_fields
       [default_field [''db_handle''],
        plain_field [''renames'']] v;
     db_handle \<leftarrow> opt_field de_string (field_at fs 0);
     renames \<leftarrow> req_field (de_vec de_BatchRenameEntry) (field_at fs 1);
     Some (BatchRenameRequest db_handle renames)
   }"

fun ser_BatchRenameRequest :: "BatchRenameRequest \<Rightarrow> json" where
  "ser_BatchRenameRequest (BatchRenameRequest db_handle renames) =
     JObj (ser_skip ''db_handle'' JStr db_handle @
       [(''renames'', JArr (map ser_BatchRenameEntry renames))])"

fun BatchRenameRequest_ok :: "BatchRenameRequest \<Rightarrow> bool" where
  "BatchRenameRequest_ok (BatchRenameRequest _ renames) \<longleftrightarrow> list_all BatchRenameEntry_ok renames"

lemma BatchRenameRequest_roundtrip [de_roundtrip]: "BatchRenameRequest_ok r \<Longrightarrow> de_BatchRenameRequest (ser_BatchRenameRequest r) = Some r"
  by (cases r) (simp add: de_BatchRenameRequest_def serde_eval de_BatchRenameEntry_vec)

datatype RenameLvarRequest =
  RenameLvarRequest "string option" json string string

definition de_RenameLvarRequest :: "json \<Rightarrow> RenameLvarRequest option" where
  "de_RenameLvarRequest v = do {
     fs \<leftarrow> struct_fields
       [default_field [''db_handle''],
        plain_field [''func_address'', ''func_ea'', ''func_addr''],
        plain_field [''lvar_name'', ''old_name'', ''variable''],
        plain_field [''new_name'', ''name'']] v;
     db_handle \<leftarrow> opt_field de_string (field_at fs 0);
     func_address \<leftarrow> req_field de_value (field_at fs 1);
     lvar_name \<leftarrow> req_field de_string (field_at fs 2);
     new_name \<leftarrow> req_field de_string (field_at fs 3);
     Some (RenameLvarRequest db_handle func_address lvar_name new_name)
   }"

fun ser_RenameLvarRequest :: "RenameLvarRequest \<Rightarrow> json" where
  "ser_RenameLvarRequest (RenameLvarRequest db_handle func_address lvar_name new_name) =
     JObj (ser_skip ''db_handle'' JStr db_handle @
       [(''func_address'', func_address),
        (''lvar_name'', JStr lvar_name),
        (''new_name'', JStr new_name)])"

lemma RenameLvarRequest_roundtrip [de_roundtrip]: "de_RenameLvarRequest (ser_RenameLvarRequest r) = Some r"
  by (cases r) (simp add: de_RenameLvarRequest_def serde_eval)

datatype SetLvarTypeRequest =
  SetLvarTypeRequest "string option" json string string

definition de_SetLvarTypeRequest :: "json \<Rightarrow> SetLvarTypeRequest option" where
  "de_SetLvarTypeRequest v = do {
     fs \<leftarrow> struct_fields
       [default_field [''db_handle''],
        plain_field [''func_address'', ''func_ea'', ''func_addr''],
        plain_field [''lvar_name'', ''variable'', ''name''],
        plain_field [''type_str'', ''type'', ''decl'']] v;
     db_handle \<leftarrow> opt_field de_string (field_at fs 0);
     func_address \<leftarrow> req_field de_value (field_at fs 1);
     lvar_name \<leftarrow> req_field de_string (field_at fs 2);
     type_str \<leftarrow> req_field de_string (field_at fs 3);
     Some (SetLvarTypeRequest db_handle func_address lvar_name type_str)
   }"

fun ser_SetLvarTypeRequest :: "SetLvarTypeRequest \<Rightarrow> json" where
  "ser_SetLvarTypeRequest (SetLvarTypeRequest db_handle func_address lvar_name type_str) =
     JObj (ser_skip ''db_handle'' JStr db_handle @
       [(''func_address'', func_address),
        (''lvar_name'', JStr lvar_name),
        (''type_str'', JStr type_str)])"

lemma SetLvarTypeRequest_roundtrip [de_roundtrip]: "de_SetLvarTypeRequest (ser_SetLvarTypeRequest r) = Some r"
  by (cases r) (simp add: de_SetLvarTypeRequest_def serde_eval)

datatype SetDecompilerCommentRequest =
  SetDecompilerCommentRequest "string option" json json "int option" string

definition de_SetDecompilerCommentRequest :: "json \<Rightarrow> SetDecompilerCommentRequest option" where
  "de_SetDecompilerCommentRequest v = do {
     fs \<leftarrow> struct_fields
       [default_field [''db_handle''],
        plain_field [''func_address'', ''func_ea'', ''func_addr''],
        plain_field [''address'', ''ea''],
        default_field [''itp''],
        plain_field [''comment'', ''text'', ''cmt'']] v;
     db_handle \<leftarrow> opt_field de_string (field_at fs 0);
     func_address \<leftarrow> req_field de_value (field_at fs 1);
     address \<leftarrow> req_field de_value (field_at fs 2);
     itp \<leftarrow> opt_field (de_int 32) (field_at fs 3);
     comment \<leftarrow> req_field de_string (field_at fs 4);
     Some (SetDecompilerCommentRequest db_handle func_address address itp comment)
   }"

fun ser_SetDecompilerCommentRequest :: "SetDecompilerCommentRequest \<Rightarrow> json" where
  "ser_SetDecompilerCommentRequest (SetDecompilerCommentRequest db_handle func_address address itp comment) =
     JObj (ser_skip ''db_handle'' JStr db_handle @
       [(''func_address'', func_address),
        (''address'', address),
        (''itp'', ser_opt ser_int itp),
        (''comment'', JStr comment)])"

fun SetDecompilerCommentRequest_ok :: "SetDecompilerCommentRequest \<Rightarrow> bool" where
  "SetDecompilerCommentRequest_ok (SetDecompilerCommentRequest _ _ _ itp _) \<longleftrightarrow> pred_option i32_ok itp"

lemma SetDecompilerCommentRequest_roundtrip [de_roundtrip]: "SetDecompilerCommentRequest_ok r \<Longrightarrow> de_SetDecompilerCommentRequest (ser_SetDecompilerCommentRequest r) = Some r"
  by (cases r) (simp add: de_SetDecompilerCommentRequest_def serde_eval)

datatype PatchRequest =
  PatchRequest "string option" "json option" "string option" "nat option" json

definition de_PatchRequest :: "json \<Rightarrow> PatchRequest option" where
  "de_PatchRequest v = do {
     fs \<leftarrow> struct_fields
       [default_field [''db_handle''],
        plain_field [''address'', ''ea'', ''addr'', ''addresses''],
        plain_field [''target_name'', ''name'', ''symbol''],
        plain_field [''offset''],
        plain_field [''bytes'', ''data'']] v;
     db_handle \<leftarrow> opt_field de_string (field_at fs 0);
     address \<leftarrow> opt_field de_value (field_at fs 1);
     target_name \<leftarrow> opt_field de_string (field_at fs 2);
     offset \<leftarrow> opt_field (de_uint 64) (field_at fs 3);
     bytes \<leftarrow> req_field de_value (field_at fs 4);
     Some (PatchRequest db_handle address target_name offset bytes)
   }"

fun ser_PatchRequest :: "PatchRequest \<Rightarrow> json" where
  "ser_PatchRequest (PatchRequest db_handle address target_name offset bytes) =
     JObj (ser_skip ''db_handle'' JStr db_handle @
       [(''address'', ser_opt (\<lambda>v. v) address),
        (''target_name'', ser_opt JStr target_name),
        (''offset'', ser_opt JNum offset),
        (''bytes'', bytes)])"

fun PatchRequest_ok :: "PatchRequest \<Rightarrow> bool" where
  "PatchRequest_ok (PatchRequest _ address _ offset _) \<longleftrightarrow> address \<noteq> Some JNull \<and>
     pred_option u64_ok offset"

lemma PatchRequest_roundtrip [de_roundtrip]: "PatchRequest_ok r \<Longrightarrow> de_PatchRequest (ser_PatchRequest r) = Some r"
  by (cases r) (simp add: de_PatchRequest_def serde_eval)

datatype PatchAsmRequest =
  PatchAsmRequest "string option" "json option" "string option" "nat option" string

definition de_PatchAsmRequest :: "json \<Rightarrow> PatchAsmRequest option" where
  "de_PatchAsmRequest v = do {
     fs \<leftarrow> struct_fields
       [default_field [''db_handle''],
        plain_field [''address'', ''ea'', ''addr'', ''addresses''],
        plain_field [''target_name'', ''name'', ''symbol''],
        plain_field [''offset''],
        plain_field [''line'', ''asm'', ''instruction'']] v;
     db_handle \<leftarrow> opt_field de_string (field_at fs 0);
     address \<leftarrow> opt_field de_value (field_at fs 1);
     target_name \<leftarrow> opt_field de_string (field_at fs 2);
     offset \<leftarrow> opt_field (de_uint 64) (field_at fs 3);
     line \<leftarrow> req_field de_string (field_at fs 4);
     Some (PatchAsmRequest db_handle address target_name offset line)
   }"

fun ser_PatchAsmRequest :: "PatchAsmRequest \<Rightarrow> json" where
  "ser_PatchAsmRequest (PatchAsmRequest db_handle address target_name offset line) =
     JObj (ser_skip ''db_handle'' JStr db_handle @
       [(''address'', ser_opt (\<lambda>v. v) address),
        (''target_name'', ser_opt JStr target_name),
        (''offset'', ser_opt JNum offset),
        (''line'', JStr line)])"

fun PatchAsmRequest_ok :: "PatchAsmRequest \<Rightarrow> bool" where
  "PatchAsmRequest_ok (PatchAsmRequest _ address _ offset _) \<longleftrightarrow> address \<noteq> Some JNull \<and>
     pred_option u64_ok offset"

lemma PatchAsmRequest_roundtrip [de_roundtrip]: "PatchAsmRequest_ok r \<Longrightarrow> de_PatchAsmRequest (ser_PatchAsmRequest r) = Some r"
  by (cases r) (simp add: de_PatchAsmRequest_def serde_eval)

datatype PaginatedRequest =
  PaginatedRequest "string option" "nat option" "nat option"

definition de_PaginatedRequest :: "json \<Rightarrow> PaginatedRequest option" where
  "de_PaginatedRequest v = do {
     fs \<leftarrow> struct_fields
       [default_field [''db_handle''],
        plain_field [''offset''],
        plain_field [''limit'', ''count'']] v;
     db_handle \<leftarrow> opt_field de_string (field_at fs 0);
     offset \<leftarrow> opt_field (de_uint 64) (field_at fs 1);
     limit \<leftarrow> opt_field (de_uint 64) (field_at fs 2);
     Some (PaginatedRequest db_handle offset limit)
   }"

datatype LookupFuncsRequest =
  LookupFuncsRequest "string option" json

definition de_LookupFuncsRequest :: "json \<Rightarrow> LookupFuncsRequest option" where
  "de_LookupFuncsRequest v = do {
     fs \<leftarrow> struct_fields
       [default_field [''db_handle''],
        plain_field [''queries'', ''query'', ''names'']] v;
     db_handle \<leftarrow> opt_field de_string (field_at fs 0);
     queries \<leftarrow> req_field de_value (field_at fs 1);
     Some (LookupFuncsRequest db_handle queries)
   }"

datatype ListGlobalsRequest =
  ListGlobalsRequest "string option" "string option" "nat option" "nat option" "nat option"

definition de_ListGlobalsRequest :: "json \<Rightarrow> ListGlobalsRequest option" where
  "de_ListGlobalsRequest v = do {
     fs \<leftarrow> struct_fields
       [default_field [''db_handle''],
        plain_field [''query'', ''filter''],
        plain_field [''offset''],
        plain_field [''limit'', ''count''],
        plain_field [''timeout_secs'']] v;
     db_handle \<leftarrow> opt_field de_string (field_at fs 0);
     query \<leftarrow> opt_field de_string (field_at fs 1);
     offset \<leftarrow> opt_field (de_uint 64) (field_at fs 2);
     limit \<leftarrow> opt_field (de_uint 64) (field_at fs 3);
     timeout_secs \<leftarrow> opt_field (de_uint 64) (field_at fs 4);
     Some (ListGlobalsRequest db_handle query offset limit timeout_secs)
   }"

fun ser_ListGlobalsRequest :: "ListGlobalsRequest \<Rightarrow> json" where
  "ser_ListGlobalsRequest (ListGlobalsRequest db_handle query offset limit timeout_secs) =
     JObj (ser_skip ''db_handle'' JStr db_handle @
       [(''query'', ser_opt JStr query),
        (''offset'', ser_opt JNum offset),
        (''limit'', ser_opt JNum limit),
        (''timeout_secs'', ser_opt JNum timeout_secs)])"

fun ListGlobalsRequest_ok :: "ListGlobalsRequest \<Rightarrow> bool" where
  "ListGlobalsRequest_ok (ListGlobalsRequest _ _ offset limit timeout_secs) \<longleftrightarrow> pred_option u64_ok offset \<and>
     pred_option u64_ok limit \<and>
     pred_option u64_ok timeout_secs"

lemma ListGlobalsRequest_roundtrip [de_roundtrip]: "ListGlobalsRequest_ok r \<Longrightarrow> de_ListGlobalsRequest (ser_ListGlobalsRequest r) = Some r"
  by (cases r) (simp add: de_ListGlobalsRequest_def serde_eval)

datatype FindBytesRequest =
  FindBytesRequest "string option" json "nat option" "nat option" "nat option"

definition de_FindBytesRequest :: "json \<Rightarrow> FindBytesRequest option" where
  "de_FindBytesRequest v = do {
     fs \<leftarrow> struct_fields
       [default_field [''db_handle''],
        plain_field [''patterns'', ''pattern''],
        plain_field [''limit'', ''count''],
        plain_field [''offset''],
        plain_field [''timeout_secs'']] v;
     db_handle \<leftarrow> opt_field de_string (field_at fs 0);
     patterns \<leftarrow> req_field de_value (field_at fs 1);
     limit \<leftarrow> opt_field (de_uint 64) (field_at fs 2);
     offset \<leftarrow> opt_field (de_uint 64) (field_at fs 3);
     timeout_secs \<leftarrow> opt_field (de_uint 64) (field_at fs 4);
     Some (FindBytesRequest db_handle patterns limit offset timeout_secs)
   }"

fun ser_FindBytesRequest :: "FindBytesRequest \<Rightarrow> json" where
  "ser_FindBytesRequest (FindBytesRequest db_handle patterns limit offset timeout_secs) =
     JObj (ser_skip ''db_handle'' JStr db_handle @
       [(''patterns'', patterns),
        (''limit'', ser_opt JNum limit),
        (''offset'', ser_opt JNum offset),
        (''timeout_secs'', ser_opt JNum timeout_secs)])"

fun FindBytesRequest_ok :: "FindBytesRequest \<Rightarrow> bool" where
  "FindBytesRequest_ok (FindBytesRequest _ _ limit offset timeout_secs) \<longleftrightarrow> pred_option u64_ok limit \<and>
     pred_option u64_ok offset \<and>
     pred_option u64_ok timeout_secs"

lemma FindBytesRequest_roundtrip [de_roundtrip]: "FindBytesRequest_ok r \<Longrightarrow> de_FindBytesRequest (ser_FindBytesRequest r) = Some r"
  by (cases r) (simp add: de_FindBytesRequest_def serde_eval)

datatype SearchRequest =
  SearchRequest "string option" json "string option" "nat option" "nat option" "nat option"

definition de_SearchRequest :: "json \<Rightarrow> SearchRequest option" where
  "de_SearchRequest v = do {
     fs \<leftarrow> struct_fields
       [default_field [''db_handle''],
        plain_field [''targets'', ''query'', ''queries''],
        plain_field [''kind'', ''type''],
        plain_field [''limit'', ''count''],
        plain_field [''offset''],
        plain_field [''timeout_secs'']] v;
     db_handle \<leftarrow> opt_field de_string (field_at fs 0);
     targets \<leftarrow> req_field de_value (field_at fs 1);
     kind \<leftarrow> opt_field de_string (field_at fs 2);
     limit \<leftarrow> opt_field (de_uint 64) (field_at fs 3);
     offset \<leftarrow> opt_field (de_uint 64) (field_at fs 4);
     timeout_secs \<leftarrow> opt_field (de_uint 64) (field_at fs 5);
     Some (SearchRequest db_handle targets kind limit offset timeout_secs)
   }"

datatype FindInsnsRequest =
  FindInsnsRequest "string option" json "nat option" "bool option" "nat option"

definition de_FindInsnsRequest :: "json \<Rightarrow> FindInsnsRequest option" where
  "de_FindInsnsRequest v = do {
     fs \<leftarrow> struct_fields
       [default_field [''db_handle''],
        plain_field [''patterns'', ''pattern'', ''query'', ''queries'', ''mnemonic'', ''mnemonics''],
        plain_field [''limit'', ''count''],
        plain_field [''case_insensitive''],
        plain_field [''timeout_secs'']] v;
     db_handle \<leftarrow> opt_field de_string (field_at fs 0);
     patterns \<leftarrow> req_field de_value (field_at fs 1);
     limit \<leftarrow> opt_field (de_uint 64) (field_at fs 2);
     case_insensitive \<leftarrow> opt_field de_bool (field_at fs 3);
     timeout_secs \<leftarrow> opt_field (de_uint 64) (field_at fs 4);
     Some (FindInsnsRequest db_handle patterns limit case_insensitive timeout_secs)
   }"

fun ser_FindInsnsRequest :: "FindInsnsRequest \<Rightarrow> json" where
  "ser_FindInsnsRequest (FindInsnsRequest db_handle patterns limit case_insensitive timeout_secs) =
     JObj (ser_skip ''db_handle'' JStr db_handle @
       [(''patterns'', patterns),
        (''limit'', ser_opt JNum limit),
        (''case_insensitive'', ser_opt JBool case_insensitive),
        (''timeout_secs'', ser_opt JNum timeout_secs)])"

fun FindInsnsRequest_ok :: "FindInsnsRequest \<Rightarrow> bool" where
  "FindInsnsRequest_ok (FindInsnsRequest _ _ limit _ timeout_secs) \<longleftrightarrow> pred_option u64_ok limit \<and>
     pred_option u64_ok timeout_secs"

lemma FindInsnsRequest_roundtrip [de_roundtrip]: "FindInsnsRequest_ok r \<Longrightarrow> de_FindInsnsRequest (ser_FindInsnsRequest r) = Some r"
  by (cases r) (simp add: de_FindInsnsRequest_def serde_eval)

datatype FindInsnOperandsRequest =
  FindInsnOperandsRequest "string option" json "nat option" "bool option" "nat option"

definition de_FindInsnOperandsRequest :: "json \<Rightarrow> FindInsnOperandsRequest option" where
  "de_FindInsnOperandsRequest v = do {
     fs \<leftarrow> struct_fields
       [default_field [''db_handle''],
        plain_field [''patterns'', ''pattern'', ''query'', ''queries'', ''operands''],
        plain_field [''limit'', ''count''],
        plain_field [''case_insensitive''],
        plain_field [''timeout_secs'']] v;
     db_handle \<leftarrow> opt_field de_string (field_at fs 0);
     patterns \<leftarrow> req_field de_value (field_at fs 1);
     limit \<leftarrow> opt_field (de_uint 64) (field_at fs 2);
     case_insensitive \<leftarrow> opt_field de_bool (field_at fs 3);
     timeout_secs \<leftarrow> opt_field (de_uint 64) (field_at fs 4);
     Some (FindInsnOperandsRequest db_handle patterns limit case_insensitive timeout_secs)
   }"

fun ser_FindInsnOperandsRequest :: "FindInsnOperandsRequest \<Rightarrow> json" where
  "ser_FindInsnOperandsRequest (FindInsnOperandsRequest db_handle patterns limit case_insensitive timeout_secs) =
     JObj (ser_skip ''db_handle'' JStr db_handle @
       [(''patterns'', patterns),
        (''limit'', ser_opt JNum limit),
        (''case_insensitive'', ser_opt JBool case_insensitive),
        (''timeout_secs'', ser_opt JNum timeout_secs)])"

fun FindInsnOperandsRequest_ok :: "FindInsnOperandsRequest \<Rightarrow> bool" where
  "FindInsnOperandsRequest_ok (FindInsnOperandsRequest _ _ limit _ timeout_secs) \<longleftrightarrow> pred_option u64_ok limit \<and>
     pred_option u64_ok timeout_secs"

lemma FindInsnOperandsRequest_roundtrip [de_roundtrip]: "FindInsnOperandsRequest_ok r \<Longrightarrow> de_FindInsnOperandsRequest (ser_FindInsnOperandsRequest r) = Some r"
  by (cases r) (simp add: de_FindInsnOperandsRequest_def serde_eval)

datatype FindPathsRequest =
  FindPathsRequest "string option" json json "nat option" "nat option"

definition de_FindPathsRequest :: "json \<Rightarrow> FindPathsRequest option" where
  "de_FindPathsRequest v = do {
     fs \<leftarrow> struct_fields
       [default_field [''db_handle''],
        plain_field [''start''],
        plain_field [''end''],
        plain_field [''max_paths''],
        plain_field [''max_depth'']] v;
     db_handle \<leftarrow> opt_field de_string (field_at fs 0);
     start \<leftarrow> req_field de_value (field_at fs 1);
     end_at \<leftarrow> req_field de_value (field_at fs 2);
     max_paths \<leftarrow> opt_field (de_uint 64) (field_at fs 3);
     max_depth \<leftarrow> opt_field (de_uint 64) (field_at fs 4);
     Some (FindPathsRequest db_handle start end_at max_paths max_depth)
   }"

fun ser_FindPathsRequest :: "FindPathsRequest \<Rightarrow> json" where
  "ser_FindPathsRequest (FindPathsRequest db_handle start end_at max_paths max_depth) =
     JObj (ser_skip ''db_handle'' JStr db_handle @
       [(''start'', start),
        (''end'', end_at),
        (''max_paths'', ser_opt JNum max_paths),
        (''max_depth'', ser_opt JNum max_depth)])"

fun FindPathsRequest_ok :: "FindPathsRequest \<Rightarrow> bool" where
  "FindPathsRequest_ok (FindPathsRequest _ _ _ max_paths max_depth) \<longleftrightarrow> pred_option u64_ok max_paths \<and>
     pred_option u64_ok max_depth"

lemma FindPathsRequest_roundtrip [de_roundtrip]: "FindPathsRequest_ok r \<Longrightarrow> de_FindPathsRequest (ser_FindPathsRequest r) = Some r"
  by (cases r) (simp add: de_FindPathsRequest_def serde_eval)

datatype CallGraphRequest =
  CallGraphRequest "string option" json "nat option" "nat option"

definition de_CallGraphRequest :: "json \<Rightarrow> CallGraphRequest option" where
  "de_CallGraphRequest v = do {
     fs \<leftarrow> struct_fields
       [default_field [''db_handle''],
        plain_field [''roots'', ''root'', ''addr'', ''address'', ''addrs''],
        plain_field [''max_depth''],
        plain_field [''max_nodes'']] v;
     db_handle \<leftarrow> opt_field de_string (field_at fs 0);
     roots \<leftarrow> req_field de_value (field_at fs 1);
     max_depth \<leftarrow> opt_field (de_uint 64) (field_at fs 2);
     max_nodes \<leftarrow> opt_field (de_uint 64) (field_at fs 3);
     Some (CallGraphRequest db_handle roots max_depth max_nodes)
   }"

fun ser_CallGraphRequest :: "CallGraphRequest \<Rightarrow> json" where
  "ser_CallGraphRequest (CallGraphRequest db_handle roots max_depth max_nodes) =
     JObj (ser_skip ''db_handle'' JStr db_handle @
       [(''roots'', roots),
        (''max_depth'', ser_opt JNum max_depth),
        (''max_nodes'', ser_opt JNum max_nodes)])"

fun CallGraphRequest_ok :: "CallGraphRequest \<Rightarrow> bool" where
  "CallGraphRequest_ok (CallGraphRequest _ _ max_depth max_nodes) \<longleftrightarrow> pred_option u64_ok max_depth \<and>
     pred_option u64_ok max_nodes"

lemma CallGraphRequest_roundtrip [de_roundtrip]: "CallGraphRequest_ok r \<Longrightarrow> de_CallGraphRequest (ser_CallGraphRequest r) = Some r"
  by (cases r) (simp add: de_CallGraphRequest_def serde_eval)

datatype XrefMatrixRequest =
  XrefMatrixRequest "string option" json

definition de_XrefMatrixRequest :: "json \<Rightarrow> XrefMatrixRequest option" where
  "de_XrefMatrixRequest v = do {
     fs \<leftarrow> struct_fields
       [default_field [''db_handle''],
        plain_field [''addrs'', ''addr'', ''address'', ''addresses'']] v;
     db_handle \<leftarrow> opt_field de_string (field_at fs 0);
     addrs \<leftarrow> req_field de_value (field_at fs 1);
     Some (XrefMatrixRequest db_handle addrs)
   }"

datatype ExportFuncsRequest =
  ExportFuncsRequest "string option" "json option" "nat option" "nat option" "string option"

definition de_ExportFuncsRequest :: "json \<Rightarrow> ExportFuncsRequest option" where
  "de_ExportFuncsRequest v = do {
     fs \<leftarrow> struct_fields
       [default_field [''db_handle''],
        plain_field [''addrs'', ''addr'', ''address'', ''functions''],
        plain_field [''offset''],
        plain_field [''limit'', ''count''],
        plain_field [''format'']] v;
     db_handle \<leftarrow> opt_field de_string (field_at fs 0);
     addrs \<leftarrow> opt_field de_value (field_at fs 1);
     offset \<leftarrow> opt_field (de_uint 64) (field_at fs 2);
     limit \<leftarrow> opt_field (de_uint 64) (field_at fs 3);
     format \<leftarrow> opt_field de_string (field_at fs 4);
     Some (ExportFuncsRequest db_handle addrs offset limit format)
   }"

datatype GetStringRequest =
  GetStringRequest "string option" json "nat option"

definition de_GetStringRequest :: "json \<Rightarrow> GetStringRequest option" where
  "de_GetStringRequest v = do {
     fs \<leftarrow> struct_fields
       [default_field [''db_handle''],
        plain_field [''address'', ''addrs'', ''addr'', ''addresses''],
        plain_field [''max_len'']] v;
     db_handle \<leftarrow> opt_field de_string (field_at fs 0);
     address \<leftarrow> req_field de_value (field_at fs 1);
     max_len \<leftarrow> opt_field (de_uint 64) (field_at fs 2);
     Some (GetStringRequest db_handle address max_len)
   }"

datatype GetGlobalValueRequest =
  GetGlobalValueRequest "string option" json

definition de_GetGlobalValueRequest :: "json \<Rightarrow> GetGlobalValueRequest option" where
  "de_GetGlobalValueRequest v = do {
     fs \<leftarrow> struct_fields
       [default_field [''db_handle''],
        plain_field [''query'', ''queries'', ''names'', ''addrs'']] v;
     db_handle \<leftarrow> opt_field de_string (field_at fs 0);
     query \<leftarrow> req_field de_value (field_at fs 1);
     Some (GetGlobalValueRequest db_handle query)
   }"

datatype IntConvertRequest =
  IntConvertRequest json

definition de_IntConvertRequest :: "json \<Rightarrow> IntConvertRequest option" where
  "de_IntConvertRequest v = do {
     fs \<leftarrow> struct_fields
       [plain_field [''inputs'', ''input'']] v;
     inputs \<leftarrow> req_field de_value (field_at fs 0);
     Some (IntConvertRequest inputs)
   }"

datatype PseudocodeAtRequest =
  PseudocodeAtRequest "string option" json "string option"

definition de_PseudocodeAtRequest :: "json \<Rightarrow> PseudocodeAtRequest option" where
  "de_PseudocodeAtRequest v = do {
     fs \<leftarrow> struct_fields
       [default_field [''db_handle''],
        plain_field [''address'', ''addrs'', ''addr'', ''addresses''],
        plain_field [''end_address'']] v;
     db_handle \<leftarrow> opt_field de_string (field_at fs 0);
     address \<leftarrow> req_field de_value (field_at fs 1);
     end_address \<leftarrow> opt_field de_string (field_at fs 2);
     Some (PseudocodeAtRequest db_handle address end_address)
   }"

datatype RunScriptRequest =
  RunScriptRequest "string option" "string option" "string option" "nat option"

definition de_RunScriptRequest :: "json \<Rightarrow> RunScriptRequest option" where
  "de_RunScriptRequest v = do {
     fs \<leftarrow> struct_fields
       [default_field [''db_handle''],
        plain_field [''code''],
        plain_field [''file''],
        plain_field [''timeout_secs'']] v;
     db_handle \<leftarrow> opt_field de_string (field_at fs 0);
     code \<leftarrow> opt_field de_string (field_at fs 1);
     file \<leftarrow> opt_field de_string (field_at fs 2);
     timeout_secs \<leftarrow> opt_field (de_uint 64) (field_at fs 3);
     Some (RunScriptRequest db_handle code file timeout_secs)
   }"

end
