(* ===== verification/Rpc_Dispatch.thy ===== *)
theory Rpc_Dispatch
  imports Addresses Requests Tool_Registry Worker_Calls Worker_Table
begin

text \<open>
  The dispatcher of \<open>src/rpc_dispatch.rs\<close>: from a method name and a JSON parameter to calls of
  the worker. There is one definition per arm of the \<open>match\<close>, \<open>rpc_arms\<close> lists the arms in the order
  of the source and \<open>dispatch_rpc\<close> selects one after resolving an alias. The printer and parser
  of \<open>serde_json\<close>, the texts of serde's errors and the double-precision ratio of the diff are
  the fields of \<open>host\<close>. The additions of the table scan wrap around, as a release build does.
\<close>

record host =
  to_text :: "json \<Rightarrow> string"
  from_text :: "string \<Rightarrow> json option"
  de_error :: "string \<Rightarrow> json \<Rightarrow> string"
  percent_ratio :: "nat \<Rightarrow> nat \<Rightarrow> rat"

type_synonym 'w rpc = "('w, ToolError + json) state"

subsection \<open>Parameters\<close>

definition parse_params :: "host \<Rightarrow> string \<Rightarrow> (json \<Rightarrow> 'a option) \<Rightarrow> json \<Rightarrow> ToolError + 'a" where
  "parse_params h type_name de p =
     (case de p of
        Some req \<Rightarrow> Inr req
      | None \<Rightarrow> Inl (InvalidParams (''invalid params: '' @ de_error h type_name p)))"

text \<open>The \<open>?\<close> operator after a step that makes no call.\<close>

definition try_then :: "ToolError + 'a \<Rightarrow> ('a \<Rightarrow> 'w rpc) \<Rightarrow> 'w rpc" where
  "try_then r k = (case r of Inl e \<Rightarrow> State_Monad.return (Inl e) | Inr x \<Rightarrow> k x)"

definition address_or_zero :: "json \<Rightarrow> nat" where
  "address_or_zero v = unwrap_or (parse_address_value v) 0"

definition opt_address :: "json option \<Rightarrow> nat option" where
  "opt_address v = Option.bind v parse_address_value"

definition str_field :: "json \<Rightarrow> string \<Rightarrow> string option" where
  "str_field p k = as_str (json_index p k)"

definition bool_field :: "json \<Rightarrow> string \<Rightarrow> bool \<Rightarrow> bool" where
  "bool_field p k d = unwrap_or (as_bool (json_index p k)) d"

definition u64_field :: "json \<Rightarrow> string \<Rightarrow> nat option" where
  "u64_field p k = as_u64 (json_index p k)"

text \<open>The patterns of a search: an array of strings, the text of one, or a single string.\<close>

definition parse_patterns :: "host \<Rightarrow> json \<Rightarrow> string list" where
  "parse_patterns h v =
     (case as_array v of
        Some arr \<Rightarrow> List.map_filter as_str arr
      | None \<Rightarrow>
          (case as_str v of
             None \<Rightarrow> []
           | Some s \<Rightarrow>
               if starts_with ''['' (trim s)
               then (case from_text h s of Some (JArr arr) \<Rightarrow> List.map_filter as_str arr | _ \<Rightarrow> [s])
               else [s]))"

subsection \<open>Database management\<close>

definition rpc_open :: "host \<Rightarrow> 'w worker \<Rightarrow> json \<Rightarrow> 'w rpc" where
  "rpc_open h w p =
     value_call w (Session (w_open
       (unwrap_or (str_field p ''path'') '''')
       (bool_field p ''load_debug_info'' False)
       (str_field p ''debug_info_path'')
       (bool_field p ''debug_info_verbose'' False)
       (bool_field p ''force'' False)
       (str_field p ''file_type'')
       (bool_field p ''auto_analyse'' True)
       (parse_string_list (json_index p ''extra_args''))))"

definition ok_json :: json where
  "ok_json = JObj [(''ok'', JBool True)]"

definition rpc_close :: "host \<Rightarrow> 'w worker \<Rightarrow> json \<Rightarrow> 'w rpc" where
  "rpc_close h w p = map_state (map_sum (\<lambda>e. e) (\<lambda>_. ok_json)) (unit_call w w_close)"

definition rpc_shutdown :: "host \<Rightarrow> 'w worker \<Rightarrow> json \<Rightarrow> 'w rpc" where
  "rpc_shutdown h w p = map_state (map_sum (\<lambda>e. e) (\<lambda>_. ok_json)) (unit_call w w_shutdown)"

definition rpc_load_debug_info :: "host \<Rightarrow> 'w worker \<Rightarrow> json \<Rightarrow> 'w rpc" where
  "rpc_load_debug_info h w p =
     try_then (parse_params h ''LoadDebugInfoRequest'' de_LoadDebugInfoRequest p) (\<lambda>req.
       case req of LoadDebugInfoRequest db_handle path verbose \<Rightarrow>
         value_call w (Session (w_load_debug_info path (unwrap_or verbose False))))"

definition rpc_get_analysis_status :: "host \<Rightarrow> 'w worker \<Rightarrow> json \<Rightarrow> 'w rpc" where
  "rpc_get_analysis_status h w p = value_call w (Session w_analysis_status)"

subsection \<open>Functions\<close>

definition rpc_list_functions :: "host \<Rightarrow> 'w worker \<Rightarrow> json \<Rightarrow> 'w rpc" where
  "rpc_list_functions h w p =
     try_then (parse_params h ''ListFunctionsRequest'' de_ListFunctionsRequest p) (\<lambda>req.
       case req of ListFunctionsRequest db_handle offset limit filter_by timeout_secs \<Rightarrow>
         value_call w (Func (w_list_functions (unwrap_or offset 0) (unwrap_or limit 100) filter_by timeout_secs)))"

definition rpc_get_function_by_name :: "host \<Rightarrow> 'w worker \<Rightarrow> json \<Rightarrow> 'w rpc" where
  "rpc_get_function_by_name h w p =
     try_then (parse_params h ''ResolveFunctionRequest'' de_ResolveFunctionRequest p) (\<lambda>req.
       case req of ResolveFunctionRequest db_handle name \<Rightarrow>
         value_call w (Func (w_resolve_function name)))"

definition rpc_get_function_prototype :: "host \<Rightarrow> 'w worker \<Rightarrow> json \<Rightarrow> 'w rpc" where
  "rpc_get_function_prototype h w p =
     value_call w (Func (w_get_function_prototype
       (parse_address_value (json_index p ''address'')) (str_field p ''name'')))"

definition rpc_get_function_at_address :: "host \<Rightarrow> 'w worker \<Rightarrow> json \<Rightarrow> 'w rpc" where
  "rpc_get_function_at_address h w p =
     try_then (parse_params h ''FunctionAtRequest'' de_FunctionAtRequest p) (\<lambda>req.
       case req of FunctionAtRequest db_handle address target_name offset \<Rightarrow>
         value_call w (Func (w_function_at (opt_address address) target_name (unwrap_or offset 0))))"

definition rpc_batch_lookup_functions :: "host \<Rightarrow> 'w worker \<Rightarrow> json \<Rightarrow> 'w rpc" where
  "rpc_batch_lookup_functions h w p =
     try_then (parse_params h ''LookupFuncsRequest'' de_LookupFuncsRequest p) (\<lambda>req.
       case req of LookupFuncsRequest db_handle queries \<Rightarrow>
         value_call w (Func (w_lookup_funcs (parse_string_list queries))))"

definition rpc_export_functions :: "host \<Rightarrow> 'w worker \<Rightarrow> json \<Rightarrow> 'w rpc" where
  "rpc_export_functions h w p =
     try_then (parse_params h ''ExportFuncsRequest'' de_ExportFuncsRequest p) (\<lambda>req.
       case req of ExportFuncsRequest db_handle addrs offset limit format \<Rightarrow>
         value_call w (Func (w_export_funcs (unwrap_or offset 0) (unwrap_or limit 100))))"

subsection \<open>Disassembly and decompilation\<close>

definition disasm_json :: "string \<Rightarrow> json" where
  "disasm_json text = JObj [(''disasm'', JStr text)]"

text \<open>One entry of a request for several addresses: the text under \<open>key\<close>, or the error.\<close>

definition address_entry :: "string \<Rightarrow> nat \<Rightarrow> ToolError + string \<Rightarrow> json" where
  "address_entry key addr r =
     JObj [(''address'', JStr (fmt_hex_alt addr)),
           (case r of Inr text \<Rightarrow> (key, JStr text) | Inl e \<Rightarrow> (''error'', JStr (tool_error_to_string e)))]"

definition rpc_disassemble :: "host \<Rightarrow> 'w worker \<Rightarrow> json \<Rightarrow> 'w rpc" where
  "rpc_disassemble h w p =
     try_then (parse_params h ''DisasmRequest'' de_DisasmRequest p) (\<lambda>req.
       case req of DisasmRequest db_handle address count_of \<Rightarrow>
         try_then (parse_address_values (to_text h) address) (\<lambda>addrs.
           let n = unwrap_or count_of 10 in
           if length addrs = 1
           then map_state (map_sum (\<lambda>e. e) disasm_json) (text_call w (w_disasm (hd addrs) n))
           else do {
             results \<leftarrow> traverse_list
               (\<lambda>addr. map_state (address_entry ''disasm'' addr) (text_call w (w_disasm addr n))) addrs;
             State_Monad.return (Inr (JObj [(''results'', JArr results)]))
           }))"

definition rpc_disassemble_function :: "host \<Rightarrow> 'w worker \<Rightarrow> json \<Rightarrow> 'w rpc" where
  "rpc_disassemble_function h w p =
     try_then (parse_params h ''DisasmByNameRequest'' de_DisasmByNameRequest p) (\<lambda>req.
       case req of DisasmByNameRequest db_handle name count_of \<Rightarrow>
         map_state (map_sum (\<lambda>e. e) disasm_json)
           (text_call w (w_disasm_by_name name (unwrap_or count_of 10))))"

definition rpc_disassemble_function_at :: "host \<Rightarrow> 'w worker \<Rightarrow> json \<Rightarrow> 'w rpc" where
  "rpc_disassemble_function_at h w p =
     try_then (parse_params h ''DisasmFunctionAtRequest'' de_DisasmFunctionAtRequest p) (\<lambda>req.
       case req of DisasmFunctionAtRequest db_handle address target_name offset count_of \<Rightarrow>
         map_state (map_sum (\<lambda>e. e) disasm_json)
           (text_call w (w_disasm_function_at (opt_address address) target_name (unwrap_or offset 0) (unwrap_or count_of 200))))"

definition is_signature_line :: "string \<Rightarrow> bool" where
  "is_signature_line line =
     (let t = trim line in
      t \<noteq> [] \<and> \<not> starts_with ''//'' t \<and> \<not> starts_with ''/*'' t \<and> contains t ''('')"

definition has_unknown_name :: "string \<Rightarrow> bool" where
  "has_unknown_name r =
     (case find is_signature_line (str_lines r) of
        Some sig \<Rightarrow> contains sig ''sub_'' \<or> contains sig ''nullsub_'' \<or> contains sig ''j_sub_''
      | None \<Rightarrow> False)"

definition rename_hint :: string where
  \<open>rename_hint =
     [CHR 0xF0, CHR 0x9F, CHR 0x92, CHR 0xA1] @ '' If you understand this function'' @ [CHR 0x27] @
     ''s purpose, immediately call rename_symbol to rename it before proceeding.'' @ [CHR 0x0A, CHR 0x0A]\<close>

definition code_json :: "string \<Rightarrow> json" where
  "code_json r = JObj [(''code'', JStr (if has_unknown_name r then rename_hint @ r else r))]"

definition rpc_decompile_function :: "host \<Rightarrow> 'w worker \<Rightarrow> json \<Rightarrow> 'w rpc" where
  "rpc_decompile_function h w p =
     try_then (parse_params h ''DecompileRequest'' de_DecompileRequest p) (\<lambda>req.
       case req of DecompileRequest db_handle address \<Rightarrow>
         try_then (parse_address_values (to_text h) address) (\<lambda>addrs.
           if length addrs = 1
           then map_state (map_sum (\<lambda>e. e) code_json) (text_call w (w_decompile (hd addrs)))
           else do {
             results \<leftarrow> traverse_list
               (\<lambda>addr. map_state (address_entry ''code'' addr) (text_call w (w_decompile addr))) addrs;
             State_Monad.return (Inr (JObj [(''results'', JArr results)]))
           }))"

definition rpc_get_pseudocode_at :: "host \<Rightarrow> 'w worker \<Rightarrow> json \<Rightarrow> 'w rpc" where
  "rpc_get_pseudocode_at h w p =
     try_then (parse_params h ''PseudocodeAtRequest'' de_PseudocodeAtRequest p) (\<lambda>req.
       case req of PseudocodeAtRequest db_handle address end_address \<Rightarrow>
         value_call w (Func (w_pseudocode_at (address_or_zero address)
           (Option.bind end_address (\<lambda>s. parse_address_value (JStr s))))))"

subsection \<open>Segments and strings\<close>

definition rpc_list_segments :: "host \<Rightarrow> 'w worker \<Rightarrow> json \<Rightarrow> 'w rpc" where
  "rpc_list_segments h w p = value_call w (Session w_segments)"

definition rpc_list_strings :: "host \<Rightarrow> 'w worker \<Rightarrow> json \<Rightarrow> 'w rpc" where
  "rpc_list_strings h w p =
     (let query = (case str_field p ''query'' of Some q \<Rightarrow> Some q | None \<Rightarrow> str_field p ''filter'');
          exact = bool_field p ''exact'' False;
          case_insensitive = bool_field p ''case_insensitive'' True;
          offset = unwrap_or (u64_field p ''offset'') 0;
          limit = unwrap_or (u64_field p ''limit'') 100;
          timeout = u64_field p ''timeout_secs''
      in case query of
           Some q \<Rightarrow> value_call w (Find (w_find_string q exact case_insensitive offset limit timeout))
         | None \<Rightarrow> value_call w (Find (w_strings offset limit None timeout)))"

definition rpc_get_xrefs_to_string :: "host \<Rightarrow> 'w worker \<Rightarrow> json \<Rightarrow> 'w rpc" where
  "rpc_get_xrefs_to_string h w p =
     try_then (parse_params h ''XrefsToStringRequest'' de_XrefsToStringRequest p) (\<lambda>req.
       case req of XrefsToStringRequest db_handle query exact case_insensitive offset limit max_xrefs timeout_secs \<Rightarrow>
         value_call w (Find (w_xrefs_to_string query (unwrap_or exact False) (unwrap_or case_insensitive True) (unwrap_or offset 0)
           (unwrap_or limit 100) (unwrap_or max_xrefs 10) timeout_secs)))"

subsection \<open>Types\<close>

definition rpc_list_local_types :: "host \<Rightarrow> 'w worker \<Rightarrow> json \<Rightarrow> 'w rpc" where
  "rpc_list_local_types h w p =
     try_then (parse_params h ''LocalTypesRequest'' de_LocalTypesRequest p) (\<lambda>req.
       case req of LocalTypesRequest db_handle offset limit filter_by timeout_secs \<Rightarrow>
         value_call w (Type (w_local_types (unwrap_or offset 0) (unwrap_or limit 100) filter_by timeout_secs)))"

definition rpc_declare_c_type :: "host \<Rightarrow> 'w worker \<Rightarrow> json \<Rightarrow> 'w rpc" where
  "rpc_declare_c_type h w p =
     try_then (parse_params h ''DeclareTypeRequest'' de_DeclareTypeRequest p) (\<lambda>req.
       case req of DeclareTypeRequest db_handle decl relaxed replace multi \<Rightarrow>
         value_call w (Type (w_declare_type decl (unwrap_or relaxed False) (unwrap_or replace False) (unwrap_or multi False))))"

definition rpc_apply_type :: "host \<Rightarrow> 'w worker \<Rightarrow> json \<Rightarrow> 'w rpc" where
  "rpc_apply_type h w p =
     try_then (parse_params h ''ApplyTypesRequest'' de_ApplyTypesRequest p) (\<lambda>req.
       case req of ApplyTypesRequest db_handle address target_name offset stack_offset stack_name type_name decl relaxed delay strict \<Rightarrow>
         value_call w (Type (w_apply_types (opt_address address) target_name (unwrap_or offset 0) stack_offset stack_name decl
           type_name (unwrap_or relaxed False) (unwrap_or delay False) (unwrap_or strict False))))"

definition rpc_infer_type :: "host \<Rightarrow> 'w worker \<Rightarrow> json \<Rightarrow> 'w rpc" where
  "rpc_infer_type h w p =
     try_then (parse_params h ''InferTypesRequest'' de_InferTypesRequest p) (\<lambda>req.
       case req of InferTypesRequest db_handle address target_name offset \<Rightarrow>
         value_call w (Type (w_infer_types (opt_address address) target_name (unwrap_or offset 0))))"

definition rpc_set_function_prototype :: "host \<Rightarrow> 'w worker \<Rightarrow> json \<Rightarrow> 'w rpc" where
  "rpc_set_function_prototype h w p =
     try_then (parse_params h ''SetFunctionPrototypeRequest'' de_SetFunctionPrototypeRequest p) (\<lambda>req.
       case req of SetFunctionPrototypeRequest db_handle address name prototype \<Rightarrow>
         value_call w (Type (w_set_function_prototype (opt_address address) name prototype)))"

definition rpc_rename_stack_variable :: "host \<Rightarrow> 'w worker \<Rightarrow> json \<Rightarrow> 'w rpc" where
  "rpc_rename_stack_variable h w p =
     try_then (parse_params h ''RenameStackVariableRequest'' de_RenameStackVariableRequest p) (\<lambda>req.
       case req of RenameStackVariableRequest func_address func_name name new_name db_handle \<Rightarrow>
         value_call w (Edit (w_rename_stack_variable (opt_address func_address) func_name name new_name)))"

definition rpc_set_stack_variable_type :: "host \<Rightarrow> 'w worker \<Rightarrow> json \<Rightarrow> 'w rpc" where
  "rpc_set_stack_variable_type h w p =
     try_then (parse_params h ''SetStackVariableTypeRequest'' de_SetStackVariableTypeRequest p) (\<lambda>req.
       case req of SetStackVariableTypeRequest func_address func_name name type_decl db_handle \<Rightarrow>
         value_call w (Edit (w_set_stack_variable_type (opt_address func_address) func_name name type_decl)))"

definition rpc_list_enums :: "host \<Rightarrow> 'w worker \<Rightarrow> json \<Rightarrow> 'w rpc" where
  "rpc_list_enums h w p =
     try_then (parse_params h ''ListEnumsRequest'' de_ListEnumsRequest p) (\<lambda>req.
       case req of ListEnumsRequest filter_by offset limit db_handle \<Rightarrow>
         value_call w (Type (w_list_enums filter_by (unwrap_or offset 0) (unwrap_or limit 100))))"

definition rpc_create_enum :: "host \<Rightarrow> 'w worker \<Rightarrow> json \<Rightarrow> 'w rpc" where
  "rpc_create_enum h w p =
     try_then (parse_params h ''CreateEnumRequest'' de_CreateEnumRequest p) (\<lambda>req.
       case req of CreateEnumRequest decl replace db_handle \<Rightarrow>
         value_call w (Type (w_create_enum decl (unwrap_or replace False))))"

subsection \<open>Addresses, stack frames and structs\<close>

definition rpc_get_address_info :: "host \<Rightarrow> 'w worker \<Rightarrow> json \<Rightarrow> 'w rpc" where
  "rpc_get_address_info h w p =
     try_then (parse_params h ''AddrInfoRequest'' de_AddrInfoRequest p) (\<lambda>req.
       case req of AddrInfoRequest db_handle address target_name offset \<Rightarrow>
         value_call w (Func (w_addr_info (opt_address address) target_name (unwrap_or offset 0))))"

definition rpc_create_stack_variable :: "host \<Rightarrow> 'w worker \<Rightarrow> json \<Rightarrow> 'w rpc" where
  "rpc_create_stack_variable h w p =
     try_then (parse_params h ''DeclareStackRequest'' de_DeclareStackRequest p) (\<lambda>req.
       case req of DeclareStackRequest db_handle address target_name offset var_name decl relaxed \<Rightarrow>
         value_call w (Edit (w_declare_stack (opt_address address) target_name offset var_name decl (unwrap_or relaxed False))))"

definition rpc_delete_stack_variable :: "host \<Rightarrow> 'w worker \<Rightarrow> json \<Rightarrow> 'w rpc" where
  "rpc_delete_stack_variable h w p =
     try_then (parse_params h ''DeleteStackRequest'' de_DeleteStackRequest p) (\<lambda>req.
       case req of DeleteStackRequest db_handle address target_name offset var_name \<Rightarrow>
         value_call w (Edit (w_delete_stack (opt_address address) target_name offset var_name)))"

definition rpc_get_stack_frame :: "host \<Rightarrow> 'w worker \<Rightarrow> json \<Rightarrow> 'w rpc" where
  "rpc_get_stack_frame h w p =
     try_then (parse_params h ''AddressRequest'' de_AddressRequest p) (\<lambda>req.
       case req of AddressRequest db_handle address \<Rightarrow>
         value_call w (Data (w_stack_frame (address_or_zero address))))"

definition rpc_list_structs :: "host \<Rightarrow> 'w worker \<Rightarrow> json \<Rightarrow> 'w rpc" where
  "rpc_list_structs h w p =
     try_then (parse_params h ''StructsRequest'' de_StructsRequest p) (\<lambda>req.
       case req of StructsRequest db_handle offset limit filter_by timeout_secs \<Rightarrow>
         value_call w (Type (w_structs (unwrap_or offset 0) (unwrap_or limit 100) filter_by timeout_secs)))"

definition rpc_get_struct_info :: "host \<Rightarrow> 'w worker \<Rightarrow> json \<Rightarrow> 'w rpc" where
  "rpc_get_struct_info h w p =
     try_then (parse_params h ''StructInfoRequest'' de_StructInfoRequest p) (\<lambda>req.
       case req of StructInfoRequest db_handle ordinal name \<Rightarrow>
         value_call w (Type (w_struct_info ordinal name)))"

definition rpc_read_struct_at_address :: "host \<Rightarrow> 'w worker \<Rightarrow> json \<Rightarrow> 'w rpc" where
  "rpc_read_struct_at_address h w p =
     try_then (parse_params h ''ReadStructRequest'' de_ReadStructRequest p) (\<lambda>req.
       case req of ReadStructRequest db_handle address ordinal name \<Rightarrow>
         value_call w (Type (w_read_struct (address_or_zero address) ordinal name)))"

subsection \<open>Cross-references, imports and memory\<close>

definition rpc_get_xrefs_to :: "host \<Rightarrow> 'w worker \<Rightarrow> json \<Rightarrow> 'w rpc" where
  "rpc_get_xrefs_to h w p =
     try_then (parse_params h ''AddressRequest'' de_AddressRequest p) (\<lambda>req.
       case req of AddressRequest db_handle address \<Rightarrow>
         value_call w (Data (w_xrefs_to (address_or_zero address))))"

definition rpc_get_xrefs_from :: "host \<Rightarrow> 'w worker \<Rightarrow> json \<Rightarrow> 'w rpc" where
  "rpc_get_xrefs_from h w p =
     try_then (parse_params h ''AddressRequest'' de_AddressRequest p) (\<lambda>req.
       case req of AddressRequest db_handle address \<Rightarrow>
         value_call w (Data (w_xrefs_from (address_or_zero address))))"

definition rpc_get_xrefs_to_struct_field :: "host \<Rightarrow> 'w worker \<Rightarrow> json \<Rightarrow> 'w rpc" where
  "rpc_get_xrefs_to_struct_field h w p =
     try_then (parse_params h ''XrefsToFieldRequest'' de_XrefsToFieldRequest p) (\<lambda>req.
       case req of XrefsToFieldRequest db_handle ordinal name member_index member_name limit \<Rightarrow>
         value_call w (Data (w_xrefs_to_field ordinal name member_index member_name (unwrap_or limit 100))))"

definition rpc_list_imports :: "host \<Rightarrow> 'w worker \<Rightarrow> json \<Rightarrow> 'w rpc" where
  "rpc_list_imports h w p =
     try_then (parse_params h ''PaginatedRequest'' de_PaginatedRequest p) (\<lambda>req.
       case req of PaginatedRequest db_handle offset limit \<Rightarrow>
         value_call w (Session (w_imports (unwrap_or offset 0) (unwrap_or limit 100))))"

definition rpc_list_exports :: "host \<Rightarrow> 'w worker \<Rightarrow> json \<Rightarrow> 'w rpc" where
  "rpc_list_exports h w p =
     try_then (parse_params h ''PaginatedRequest'' de_PaginatedRequest p) (\<lambda>req.
       case req of PaginatedRequest db_handle offset limit \<Rightarrow>
         value_call w (Session (w_exports (unwrap_or offset 0) (unwrap_or limit 100))))"

definition rpc_list_entry_points :: "host \<Rightarrow> 'w worker \<Rightarrow> json \<Rightarrow> 'w rpc" where
  "rpc_list_entry_points h w p = value_call w (Session w_entrypoints)"

definition rpc_read_bytes :: "host \<Rightarrow> 'w worker \<Rightarrow> json \<Rightarrow> 'w rpc" where
  "rpc_read_bytes h w p =
     try_then (parse_params h ''GetBytesRequest'' de_GetBytesRequest p) (\<lambda>req.
       case req of GetBytesRequest db_handle address target_name offset size_of \<Rightarrow>
         map_state (map_sum (\<lambda>e. e) ser_BytesResult)
           (get_bytes w (opt_address address) target_name (unwrap_or offset 0) (unwrap_or size_of 16)))"

definition rpc_read_int :: "host \<Rightarrow> 'w worker \<Rightarrow> json \<Rightarrow> 'w rpc" where
  "rpc_read_int h w p =
     (let addr = (case parse_address_value (json_index p ''address'') of
                    Some a \<Rightarrow> a
                  | None \<Rightarrow> unwrap_or (parse_address_value (json_index p ''addr'')) 0);
          size_of = unwrap_or (u64_field p ''size'') 4
      in value_call w (Data (w_read_int addr size_of)))"

definition rpc_read_string :: "host \<Rightarrow> 'w worker \<Rightarrow> json \<Rightarrow> 'w rpc" where
  "rpc_read_string h w p =
     try_then (parse_params h ''GetStringRequest'' de_GetStringRequest p) (\<lambda>req.
       case req of GetStringRequest db_handle address max_len \<Rightarrow>
         value_call w (Data (w_get_string (address_or_zero address) (unwrap_or max_len 1024))))"

definition rpc_read_global_variable :: "host \<Rightarrow> 'w worker \<Rightarrow> json \<Rightarrow> 'w rpc" where
  "rpc_read_global_variable h w p =
     try_then (parse_params h ''GetGlobalValueRequest'' de_GetGlobalValueRequest p) (\<lambda>req.
       case req of GetGlobalValueRequest db_handle query \<Rightarrow>
         value_call w (Data (w_get_global_value
           (case query of JStr s \<Rightarrow> s | other \<Rightarrow> to_text h other))))"

subsection \<open>Annotations and patching\<close>

definition rpc_set_comment :: "host \<Rightarrow> 'w worker \<Rightarrow> json \<Rightarrow> 'w rpc" where
  "rpc_set_comment h w p =
     try_then (parse_params h ''SetCommentsRequest'' de_SetCommentsRequest p) (\<lambda>req.
       case req of SetCommentsRequest db_handle address target_name offset comment repeatable \<Rightarrow>
         value_call w (Edit (w_set_comments (opt_address address) target_name (unwrap_or offset 0) comment (unwrap_or repeatable False))))"

definition rpc_set_function_comment :: "host \<Rightarrow> 'w worker \<Rightarrow> json \<Rightarrow> 'w rpc" where
  "rpc_set_function_comment h w p =
     try_then (parse_params h ''SetFunctionCommentRequest'' de_SetFunctionCommentRequest p) (\<lambda>req.
       case req of SetFunctionCommentRequest db_handle address name comment repeatable \<Rightarrow>
         value_call w (Edit (w_set_function_comment (opt_address address) name comment (unwrap_or repeatable False))))"

definition rpc_rename_symbol :: "host \<Rightarrow> 'w worker \<Rightarrow> json \<Rightarrow> 'w rpc" where
  "rpc_rename_symbol h w p =
     try_then (parse_params h ''RenameRequest'' de_RenameRequest p) (\<lambda>req.
       case req of RenameRequest db_handle address current_name name flags \<Rightarrow>
         value_call w (Edit (w_rename (opt_address address) current_name name (unwrap_or flags 0))))"

definition rpc_batch_rename :: "host \<Rightarrow> 'w worker \<Rightarrow> json \<Rightarrow> 'w rpc" where
  "rpc_batch_rename h w p =
     try_then (parse_params h ''BatchRenameRequest'' de_BatchRenameRequest p) (\<lambda>req.
       case req of BatchRenameRequest db_handle renames \<Rightarrow>
         value_call w (Edit (w_batch_rename (map (\<lambda>e.
           case e of BatchRenameEntry address current_name new_name \<Rightarrow>
             (opt_address address, current_name, new_name)) renames))))"

definition rpc_rename_local_variable :: "host \<Rightarrow> 'w worker \<Rightarrow> json \<Rightarrow> 'w rpc" where
  "rpc_rename_local_variable h w p =
     try_then (parse_params h ''RenameLvarRequest'' de_RenameLvarRequest p) (\<lambda>req.
       case req of RenameLvarRequest db_handle func_address lvar_name new_name \<Rightarrow>
         value_call w (Edit (w_rename_lvar (address_or_zero func_address) lvar_name new_name)))"

definition rpc_set_local_variable_type :: "host \<Rightarrow> 'w worker \<Rightarrow> json \<Rightarrow> 'w rpc" where
  "rpc_set_local_variable_type h w p =
     try_then (parse_params h ''SetLvarTypeRequest'' de_SetLvarTypeRequest p) (\<lambda>req.
       case req of SetLvarTypeRequest db_handle func_address lvar_name type_str \<Rightarrow>
         value_call w (Edit (w_set_lvar_type (address_or_zero func_address) lvar_name type_str)))"

definition rpc_set_decompiler_comment :: "host \<Rightarrow> 'w worker \<Rightarrow> json \<Rightarrow> 'w rpc" where
  "rpc_set_decompiler_comment h w p =
     try_then (parse_params h ''SetDecompilerCommentRequest'' de_SetDecompilerCommentRequest p) (\<lambda>req.
       case req of SetDecompilerCommentRequest db_handle func_address address itp comment \<Rightarrow>
         value_call w (Edit (w_set_decompiler_comment (address_or_zero func_address) (address_or_zero address)
           (unwrap_or itp 69) comment)))"

definition rpc_patch_bytes :: "host \<Rightarrow> 'w worker \<Rightarrow> json \<Rightarrow> 'w rpc" where
  "rpc_patch_bytes h w p =
     try_then (parse_params h ''PatchRequest'' de_PatchRequest p) (\<lambda>req.
       case req of PatchRequest db_handle address target_name offset bytes \<Rightarrow>
         try_then (parse_patch_bytes bytes) (\<lambda>bs.
           value_call w (Edit (w_patch_bytes (opt_address address) target_name (unwrap_or offset 0) bs))))"

definition rpc_patch_assembly :: "host \<Rightarrow> 'w worker \<Rightarrow> json \<Rightarrow> 'w rpc" where
  "rpc_patch_assembly h w p =
     try_then (parse_params h ''PatchAsmRequest'' de_PatchAsmRequest p) (\<lambda>req.
       case req of PatchAsmRequest db_handle address target_name offset line \<Rightarrow>
         value_call w (Edit (w_patch_asm (opt_address address) target_name (unwrap_or offset 0) line)))"

subsection \<open>Control flow\<close>

definition rpc_get_basic_blocks :: "host \<Rightarrow> 'w worker \<Rightarrow> json \<Rightarrow> 'w rpc" where
  "rpc_get_basic_blocks h w p =
     try_then (parse_params h ''AddressRequest'' de_AddressRequest p) (\<lambda>req.
       case req of AddressRequest db_handle address \<Rightarrow>
         value_call w (Func (w_basic_blocks (address_or_zero address))))"

definition rpc_get_callees :: "host \<Rightarrow> 'w worker \<Rightarrow> json \<Rightarrow> 'w rpc" where
  "rpc_get_callees h w p =
     try_then (parse_params h ''AddressRequest'' de_AddressRequest p) (\<lambda>req.
       case req of AddressRequest db_handle address \<Rightarrow>
         value_call w (Func (w_callees (address_or_zero address))))"

definition rpc_get_callers :: "host \<Rightarrow> 'w worker \<Rightarrow> json \<Rightarrow> 'w rpc" where
  "rpc_get_callers h w p =
     try_then (parse_params h ''AddressRequest'' de_AddressRequest p) (\<lambda>req.
       case req of AddressRequest db_handle address \<Rightarrow>
         value_call w (Func (w_callers (address_or_zero address))))"

definition callgraph_root :: "json \<Rightarrow> nat" where
  "callgraph_root roots =
     (case Option.bind (Option.bind (as_array roots) (\<lambda>rs. case rs of [] \<Rightarrow> None | r # _ \<Rightarrow> Some r))
             parse_address_value of
        Some a \<Rightarrow> a
      | None \<Rightarrow> unwrap_or (parse_address_value roots) 0)"

definition rpc_build_callgraph :: "host \<Rightarrow> 'w worker \<Rightarrow> json \<Rightarrow> 'w rpc" where
  "rpc_build_callgraph h w p =
     try_then (parse_params h ''CallGraphRequest'' de_CallGraphRequest p) (\<lambda>req.
       case req of CallGraphRequest db_handle roots max_depth max_nodes \<Rightarrow>
         value_call w (Func (w_callgraph (callgraph_root roots) (unwrap_or max_depth 5) (unwrap_or max_nodes 100))))"

definition rpc_find_control_flow_paths :: "host \<Rightarrow> 'w worker \<Rightarrow> json \<Rightarrow> 'w rpc" where
  "rpc_find_control_flow_paths h w p =
     try_then (parse_params h ''FindPathsRequest'' de_FindPathsRequest p) (\<lambda>req.
       case req of FindPathsRequest db_handle start end_at max_paths max_depth \<Rightarrow>
         value_call w (Func (w_find_paths (address_or_zero start) (address_or_zero end_at)
           (unwrap_or max_paths 10) (unwrap_or max_depth 10))))"

definition rpc_build_xref_matrix :: "host \<Rightarrow> 'w worker \<Rightarrow> json \<Rightarrow> 'w rpc" where
  "rpc_build_xref_matrix h w p =
     try_then (parse_params h ''XrefMatrixRequest'' de_XrefMatrixRequest p) (\<lambda>req.
       case req of XrefMatrixRequest db_handle addrs \<Rightarrow>
         value_call w (Data (w_xref_matrix
           (case as_array addrs of Some a \<Rightarrow> List.map_filter parse_address_value a | None \<Rightarrow> []))))"

subsection \<open>Metadata and search\<close>

definition rpc_get_database_info :: "host \<Rightarrow> 'w worker \<Rightarrow> json \<Rightarrow> 'w rpc" where
  "rpc_get_database_info h w p = value_call w (Session w_idb_meta)"

definition rpc_list_globals :: "host \<Rightarrow> 'w worker \<Rightarrow> json \<Rightarrow> 'w rpc" where
  "rpc_list_globals h w p =
     try_then (parse_params h ''ListGlobalsRequest'' de_ListGlobalsRequest p) (\<lambda>req.
       case req of ListGlobalsRequest db_handle query offset limit timeout_secs \<Rightarrow>
         value_call w (Find (w_list_globals query (unwrap_or offset 0) (unwrap_or limit 100) timeout_secs)))"

definition rpc_run_auto_analysis :: "host \<Rightarrow> 'w worker \<Rightarrow> json \<Rightarrow> 'w rpc" where
  "rpc_run_auto_analysis h w p =
     try_then (parse_params h ''AnalyzeFuncsRequest'' de_AnalyzeFuncsRequest p) (\<lambda>req.
       case req of AnalyzeFuncsRequest db_handle timeout_secs \<Rightarrow>
         value_call w (Session (w_analyze_funcs timeout_secs)))"

definition matches_json :: "json list \<Rightarrow> json" where
  "matches_json ms = JObj [(''matches'', JArr ms), (''count'', JNum (length ms))]"

text \<open>The matches of one pattern; a failed search adds none.\<close>

definition result_matches :: "ToolError + json \<Rightarrow> json list" where
  "result_matches r =
     (case r of
        Inl e \<Rightarrow> []
      | Inr result \<Rightarrow> unwrap_or (Option.bind (json_get result ''matches'') as_array) [])"

definition rpc_search_bytes :: "host \<Rightarrow> 'w worker \<Rightarrow> json \<Rightarrow> 'w rpc" where
  "rpc_search_bytes h w p =
     try_then (parse_params h ''FindBytesRequest'' de_FindBytesRequest p) (\<lambda>req.
       case req of FindBytesRequest db_handle patterns limit offset timeout_secs \<Rightarrow>
         (let pats = parse_patterns h patterns; max_results = unwrap_or limit 100 in
          if length pats = 1 then value_call w (Find (w_find_bytes (hd pats) max_results timeout_secs))
          else if pats = [] then State_Monad.return (Inr (matches_json []))
          else do {
            found \<leftarrow> traverse_list
              (\<lambda>pattern. map_state result_matches (value_call w (Find (w_find_bytes pattern max_results timeout_secs))))
              pats;
            State_Monad.return (Inr (matches_json (concat found)))
          }))"

definition rpc_search_text :: "host \<Rightarrow> 'w worker \<Rightarrow> json \<Rightarrow> 'w rpc" where
  "rpc_search_text h w p =
     value_call w (Find (w_search_text (unwrap_or (str_field p ''text'') [])
       (unwrap_or (u64_field p ''max_results'') 100) (u64_field p ''timeout_secs'')))"

definition rpc_search_imm :: "host \<Rightarrow> 'w worker \<Rightarrow> json \<Rightarrow> 'w rpc" where
  "rpc_search_imm h w p =
     value_call w (Find (w_search_imm (unwrap_or (u64_field p ''imm'') 0)
       (unwrap_or (u64_field p ''max_results'') 100) (u64_field p ''timeout_secs'')))"

definition rpc_search_instructions :: "host \<Rightarrow> 'w worker \<Rightarrow> json \<Rightarrow> 'w rpc" where
  "rpc_search_instructions h w p =
     try_then (parse_params h ''FindInsnsRequest'' de_FindInsnsRequest p) (\<lambda>req.
       case req of FindInsnsRequest db_handle patterns limit case_insensitive timeout_secs \<Rightarrow>
         value_call w (Find (w_find_insns (parse_patterns h patterns) (unwrap_or limit 100)
           (unwrap_or case_insensitive True) timeout_secs)))"

definition rpc_search_instruction_operands :: "host \<Rightarrow> 'w worker \<Rightarrow> json \<Rightarrow> 'w rpc" where
  "rpc_search_instruction_operands h w p =
     try_then (parse_params h ''FindInsnOperandsRequest'' de_FindInsnOperandsRequest p) (\<lambda>req.
       case req of FindInsnOperandsRequest db_handle patterns limit case_insensitive timeout_secs \<Rightarrow>
         value_call w (Find (w_find_insn_operands (parse_patterns h patterns) (unwrap_or limit 100)
           (unwrap_or case_insensitive True) timeout_secs)))"

subsection \<open>Scripts, batches, scans and diffs\<close>

definition rpc_run_script :: "host \<Rightarrow> 'w worker \<Rightarrow> json \<Rightarrow> 'w rpc" where
  "rpc_run_script h w p =
     try_then (parse_params h ''RunScriptRequest'' de_RunScriptRequest p) (\<lambda>req.
       case req of RunScriptRequest db_handle code file timeout_secs \<Rightarrow>
         value_call w (Session (w_run_script (unwrap_or code '''') timeout_secs)))"

definition batch_addresses :: "host \<Rightarrow> json \<Rightarrow> json list" where
  "batch_addresses h addresses =
     (case as_array addresses of
        Some arr \<Rightarrow> arr
      | None \<Rightarrow>
          (case as_str addresses of
             Some s \<Rightarrow> (case from_text h s of Some (JArr arr) \<Rightarrow> arr | _ \<Rightarrow> [addresses])
           | None \<Rightarrow> [addresses]))"

definition batch_failure :: "json \<Rightarrow> string \<Rightarrow> json" where
  "batch_failure addr_val text =
     JObj [(''address'', addr_val), (''error'', JStr text), (''success'', JBool False)]"

definition batch_entry :: "'w worker \<Rightarrow> json \<Rightarrow> ('w, json) state" where
  "batch_entry w addr_val =
     (case parse_address_value addr_val of
        None \<Rightarrow> State_Monad.return (batch_failure addr_val ''invalid address'')
      | Some addr \<Rightarrow>
          map_state (\<lambda>r. case r of
              Inr code \<Rightarrow> JObj [(''address'', addr_val), (''pseudocode'', JStr code), (''success'', JBool True)]
            | Inl e \<Rightarrow> batch_failure addr_val (tool_error_to_string e))
            (text_call w (w_decompile addr)))"

definition rpc_batch_decompile :: "host \<Rightarrow> 'w worker \<Rightarrow> json \<Rightarrow> 'w rpc" where
  "rpc_batch_decompile h w p =
     try_then (parse_params h ''BatchDecompileRequest'' de_BatchDecompileRequest p) (\<lambda>req.
       case req of BatchDecompileRequest db_handle addresses \<Rightarrow> do {
         results \<leftarrow> traverse_list (batch_entry w) (batch_addresses h addresses);
         State_Monad.return (Inr (JArr results))
       })"

definition rpc_search_pseudocode :: "host \<Rightarrow> 'w worker \<Rightarrow> json \<Rightarrow> 'w rpc" where
  "rpc_search_pseudocode h w p =
     try_then (parse_params h ''SearchPseudocodeRequest'' de_SearchPseudocodeRequest p) (\<lambda>req.
       case req of SearchPseudocodeRequest db_handle pattern limit timeout_secs \<Rightarrow>
         value_call w (Find (w_search_pseudocode pattern (min (unwrap_or limit 20) 100) timeout_secs)))"

definition scan_address :: "nat \<Rightarrow> nat \<Rightarrow> nat \<Rightarrow> nat" where
  "scan_address base_addr stride i = (base_addr + i * stride mod 2 ^ 64) mod 2 ^ 64"

definition scan_entry :: "nat \<Rightarrow> nat \<Rightarrow> ToolError + BytesResult \<Rightarrow> json" where
  "scan_entry i addr r =
     JObj [(''index'', JNum i), (''address'', JStr (fmt_hex_alt addr)),
           (case r of
              Inr b \<Rightarrow> (''bytes'', JStr (br_bytes b))
            | Inl e \<Rightarrow> (''error'', JStr (tool_error_to_string e)))]"

text \<open>The loop over the indices: the first entry that cannot be read is the last one.\<close>

fun scan_entries :: "'w worker \<Rightarrow> nat \<Rightarrow> nat \<Rightarrow> nat list \<Rightarrow> ('w, json list) state" where
  "scan_entries w base_addr stride [] = State_Monad.return []"
| "scan_entries w base_addr stride (i # is) = do {
     r \<leftarrow> get_bytes w (Some (scan_address base_addr stride i)) None 0 stride;
     case r of
       Inr _ \<Rightarrow> do {
         rest \<leftarrow> scan_entries w base_addr stride is;
         State_Monad.return (scan_entry i (scan_address base_addr stride i) r # rest)
       }
     | Inl _ \<Rightarrow> State_Monad.return [scan_entry i (scan_address base_addr stride i) r]
   }"

definition rpc_scan_memory_table :: "host \<Rightarrow> 'w worker \<Rightarrow> json \<Rightarrow> 'w rpc" where
  "rpc_scan_memory_table h w p =
     try_then (parse_params h ''TableScanRequest'' de_TableScanRequest p) (\<lambda>req.
       case req of TableScanRequest db_handle base_address stride count_of \<Rightarrow>
         (case parse_address_value base_address of
            None \<Rightarrow> State_Monad.return (Inl (InvalidParams ''base_address is required''))
          | Some base_addr \<Rightarrow>
              (let stride = max (unwrap_or stride 8) 1; n = min (unwrap_or count_of 16) 256 in do {
                 entries \<leftarrow> scan_entries w base_addr stride [0..<n];
                 State_Monad.return (Inr (JObj
                   [(''base_address'', JStr (fmt_hex_alt base_addr)), (''stride'', JNum stride),
                    (''count'', JNum (length entries)), (''entries'', JArr entries)]))
               })))"

fun diff_lines :: "string list \<Rightarrow> string list \<Rightarrow> string list \<times> nat \<times> nat" where
  "diff_lines [] [] = ([], 0, 0)"
| "diff_lines (l1 # lines1) (l2 # lines2) =
     (let (diff, same, different) = diff_lines lines1 lines2 in
      if l1 = l2 then ((''  '' @ l1) # diff, same + 1, different)
      else ((''- '' @ l1) # (''+ '' @ l2) # diff, same, different + 1))"
| "diff_lines (l1 # lines1) [] =
     (let (diff, same, different) = diff_lines lines1 [] in ((''- '' @ l1) # diff, same, different + 1))"
| "diff_lines [] (l2 # lines2) =
     (let (diff, same, different) = diff_lines [] lines2 in ((''+ '' @ l2) # diff, same, different + 1))"

definition diff_json :: "host \<Rightarrow> string \<Rightarrow> string \<Rightarrow> json" where
  "diff_json h result1 result2 =
     (let (diff, same, different) = diff_lines (str_lines result1) (str_lines result2);
          all_lines = same + different;
          ratio = (if all_lines = 0 then 1 else percent_ratio h same all_lines)
      in JObj [(''function1'', JStr result1), (''function2'', JStr result2),
               (''similarity_ratio'', JFloat ratio), (''diff_lines'', JArr (map JStr diff))])"

definition rpc_diff_pseudocode :: "host \<Rightarrow> 'w worker \<Rightarrow> json \<Rightarrow> 'w rpc" where
  "rpc_diff_pseudocode h w p =
     try_then (parse_params h ''DiffFunctionsRequest'' de_DiffFunctionsRequest p) (\<lambda>req.
       case req of DiffFunctionsRequest db_handle addr1 addr2 \<Rightarrow>
         (case parse_address_value addr1 of
            None \<Rightarrow> State_Monad.return (Inl (InvalidParams ''addr1 is required''))
          | Some a1 \<Rightarrow>
              (case parse_address_value addr2 of
                 None \<Rightarrow> State_Monad.return (Inl (InvalidParams ''addr2 is required''))
               | Some a2 \<Rightarrow> do {
                   r1 \<leftarrow> text_call w (w_decompile a1);
                   case r1 of
                     Inl e \<Rightarrow> State_Monad.return (Inl e)
                   | Inr result1 \<Rightarrow>
                       map_state (map_sum (\<lambda>e. e) (diff_json h result1)) (text_call w (w_decompile a2))
                 })))"

subsection \<open>The dispatcher\<close>

definition rpc_arms :: "(string \<times> (host \<Rightarrow> 'w worker \<Rightarrow> json \<Rightarrow> 'w rpc)) list" where
  "rpc_arms =
     [(''open'', rpc_open),
      (''close'', rpc_close),
      (''shutdown'', rpc_shutdown),
      (''load_debug_info'', rpc_load_debug_info),
      (''get_analysis_status'', rpc_get_analysis_status),
      (''list_functions'', rpc_list_functions),
      (''get_function_by_name'', rpc_get_function_by_name),
      (''get_function_prototype'', rpc_get_function_prototype),
      (''get_function_at_address'', rpc_get_function_at_address),
      (''batch_lookup_functions'', rpc_batch_lookup_functions),
      (''export_functions'', rpc_export_functions),
      (''disassemble'', rpc_disassemble),
      (''disassemble_function'', rpc_disassemble_function),
      (''disassemble_function_at'', rpc_disassemble_function_at),
      (''decompile_function'', rpc_decompile_function),
      (''get_pseudocode_at'', rpc_get_pseudocode_at),
      (''list_segments'', rpc_list_segments),
      (''list_strings'', rpc_list_strings),
      (''get_xrefs_to_string'', rpc_get_xrefs_to_string),
      (''list_local_types'', rpc_list_local_types),
      (''declare_c_type'', rpc_declare_c_type),
      (''apply_type'', rpc_apply_type),
      (''infer_type'', rpc_infer_type),
      (''set_function_prototype'', rpc_set_function_prototype),
      (''rename_stack_variable'', rpc_rename_stack_variable),
      (''set_stack_variable_type'', rpc_set_stack_variable_type),
      (''list_enums'', rpc_list_enums),
      (''create_enum'', rpc_create_enum),
      (''get_address_info'', rpc_get_address_info),
      (''create_stack_variable'', rpc_create_stack_variable),
      (''delete_stack_variable'', rpc_delete_stack_variable),
      (''get_stack_frame'', rpc_get_stack_frame),
      (''list_structs'', rpc_list_structs),
      (''get_struct_info'', rpc_get_struct_info),
      (''read_struct_at_address'', rpc_read_struct_at_address),
      (''get_xrefs_to'', rpc_get_xrefs_to),
      (''get_xrefs_from'', rpc_get_xrefs_from),
      (''get_xrefs_to_struct_field'', rpc_get_xrefs_to_struct_field),
      (''list_imports'', rpc_list_imports),
      (''list_exports'', rpc_list_exports),
      (''list_entry_points'', rpc_list_entry_points),
      (''read_bytes'', rpc_read_bytes),
      (''read_int'', rpc_read_int),
      (''read_string'', rpc_read_string),
      (''read_global_variable'', rpc_read_global_variable),
      (''set_comment'', rpc_set_comment),
      (''set_function_comment'', rpc_set_function_comment),
      (''rename_symbol'', rpc_rename_symbol),
      (''batch_rename'', rpc_batch_rename),
      (''rename_local_variable'', rpc_rename_local_variable),
      (''set_local_variable_type'', rpc_set_local_variable_type),
      (''set_decompiler_comment'', rpc_set_decompiler_comment),
      (''patch_bytes'', rpc_patch_bytes),
      (''patch_assembly'', rpc_patch_assembly),
      (''get_basic_blocks'', rpc_get_basic_blocks),
      (''get_callees'', rpc_get_callees),
      (''get_callers'', rpc_get_callers),
      (''build_callgraph'', rpc_build_callgraph),
      (''find_control_flow_paths'', rpc_find_control_flow_paths),
      (''build_xref_matrix'', rpc_build_xref_matrix),
      (''get_database_info'', rpc_get_database_info),
      (''list_globals'', rpc_list_globals),
      (''run_auto_analysis'', rpc_run_auto_analysis),
      (''search_bytes'', rpc_search_bytes),
      (''search_text'', rpc_search_text),
      (''search_imm'', rpc_search_imm),
      (''search_instructions'', rpc_search_instructions),
      (''search_instruction_operands'', rpc_search_instruction_operands),
      (''run_script'', rpc_run_script),
      (''batch_decompile'', rpc_batch_decompile),
      (''search_pseudocode'', rpc_search_pseudocode),
      (''scan_memory_table'', rpc_scan_memory_table),
      (''diff_pseudocode'', rpc_diff_pseudocode)]"

definition dispatch_rpc :: "host \<Rightarrow> 'w worker \<Rightarrow> RpcRequest \<Rightarrow> 'w rpc" where
  "dispatch_rpc h w req =
     (case map_of rpc_arms (primary_name_for (q_method req)) of
        Some arm \<Rightarrow> arm h w (q_params req)
      | None \<Rightarrow> State_Monad.return (Inl (InvalidToolName (''Unknown method: '' @ q_method req))))"

end
