(* ===== verification/Server_Tools.thy ===== *)
theory Server_Tools
  imports Rpc_Dispatch
begin

text \<open>
  The tool handlers of \<open>src/server/mod.rs\<close>. A handler answers a request in one of two ways: a
  server in router mode forwards it to the worker process of the database, any other server
  calls its own worker. \<open>srv_router\<close> is \<open>Some\<close> in router mode and then stands for
  \<open>RouterState::route_request\<close>. The text of a successful answer is the pretty-printed JSON
  value (\<open>Pretty\<close>) or a plain text.
\<close>

datatype tool_result =
    Pretty json
  | Text string
  | Failure ToolError
  | McpFailure string

type_synonym 'w route = "string option \<Rightarrow> string \<Rightarrow> json \<Rightarrow> ('w, ToolError + json) state"

record 'w server =
  srv_router :: "'w route option"
  srv_worker :: "'w worker"

subsection \<open>Reading addresses, strings and bytes\<close>

definition server_parse_address :: "string \<Rightarrow> ToolError + nat" where
  "server_parse_address str =
     (let s = filter (\<lambda>c. c \<noteq> CHR ''_'') (trim str);
          parsed = (if starts_with ''0x'' s \<or> starts_with ''0X'' s then from_str_radix 64 16 (drop 2 s)
                    else if starts_with ''0b'' s \<or> starts_with ''0B'' s then from_str_radix 64 2 (drop 2 s)
                    else if starts_with ''0o'' s \<or> starts_with ''0O'' s then from_str_radix 64 8 (drop 2 s)
                    else from_str_radix 64 10 s)
      in case parsed of Some a \<Rightarrow> Inr a | None \<Rightarrow> Inl (InvalidAddress s))"

text \<open>\<open>Number::to_string\<close>: integers are printed in decimal.\<close>

definition string_or_number :: "host \<Rightarrow> json \<Rightarrow> ToolError + string" where
  "string_or_number h v =
     (case v of
        JStr s \<Rightarrow> Inr s
      | JNum n \<Rightarrow> Inr (fmt_dec n)
      | JNeg i \<Rightarrow> Inr (''-'' @ fmt_dec (nat (- i)))
      | JFloat _ \<Rightarrow> Inr (to_text h v)
      | _ \<Rightarrow> Inl (IdaError ''expected string or number''))"

definition value_to_strings :: "host \<Rightarrow> json \<Rightarrow> ToolError + string list" where
  "value_to_strings h v =
     (case v of
        JStr s \<Rightarrow>
          (let trimmed = trim s;
               separated =
                 (if contains trimmed '',''
                  then Inr (filter (\<lambda>t. t \<noteq> []) (map trim (split_on (\<lambda>c. c = CHR '','') trimmed)))
                  else if trimmed = [] then Inl (IdaError ''empty string'')
                  else Inr [trimmed])
           in if starts_with ''['' trimmed
              then (case from_text h trimmed of
                      Some (JArr arr) \<Rightarrow> collect_result (string_or_number h) arr
                    | _ \<Rightarrow> separated)
              else separated)
      | JArr arr \<Rightarrow> collect_result (string_or_number h) arr
      | JNum _ \<Rightarrow> map_sum (\<lambda>e. e) (\<lambda>s. [s]) (string_or_number h v)
      | JNeg _ \<Rightarrow> map_sum (\<lambda>e. e) (\<lambda>s. [s]) (string_or_number h v)
      | JFloat _ \<Rightarrow> map_sum (\<lambda>e. e) (\<lambda>s. [s]) (string_or_number h v)
      | _ \<Rightarrow> Inl (IdaError ''expected string, number, or array''))"

definition value_to_addresses :: "host \<Rightarrow> json \<Rightarrow> ToolError + nat list" where
  "value_to_addresses h v =
     (case value_to_strings h v of
        Inl e \<Rightarrow> Inl e
      | Inr strings \<Rightarrow>
          if strings = [] then Inl (InvalidAddress ''no addresses provided'')
          else collect_result server_parse_address strings)"

definition value_to_single_address :: "host \<Rightarrow> json \<Rightarrow> ToolError + nat" where
  "value_to_single_address h v =
     (case value_to_addresses h v of
        Inl e \<Rightarrow> Inl e
      | Inr [] \<Rightarrow> Inl (InvalidAddress ''empty address list'')
      | Inr (a # _) \<Rightarrow> Inr a)"

definition byte_in_range :: "nat \<Rightarrow> ToolError + nat" where
  "byte_in_range n = (if n > 255 then Inl (InvalidParams ''byte value out of range'') else Inr n)"

definition array_byte :: "json \<Rightarrow> ToolError + nat" where
  "array_byte v =
     (case v of
        JNum n \<Rightarrow> byte_in_range n
      | JNeg _ \<Rightarrow> Inl (InvalidParams ''invalid byte'')
      | JFloat _ \<Rightarrow> Inl (InvalidParams ''invalid byte'')
      | JStr s \<Rightarrow> (case server_parse_address s of Inl e \<Rightarrow> Inl e | Inr n \<Rightarrow> byte_in_range n)
      | _ \<Rightarrow> Inl (InvalidParams ''bytes must be numbers or strings''))"

text \<open>A hexadecimal text is read as by the dispatcher; numbers are checked, not truncated.\<close>

definition value_to_bytes :: "json \<Rightarrow> ToolError + nat list" where
  "value_to_bytes v =
     (case v of
        JStr _ \<Rightarrow> parse_patch_bytes v
      | JArr arr \<Rightarrow>
          (case collect_result array_byte arr of
             Inl e \<Rightarrow> Inl e
           | Inr out \<Rightarrow> if out = [] then Inl (InvalidParams ''no bytes provided'') else Inr out)
      | JNum n \<Rightarrow> map_sum (\<lambda>e. e) (\<lambda>b. [b]) (byte_in_range n)
      | JNeg _ \<Rightarrow> Inl (InvalidParams ''invalid byte'')
      | JFloat _ \<Rightarrow> Inl (InvalidParams ''invalid byte'')
      | _ \<Rightarrow> Inl (InvalidParams ''expected hex string or array of bytes''))"

subsection \<open>Answers\<close>

definition answer :: "ToolError + json \<Rightarrow> tool_result" where
  "answer r = (case r of Inr v \<Rightarrow> Pretty v | Inl e \<Rightarrow> Failure e)"

definition route_or_err :: "'w route \<Rightarrow> string option \<Rightarrow> string \<Rightarrow> json \<Rightarrow> ('w, tool_result) state" where
  "route_or_err router handle method params = map_state answer (router handle method params)"

definition value_result :: "('w, ToolError + json) state \<Rightarrow> ('w, tool_result) state" where
  "value_result m = map_state answer m"

definition text_result :: "(string \<Rightarrow> tool_result) \<Rightarrow> ('w, ToolError + string) state \<Rightarrow> ('w, tool_result) state" where
  "text_result show_text m = map_state (\<lambda>r. case r of Inr s \<Rightarrow> show_text s | Inl e \<Rightarrow> Failure e) m"

definition bytes_result :: "('w, ToolError + BytesResult) state \<Rightarrow> ('w, tool_result) state" where
  "bytes_result m = map_state (\<lambda>r. answer (map_sum (\<lambda>e. e) ser_BytesResult r)) m"

text \<open>A step that fails without a call answers with its error.\<close>

definition answer_try :: "ToolError + 'a \<Rightarrow> ('a \<Rightarrow> ('w, tool_result) state) \<Rightarrow> ('w, tool_result) state" where
  "answer_try r k = (case r of Inl e \<Rightarrow> State_Monad.return (Failure e) | Inr x \<Rightarrow> k x)"

definition with_opt_address ::
  "host \<Rightarrow> json option \<Rightarrow> (nat option \<Rightarrow> ('w, tool_result) state) \<Rightarrow> ('w, tool_result) state" where
  "with_opt_address h address k =
     (case address of
        Some val \<Rightarrow> answer_try (value_to_single_address h val) (\<lambda>a. k (Some a))
      | None \<Rightarrow> k None)"

definition with_end_address ::
  "string option \<Rightarrow> (nat option \<Rightarrow> ('w, tool_result) state) \<Rightarrow> ('w, tool_result) state" where
  "with_end_address end_address k =
     (case end_address of
        Some end_str \<Rightarrow> answer_try (server_parse_address end_str) (\<lambda>a. k (Some a))
      | None \<Rightarrow> k None)"

definition results_json :: "json list \<Rightarrow> tool_result" where
  "results_json results = Pretty (JObj [(''results'', JArr results)])"

definition labelled :: "string \<Rightarrow> string \<Rightarrow> string \<Rightarrow> ToolError + json \<Rightarrow> json" where
  "labelled label name key r =
     JObj [(label, JStr name),
           (case r of Inr v \<Rightarrow> (key, v) | Inl e \<Rightarrow> (''error'', JStr (tool_error_to_string e)))]"

text \<open>One address is answered by its value, several by a list with an entry for each.\<close>

definition each_address ::
  "'w worker \<Rightarrow> nat list \<Rightarrow> string \<Rightarrow> string \<Rightarrow> (nat \<Rightarrow> value_method) \<Rightarrow> ('w, tool_result) state" where
  "each_address w addrs label key m =
     (if length addrs = 1 then value_result (value_call w (m (hd addrs)))
      else map_state results_json
        (traverse_list (\<lambda>a. map_state (labelled label (fmt_hex_alt a) key) (value_call w (m a))) addrs))"

definition per_address ::
  "host \<Rightarrow> 'w worker \<Rightarrow> json \<Rightarrow> string \<Rightarrow> (nat \<Rightarrow> value_method) \<Rightarrow> ('w, tool_result) state" where
  "per_address h w v key m =
     answer_try (value_to_addresses h v) (\<lambda>addrs. each_address w addrs ''address'' key m)"

definition text_per_address ::
  "'w worker \<Rightarrow> nat list \<Rightarrow> string \<Rightarrow> (string \<Rightarrow> tool_result) \<Rightarrow> (nat \<Rightarrow> text_method) \<Rightarrow> ('w, tool_result) state" where
  "text_per_address w addrs key show_text m =
     (if length addrs = 1 then text_result show_text (text_call w (m (hd addrs)))
      else map_state results_json
        (traverse_list (\<lambda>a. map_state (address_entry key a) (text_call w (m a))) addrs))"

definition bytes_per_address :: "'w worker \<Rightarrow> nat list \<Rightarrow> nat \<Rightarrow> ('w, tool_result) state" where
  "bytes_per_address w addrs n =
     (if length addrs = 1 then bytes_result (get_bytes w (Some (hd addrs)) None 0 n)
      else map_state results_json
        (traverse_list (\<lambda>a. map_state (\<lambda>r. labelled ''address'' (fmt_hex_alt a) ''bytes'' (map_sum (\<lambda>e. e) ser_BytesResult r))
           (get_bytes w (Some a) None 0 n)) addrs))"

definition each_query :: "'w worker \<Rightarrow> string list \<Rightarrow> ('w, tool_result) state" where
  "each_query w queries =
     (if length queries = 1 then value_result (value_call w (Data (w_get_global_value (hd queries))))
      else map_state results_json
        (traverse_list (\<lambda>q. map_state (labelled ''query'' q ''value'') (value_call w (Data (w_get_global_value q)))) queries))"

text \<open>The hint of the server's own decompiler answer looks at the first line only.\<close>

definition first_line_hint :: "string \<Rightarrow> tool_result" where
  "first_line_hint code =
     Text (if (case str_lines code of
                 sig # _ \<Rightarrow> contains sig ''sub_'' \<or> contains sig ''nullsub_'' \<or> contains sig ''j_sub_''
               | [] \<Rightarrow> False)
           then rename_hint @ code else code)"

subsection \<open>Pages of matches\<close>

definition page_json :: "string \<Rightarrow> string \<Rightarrow> nat \<Rightarrow> nat \<Rightarrow> json \<Rightarrow> json" where
  "page_json label name offset limit value =
     (let found = result_matches (Inr value); next_at = (offset + limit) mod 2 ^ 64 in
      JObj [(label, JStr name), (''matches'', JArr (take limit (drop offset found))),
            (''total'', JNum (length found)),
            (''next_offset'', if next_at < length found then JNum next_at else JNull)])"

text \<open>A search is refused before the call (\<open>Inl\<close>) or names the method to call.\<close>

definition paged_search ::
  "'w worker \<Rightarrow> string \<Rightarrow> nat \<Rightarrow> nat \<Rightarrow> string \<times> (nat \<Rightarrow> ToolError + search_method) \<Rightarrow> ('w, json) state" where
  "paged_search w label offset limit item =
     (let (name, search) = item;
          failed = (\<lambda>e. JObj [(label, JStr name), (''error'', JStr (tool_error_to_string e))])
      in case search (min ((offset + limit) mod 2 ^ 64) 20000) of
           Inl e \<Rightarrow> State_Monad.return (failed e)
         | Inr m \<Rightarrow>
             map_state (\<lambda>r. case r of Inr v \<Rightarrow> page_json label name offset limit v | Inl e \<Rightarrow> failed e)
               (value_call w (Find m)))"

definition paged_searches ::
  "'w worker \<Rightarrow> string \<Rightarrow> (string \<times> (nat \<Rightarrow> ToolError + search_method)) list \<Rightarrow> nat \<Rightarrow> nat \<Rightarrow> ('w, tool_result) state" where
  "paged_searches w label items offset limit =
     map_state results_json (traverse_list (paged_search w label offset limit) items)"

subsection \<open>Database and functions\<close>

definition tool_load_debug_info :: "host \<Rightarrow> 'w server \<Rightarrow> LoadDebugInfoRequest \<Rightarrow> ('w, tool_result) state" where
  "tool_load_debug_info h srv req =
     (case req of LoadDebugInfoRequest db_handle path verbose \<Rightarrow>
      (case srv_router srv of
         Some router \<Rightarrow> route_or_err router db_handle ''load_debug_info''
           (JObj [(''path'', ser_opt JStr path), (''verbose'', JBool (unwrap_or verbose False))])
       | None \<Rightarrow>
        value_result (value_call (srv_worker srv) (Session (w_load_debug_info path (unwrap_or verbose False))))))"

definition tool_get_analysis_status :: "'w server \<Rightarrow> ('w, tool_result) state" where
  "tool_get_analysis_status srv =
     (case srv_router srv of
        Some router \<Rightarrow> route_or_err router None ''get_analysis_status'' (JObj [])
      | None \<Rightarrow> value_result (value_call (srv_worker srv) (Session w_analysis_status)))"

definition tool_list_functions :: "host \<Rightarrow> 'w server \<Rightarrow> ListFunctionsRequest \<Rightarrow> ('w, tool_result) state" where
  "tool_list_functions h srv req =
     (case req of ListFunctionsRequest db_handle offset limit filter_by timeout_secs \<Rightarrow>
      (case srv_router srv of
         Some router \<Rightarrow> route_or_err router db_handle ''list_functions''
           (ser_ListFunctionsRequest req)
       | None \<Rightarrow>
        value_result (value_call (srv_worker srv) (Func (w_list_functions (unwrap_or offset 0) (min (unwrap_or limit 100) 10000) filter_by timeout_secs)))))"

definition tool_get_function_by_name :: "host \<Rightarrow> 'w server \<Rightarrow> ResolveFunctionRequest \<Rightarrow> ('w, tool_result) state" where
  "tool_get_function_by_name h srv req =
     (case req of ResolveFunctionRequest db_handle name \<Rightarrow>
      (case srv_router srv of
         Some router \<Rightarrow> route_or_err router db_handle ''get_function_by_name''
           (JObj [(''name'', JStr name)])
       | None \<Rightarrow>
        value_result (value_call (srv_worker srv) (Func (w_resolve_function name)))))"

definition tool_get_function_prototype :: "host \<Rightarrow> 'w server \<Rightarrow> GetFunctionPrototypeRequest \<Rightarrow> ('w, tool_result) state" where
  "tool_get_function_prototype h srv req =
     (case req of GetFunctionPrototypeRequest db_handle address name \<Rightarrow>
      (case srv_router srv of
         Some router \<Rightarrow> route_or_err router db_handle ''get_function_prototype''
           (JObj [(''address'', json_opt address), (''name'', ser_opt JStr name)])
       | None \<Rightarrow>
        value_result (value_call (srv_worker srv) (Func (w_get_function_prototype (opt_address address) name)))))"

definition tool_get_address_info :: "host \<Rightarrow> 'w server \<Rightarrow> AddrInfoRequest \<Rightarrow> ('w, tool_result) state" where
  "tool_get_address_info h srv req =
     (case req of AddrInfoRequest db_handle address target_name offset \<Rightarrow>
      (case srv_router srv of
         Some router \<Rightarrow> route_or_err router db_handle ''get_address_info''
           (JObj [(''addr'', json_opt address), (''name'', ser_opt JStr target_name), (''offset'', ser_opt JNum offset)])
       | None \<Rightarrow>
        with_opt_address h address (\<lambda>addr.
          value_result (value_call (srv_worker srv) (Func (w_addr_info addr target_name (unwrap_or offset 0)))))))"

definition tool_get_function_at_address :: "host \<Rightarrow> 'w server \<Rightarrow> FunctionAtRequest \<Rightarrow> ('w, tool_result) state" where
  "tool_get_function_at_address h srv req =
     (case req of FunctionAtRequest db_handle address target_name offset \<Rightarrow>
      (case srv_router srv of
         Some router \<Rightarrow> route_or_err router db_handle ''get_function_at_address''
           (JObj [(''addr'', json_opt address), (''name'', ser_opt JStr target_name), (''offset'', ser_opt JNum offset)])
       | None \<Rightarrow>
        with_opt_address h address (\<lambda>addr.
          value_result (value_call (srv_worker srv) (Func (w_function_at addr target_name (unwrap_or offset 0)))))))"

subsection \<open>Disassembly and decompilation\<close>

definition tool_disassemble :: "host \<Rightarrow> 'w server \<Rightarrow> DisasmRequest \<Rightarrow> ('w, tool_result) state" where
  "tool_disassemble h srv req =
     (case req of DisasmRequest db_handle address count_of \<Rightarrow>
      (case srv_router srv of
         Some router \<Rightarrow> route_or_err router db_handle ''disassemble''
           (JObj [(''address'', address), (''count'', ser_opt JNum count_of)])
       | None \<Rightarrow>
        (let n = (min (unwrap_or count_of 10) 1000) in
        answer_try (value_to_addresses h address) (\<lambda>addrs.
          text_per_address (srv_worker srv) addrs ''disasm'' Text (\<lambda>a. w_disasm a n)))))"

definition tool_disassemble_function :: "host \<Rightarrow> 'w server \<Rightarrow> DisasmByNameRequest \<Rightarrow> ('w, tool_result) state" where
  "tool_disassemble_function h srv req =
     (case req of DisasmByNameRequest db_handle name count_of \<Rightarrow>
      (case srv_router srv of
         Some router \<Rightarrow> route_or_err router db_handle ''disassemble_function''
           (JObj [(''name'', JStr name), (''count'', ser_opt JNum count_of)])
       | None \<Rightarrow>
        text_result Text (text_call (srv_worker srv) (w_disasm_by_name name (min (unwrap_or count_of 10) 1000)))))"

definition tool_disassemble_function_at :: "host \<Rightarrow> 'w server \<Rightarrow> DisasmFunctionAtRequest \<Rightarrow> ('w, tool_result) state" where
  "tool_disassemble_function_at h srv req =
     (case req of DisasmFunctionAtRequest db_handle address target_name offset count_of \<Rightarrow>
      (case srv_router srv of
         Some router \<Rightarrow> route_or_err router db_handle ''disassemble_function_at''
           (ser_DisasmFunctionAtRequest req)
       | None \<Rightarrow>
        with_opt_address h address (\<lambda>addr.
          text_result Text (text_call (srv_worker srv)
            (w_disasm_function_at addr target_name (unwrap_or offset 0) (min (unwrap_or count_of 200) 5000))))))"

definition tool_decompile_function :: "host \<Rightarrow> 'w server \<Rightarrow> DecompileRequest \<Rightarrow> ('w, tool_result) state" where
  "tool_decompile_function h srv req =
     (case req of DecompileRequest db_handle address \<Rightarrow>
      (case srv_router srv of
         Some router \<Rightarrow> route_or_err router db_handle ''decompile_function''
           (JObj [(''address'', address)])
       | None \<Rightarrow>
        answer_try (value_to_addresses h address) (\<lambda>addrs.
          text_per_address (srv_worker srv) addrs ''decompile'' first_line_hint w_decompile)))"

definition tool_get_pseudocode_at :: "host \<Rightarrow> 'w server \<Rightarrow> PseudocodeAtRequest \<Rightarrow> ('w, tool_result) state" where
  "tool_get_pseudocode_at h srv req =
     (case req of PseudocodeAtRequest db_handle address end_address \<Rightarrow>
      (case srv_router srv of
         Some router \<Rightarrow> route_or_err router db_handle ''get_pseudocode_at''
           (JObj [(''address'', address), (''end_addr'', ser_opt JStr end_address)])
       | None \<Rightarrow>
        answer_try (value_to_addresses h address) (\<lambda>addrs.
          with_end_address end_address (\<lambda>end_addr.
            each_address (srv_worker srv) addrs ''address'' ''pseudocode'' (\<lambda>a. Func (w_pseudocode_at a end_addr))))))"

subsection \<open>Strings, cross-references and listings\<close>

definition tool_list_segments :: "'w server \<Rightarrow> ('w, tool_result) state" where
  "tool_list_segments srv =
     (case srv_router srv of
        Some router \<Rightarrow> route_or_err router None ''list_segments'' (JObj [])
      | None \<Rightarrow> value_result (value_call (srv_worker srv) (Session w_segments)))"

definition tool_list_strings :: "host \<Rightarrow> 'w server \<Rightarrow> ListStringsRequest \<Rightarrow> ('w, tool_result) state" where
  "tool_list_strings h srv req =
     (case req of ListStringsRequest db_handle query filter_by exact case_insensitive offset limit timeout_secs \<Rightarrow>
      (case srv_router srv of
         Some router \<Rightarrow> route_or_err router db_handle ''list_strings''
           (let query = (case query of Some q \<Rightarrow> Some q | None \<Rightarrow> filter_by) in
           JObj [(''query'', ser_opt JStr query), (''exact'', ser_opt JBool exact),
             (''case_insensitive'', ser_opt JBool case_insensitive), (''offset'', ser_opt JNum offset),
             (''limit'', ser_opt JNum limit), (''timeout_secs'', ser_opt JNum timeout_secs)])
       | None \<Rightarrow>
        (case (case query of Some q \<Rightarrow> Some q | None \<Rightarrow> filter_by) of
          Some q \<Rightarrow> value_result (value_call (srv_worker srv) (Find (w_find_string q
            (unwrap_or exact False) (unwrap_or case_insensitive True) (unwrap_or offset 0) (min (unwrap_or limit 100) 10000) timeout_secs)))
        | None \<Rightarrow> value_result (value_call (srv_worker srv) (Find (w_strings (unwrap_or offset 0) (min (unwrap_or limit 100) 10000) None timeout_secs))))))"

definition tool_get_xrefs_to_string :: "host \<Rightarrow> 'w server \<Rightarrow> XrefsToStringRequest \<Rightarrow> ('w, tool_result) state" where
  "tool_get_xrefs_to_string h srv req =
     (case req of XrefsToStringRequest db_handle query exact case_insensitive offset limit max_xrefs timeout_secs \<Rightarrow>
      (case srv_router srv of
         Some router \<Rightarrow> route_or_err router db_handle ''get_xrefs_to_string''
           (ser_XrefsToStringRequest req)
       | None \<Rightarrow>
        value_result (value_call (srv_worker srv) (Find (w_xrefs_to_string query (unwrap_or exact False)
          (unwrap_or case_insensitive True) (unwrap_or offset 0) (min (unwrap_or limit 100) 10000) (unwrap_or max_xrefs 64) timeout_secs)))))"

definition tool_get_xrefs_to :: "host \<Rightarrow> 'w server \<Rightarrow> AddressRequest \<Rightarrow> ('w, tool_result) state" where
  "tool_get_xrefs_to h srv req =
     (case req of AddressRequest db_handle address \<Rightarrow>
      (case srv_router srv of
         Some router \<Rightarrow> route_or_err router db_handle ''get_xrefs_to''
           (JObj [(''address'', address)])
       | None \<Rightarrow>
        per_address h (srv_worker srv) address ''xrefs'' (\<lambda>a. Data (w_xrefs_to a))))"

definition tool_get_xrefs_from :: "host \<Rightarrow> 'w server \<Rightarrow> AddressRequest \<Rightarrow> ('w, tool_result) state" where
  "tool_get_xrefs_from h srv req =
     (case req of AddressRequest db_handle address \<Rightarrow>
      (case srv_router srv of
         Some router \<Rightarrow> route_or_err router db_handle ''get_xrefs_from''
           (JObj [(''address'', address)])
       | None \<Rightarrow>
        per_address h (srv_worker srv) address ''xrefs'' (\<lambda>a. Data (w_xrefs_from a))))"

definition tool_list_imports :: "host \<Rightarrow> 'w server \<Rightarrow> PaginatedRequest \<Rightarrow> ('w, tool_result) state" where
  "tool_list_imports h srv req =
     (case req of PaginatedRequest db_handle offset limit \<Rightarrow>
      (case srv_router srv of
         Some router \<Rightarrow> route_or_err router db_handle ''list_imports''
           (JObj [(''offset'', ser_opt JNum offset), (''limit'', ser_opt JNum limit)])
       | None \<Rightarrow>
        value_result (value_call (srv_worker srv) (Session (w_imports (unwrap_or offset 0) (min (unwrap_or limit 100) 10000))))))"

definition tool_list_exports :: "host \<Rightarrow> 'w server \<Rightarrow> PaginatedRequest \<Rightarrow> ('w, tool_result) state" where
  "tool_list_exports h srv req =
     (case req of PaginatedRequest db_handle offset limit \<Rightarrow>
      (case srv_router srv of
         Some router \<Rightarrow> route_or_err router db_handle ''list_exports''
           (JObj [(''offset'', ser_opt JNum offset), (''limit'', ser_opt JNum limit)])
       | None \<Rightarrow>
        value_result (value_call (srv_worker srv) (Session (w_exports (unwrap_or offset 0) (min (unwrap_or limit 100) 10000))))))"

definition tool_list_entry_points :: "'w server \<Rightarrow> ('w, tool_result) state" where
  "tool_list_entry_points srv =
     (case srv_router srv of
        Some router \<Rightarrow> route_or_err router None ''list_entry_points'' (JObj [])
      | None \<Rightarrow> value_result (value_call (srv_worker srv) (Session w_entrypoints)))"

subsection \<open>Memory and graphs\<close>

definition tool_read_bytes :: "host \<Rightarrow> 'w server \<Rightarrow> GetBytesRequest \<Rightarrow> ('w, tool_result) state" where
  "tool_read_bytes h srv req =
     (case req of GetBytesRequest db_handle address target_name offset size_of \<Rightarrow>
      (case srv_router srv of
         Some router \<Rightarrow> route_or_err router db_handle ''read_bytes''
           (ser_GetBytesRequest req)
       | None \<Rightarrow>
        (let n = (min (unwrap_or size_of 256) 65536) in
        case address of
          Some addr_value \<Rightarrow>
            answer_try (value_to_addresses h addr_value) (\<lambda>addrs.
              bytes_per_address (srv_worker srv) addrs n)
        | None \<Rightarrow>
            (case target_name of
               Some name \<Rightarrow> bytes_result (get_bytes (srv_worker srv) None (Some name) (unwrap_or offset 0) n)
             | None \<Rightarrow> State_Monad.return (Failure (InvalidParams ''address or name required''))))))"

definition tool_get_basic_blocks :: "host \<Rightarrow> 'w server \<Rightarrow> AddressRequest \<Rightarrow> ('w, tool_result) state" where
  "tool_get_basic_blocks h srv req =
     (case req of AddressRequest db_handle address \<Rightarrow>
      (case srv_router srv of
         Some router \<Rightarrow> route_or_err router db_handle ''get_basic_blocks''
           (JObj [(''address'', address)])
       | None \<Rightarrow>
        per_address h (srv_worker srv) address ''basic_blocks'' (\<lambda>a. Func (w_basic_blocks a))))"

definition tool_get_callees :: "host \<Rightarrow> 'w server \<Rightarrow> AddressRequest \<Rightarrow> ('w, tool_result) state" where
  "tool_get_callees h srv req =
     (case req of AddressRequest db_handle address \<Rightarrow>
      (case srv_router srv of
         Some router \<Rightarrow> route_or_err router db_handle ''get_callees''
           (JObj [(''address'', address)])
       | None \<Rightarrow>
        per_address h (srv_worker srv) address ''callees'' (\<lambda>a. Func (w_callees a))))"

definition tool_get_callers :: "host \<Rightarrow> 'w server \<Rightarrow> AddressRequest \<Rightarrow> ('w, tool_result) state" where
  "tool_get_callers h srv req =
     (case req of AddressRequest db_handle address \<Rightarrow>
      (case srv_router srv of
         Some router \<Rightarrow> route_or_err router db_handle ''get_callers''
           (JObj [(''address'', address)])
       | None \<Rightarrow>
        per_address h (srv_worker srv) address ''callers'' (\<lambda>a. Func (w_callers a))))"

definition tool_get_database_info :: "'w server \<Rightarrow> ('w, tool_result) state" where
  "tool_get_database_info srv =
     (case srv_router srv of
        Some router \<Rightarrow> route_or_err router None ''get_database_info'' (JObj [])
      | None \<Rightarrow> value_result (value_call (srv_worker srv) (Session w_idb_meta)))"

definition tool_batch_lookup_functions :: "host \<Rightarrow> 'w server \<Rightarrow> LookupFuncsRequest \<Rightarrow> ('w, tool_result) state" where
  "tool_batch_lookup_functions h srv req =
     (case req of LookupFuncsRequest db_handle queries \<Rightarrow>
      (case srv_router srv of
         Some router \<Rightarrow> route_or_err router db_handle ''batch_lookup_functions''
           (JObj [(''queries'', queries)])
       | None \<Rightarrow>
        answer_try (value_to_strings h queries) (\<lambda>qs.
          value_result (value_call (srv_worker srv) (Func (w_lookup_funcs qs))))))"

definition tool_list_globals :: "host \<Rightarrow> 'w server \<Rightarrow> ListGlobalsRequest \<Rightarrow> ('w, tool_result) state" where
  "tool_list_globals h srv req =
     (case req of ListGlobalsRequest db_handle query offset limit timeout_secs \<Rightarrow>
      (case srv_router srv of
         Some router \<Rightarrow> route_or_err router db_handle ''list_globals''
           (ser_ListGlobalsRequest req)
       | None \<Rightarrow>
        value_result (value_call (srv_worker srv) (Find (w_list_globals query (unwrap_or offset 0) (min (unwrap_or limit 100) 10000) timeout_secs)))))"

subsection \<open>Search\<close>

definition tool_search_bytes :: "host \<Rightarrow> 'w server \<Rightarrow> FindBytesRequest \<Rightarrow> ('w, tool_result) state" where
  "tool_search_bytes h srv req =
     (case req of FindBytesRequest db_handle patterns limit offset timeout_secs \<Rightarrow>
      (case srv_router srv of
         Some router \<Rightarrow> route_or_err router db_handle ''search_bytes''
           (ser_FindBytesRequest req)
       | None \<Rightarrow>
        answer_try (value_to_strings h patterns) (\<lambda>pats.
          paged_searches (srv_worker srv) ''pattern'' (map (\<lambda>p. (p, \<lambda>n. Inr (w_find_bytes p n timeout_secs))) pats)
            (unwrap_or offset 0) (min (unwrap_or limit 100) 10000))))"

subsection \<open>Integers and strings in memory\<close>

definition tool_read_byte :: "host \<Rightarrow> 'w server \<Rightarrow> AddressRequest \<Rightarrow> ('w, tool_result) state" where
  "tool_read_byte h srv req =
     (case req of AddressRequest db_handle address \<Rightarrow>
      (case srv_router srv of
         Some router \<Rightarrow> route_or_err router db_handle ''read_int''
           (JObj [(''address'', address), (''size'', JNum 1)])
       | None \<Rightarrow>
        per_address h (srv_worker srv) address ''value'' (\<lambda>a. Data (w_read_int a 1))))"

definition tool_read_word :: "host \<Rightarrow> 'w server \<Rightarrow> AddressRequest \<Rightarrow> ('w, tool_result) state" where
  "tool_read_word h srv req =
     (case req of AddressRequest db_handle address \<Rightarrow>
      (case srv_router srv of
         Some router \<Rightarrow> route_or_err router db_handle ''read_int''
           (JObj [(''address'', address), (''size'', JNum 2)])
       | None \<Rightarrow>
        per_address h (srv_worker srv) address ''value'' (\<lambda>a. Data (w_read_int a 2))))"

definition tool_read_dword :: "host \<Rightarrow> 'w server \<Rightarrow> AddressRequest \<Rightarrow> ('w, tool_result) state" where
  "tool_read_dword h srv req =
     (case req of AddressRequest db_handle address \<Rightarrow>
      (case srv_router srv of
         Some router \<Rightarrow> route_or_err router db_handle ''read_int''
           (JObj [(''address'', address), (''size'', JNum 4)])
       | None \<Rightarrow>
        per_address h (srv_worker srv) address ''value'' (\<lambda>a. Data (w_read_int a 4))))"

definition tool_read_qword :: "host \<Rightarrow> 'w server \<Rightarrow> AddressRequest \<Rightarrow> ('w, tool_result) state" where
  "tool_read_qword h srv req =
     (case req of AddressRequest db_handle address \<Rightarrow>
      (case srv_router srv of
         Some router \<Rightarrow> route_or_err router db_handle ''read_int''
           (JObj [(''address'', address), (''size'', JNum 8)])
       | None \<Rightarrow>
        per_address h (srv_worker srv) address ''value'' (\<lambda>a. Data (w_read_int a 8))))"

definition tool_read_string :: "host \<Rightarrow> 'w server \<Rightarrow> GetStringRequest \<Rightarrow> ('w, tool_result) state" where
  "tool_read_string h srv req =
     (case req of GetStringRequest db_handle address max_len \<Rightarrow>
      (case srv_router srv of
         Some router \<Rightarrow> route_or_err router db_handle ''read_string''
           (JObj [(''address'', address), (''max_len'', ser_opt JNum max_len)])
       | None \<Rightarrow>
        per_address h (srv_worker srv) address ''string'' (\<lambda>a. Data (w_get_string a (min (unwrap_or max_len 256) 65536)))))"

definition tool_read_global_variable :: "host \<Rightarrow> 'w server \<Rightarrow> GetGlobalValueRequest \<Rightarrow> ('w, tool_result) state" where
  "tool_read_global_variable h srv req =
     (case req of GetGlobalValueRequest db_handle query \<Rightarrow>
      (case srv_router srv of
         Some router \<Rightarrow> route_or_err router db_handle ''read_global_variable''
           (JObj [(''query'', query)])
       | None \<Rightarrow>
        answer_try (value_to_strings h query) (\<lambda>qs.
          each_query (srv_worker srv) qs)))"

definition tool_find_control_flow_paths :: "host \<Rightarrow> 'w server \<Rightarrow> FindPathsRequest \<Rightarrow> ('w, tool_result) state" where
  "tool_find_control_flow_paths h srv req =
     (case req of FindPathsRequest db_handle start end_at max_paths max_depth \<Rightarrow>
      (case srv_router srv of
         Some router \<Rightarrow> route_or_err router db_handle ''find_control_flow_paths''
           (ser_FindPathsRequest req)
       | None \<Rightarrow>
        answer_try (value_to_single_address h start) (\<lambda>a.
          answer_try (value_to_single_address h end_at) (\<lambda>b.
          value_result (value_call (srv_worker srv) (Func (w_find_paths a b (min (unwrap_or max_paths 8) 128) (min (unwrap_or max_depth 64) 2048))))))))"

definition tool_build_callgraph :: "host \<Rightarrow> 'w server \<Rightarrow> CallGraphRequest \<Rightarrow> ('w, tool_result) state" where
  "tool_build_callgraph h srv req =
     (case req of CallGraphRequest db_handle roots max_depth max_nodes \<Rightarrow>
      (case srv_router srv of
         Some router \<Rightarrow> route_or_err router db_handle ''build_callgraph''
           (ser_CallGraphRequest req)
       | None \<Rightarrow>
        answer_try (value_to_addresses h roots) (\<lambda>addrs.
          each_address (srv_worker srv) addrs ''root'' ''callgraph'' (\<lambda>a. Func (w_callgraph a (min (unwrap_or max_depth 2) 16) (min (unwrap_or max_nodes 256) 10000))))))"

definition tool_build_xref_matrix :: "host \<Rightarrow> 'w server \<Rightarrow> XrefMatrixRequest \<Rightarrow> ('w, tool_result) state" where
  "tool_build_xref_matrix h srv req =
     (case req of XrefMatrixRequest db_handle addrs \<Rightarrow>
      (case srv_router srv of
         Some router \<Rightarrow> route_or_err router db_handle ''build_xref_matrix''
           (JObj [(''addrs'', addrs)])
       | None \<Rightarrow>
        answer_try (value_to_addresses h addrs) (\<lambda>as.
          value_result (value_call (srv_worker srv) (Data (w_xref_matrix as))))))"

definition unsupported_format :: "string option \<Rightarrow> string option" where
  "unsupported_format format =
     (case format of
        Some fmt \<Rightarrow> if to_ascii_lowercase fmt \<noteq> ''json'' then Some fmt else None
      | None \<Rightarrow> None)"

definition tool_export_functions :: "host \<Rightarrow> 'w server \<Rightarrow> ExportFuncsRequest \<Rightarrow> ('w, tool_result) state" where
  "tool_export_functions h srv req =
     (case req of ExportFuncsRequest db_handle addrs offset limit format \<Rightarrow>
      (case srv_router srv of
         Some router \<Rightarrow> route_or_err router db_handle ''export_functions''
           (JObj [(''offset'', ser_opt JNum offset), (''limit'', ser_opt JNum limit)])
       | None \<Rightarrow>
        (case unsupported_format format of
          Some fmt \<Rightarrow>
            State_Monad.return (Failure (NotSupported (''format '' @ fmt @ '' not supported (only json)'')))
        | None \<Rightarrow>
           (case addrs of
              Some v \<Rightarrow> answer_try (value_to_strings h v) (\<lambda>qs.
          value_result (value_call (srv_worker srv) (Func (w_lookup_funcs qs))))
            | None \<Rightarrow> value_result (value_call (srv_worker srv) (Func (w_export_funcs (unwrap_or offset 0) (min (unwrap_or limit 100) 10000))))))))"

subsection \<open>Types, comments and edits\<close>

definition tool_list_local_types :: "host \<Rightarrow> 'w server \<Rightarrow> LocalTypesRequest \<Rightarrow> ('w, tool_result) state" where
  "tool_list_local_types h srv req =
     (case req of LocalTypesRequest db_handle offset limit filter_by timeout_secs \<Rightarrow>
      (case srv_router srv of
         Some router \<Rightarrow> route_or_err router db_handle ''list_local_types''
           (ser_LocalTypesRequest req)
       | None \<Rightarrow>
        value_result (value_call (srv_worker srv) (Type (w_local_types (unwrap_or offset 0) (unwrap_or limit 100) filter_by timeout_secs)))))"

definition tool_get_xrefs_to_struct_field :: "host \<Rightarrow> 'w server \<Rightarrow> XrefsToFieldRequest \<Rightarrow> ('w, tool_result) state" where
  "tool_get_xrefs_to_struct_field h srv req =
     (case req of XrefsToFieldRequest db_handle ordinal name member_index member_name limit \<Rightarrow>
      (case srv_router srv of
         Some router \<Rightarrow> route_or_err router db_handle ''get_xrefs_to_struct_field''
           (ser_XrefsToFieldRequest req)
       | None \<Rightarrow>
        value_result (value_call (srv_worker srv) (Data (w_xrefs_to_field ordinal name member_index member_name (min (unwrap_or limit 1000) 10000))))))"

definition tool_set_comment :: "host \<Rightarrow> 'w server \<Rightarrow> SetCommentsRequest \<Rightarrow> ('w, tool_result) state" where
  "tool_set_comment h srv req =
     (case req of SetCommentsRequest db_handle address target_name offset comment repeatable \<Rightarrow>
      (case srv_router srv of
         Some router \<Rightarrow> route_or_err router db_handle ''set_comment''
           (ser_SetCommentsRequest req)
       | None \<Rightarrow>
        with_opt_address h address (\<lambda>addr.
          value_result (value_call (srv_worker srv) (Edit (w_set_comments addr target_name (unwrap_or offset 0) comment (unwrap_or repeatable False)))))))"

definition tool_set_function_comment :: "host \<Rightarrow> 'w server \<Rightarrow> SetFunctionCommentRequest \<Rightarrow> ('w, tool_result) state" where
  "tool_set_function_comment h srv req =
     (case req of SetFunctionCommentRequest db_handle address name comment repeatable \<Rightarrow>
      (case srv_router srv of
         Some router \<Rightarrow> route_or_err router db_handle ''set_function_comment''
           (ser_SetFunctionCommentRequest req)
       | None \<Rightarrow>
        value_result (value_call (srv_worker srv) (Edit (w_set_function_comment (opt_address address) name comment (unwrap_or repeatable False))))))"

definition tool_patch_assembly :: "host \<Rightarrow> 'w server \<Rightarrow> PatchAsmRequest \<Rightarrow> ('w, tool_result) state" where
  "tool_patch_assembly h srv req =
     (case req of PatchAsmRequest db_handle address target_name offset line \<Rightarrow>
      (case srv_router srv of
         Some router \<Rightarrow> route_or_err router db_handle ''patch_assembly''
           (ser_PatchAsmRequest req)
       | None \<Rightarrow>
        with_opt_address h address (\<lambda>addr.
          value_result (value_call (srv_worker srv) (Edit (w_patch_asm addr target_name (unwrap_or offset 0) line))))))"

definition tool_declare_c_type :: "host \<Rightarrow> 'w server \<Rightarrow> DeclareTypeRequest \<Rightarrow> ('w, tool_result) state" where
  "tool_declare_c_type h srv req =
     (case req of DeclareTypeRequest db_handle decl relaxed replace multi \<Rightarrow>
      (case srv_router srv of
         Some router \<Rightarrow> route_or_err router db_handle ''declare_c_type''
           (ser_DeclareTypeRequest req)
       | None \<Rightarrow>
        value_result (value_call (srv_worker srv) (Type (w_declare_type decl (unwrap_or relaxed False) (unwrap_or replace False) (unwrap_or multi False))))))"

definition tool_get_stack_frame :: "host \<Rightarrow> 'w server \<Rightarrow> AddressRequest \<Rightarrow> ('w, tool_result) state" where
  "tool_get_stack_frame h srv req =
     (case req of AddressRequest db_handle address \<Rightarrow>
      (case srv_router srv of
         Some router \<Rightarrow> route_or_err router db_handle ''get_stack_frame''
           (JObj [(''address'', address)])
       | None \<Rightarrow>
        answer_try (value_to_single_address h address) (\<lambda>a.
          value_result (value_call (srv_worker srv) (Data (w_stack_frame a))))))"

definition tool_create_stack_variable :: "host \<Rightarrow> 'w server \<Rightarrow> DeclareStackRequest \<Rightarrow> ('w, tool_result) state" where
  "tool_create_stack_variable h srv req =
     (case req of DeclareStackRequest db_handle address target_name offset var_name decl relaxed \<Rightarrow>
      (case srv_router srv of
         Some router \<Rightarrow> route_or_err router db_handle ''create_stack_variable''
           (ser_DeclareStackRequest req)
       | None \<Rightarrow>
        with_opt_address h address (\<lambda>addr.
          value_result (value_call (srv_worker srv) (Edit (w_declare_stack addr target_name offset var_name decl (unwrap_or relaxed False)))))))"

definition tool_delete_stack_variable :: "host \<Rightarrow> 'w server \<Rightarrow> DeleteStackRequest \<Rightarrow> ('w, tool_result) state" where
  "tool_delete_stack_variable h srv req =
     (case req of DeleteStackRequest db_handle address target_name offset var_name \<Rightarrow>
      (case srv_router srv of
         Some router \<Rightarrow> route_or_err router db_handle ''delete_stack_variable''
           (ser_DeleteStackRequest req)
       | None \<Rightarrow>
        with_opt_address h address (\<lambda>addr.
          value_result (value_call (srv_worker srv) (Edit (w_delete_stack addr target_name offset var_name))))))"

definition tool_rename_stack_variable :: "host \<Rightarrow> 'w server \<Rightarrow> RenameStackVariableRequest \<Rightarrow> ('w, tool_result) state" where
  "tool_rename_stack_variable h srv req =
     (case req of RenameStackVariableRequest func_address func_name name new_name db_handle \<Rightarrow>
      (case srv_router srv of
         Some router \<Rightarrow> route_or_err router db_handle ''rename_stack_variable''
           (ser_RenameStackVariableRequest req)
       | None \<Rightarrow>
        value_result (value_call (srv_worker srv) (Edit (w_rename_stack_variable (opt_address func_address) func_name name new_name)))))"

definition tool_set_stack_variable_type :: "host \<Rightarrow> 'w server \<Rightarrow> SetStackVariableTypeRequest \<Rightarrow> ('w, tool_result) state" where
  "tool_set_stack_variable_type h srv req =
     (case req of SetStackVariableTypeRequest func_address func_name name type_decl db_handle \<Rightarrow>
      (case srv_router srv of
         Some router \<Rightarrow> route_or_err router db_handle ''set_stack_variable_type''
           (ser_SetStackVariableTypeRequest req)
       | None \<Rightarrow>
        value_result (value_call (srv_worker srv) (Edit (w_set_stack_variable_type (opt_address func_address) func_name name type_decl)))))"

definition tool_list_enums :: "host \<Rightarrow> 'w server \<Rightarrow> ListEnumsRequest \<Rightarrow> ('w, tool_result) state" where
  "tool_list_enums h srv req =
     (case req of ListEnumsRequest filter_by offset limit db_handle \<Rightarrow>
      (case srv_router srv of
         Some router \<Rightarrow> route_or_err router db_handle ''list_enums''
           (ser_ListEnumsRequest req)
       | None \<Rightarrow>
        value_result (value_call (srv_worker srv) (Type (w_list_enums filter_by (unwrap_or offset 0) (unwrap_or limit 100))))))"

definition tool_create_enum :: "host \<Rightarrow> 'w server \<Rightarrow> CreateEnumRequest \<Rightarrow> ('w, tool_result) state" where
  "tool_create_enum h srv req =
     (case req of CreateEnumRequest decl replace db_handle \<Rightarrow>
      (case srv_router srv of
         Some router \<Rightarrow> route_or_err router db_handle ''create_enum''
           (ser_CreateEnumRequest req)
       | None \<Rightarrow>
        value_result (value_call (srv_worker srv) (Type (w_create_enum decl (unwrap_or replace False))))))"

definition tool_list_structs :: "host \<Rightarrow> 'w server \<Rightarrow> StructsRequest \<Rightarrow> ('w, tool_result) state" where
  "tool_list_structs h srv req =
     (case req of StructsRequest db_handle offset limit filter_by timeout_secs \<Rightarrow>
      (case srv_router srv of
         Some router \<Rightarrow> route_or_err router db_handle ''list_structs''
           (ser_StructsRequest req)
       | None \<Rightarrow>
        value_result (value_call (srv_worker srv) (Type (w_structs (unwrap_or offset 0) (min (unwrap_or limit 100) 10000) filter_by timeout_secs)))))"

definition tool_get_struct_info :: "host \<Rightarrow> 'w server \<Rightarrow> StructInfoRequest \<Rightarrow> ('w, tool_result) state" where
  "tool_get_struct_info h srv req =
     (case req of StructInfoRequest db_handle ordinal name \<Rightarrow>
      (case srv_router srv of
         Some router \<Rightarrow> route_or_err router db_handle ''get_struct_info''
           (JObj [(''ordinal'', ser_opt JNum ordinal), (''name'', ser_opt JStr name)])
       | None \<Rightarrow>
        value_result (value_call (srv_worker srv) (Type (w_struct_info ordinal name)))))"

definition tool_read_struct_at_address :: "host \<Rightarrow> 'w server \<Rightarrow> ReadStructRequest \<Rightarrow> ('w, tool_result) state" where
  "tool_read_struct_at_address h srv req =
     (case req of ReadStructRequest db_handle address ordinal name \<Rightarrow>
      (case srv_router srv of
         Some router \<Rightarrow> route_or_err router db_handle ''read_struct_at_address''
           (JObj [(''address'', address), (''ordinal'', ser_opt JNum ordinal), (''name'', ser_opt JStr name)])
       | None \<Rightarrow>
        per_address h (srv_worker srv) address ''struct'' (\<lambda>a. Type (w_read_struct a ordinal name))))"

definition tool_search_structs :: "host \<Rightarrow> 'w server \<Rightarrow> StructsRequest \<Rightarrow> ('w, tool_result) state" where
  "tool_search_structs h srv req =
     (case req of StructsRequest db_handle offset limit filter_by timeout_secs \<Rightarrow>
      (case srv_router srv of
         Some router \<Rightarrow> route_or_err router db_handle ''list_structs''
           (ser_StructsRequest req)
       | None \<Rightarrow>
        value_result (value_call (srv_worker srv) (Type (w_structs (unwrap_or offset 0) (unwrap_or limit 100) filter_by timeout_secs)))))"

definition tool_search_instructions :: "host \<Rightarrow> 'w server \<Rightarrow> FindInsnsRequest \<Rightarrow> ('w, tool_result) state" where
  "tool_search_instructions h srv req =
     (case req of FindInsnsRequest db_handle patterns limit case_insensitive timeout_secs \<Rightarrow>
      (case srv_router srv of
         Some router \<Rightarrow> route_or_err router db_handle ''search_instructions''
           (ser_FindInsnsRequest req)
       | None \<Rightarrow>
        answer_try (value_to_strings h patterns) (\<lambda>pats.
          if pats = [] then State_Monad.return (Failure (InvalidParams ''empty patterns''))
          else value_result (value_call (srv_worker srv) (Find (w_find_insns pats (unwrap_or limit 100) (unwrap_or case_insensitive False) timeout_secs))))))"

definition tool_search_instruction_operands :: "host \<Rightarrow> 'w server \<Rightarrow> FindInsnOperandsRequest \<Rightarrow> ('w, tool_result) state" where
  "tool_search_instruction_operands h srv req =
     (case req of FindInsnOperandsRequest db_handle patterns limit case_insensitive timeout_secs \<Rightarrow>
      (case srv_router srv of
         Some router \<Rightarrow> route_or_err router db_handle ''search_instruction_operands''
           (ser_FindInsnOperandsRequest req)
       | None \<Rightarrow>
        answer_try (value_to_strings h patterns) (\<lambda>pats.
          if pats = [] then State_Monad.return (Failure (InvalidParams ''empty patterns''))
          else value_result (value_call (srv_worker srv) (Find (w_find_insn_operands pats (unwrap_or limit 100) (unwrap_or case_insensitive False) timeout_secs))))))"

definition tool_apply_type :: "host \<Rightarrow> 'w server \<Rightarrow> ApplyTypesRequest \<Rightarrow> ('w, tool_result) state" where
  "tool_apply_type h srv req =
     (case req of ApplyTypesRequest db_handle address target_name offset stack_offset stack_name type_name decl relaxed delay strict \<Rightarrow>
      (case srv_router srv of
         Some router \<Rightarrow> route_or_err router db_handle ''apply_type''
           (ser_ApplyTypesRequest req)
       | None \<Rightarrow>
        with_opt_address h address (\<lambda>addr.
          value_result (value_call (srv_worker srv) (Type (w_apply_types addr target_name (unwrap_or offset 0) stack_offset stack_name decl type_name
            (unwrap_or relaxed False) (unwrap_or delay False) (unwrap_or strict False)))))))"

definition tool_set_function_prototype :: "host \<Rightarrow> 'w server \<Rightarrow> SetFunctionPrototypeRequest \<Rightarrow> ('w, tool_result) state" where
  "tool_set_function_prototype h srv req =
     (case req of SetFunctionPrototypeRequest db_handle address name prototype \<Rightarrow>
      (case srv_router srv of
         Some router \<Rightarrow> route_or_err router db_handle ''set_function_prototype''
           (ser_SetFunctionPrototypeRequest req)
       | None \<Rightarrow>
        value_result (value_call (srv_worker srv) (Type (w_set_function_prototype (opt_address address) name prototype)))))"

definition tool_infer_type :: "host \<Rightarrow> 'w server \<Rightarrow> InferTypesRequest \<Rightarrow> ('w, tool_result) state" where
  "tool_infer_type h srv req =
     (case req of InferTypesRequest db_handle address target_name offset \<Rightarrow>
      (case srv_router srv of
         Some router \<Rightarrow> route_or_err router db_handle ''infer_type''
           (JObj [(''addr'', json_opt address), (''name'', ser_opt JStr target_name), (''offset'', ser_opt JNum offset)])
       | None \<Rightarrow>
        with_opt_address h address (\<lambda>addr.
          value_result (value_call (srv_worker srv) (Type (w_infer_types addr target_name (unwrap_or offset 0)))))))"

definition tool_run_auto_analysis :: "host \<Rightarrow> 'w server \<Rightarrow> AnalyzeFuncsRequest \<Rightarrow> ('w, tool_result) state" where
  "tool_run_auto_analysis h srv req =
     (case req of AnalyzeFuncsRequest db_handle timeout_secs \<Rightarrow>
      (case srv_router srv of
         Some router \<Rightarrow> route_or_err router db_handle ''run_auto_analysis''
           (JObj [(''timeout_secs'', ser_opt JNum timeout_secs)])
       | None \<Rightarrow>
        value_result (value_call (srv_worker srv) (Session (w_analyze_funcs timeout_secs)))))"

definition tool_rename_symbol :: "host \<Rightarrow> 'w server \<Rightarrow> RenameRequest \<Rightarrow> ('w, tool_result) state" where
  "tool_rename_symbol h srv req =
     (case req of RenameRequest db_handle address current_name name flags \<Rightarrow>
      (case srv_router srv of
         Some router \<Rightarrow> route_or_err router db_handle ''rename_symbol''
           (ser_RenameRequest req)
       | None \<Rightarrow>
        with_opt_address h address (\<lambda>addr.
          value_result (value_call (srv_worker srv) (Edit (w_rename addr current_name name (unwrap_or flags 0)))))))"

definition tool_batch_rename :: "host \<Rightarrow> 'w server \<Rightarrow> BatchRenameRequest \<Rightarrow> ('w, tool_result) state" where
  "tool_batch_rename h srv req =
     (case req of BatchRenameRequest db_handle renames \<Rightarrow>
      (case srv_router srv of
         Some router \<Rightarrow> route_or_err router db_handle ''batch_rename''
           (ser_BatchRenameRequest req)
       | None \<Rightarrow>
        value_result (value_call (srv_worker srv) (Edit (w_batch_rename (map (\<lambda>e.
          case e of BatchRenameEntry address current_name new_name \<Rightarrow>
            (opt_address address, current_name, new_name)) renames))))))"

definition tool_rename_local_variable :: "host \<Rightarrow> 'w server \<Rightarrow> RenameLvarRequest \<Rightarrow> ('w, tool_result) state" where
  "tool_rename_local_variable h srv req =
     (case req of RenameLvarRequest db_handle func_address lvar_name new_name \<Rightarrow>
      (case srv_router srv of
         Some router \<Rightarrow> route_or_err router db_handle ''rename_local_variable''
           (ser_RenameLvarRequest req)
       | None \<Rightarrow>
        answer_try (value_to_single_address h func_address) (\<lambda>a.
          value_result (value_call (srv_worker srv) (Edit (w_rename_lvar a lvar_name new_name))))))"

definition tool_set_local_variable_type :: "host \<Rightarrow> 'w server \<Rightarrow> SetLvarTypeRequest \<Rightarrow> ('w, tool_result) state" where
  "tool_set_local_variable_type h srv req =
     (case req of SetLvarTypeRequest db_handle func_address lvar_name type_str \<Rightarrow>
      (case srv_router srv of
         Some router \<Rightarrow> route_or_err router db_handle ''set_local_variable_type''
           (ser_SetLvarTypeRequest req)
       | None \<Rightarrow>
        answer_try (value_to_single_address h func_address) (\<lambda>a.
          value_result (value_call (srv_worker srv) (Edit (w_set_lvar_type a lvar_name type_str))))))"

definition tool_set_decompiler_comment :: "host \<Rightarrow> 'w server \<Rightarrow> SetDecompilerCommentRequest \<Rightarrow> ('w, tool_result) state" where
  "tool_set_decompiler_comment h srv req =
     (case req of SetDecompilerCommentRequest db_handle func_address address itp comment \<Rightarrow>
      (case srv_router srv of
         Some router \<Rightarrow> route_or_err router db_handle ''set_decompiler_comment''
           (ser_SetDecompilerCommentRequest req)
       | None \<Rightarrow>
        answer_try (value_to_single_address h func_address) (\<lambda>f.
          answer_try (value_to_single_address h address) (\<lambda>a.
          value_result (value_call (srv_worker srv) (Edit (w_set_decompiler_comment f a (unwrap_or itp 69) comment)))))))"

definition tool_patch_bytes :: "host \<Rightarrow> 'w server \<Rightarrow> PatchRequest \<Rightarrow> ('w, tool_result) state" where
  "tool_patch_bytes h srv req =
     (case req of PatchRequest db_handle address target_name offset bytes \<Rightarrow>
      (case srv_router srv of
         Some router \<Rightarrow> route_or_err router db_handle ''patch_bytes''
           (ser_PatchRequest req)
       | None \<Rightarrow>
        with_opt_address h address (\<lambda>addr.
          answer_try (value_to_bytes bytes) (\<lambda>bs.
            value_result (value_call (srv_worker srv) (Edit (w_patch_bytes addr target_name (unwrap_or offset 0) bs)))))))"

subsection \<open>Text and immediate searches\<close>

definition search_kind :: "string option \<Rightarrow> string" where
  "search_kind kind = to_ascii_lowercase (unwrap_or kind ''auto'')"

text \<open>The method and parameters that router mode sends for one target.\<close>

definition search_request :: "string \<Rightarrow> nat option \<Rightarrow> nat option \<Rightarrow> string \<Rightarrow> string \<times> json" where
  "search_request kind limit timeout_secs target =
     (let tail = [(''max_results'', ser_opt JNum limit), (''timeout_secs'', ser_opt JNum timeout_secs)];
          imm = (\<lambda>n. (''search_imm'', JObj ((''imm'', JNum n) # tail)));
          text = (''search_text'', JObj ((''text'', JStr target) # tail))
      in if kind = ''imm'' \<or> kind = ''immediate'' then imm (unwrap_or (from_str_radix 64 10 target) 0)
         else if kind = ''text'' \<or> kind = ''string'' then text
         else (case server_parse_address target of Inr n \<Rightarrow> imm n | Inl _ \<Rightarrow> text))"

definition direct_search :: "string \<Rightarrow> nat option \<Rightarrow> string \<Rightarrow> nat \<Rightarrow> ToolError + search_method" where
  "direct_search kind timeout_secs target max_results =
     (if kind = ''imm'' \<or> kind = ''immediate''
      then map_sum (\<lambda>e. e) (\<lambda>n. w_search_imm n max_results timeout_secs) (server_parse_address target)
      else if kind = ''text'' \<or> kind = ''string'' then Inr (w_search_text target max_results timeout_secs)
      else (case server_parse_address target of
              Inr n \<Rightarrow> Inr (w_search_imm n max_results timeout_secs)
            | Inl _ \<Rightarrow> Inr (w_search_text target max_results timeout_secs)))"

definition tool_search_text :: "host \<Rightarrow> 'w server \<Rightarrow> SearchRequest \<Rightarrow> ('w, tool_result) state" where
  "tool_search_text h srv req =
     (case req of SearchRequest db_handle targets kind limit offset timeout_secs \<Rightarrow>
        answer_try (value_to_strings h targets) (\<lambda>ts.
          case srv_router srv of
            Some router \<Rightarrow>
              map_state results_json (traverse_list (\<lambda>target.
                let (method, params) = search_request (search_kind kind) limit timeout_secs target in
                map_state (labelled ''target'' target ''result'') (router db_handle method params)) ts)
          | None \<Rightarrow>
              paged_searches (srv_worker srv) ''target''
                (map (\<lambda>t. (t, direct_search (search_kind kind) timeout_secs t)) ts)
                (unwrap_or offset 0) (min (unwrap_or limit 100) 10000)))"

subsection \<open>Batches, scans, diffs and number conversion\<close>

definition server_batch_entry :: "host \<Rightarrow> 'w worker \<Rightarrow> json \<Rightarrow> ('w, json) state" where
  "server_batch_entry h w addr_val =
     (case value_to_single_address h addr_val of
        Inl e \<Rightarrow> State_Monad.return (batch_failure addr_val (tool_error_to_string e))
      | Inr addr \<Rightarrow>
          map_state (\<lambda>r. case r of
              Inr code \<Rightarrow> JObj [(''address'', addr_val), (''pseudocode'', JStr code), (''success'', JBool True)]
            | Inl e \<Rightarrow> batch_failure addr_val (tool_error_to_string e))
            (text_call w (w_decompile addr)))"

definition tool_batch_decompile :: "host \<Rightarrow> 'w server \<Rightarrow> BatchDecompileRequest \<Rightarrow> ('w, tool_result) state" where
  "tool_batch_decompile h srv req =
     (case req of BatchDecompileRequest db_handle addresses \<Rightarrow>
        (let addrs = batch_addresses h addresses in
         case srv_router srv of
           Some router \<Rightarrow> route_or_err router db_handle ''batch_decompile'' (JObj [(''addresses'', JArr addrs)])
         | None \<Rightarrow> map_state (\<lambda>rs. Pretty (JArr rs)) (traverse_list (server_batch_entry h (srv_worker srv)) addrs)))"

definition mcp_result :: "ToolError + json \<Rightarrow> tool_result" where
  "mcp_result r = (case r of Inr v \<Rightarrow> Pretty v | Inl e \<Rightarrow> McpFailure (tool_error_to_string e))"

definition tool_search_pseudocode :: "host \<Rightarrow> 'w server \<Rightarrow> SearchPseudocodeRequest \<Rightarrow> ('w, tool_result) state" where
  "tool_search_pseudocode h srv req =
     (case req of SearchPseudocodeRequest db_handle pattern limit timeout_secs \<Rightarrow>
        (let limit = min (unwrap_or limit 20) 100 in
         case srv_router srv of
           Some router \<Rightarrow> route_or_err router db_handle ''search_pseudocode''
             (JObj [(''pattern'', JStr pattern), (''limit'', JNum limit), (''timeout_secs'', ser_opt JNum timeout_secs)])
         | None \<Rightarrow> map_state mcp_result (value_call (srv_worker srv) (Find (w_search_pseudocode pattern limit timeout_secs)))))"

definition tool_scan_memory_table :: "host \<Rightarrow> 'w server \<Rightarrow> TableScanRequest \<Rightarrow> ('w, tool_result) state" where
  "tool_scan_memory_table h srv req =
     (case req of TableScanRequest db_handle base_address stride count_of \<Rightarrow>
        (let stride = max (unwrap_or stride 8) 1; n = min (unwrap_or count_of 16) 256 in
         case srv_router srv of
           Some router \<Rightarrow> route_or_err router db_handle ''scan_memory_table''
             (JObj [(''base_address'', base_address), (''stride'', JNum stride), (''count'', JNum n)])
         | None \<Rightarrow>
             (case value_to_single_address h base_address of
                Inl _ \<Rightarrow> State_Monad.return (McpFailure ''base_address is required and must be a valid address'')
              | Inr base_addr \<Rightarrow>
                  map_state (\<lambda>entries. Pretty (JObj
                    [(''base_address'', JStr (fmt_hex_alt base_addr)), (''stride'', JNum stride),
                     (''count'', JNum (length entries)), (''entries'', JArr entries)]))
                    (scan_entries (srv_worker srv) base_addr stride [0..<n]))))"

definition tool_diff_pseudocode :: "host \<Rightarrow> 'w server \<Rightarrow> DiffFunctionsRequest \<Rightarrow> ('w, tool_result) state" where
  "tool_diff_pseudocode h srv req =
     (case req of DiffFunctionsRequest db_handle addr1 addr2 \<Rightarrow>
        (case srv_router srv of
           Some router \<Rightarrow> route_or_err router db_handle ''diff_pseudocode''
             (JObj [(''addr1'', addr1), (''addr2'', addr2)])
         | None \<Rightarrow>
             (case value_to_single_address h addr1 of
                Inl _ \<Rightarrow> State_Monad.return (McpFailure ''addr1 is required and must be a valid address'')
              | Inr a1 \<Rightarrow>
                  (case value_to_single_address h addr2 of
                     Inl _ \<Rightarrow> State_Monad.return (McpFailure ''addr2 is required and must be a valid address'')
                   | Inr a2 \<Rightarrow> do {
                       r1 \<leftarrow> text_call (srv_worker srv) (w_decompile a1);
                       case r1 of
                         Inl e \<Rightarrow> State_Monad.return (McpFailure (''Failed to decompile addr1: '' @ tool_error_to_string e))
                       | Inr result1 \<Rightarrow>
                           map_state (\<lambda>r2. case r2 of
                               Inl e \<Rightarrow> McpFailure (''Failed to decompile addr2: '' @ tool_error_to_string e)
                             | Inr result2 \<Rightarrow> Pretty (diff_json h result1 result2))
                             (text_call (srv_worker srv) (w_decompile a2))
                     }))))"

fun le_bytes :: "nat \<Rightarrow> nat \<Rightarrow> nat list" where
  "le_bytes 0 n = []"
| "le_bytes (Suc k) n = n mod 256 # le_bytes k (n div 256)"

definition trim_bytes_be :: "nat list \<Rightarrow> nat list" where
  "trim_bytes_be bs = (if dropWhile (\<lambda>b. b = 0) bs = [] then drop (length bs - 1) bs else dropWhile (\<lambda>b. b = 0) bs)"

definition trim_bytes_le :: "nat list \<Rightarrow> nat list" where
  "trim_bytes_le bs = rev (trim_bytes_be (rev bs))"

definition bytes_to_ascii :: "nat list \<Rightarrow> string" where
  "bytes_to_ascii bs = map (\<lambda>b. if 32 \<le> b \<and> b \<le> 126 then char_of b else CHR ''.'') bs"

definition convert_entry :: "string \<Rightarrow> json" where
  "convert_entry input =
     (case server_parse_address input of
        Inl e \<Rightarrow> JObj [(''input'', JStr input), (''error'', JStr (tool_error_to_string e))]
      | Inr value \<Rightarrow>
          (let le = trim_bytes_le (le_bytes 8 value); be = trim_bytes_be (rev (le_bytes 8 value)) in
           JObj [(''input'', JStr input), (''value'', JNum value), (''dec'', JStr (fmt_dec value)),
                 (''hex'', JStr (fmt_hex_alt value)), (''bin'', JStr (''0b'' @ radix_str 2 value)),
                 (''bytes_le'', JStr (hex_encode le)), (''bytes_be'', JStr (hex_encode be)),
                 (''ascii'', JStr (bytes_to_ascii le))]))"

definition tool_convert_number :: "host \<Rightarrow> 'w server \<Rightarrow> IntConvertRequest \<Rightarrow> ('w, tool_result) state" where
  "tool_convert_number h srv req =
     (case req of IntConvertRequest inputs \<Rightarrow>
        answer_try (value_to_strings h inputs) (\<lambda>ss.
          State_Monad.return (results_json (map convert_entry ss))))"

end
