(* ===== verification/Rpc_Typed.thy ===== *)
theory Rpc_Typed
  imports Rpc_Dispatch
begin

text \<open>
  The dispatcher calls the worker only with arguments of the types of the trait. Integers come
  from JSON numbers, which fit 64 bits, through deserialisers that check narrower widths, and
  from the address parser, which refuses an overflow.
\<close>

subsection \<open>Values read from parameters\<close>

lemma width_numerals [simp]:
  "u64_ok 0" "u64_ok (Suc 0)" "u64_ok (numeral k) \<longleftrightarrow> numeral k < (2 ^ 64 :: nat)"
  "i32_ok 0" "i32_ok (numeral k) \<longleftrightarrow> numeral k < (2 ^ 31 :: int)"
  by (simp_all add: u64_ok_def i32_ok_def)

lemma radix_loop_bound: "radix_loop w r acc s = Some n \<Longrightarrow> acc < 2 ^ w \<Longrightarrow> n < 2 ^ w"
  by (induction w r acc s rule: radix_loop.induct) (auto split: option.splits if_splits)

lemma from_str_radix_bound: "from_str_radix w r s = Some n \<Longrightarrow> n < 2 ^ w"
  using radix_loop_bound[of w r 0 _ n]
  by (cases s) (simp_all add: from_str_radix_def del: radix_loop.simps split: if_splits)

lemma json_ok_get: "json_ok v \<Longrightarrow> json_get v k = Some x \<Longrightarrow> json_ok x"
  by (cases v) (auto simp: json_get_def dest!: map_of_SomeD)

lemma json_ok_index [simp]: "json_ok v \<Longrightarrow> json_ok (json_index v k)"
  by (auto simp: json_index_def json_ok_get split: option.splits)

lemma json_ok_array: "json_ok v \<Longrightarrow> as_array v = Some xs \<Longrightarrow> x \<in> set xs \<Longrightarrow> json_ok x"
  by (cases v) auto

lemma as_u64_ok: "json_ok v \<Longrightarrow> as_u64 v = Some n \<Longrightarrow> u64_ok n"
  by (cases v) auto

lemma parse_address_value_ok: "json_ok v \<Longrightarrow> parse_address_value v = Some a \<Longrightarrow> u64_ok a"
  unfolding parse_address_value_def Let_def
  by (auto split: option.splits simp: u64_ok_def[of a] dest!: from_str_radix_bound as_u64_ok)

lemma opt_u64_parse [simp]: "json_ok v \<Longrightarrow> opt_u64 (parse_address_value v)"
  by (cases "parse_address_value v") (simp_all add: parse_address_value_ok)

lemma opt_u64_opt_address [simp]: "pred_option json_ok v \<Longrightarrow> opt_u64 (opt_address v)"
  by (cases v) (auto simp: opt_address_def)

lemma u64_unwrap_or [simp]: "opt_u64 x \<Longrightarrow> u64_ok d \<Longrightarrow> u64_ok (unwrap_or x d)"
  by (cases x) (simp_all add: unwrap_or_def)

lemma u64_address_or_zero [simp]: "json_ok v \<Longrightarrow> u64_ok (address_or_zero v)"
  unfolding address_or_zero_def by (rule u64_unwrap_or) auto

lemma opt_u64_field [simp]: "json_ok p \<Longrightarrow> opt_u64 (u64_field p k)"
  unfolding u64_field_def using as_u64_ok[OF json_ok_index] by (cases "as_u64 (json_index p k)") auto

lemma u64_min [simp]: "u64_ok m \<Longrightarrow> u64_ok (min n m)"
  by (simp add: u64_ok_def min_def)

lemma opt_u64_bind [simp]: "opt_u64 (Option.bind s (\<lambda>s. parse_address_value (JStr s)))"
  by (cases s) simp_all

lemma case_unwrap_or [simp]: "(case x of None \<Rightarrow> unwrap_or y d | Some a \<Rightarrow> a) = unwrap_or x (unwrap_or y d)"
  by (cases x) (simp_all add: unwrap_or_def)

lemma map_filter_address: "\<forall>v \<in> set vs. json_ok v \<Longrightarrow> list_all u64_ok (List.map_filter parse_address_value vs)"
  by (induction vs) (auto simp: map_filter_simps parse_address_value_ok split: option.splits)

lemma collect_result_all:
  "collect_result f xs = Inr ys \<Longrightarrow> (\<And>x y. x \<in> set xs \<Longrightarrow> f x = Inr y \<Longrightarrow> P y) \<Longrightarrow> list_all P ys"
  by (induction xs arbitrary: ys) (fastforce split: sum.splits)+

lemma parse_address_values_ok:
  assumes "parse_address_values show_json v = Inr addrs" "json_ok v"
  shows "list_all u64_ok addrs"
proof (cases "as_array v")
  case None
  then show ?thesis
    using assms parse_address_value_ok[of v] by (auto simp: parse_address_values_def split: option.splits)
next
  case (Some arr)
  then have ok: "json_ok item" if "(i, item) \<in> set (enumerate 0 arr)" for i item
    using json_ok_array[OF assms(2)] that by (auto simp: in_set_enumerate_eq)
  show ?thesis
    using assms(1) Some unfolding parse_address_values_def
    by (auto split: sum.splits if_splits elim!: collect_result_all
        dest!: ok parse_address_value_ok split: option.splits)
qed

lemma parse_patch_bytes_ok: "parse_patch_bytes v = Inr bs \<Longrightarrow> list_all (\<lambda>b. b < 256) bs"
  unfolding parse_patch_bytes_def Let_def
  by (auto simp: list_all_iff split: option.splits if_splits sum.splits
      elim!: collect_result_all[where P = "\<lambda>b. b < 256", unfolded list_all_iff, THEN bspec]
      dest!: from_str_radix_bound)

subsection \<open>Values of deserialised fields\<close>

lemma field_value_ok:
  "field_value names kvs = Some x \<Longrightarrow> json_ok (JObj kvs) \<Longrightarrow> pred_option json_ok x"
  by (induction kvs arbitrary: x) (auto simp: field_value_obj split: if_splits)

lemma seq_fields_ok:
  "seq_fields specs xs = Some fs \<Longrightarrow> list_all json_ok xs \<Longrightarrow>
     length fs = length specs \<and> list_all (pred_option json_ok) fs"
  by (induction specs xs arbitrary: fs rule: seq_fields.induct) (auto split: if_splits)

lemma struct_fields_length: "struct_fields specs v = Some fs \<Longrightarrow> length fs = length specs"
proof (cases v)
  case (JArr xs)
  have "seq_fields specs xs = Some fs \<Longrightarrow> length fs = length specs" for xs
    by (induction specs xs arbitrary: fs rule: seq_fields.induct) (auto split: if_splits)
  then show "struct_fields specs v = Some fs \<Longrightarrow> ?thesis" using JArr by (simp add: struct_fields_def)
qed (auto simp: struct_fields_def those_Some dest: arg_cong[of _ _ length])

lemma struct_fields_ok:
  assumes fs: "struct_fields specs v = Some fs" and ok: "json_ok v" and i: "i < length specs"
  shows "pred_option json_ok (fs ! i)"
proof (cases v)
  case (JObj kvs)
  have eq: "map (\<lambda>(names, _). field_value names kvs) specs = map Some fs"
    using fs JObj by (simp add: struct_fields_def those_Some)
  have "length fs = length specs" using arg_cong[OF eq, of length] by simp
  then have "field_value (fst (specs ! i)) kvs = Some (fs ! i)"
    using arg_cong[OF eq, of "\<lambda>xs. xs ! i"] i by (simp add: split_beta)
  then show ?thesis using field_value_ok ok JObj by blast
next
  case (JArr xs)
  then have "length fs = length specs \<and> list_all (pred_option json_ok) fs"
    using fs ok seq_fields_ok[of specs xs fs] by (simp add: struct_fields_def list_all_iff)
  then show ?thesis using i by (simp add: list_all_length)
qed (use fs in \<open>simp_all add: struct_fields_def\<close>)

definition fields_ok :: "json option list \<Rightarrow> bool" where
  "fields_ok fs \<longleftrightarrow> (\<forall>i. pred_option json_ok (field_at fs i))"

lemma struct_fields_all: "struct_fields specs v = Some fs \<Longrightarrow> json_ok v \<Longrightarrow> fields_ok fs"
  using struct_fields_ok[of specs v fs] struct_fields_length[of specs v fs]
  by (simp add: fields_ok_def field_at_def)

lemma opt_fieldE:
  assumes "opt_field de f = Some x" "\<And>v y. f = Some v \<Longrightarrow> de v = Some y \<Longrightarrow> P y"
  shows "pred_option P x"
  using assms by (cases f) (auto simp: opt_field_def split: if_splits)

lemma de_uint_bound: "de_uint n v = Some k \<Longrightarrow> k < 2 ^ n"
  by (cases v) (auto split: if_splits)

lemma de_int_bound: "de_int n v = Some i \<Longrightarrow> - (2 ^ (n - 1)) \<le> i \<and> i < 2 ^ (n - 1)"
proof (cases v)
  case (JNum k)
  assume "de_int n v = Some i"
  then have i: "i = int k" "k < 2 ^ (n - 1)" using JNum by (auto split: if_splits)
  have "- (2 ^ (n - 1)) \<le> (0 :: int)" by simp
  also have "0 \<le> i" using i by simp
  finally show ?thesis using i by simp
qed (auto split: if_splits)

lemma opt_field_u64: "opt_field (de_uint 64) f = Some x \<Longrightarrow> opt_u64 x"
  by (erule opt_fieldE) (unfold u64_ok_def, rule de_uint_bound)

lemma opt_field_u32: "opt_field (de_uint 32) f = Some x \<Longrightarrow> opt_u32 x"
  by (erule opt_fieldE) (unfold u32_ok_def, rule de_uint_bound)

lemma opt_field_i64: "opt_field (de_int 64) f = Some x \<Longrightarrow> opt_i64 x"
  by (erule opt_fieldE) (use de_int_bound[of 64] in \<open>simp add: i64_ok_def\<close>)

lemma opt_field_i32: "opt_field (de_int 32) f = Some x \<Longrightarrow> pred_option i32_ok x"
  by (erule opt_fieldE) (use de_int_bound[of 32] in \<open>simp add: i32_ok_def\<close>)

lemma req_field_i64: "req_field (de_int 64) f = Some i \<Longrightarrow> i64_ok i"
  using de_int_bound[of 64] by (auto simp: req_field_def i64_ok_def split: option.splits)

lemma i32_unwrap_or [simp]: "pred_option i32_ok x \<Longrightarrow> i32_ok d \<Longrightarrow> i32_ok (unwrap_or x d)"
  by (cases x) (simp_all add: unwrap_or_def)

lemma opt_field_value:
  "opt_field de_value (field_at fs i) = Some x \<Longrightarrow> fields_ok fs \<Longrightarrow> pred_option json_ok x"
  by (auto simp: opt_field_def fields_ok_def split: option.splits if_splits)

lemma req_field_value: "req_field de_value (field_at fs i) = Some v \<Longrightarrow> fields_ok fs \<Longrightarrow> json_ok v"
  by (cases "field_at fs i") (auto simp: req_field_def fields_ok_def dest: spec[of _ i])

subsection \<open>Calls within a relation\<close>

text \<open>\<open>serde_json\<close> parses numbers into its own range.\<close>

definition host_ok :: "host \<Rightarrow> bool" where
  "host_ok h \<longleftrightarrow> (\<forall>s v. from_text h s = Some v \<longrightarrow> json_ok v)"

definition typed_env :: "host \<Rightarrow> 'w worker \<Rightarrow> ('w \<Rightarrow> 'w \<Rightarrow> bool) \<Rightarrow> bool" where
  "typed_env h w R \<longleftrightarrow> host_ok h \<and> worker_within R w \<and> reflp R \<and> transp R"

lemma within_return: "typed_env h w R \<Longrightarrow> state_io_rel R (State_Monad.return x)"
  by (auto simp: typed_env_def state_io_rel_def dest: reflpD)

lemma within_map: "typed_env h w R \<Longrightarrow> state_io_rel R m \<Longrightarrow> state_io_rel R (map_state f m)"
  by (cases m) (simp add: state_io_rel_def split_beta)

lemma within_bind:
  assumes "typed_env h w R" "state_io_rel R m" "\<And>x. state_io_rel R (k x)"
  shows "state_io_rel R (State_Monad.bind m k)"
proof (rule state_io_relI)
  fix x s s' assume "run_state (State_Monad.bind m k) s = (x, s')"
  then obtain y t where "run_state m s = (y, t)" "run_state (k y) t = (x, s')"
    by (auto split: prod.splits)
  then have "R s t" "R t s'" using assms(2,3) by (metis state_io_relD)+
  then show "R s s'" using assms(1) by (auto simp: typed_env_def dest: transpD)
qed

lemma within_traverse:
  assumes "typed_env h w R" "\<And>x. x \<in> set xs \<Longrightarrow> state_io_rel R (f x)"
  shows "state_io_rel R (traverse_list f xs)"
  using assms(2) by (induction xs) (auto intro!: within_bind[OF assms(1)] within_return[OF assms(1)])

lemma within_try:
  "typed_env h w R \<Longrightarrow> (\<And>x. r = Inr x \<Longrightarrow> state_io_rel R (k x)) \<Longrightarrow> state_io_rel R (try_then r k)"
  by (auto simp: try_then_def within_return split: sum.splits)

lemma within_value: "typed_env h w R \<Longrightarrow> value_method_ok m \<Longrightarrow> state_io_rel R (value_call w m)"
  by (simp add: typed_env_def worker_within_def)

lemma within_text: "typed_env h w R \<Longrightarrow> text_method_ok m \<Longrightarrow> state_io_rel R (text_call w m)"
  by (simp add: typed_env_def worker_within_def)

lemma within_unit: "typed_env h w R \<Longrightarrow> state_io_rel R (unit_call w m)"
  by (simp add: typed_env_def worker_within_def)

lemma within_bytes:
  "typed_env h w R \<Longrightarrow> opt_u64 a \<Longrightarrow> u64_ok off \<Longrightarrow> u64_ok n \<Longrightarrow> state_io_rel R (get_bytes w a s off n)"
  by (simp add: typed_env_def worker_within_def)

lemma parse_paramsD: "parse_params h t de p = Inr req \<Longrightarrow> de p = Some req"
  by (auto simp: parse_params_def split: option.splits)

lemma bind_SomeD: "Option.bind x f = Some y \<Longrightarrow> \<exists>a. x = Some a \<and> f a = Some y"
  by (cases x) auto

lemmas de_requests =
  de_AddrInfoRequest_def de_AddressRequest_def de_AnalyzeFuncsRequest_def
  de_ApplyTypesRequest_def de_CreateEnumRequest_def de_DeclareStackRequest_def
  de_DeclareTypeRequest_def de_DeleteStackRequest_def de_DisasmByNameRequest_def
  de_DisasmFunctionAtRequest_def de_ExportFuncsRequest_def de_FindInsnOperandsRequest_def
  de_FindInsnsRequest_def de_FindPathsRequest_def de_FunctionAtRequest_def
  de_GetBytesRequest_def de_GetGlobalValueRequest_def de_GetStringRequest_def
  de_InferTypesRequest_def de_ListEnumsRequest_def de_ListFunctionsRequest_def
  de_ListGlobalsRequest_def de_LoadDebugInfoRequest_def de_LocalTypesRequest_def
  de_LookupFuncsRequest_def de_PaginatedRequest_def de_PatchAsmRequest_def
  de_PseudocodeAtRequest_def de_ReadStructRequest_def de_RenameLvarRequest_def
  de_RenameRequest_def de_RenameStackVariableRequest_def de_ResolveFunctionRequest_def
  de_RunScriptRequest_def de_SearchPseudocodeRequest_def de_SetCommentsRequest_def
  de_SetDecompilerCommentRequest_def de_SetFunctionCommentRequest_def de_SetFunctionPrototypeRequest_def
  de_SetLvarTypeRequest_def de_SetStackVariableTypeRequest_def de_StructInfoRequest_def
  de_StructsRequest_def de_XrefsToFieldRequest_def de_XrefsToStringRequest_def

lemmas requests_split =
  AddrInfoRequest.split AddressRequest.split AnalyzeFuncsRequest.split
  ApplyTypesRequest.split CreateEnumRequest.split DeclareStackRequest.split
  DeclareTypeRequest.split DeleteStackRequest.split DisasmByNameRequest.split
  DisasmFunctionAtRequest.split ExportFuncsRequest.split FindInsnOperandsRequest.split
  FindInsnsRequest.split FindPathsRequest.split FunctionAtRequest.split
  GetBytesRequest.split GetGlobalValueRequest.split GetStringRequest.split
  InferTypesRequest.split ListEnumsRequest.split ListFunctionsRequest.split
  ListGlobalsRequest.split LoadDebugInfoRequest.split LocalTypesRequest.split
  LookupFuncsRequest.split PaginatedRequest.split PatchAsmRequest.split
  PseudocodeAtRequest.split ReadStructRequest.split RenameLvarRequest.split
  RenameRequest.split RenameStackVariableRequest.split ResolveFunctionRequest.split
  RunScriptRequest.split SearchPseudocodeRequest.split SetCommentsRequest.split
  SetDecompilerCommentRequest.split SetFunctionCommentRequest.split SetFunctionPrototypeRequest.split
  SetLvarTypeRequest.split SetStackVariableTypeRequest.split StructInfoRequest.split
  StructsRequest.split XrefsToFieldRequest.split XrefsToStringRequest.split

lemmas arm_intro = within_try within_map within_value within_text within_bytes within_unit

lemmas arm_dest =
  parse_paramsD bind_SomeD struct_fields_all opt_field_value req_field_value
  opt_field_u64 opt_field_u32 opt_field_i64 opt_field_i32 req_field_i64

named_theorems arm_within \<open>the arms of the dispatcher make calls of the trait's types\<close>

lemma database_within [arm_within]:
  assumes env: "typed_env h w R" and ok: "json_ok p"
  shows "state_io_rel R (rpc_open h w p)"
    "state_io_rel R (rpc_close h w p)"
    "state_io_rel R (rpc_shutdown h w p)"
    "state_io_rel R (rpc_load_debug_info h w p)"
    "state_io_rel R (rpc_get_analysis_status h w p)"
    "state_io_rel R (rpc_list_segments h w p)"
    "state_io_rel R (rpc_get_database_info h w p)"
    "state_io_rel R (rpc_run_auto_analysis h w p)"
    "state_io_rel R (rpc_run_script h w p)"
    "state_io_rel R (rpc_list_entry_points h w p)"
    "state_io_rel R (rpc_list_imports h w p)"
    "state_io_rel R (rpc_list_exports h w p)"
  unfolding rpc_open_def rpc_close_def rpc_shutdown_def
    rpc_load_debug_info_def rpc_get_analysis_status_def rpc_list_segments_def
    rpc_get_database_info_def rpc_run_auto_analysis_def rpc_run_script_def
    rpc_list_entry_points_def rpc_list_imports_def rpc_list_exports_def
  using ok
  by (auto intro!: arm_intro[OF env] simp: de_requests dest!: arm_dest split: requests_split)

lemma function_within [arm_within]:
  assumes env: "typed_env h w R" and ok: "json_ok p"
  shows "state_io_rel R (rpc_list_functions h w p)"
    "state_io_rel R (rpc_get_function_by_name h w p)"
    "state_io_rel R (rpc_get_function_prototype h w p)"
    "state_io_rel R (rpc_get_function_at_address h w p)"
    "state_io_rel R (rpc_batch_lookup_functions h w p)"
    "state_io_rel R (rpc_export_functions h w p)"
    "state_io_rel R (rpc_get_pseudocode_at h w p)"
    "state_io_rel R (rpc_get_address_info h w p)"
    "state_io_rel R (rpc_disassemble_function h w p)"
    "state_io_rel R (rpc_disassemble_function_at h w p)"
  unfolding rpc_list_functions_def rpc_get_function_by_name_def rpc_get_function_prototype_def
    rpc_get_function_at_address_def rpc_batch_lookup_functions_def rpc_export_functions_def
    rpc_get_pseudocode_at_def rpc_get_address_info_def rpc_disassemble_function_def
    rpc_disassemble_function_at_def
  using ok
  by (auto intro!: arm_intro[OF env] simp: de_requests dest!: arm_dest split: requests_split)

lemma string_within [arm_within]:
  assumes env: "typed_env h w R" and ok: "json_ok p"
  shows "state_io_rel R (rpc_get_xrefs_to_string h w p)"
    "state_io_rel R (rpc_list_globals h w p)"
    "state_io_rel R (rpc_search_text h w p)"
    "state_io_rel R (rpc_search_imm h w p)"
    "state_io_rel R (rpc_search_instructions h w p)"
    "state_io_rel R (rpc_search_instruction_operands h w p)"
    "state_io_rel R (rpc_search_pseudocode h w p)"
  unfolding rpc_get_xrefs_to_string_def rpc_list_globals_def rpc_search_text_def
    rpc_search_imm_def rpc_search_instructions_def rpc_search_instruction_operands_def
    rpc_search_pseudocode_def
  using ok
  by (auto intro!: arm_intro[OF env] simp: de_requests dest!: arm_dest split: requests_split)

lemma type_within [arm_within]:
  assumes env: "typed_env h w R" and ok: "json_ok p"
  shows "state_io_rel R (rpc_list_local_types h w p)"
    "state_io_rel R (rpc_declare_c_type h w p)"
    "state_io_rel R (rpc_apply_type h w p)"
    "state_io_rel R (rpc_infer_type h w p)"
    "state_io_rel R (rpc_set_function_prototype h w p)"
    "state_io_rel R (rpc_list_enums h w p)"
    "state_io_rel R (rpc_create_enum h w p)"
    "state_io_rel R (rpc_list_structs h w p)"
    "state_io_rel R (rpc_get_struct_info h w p)"
    "state_io_rel R (rpc_read_struct_at_address h w p)"
  unfolding rpc_list_local_types_def rpc_declare_c_type_def rpc_apply_type_def
    rpc_infer_type_def rpc_set_function_prototype_def rpc_list_enums_def
    rpc_create_enum_def rpc_list_structs_def rpc_get_struct_info_def
    rpc_read_struct_at_address_def
  using ok
  by (auto intro!: arm_intro[OF env] simp: de_requests dest!: arm_dest split: requests_split)

lemma stack_within [arm_within]:
  assumes env: "typed_env h w R" and ok: "json_ok p"
  shows "state_io_rel R (rpc_create_stack_variable h w p)"
    "state_io_rel R (rpc_delete_stack_variable h w p)"
    "state_io_rel R (rpc_get_stack_frame h w p)"
    "state_io_rel R (rpc_rename_stack_variable h w p)"
    "state_io_rel R (rpc_set_stack_variable_type h w p)"
  unfolding rpc_create_stack_variable_def rpc_delete_stack_variable_def rpc_get_stack_frame_def
    rpc_rename_stack_variable_def rpc_set_stack_variable_type_def
  using ok
  by (auto intro!: arm_intro[OF env] simp: de_requests dest!: arm_dest split: requests_split)

lemma memory_within [arm_within]:
  assumes env: "typed_env h w R" and ok: "json_ok p"
  shows "state_io_rel R (rpc_get_xrefs_to h w p)"
    "state_io_rel R (rpc_get_xrefs_from h w p)"
    "state_io_rel R (rpc_get_xrefs_to_struct_field h w p)"
    "state_io_rel R (rpc_read_bytes h w p)"
    "state_io_rel R (rpc_read_int h w p)"
    "state_io_rel R (rpc_read_string h w p)"
    "state_io_rel R (rpc_read_global_variable h w p)"
  unfolding rpc_get_xrefs_to_def rpc_get_xrefs_from_def rpc_get_xrefs_to_struct_field_def
    rpc_read_bytes_def rpc_read_int_def rpc_read_string_def
    rpc_read_global_variable_def
  using ok
  by (auto intro!: arm_intro[OF env] simp: de_requests dest!: arm_dest split: requests_split)

lemma edit_within [arm_within]:
  assumes env: "typed_env h w R" and ok: "json_ok p"
  shows "state_io_rel R (rpc_set_comment h w p)"
    "state_io_rel R (rpc_set_function_comment h w p)"
    "state_io_rel R (rpc_rename_symbol h w p)"
    "state_io_rel R (rpc_rename_local_variable h w p)"
    "state_io_rel R (rpc_set_local_variable_type h w p)"
    "state_io_rel R (rpc_set_decompiler_comment h w p)"
    "state_io_rel R (rpc_patch_assembly h w p)"
  unfolding rpc_set_comment_def rpc_set_function_comment_def rpc_rename_symbol_def
    rpc_rename_local_variable_def rpc_set_local_variable_type_def rpc_set_decompiler_comment_def
    rpc_patch_assembly_def
  using ok
  by (auto intro!: arm_intro[OF env] simp: de_requests dest!: arm_dest split: requests_split)

lemma flow_within [arm_within]:
  assumes env: "typed_env h w R" and ok: "json_ok p"
  shows "state_io_rel R (rpc_get_basic_blocks h w p)"
    "state_io_rel R (rpc_get_callees h w p)"
    "state_io_rel R (rpc_get_callers h w p)"
    "state_io_rel R (rpc_find_control_flow_paths h w p)"
  unfolding rpc_get_basic_blocks_def rpc_get_callees_def rpc_get_callers_def
    rpc_find_control_flow_paths_def
  using ok
  by (auto intro!: arm_intro[OF env] simp: de_requests dest!: arm_dest split: requests_split)

subsection \<open>Arms with loops and branches\<close>

lemma list_strings_within [arm_within]:
  "typed_env h w R \<Longrightarrow> json_ok p \<Longrightarrow> state_io_rel R (rpc_list_strings h w p)"
  unfolding rpc_list_strings_def Let_def by (auto intro!: within_value split: option.splits)

lemma callgraph_root_ok [simp]:
  assumes "json_ok v"
  shows "u64_ok (callgraph_root v)"
proof (cases "as_array v")
  case (Some rs)
  then have "opt_u64 (Option.bind (case rs of [] \<Rightarrow> None | r # _ \<Rightarrow> Some r) parse_address_value)"
    using json_ok_array[OF assms Some] by (cases rs) simp_all
  then show ?thesis using assms Some by (simp add: callgraph_root_def)
qed (use assms in \<open>simp add: callgraph_root_def\<close>)

lemma xref_matrix_ok:
  "json_ok v \<Longrightarrow> list_all u64_ok (case as_array v of None \<Rightarrow> [] | Some a \<Rightarrow> List.map_filter parse_address_value a)"
  using json_ok_array[of v] by (auto intro!: map_filter_address split: option.splits)

lemma batch_entries_ok:
  assumes "req_field (de_vec de_BatchRenameEntry) (field_at fs i) = Some renames" "fields_ok fs"
  shows "list_all (\<lambda>(a, _, _). opt_u64 a)
    (map (\<lambda>e. case e of BatchRenameEntry address current_name new_name \<Rightarrow>
            (opt_address address, current_name, new_name)) renames)"
proof -
  obtain xs where xs: "field_at fs i = Some (JArr xs)" "map de_BatchRenameEntry xs = map Some renames"
    using assms(1)
    by (auto simp: req_field_def those_Some split: option.splits elim!: de_vec.elims dest!: sym[of "Some renames"])
  have ok: "json_ok x" if "x \<in> set xs" for x
    using assms(2) xs(1) that by (auto simp: fields_ok_def dest!: spec[of _ i])
  have entry: "opt_u64 (opt_address address)"
    if x: "x \<in> set xs" and de: "de_BatchRenameEntry x = Some (BatchRenameEntry address c n)" for x address c n
    using de ok[OF x]
    by (auto simp: de_BatchRenameEntry_def dest!: bind_SomeD struct_fields_all opt_field_value)
  have "opt_u64 (opt_address address)" if "BatchRenameEntry address c n \<in> set renames" for address c n
  proof -
    have "Some (BatchRenameEntry address c n) \<in> set (map de_BatchRenameEntry xs)"
      using that xs(2) by simp
    then obtain x where "x \<in> set xs" "de_BatchRenameEntry x = Some (BatchRenameEntry address c n)"
      by (metis imageE list.set_map)
    then show ?thesis by (rule entry)
  qed
  then show ?thesis by (auto simp: list_all_iff split: BatchRenameEntry.split)
qed

lemma callgraph_within [arm_within]:
  assumes env: "typed_env h w R" and ok: "json_ok p"
  shows "state_io_rel R (rpc_build_callgraph h w p)" "state_io_rel R (rpc_build_xref_matrix h w p)"
    "state_io_rel R (rpc_batch_rename h w p)" "state_io_rel R (rpc_patch_bytes h w p)"
  unfolding rpc_build_callgraph_def rpc_build_xref_matrix_def rpc_batch_rename_def rpc_patch_bytes_def
  using ok
  by (auto intro!: arm_intro[OF env] simp: xref_matrix_ok de_CallGraphRequest_def de_XrefMatrixRequest_def
      de_BatchRenameRequest_def de_PatchRequest_def dest!: parse_patch_bytes_ok batch_entries_ok arm_dest
      split: CallGraphRequest.split XrefMatrixRequest.split BatchRenameRequest.split PatchRequest.split)

lemma traverse_within_text:
  assumes "typed_env h w R" "list_all u64_ok addrs" "\<And>a. u64_ok a \<Longrightarrow> text_method_ok (m a)"
  shows "state_io_rel R (traverse_list (\<lambda>a. map_state (f a) (text_call w (m a))) addrs)"
  using assms by (auto simp: list_all_iff intro!: within_traverse within_map within_text)

lemma disassemble_within [arm_within]:
  assumes env: "typed_env h w R" and ok: "json_ok p"
  shows "state_io_rel R (rpc_disassemble h w p)" "state_io_rel R (rpc_decompile_function h w p)"
proof -
  have hd: "u64_ok (hd addrs)" if "list_all u64_ok addrs" "length addrs = Suc 0" for addrs
    using that by (cases addrs) auto
  show "state_io_rel R (rpc_disassemble h w p)" "state_io_rel R (rpc_decompile_function h w p)"
    unfolding rpc_disassemble_def rpc_decompile_function_def Let_def
    using ok
    by (auto intro!: arm_intro[OF env] within_bind[OF env] within_return[OF env] traverse_within_text[OF env]
        simp: hd de_DisasmRequest_def de_DecompileRequest_def dest!: arm_dest parse_address_values_ok
        split: DisasmRequest.split DecompileRequest.split)
qed

lemma search_bytes_within [arm_within]:
  assumes env: "typed_env h w R" and ok: "json_ok p"
  shows "state_io_rel R (rpc_search_bytes h w p)"
  unfolding rpc_search_bytes_def Let_def using ok
  by (auto intro!: arm_intro[OF env] within_bind[OF env] within_return[OF env] within_traverse[OF env]
      simp: de_FindBytesRequest_def dest!: arm_dest split: FindBytesRequest.split)

lemma batch_entry_within:
  assumes "typed_env h w R" "json_ok v"
  shows "state_io_rel R (batch_entry w v)"
  using assms parse_address_value_ok[OF assms(2)]
  by (auto simp: batch_entry_def intro!: within_return within_map within_text split: option.splits)

lemma batch_addresses_ok:
  assumes "host_ok h" "json_ok v" "x \<in> set (batch_addresses h v)"
  shows "json_ok x"
proof -
  have "json_ok y" if "from_text h s = Some (JArr arr)" "y \<in> set arr" for s arr y
    using assms(1) that unfolding host_ok_def by fastforce
  then show ?thesis
    using assms(2,3) json_ok_array[OF assms(2)]
    by (auto simp: batch_addresses_def split: option.splits json.splits)
qed

lemma batch_decompile_within [arm_within]:
  assumes env: "typed_env h w R" and ok: "json_ok p"
  shows "state_io_rel R (rpc_batch_decompile h w p)"
proof -
  have "host_ok h" using env by (simp add: typed_env_def)
  then show ?thesis
    unfolding rpc_batch_decompile_def using ok
    by (auto intro!: arm_intro[OF env] within_bind[OF env] within_return[OF env] within_traverse[OF env]
        batch_entry_within[OF env] dest: batch_addresses_ok
        simp: de_BatchDecompileRequest_def dest!: arm_dest split: BatchDecompileRequest.split)
qed

lemma scan_address_ok [simp]: "u64_ok (scan_address base_addr stride i)"
  by (simp add: scan_address_def u64_ok_def)

lemma scan_entries_within:
  assumes env: "typed_env h w R" and stride: "u64_ok stride"
  shows "state_io_rel R (scan_entries w base_addr stride is)"
  by (induction "is")
     (auto simp: stride intro!: within_bind[OF env] within_bytes[OF env] within_return[OF env]
       split: sum.splits)

lemma scan_table_within [arm_within]:
  assumes env: "typed_env h w R" and ok: "json_ok p"
  shows "state_io_rel R (rpc_scan_memory_table h w p)" "state_io_rel R (rpc_diff_pseudocode h w p)"
  unfolding rpc_scan_memory_table_def rpc_diff_pseudocode_def Let_def using ok
  by (auto intro!: arm_intro[OF env] within_bind[OF env] within_return[OF env] scan_entries_within[OF env]
      simp: max_def de_TableScanRequest_def de_DiffFunctionsRequest_def parse_address_value_ok
      dest!: arm_dest split: TableScanRequest.split DiffFunctionsRequest.split option.splits sum.splits)

subsection \<open>The dispatcher\<close>

lemma arms_within:
  assumes "typed_env h w R" "json_ok p" "(name, arm) \<in> set rpc_arms"
  shows "state_io_rel R (arm h w p)"
  using assms(3) arm_within[OF assms(1,2)] unfolding rpc_arms_def by auto

lemma dispatch_within:
  assumes "typed_env h w R" "json_ok (q_params req)"
  shows "state_io_rel R (dispatch_rpc h w req)"
  unfolding dispatch_rpc_def
  using arms_within[OF assms] within_return[OF assms(1)] by (auto split: option.splits dest!: map_of_SomeD)

end
