(* ===== verification/Rpc_Names.thy ===== *)
theory Rpc_Names
  imports Rpc_Dispatch
begin

text \<open>
  The names of the dispatcher and of the registry together: the name of an arm is never
  an alias of another tool. So an arm is reached by its own name, and by every alias of the
  tool of that name.
\<close>

definition arm_names :: "string list" where
  "arm_names = map fst (rpc_arms :: (string \<times> (host \<Rightarrow> unit worker \<Rightarrow> json \<Rightarrow> unit rpc)) list)"

lemma rpc_arms_names: "map fst (rpc_arms :: (string \<times> (host \<Rightarrow> 'w worker \<Rightarrow> json \<Rightarrow> 'w rpc)) list) = arm_names"
  by (simp add: arm_names_def rpc_arms_def)

definition unregistered_arms :: "string list" where
  "unregistered_arms = [''open'', ''close'', ''shutdown'', ''read_int'', ''search_imm'']"

lemma arm_names_registered: "set arm_names \<subseteq> set (map tool_name TOOL_REGISTRY) \<union> set unregistered_arms"
  unfolding registry_names arm_names_def rpc_arms_def unregistered_arms_def list.map fst_conv
  by (simp only: list.set Un_insert_left Un_empty_left insert_subset empty_subsetI, intro conjI TrueI;
      (rule insertI1 | rule insertI2)+)

lemma ascending_all: "ascending (sort (map name_number (concat (map tool_names TOOL_REGISTRY) @ unregistered_arms)))"
  unfolding registry_all_names by code_simp

lemma unregistered_not_named:
  assumes "n \<in> set unregistered_arms"
  shows "n \<notin> set (concat (map tool_names TOOL_REGISTRY))"
proof -
  have "distinct (map name_number (concat (map tool_names TOOL_REGISTRY) @ unregistered_arms))"
    using ascending_distinct[OF ascending_all] by simp
  then show ?thesis using assms by (auto simp: distinct_map)
qed

lemma primary_name_for_other: "n \<notin> set (concat (map tool_names TOOL_REGISTRY)) \<Longrightarrow> primary_name_for n = n"
  using get_tool_by_alias_Some[of n] by (auto simp: primary_name_for_def split: option.splits)

lemma primary_name_for_arm: "n \<in> set arm_names \<Longrightarrow> primary_name_for n = n"
  using arm_names_registered primary_name_for_other[OF unregistered_not_named] primary_name_for_names[of _ n]
  by (fastforce simp: tool_names_def)

lemma arm_named:
  fixes arm :: "host \<Rightarrow> 'w worker \<Rightarrow> json \<Rightarrow> 'w rpc"
  assumes "(name, arm) \<in> set rpc_arms"
  shows "name \<in> set arm_names"
proof -
  have "name \<in> set (map fst (rpc_arms :: (string \<times> (host \<Rightarrow> 'w worker \<Rightarrow> json \<Rightarrow> 'w rpc)) list))"
    using assms by force
  then show ?thesis unfolding rpc_arms_names .
qed

lemma ascending_arms: "ascending (sort (map name_number arm_names))"
  unfolding arm_names_def rpc_arms_def list.map fst_conv by code_simp

text \<open>The arms have distinct names, so the arm of a name is the one listed with it.\<close>

lemma arm_lookup:
  fixes arm :: "host \<Rightarrow> 'w worker \<Rightarrow> json \<Rightarrow> 'w rpc"
  assumes "(name, arm) \<in> set rpc_arms"
  shows "map_of rpc_arms name = Some arm"
proof -
  have "distinct (map name_number arm_names)" using ascending_distinct[OF ascending_arms] by simp
  then have "distinct (map fst (rpc_arms :: (string \<times> (host \<Rightarrow> 'w worker \<Rightarrow> json \<Rightarrow> 'w rpc)) list))"
    unfolding rpc_arms_names by (simp add: distinct_map)
  then show ?thesis using assms by (rule map_of_is_SomeI)
qed

lemma dispatch_arm:
  assumes "map_of rpc_arms name = Some arm" "q_method req = name"
  shows "dispatch_rpc h w req = arm h w (q_params req)"
proof -
  have "name \<in> set arm_names" using arm_named[OF map_of_SomeD[OF assms(1)]] .
  then show ?thesis using assms by (simp add: dispatch_rpc_def primary_name_for_arm)
qed

end
