(* ===== verification/Worker_Rpc.thy ===== *)
theory Worker_Rpc
  imports Rpc_Names
begin

text \<open>
  The request loop of a worker process, \<open>run_serve_worker\<close> of \<open>src/main.rs\<close>: it reads requests from
  its standard input, one line each, and writes a response line for each. What a read gives is a
  value of \<open>input\<close>; parsing a line into a request is serde's. The loop ends at the end of the
  input, on a read error and after a request to shut down; the first two shut the worker down.
\<close>

datatype input = InputLine string | InputEof | InputError

definition worker_response :: "RpcRequest \<Rightarrow> ToolError + json \<Rightarrow> RpcResponse" where
  "worker_response req result =
     (case result of
        Inr v \<Rightarrow> rpc_ok (q_id req) v
      | Inl e \<Rightarrow> rpc_err (q_id req) (- 32000) (tool_error_to_string e))"

definition serve_request :: "host \<Rightarrow> 'w worker \<Rightarrow> RpcRequest \<Rightarrow> ('w, RpcResponse) state" where
  "serve_request h w req = map_state (worker_response req) (dispatch_rpc h w req)"

definition parse_error :: "string \<Rightarrow> RpcResponse" where
  "parse_error e = rpc_err ''null'' (- 32700) (''Parse error: '' @ e)"

text \<open>
  \<open>parse\<close> reads a line as a request or gives the error text. The list holds what the reads give;
  a list that ends before the loop does is a worker still waiting for input.
\<close>

fun rpc_loop ::
  "host \<Rightarrow> (string \<Rightarrow> string + RpcRequest) \<Rightarrow> 'w worker \<Rightarrow> input list \<Rightarrow> ('w, RpcResponse list) state" where
  "rpc_loop h parse w [] = State_Monad.return []"
| "rpc_loop h parse w (InputEof # rest) = map_state (\<lambda>_. []) (unit_call w w_shutdown)"
| "rpc_loop h parse w (InputError # rest) = map_state (\<lambda>_. []) (unit_call w w_shutdown)"
| "rpc_loop h parse w (InputLine line # rest) =
     (if trim line = [] then rpc_loop h parse w rest
      else (case parse (trim line) of
              Inl e \<Rightarrow> map_state (Cons (parse_error e)) (rpc_loop h parse w rest)
            | Inr req \<Rightarrow> do {
                response \<leftarrow> serve_request h w req;
                if q_method req = ''shutdown'' then State_Monad.return [response]
                else map_state (Cons response) (rpc_loop h parse w rest)
              }))"

subsection \<open>One response for each request\<close>

text \<open>
  What the loop should answer, from the inputs alone: the non-blank lines before the input ends,
  up to and including the first request to shut down.
\<close>

fun line_text :: "input \<Rightarrow> string" where
  "line_text (InputLine line) = trim line"
| "line_text _ = []"

definition is_line :: "input \<Rightarrow> bool" where
  "is_line i \<longleftrightarrow> (case i of InputLine _ \<Rightarrow> True | _ \<Rightarrow> False)"

definition is_shutdown :: "string + RpcRequest \<Rightarrow> bool" where
  "is_shutdown r = (case r of Inr req \<Rightarrow> q_method req = ''shutdown'' | Inl _ \<Rightarrow> False)"

fun until_shutdown :: "(string + RpcRequest) list \<Rightarrow> (string + RpcRequest) list" where
  "until_shutdown [] = []"
| "until_shutdown (r # rs) = r # (if is_shutdown r then [] else until_shutdown rs)"

definition served :: "(string \<Rightarrow> string + RpcRequest) \<Rightarrow> input list \<Rightarrow> (string + RpcRequest) list" where
  "served parse inputs =
     until_shutdown (map parse (filter (\<lambda>t. t \<noteq> []) (map line_text (takeWhile is_line inputs))))"

definition request_id :: "string + RpcRequest \<Rightarrow> string" where
  "request_id r = (case r of Inl _ \<Rightarrow> ''null'' | Inr req \<Rightarrow> q_id req)"

definition answered :: "RpcResponse \<Rightarrow> bool" where
  "answered r \<longleftrightarrow> (r_result r = None) \<noteq> (r_error r = None)"

lemma run_map_state [simp]: "run_state (map_state f m) s = (f (fst (run_state m s)), snd (run_state m s))"
  by (cases m) (simp add: split_beta map_prod_def)

lemma worker_response_id: "r_id (worker_response req r) = q_id req" "answered (worker_response req r)"
  by (simp_all add: worker_response_def answered_def rpc_ok_def rpc_err_def split: sum.splits)

lemma parse_error_id: "r_id (parse_error e) = ''null''" "answered (parse_error e)"
  by (simp_all add: parse_error_def answered_def rpc_err_def)

lemma rpc_loop_responses:
  "list_all2 (\<lambda>q r. r_id r = request_id q \<and> answered r)
     (served parse inputs) (fst (run_state (rpc_loop h parse w inputs) s))"
proof (induction h parse w inputs arbitrary: s rule: rpc_loop.induct)
  case (4 h parse w line rest)
  show ?case
  proof (cases "trim line = []")
    case True
    then show ?thesis using 4(1)[OF True, of s] by (simp add: served_def is_line_def)
  next
    case False
    show ?thesis
    proof (cases "parse (trim line)")
      case (Inl e)
      then show ?thesis
        using 4(2)[OF False Inl, of s] False
        by (simp add: served_def is_line_def is_shutdown_def request_id_def parse_error_id)
    next
      case (Inr req)
      then show ?thesis
        using 4(3)[OF False Inr] False
        by (auto simp: served_def is_line_def is_shutdown_def request_id_def serve_request_def
            worker_response_id split_beta)
    qed
  qed
qed (simp_all add: served_def is_line_def)

end
