(* ===== verification/Rpc_Props.thy ===== *)
theory Rpc_Props
  imports Rpc_Typed Worker_Rpc
begin






text \<open>
  C8. The worker process answers each request line once, in order and under the request's id,
  until the input ends or a request to shut down has been answered; a line that is no request
  is answered under the id \<open>null\<close>. Every response holds a result or an error, never both.
\<close>

theorem rpc_loop_answers:
  "list_all2 (\<lambda>q r. r_id r = request_id q \<and> answered r)
     (served parse inputs) (fst (run_state (rpc_loop h parse w inputs) s))"
  by (rule rpc_loop_responses)

subsection \<open>The diff of two functions\<close>

fun common_lines :: "string list \<Rightarrow> string list \<Rightarrow> nat" where
  "common_lines (x # xs) (y # ys) = (if x = y then 1 else 0) + common_lines xs ys"
| "common_lines _ _ = 0"

text \<open>
  The diff determines both functions: its lines that are not additions are the lines of the
  first, its lines that are not removals those of the second, each after its two-character
  mark. The similarity is the number of positions at which the two agree, out of the length of
  the longer.
\<close>

lemma diff_lines_reconstruct:
  "case diff_lines xs ys of (diff, same, different) \<Rightarrow>
     map (drop 2) (filter (\<lambda>l. hd l \<noteq> CHR ''+'') diff) = xs \<and>
     map (drop 2) (filter (\<lambda>l. hd l \<noteq> CHR ''-'') diff) = ys \<and>
     same = common_lines xs ys \<and> same + different = max (length xs) (length ys)"
  by (induction xs ys rule: diff_lines.induct) (auto split: prod.splits)

end
