(* ===== verification/Server_Modes.thy ===== *)
theory Server_Modes
  imports Server_Tools Rpc_Props
begin

text \<open>
  Router mode against direct mode. \<open>routed\<close> is a server whose router hands a request to a worker
  process: the request is served by the dispatcher and the response read back, so an error
  arrives as an \<open>IdaError\<close> with the text of the worker's error. \<open>direct\<close> calls the same worker
  itself. The lemmas show for which requests the two make the same call and give the same
  answer, and the theorems at the end where they do not.
\<close>

definition worker_route :: "string \<Rightarrow> host \<Rightarrow> 'w worker \<Rightarrow> 'w route" where
  "worker_route i h w handle method params =
     map_state (\<lambda>resp. await_result 0 (Received (response_value resp)))
       (serve_request h w (rpc_request_new i method params))"

definition routed :: "string \<Rightarrow> host \<Rightarrow> 'w worker \<Rightarrow> 'w server" where
  "routed i h w = \<lparr>srv_router = Some (worker_route i h w), srv_worker = w\<rparr>"

definition direct :: "'w worker \<Rightarrow> 'w server" where
  "direct w = \<lparr>srv_router = None, srv_worker = w\<rparr>"

fun wire_result :: "tool_result \<Rightarrow> tool_result" where
  "wire_result (Failure e) = Failure (IdaError (tool_error_to_string e))"
| "wire_result r = r"

subsection \<open>The way through a worker process\<close>

lemma server_sel [simp]:
  "srv_router (routed i h w) = Some (worker_route i h w)" "srv_worker (routed i h w) = w"
  "srv_router (direct w) = None" "srv_worker (direct w) = w"
  by (simp_all add: routed_def direct_def)

lemma wire_answer: "answer (await_result t (Received (response_value (worker_response req r)))) = wire_result (answer r)"
  by (cases r) (simp_all add: answer_def await_result_def response_value_def worker_response_def rpc_ok_def rpc_err_def)

lemma map_state_comp: "map_state f (map_state g m) = map_state (\<lambda>x. f (g x)) m"
  by (simp add: state.map_comp comp_def)

lemma route_arm:
  assumes "map_of rpc_arms method = Some arm"
  shows "route_or_err (worker_route i h w) handle method params = map_state wire_result (value_result (arm h w params))"
  using dispatch_arm[OF assms, of "rpc_request_new i method params" h w]
  by (simp add: route_or_err_def worker_route_def serve_request_def map_state_comp wire_answer value_result_def
      rpc_request_new_def)

lemma try_then_params: "de p = Some req \<Longrightarrow> try_then (parse_params h t de p) k = k req"
  by (simp add: try_then_def parse_params_def)

lemma answer_try_Inr [simp]: "answer_try (Inr x) k = k x"
  by (simp add: answer_try_def)

subsection \<open>Addresses that both modes read alike\<close>

lemma radix_loop_digits: "radix_loop w r acc s = Some n \<Longrightarrow> c \<in> set s \<Longrightarrow> to_digit r c \<noteq> None"
  by (induction w r acc s rule: radix_loop.induct) (auto split: option.splits if_splits)

lemma from_str_radix_chars:
  "from_str_radix w r s = Some n \<Longrightarrow> c \<in> set s \<Longrightarrow> c = CHR ''+'' \<or> to_digit r c \<noteq> None"
  using radix_loop_digits[of w r 0 _ n c]
  by (cases s) (auto simp: from_str_radix_def simp del: radix_loop.simps split: if_splits)

definition address_text :: "string \<Rightarrow> nat \<Rightarrow> bool" where
  "address_text s n \<longleftrightarrow>
     (\<exists>digits. (s = ''0x'' @ digits \<or> s = ''0X'' @ digits) \<and> from_str_radix 64 16 digits = Some n) \<or>
     (\<not> starts_with ''0x'' s \<and> \<not> starts_with ''0X'' s \<and> from_str_radix 64 10 s = Some n)"

lemma parse_address_value_text:
  assumes "parse_address_value (JStr s) = Some n"
  shows "address_text (trim s) n"
proof -
  have hex: "from_str_radix 64 16 (drop 2 (trim s)) = Some n"
    if "starts_with ''0x'' (trim s) \<or> starts_with ''0X'' (trim s)"
    using that assms by (auto simp: parse_address_value_def Let_def strip_prefix_def numeral_2_eq_2 split: if_splits)
  have dec: "from_str_radix 64 10 (trim s) = Some n"
    if "\<not> (starts_with ''0x'' (trim s) \<or> starts_with ''0X'' (trim s))"
    using that assms by (auto simp: parse_address_value_def Let_def strip_prefix_def)
  show ?thesis
  proof (cases "starts_with ''0x'' (trim s) \<or> starts_with ''0X'' (trim s)")
    case True
    then show ?thesis using hex unfolding address_text_def starts_with_iff by (elim disjE exE) simp_all
  next
    case False
    then show ?thesis using dec unfolding address_text_def by simp
  qed
qed

lemma address_text_chars:
  assumes "address_text s n" "c \<in> set s"
  shows "c \<noteq> CHR ''_'' \<and> c \<noteq> CHR '','' \<and> c \<noteq> CHR ''[''"
proof -
  have digit: "c \<noteq> CHR ''_'' \<and> c \<noteq> CHR '','' \<and> c \<noteq> CHR ''[''"
    if "c = CHR ''+'' \<or> to_digit r c \<noteq> None" "r = 16 \<or> r = 10" for r
    using that by (auto simp: to_digit_def code_of_def Let_def)
  consider (hex) digits where "s = ''0x'' @ digits \<or> s = ''0X'' @ digits" "from_str_radix 64 16 digits = Some n"
    | (dec) "from_str_radix 64 10 s = Some n"
    using assms(1) unfolding address_text_def by blast
  then show ?thesis
  proof cases
    case hex
    then have "c = CHR ''0'' \<or> c = CHR ''x'' \<or> c = CHR ''X'' \<or> c \<in> set digits" using assms(2) by auto
    then show ?thesis using digit[of 16] from_str_radix_chars[OF hex(2), of c] by auto
  next
    case dec
    then show ?thesis using digit[of 10] from_str_radix_chars[OF dec assms(2)] by auto
  qed
qed

lemma address_text_parse:
  assumes "address_text s n" "trim t = s"
  shows "server_parse_address t = Inr n"
proof -
  have keep: "filter (\<lambda>c. c \<noteq> CHR ''_'') s = s"
    using address_text_chars[OF assms(1)] by (simp add: filter_id_conv)
  consider (hex) digits where "s = ''0x'' @ digits \<or> s = ''0X'' @ digits" "from_str_radix 64 16 digits = Some n"
    | (dec) "from_str_radix 64 10 s = Some n" "\<not> starts_with ''0x'' s" "\<not> starts_with ''0X'' s"
    using assms(1) unfolding address_text_def by blast
  then show ?thesis
  proof cases
    case hex
    then show ?thesis
      using keep assms(2) by (auto simp: server_parse_address_def starts_with_def numeral_2_eq_2)
  next
    case dec
    have second: "to_digit 10 c \<noteq> None" if s: "s = CHR ''0'' # c # cs" for c cs
    proof -
      have "radix_loop 64 10 0 s = Some n"
        using dec(1) by (simp add: from_str_radix_def s del: radix_loop.simps)
      then show ?thesis using radix_loop_digits[of 64 10 0 s n c] s by simp
    qed
    have "\<not> starts_with [CHR ''0'', c] s" if c: "c \<in> {CHR ''b'', CHR ''B'', CHR ''o'', CHR ''O''}" for c
    proof
      assume "starts_with [CHR ''0'', c] s"
      then obtain t where "s = CHR ''0'' # c # t" by (auto simp: starts_with_iff)
      then have "to_digit 10 c \<noteq> None" by (rule second)
      then show False using c by (auto simp: to_digit_def code_of_def)
    qed
    then show ?thesis using keep assms(2) dec by (simp add: server_parse_address_def Let_def)
  qed
qed

lemma trim_trim [simp]: "trim (trim s) = trim s"
proof -
  define ys where "ys = dropWhile is_whitespace s"
  define zs where "zs = rev (dropWhile is_whitespace (rev ys))"
  have "rev ys = takeWhile is_whitespace (rev ys) @ rev zs" by (simp add: zs_def)
  then have ys: "ys = zs @ rev (takeWhile is_whitespace (rev ys))" by (metis rev_append rev_rev_ident)
  have "dropWhile is_whitespace zs = zs"
  proof (cases zs)
    case (Cons z zs')
    then have "hd ys = z" "ys \<noteq> []" using ys by (metis append_Cons list.sel(1)) (use Cons ys in auto)
    then have "\<not> is_whitespace z" using hd_dropWhile[of is_whitespace s] by (simp add: ys_def)
    then show ?thesis using Cons by simp
  qed simp
  then show ?thesis by (simp add: trim_def ys_def[symmetric] zs_def[symmetric]) (simp add: zs_def)
qed

lemma contains_char: "contains s [c] \<longleftrightarrow> c \<in> set s"
  by (induction s) (auto simp: starts_with_def)

definition readable_address :: "json \<Rightarrow> bool" where
  "readable_address v \<longleftrightarrow> json_ok v \<and> parse_address_value v \<noteq> None"

lemma readable_addresses:
  assumes "readable_address v" "parse_address_value v = Some n"
  shows "value_to_addresses h v = Inr [n]"
proof (cases v)
  case (JNum m)
  then have "n = m" "m < 2 ^ 64" using assms by (auto simp: parse_address_value_def readable_address_def u64_ok_def)
  moreover have "server_parse_address (fmt_dec m) = Inr m"
    using parse_address_dec[of m "[]" "[]"] \<open>m < 2 ^ 64\<close>
    by (intro address_text_parse[OF parse_address_value_text refl]) simp
  ultimately show ?thesis
    using JNum by (simp add: value_to_addresses_def value_to_strings_def string_or_number_def)
next
  case (JStr s)
  have addr: "address_text (trim s) n" using parse_address_value_text assms(2) JStr by simp
  then have ne: "trim s \<noteq> []" by (auto simp: address_text_def from_str_radix_def)
  have "CHR '','' \<notin> set (trim s)" "\<not> starts_with ''['' (trim s)"
    using address_text_chars[OF addr, of "CHR '',''"] address_text_chars[OF addr, of "CHR ''[''"]
    by (auto simp: starts_with_iff)
  then have "value_to_strings h v = Inr [trim s]"
    using JStr ne by (simp add: value_to_strings_def Let_def contains_char)
  moreover have "server_parse_address (trim s) = Inr n"
    by (rule address_text_parse[OF addr]) simp
  ultimately show ?thesis by (simp add: value_to_addresses_def)
qed (use assms in \<open>simp_all add: parse_address_value_def\<close>)

lemma readable_single:
  "readable_address v \<Longrightarrow> parse_address_value v = Some n \<Longrightarrow> value_to_single_address h v = Inr n"
  by (simp add: value_to_single_address_def readable_addresses)

lemma readable_opt_address [simp]:
  "pred_option readable_address v \<Longrightarrow> with_opt_address h v k = k (opt_address v)"
  using readable_single[of "the v"]
  by (cases v) (auto simp: with_opt_address_def opt_address_def readable_address_def)


subsection \<open>Editing tools\<close>

























subsection \<open>Where the modes differ\<close>

lemma query_arms:
  "map_of rpc_arms ''get_pseudocode_at'' = Some rpc_get_pseudocode_at"
  "map_of rpc_arms ''batch_lookup_functions'' = Some rpc_batch_lookup_functions"
  "map_of rpc_arms ''read_bytes'' = Some rpc_read_bytes"
  "map_of rpc_arms ''read_string'' = Some rpc_read_string"
  "map_of rpc_arms ''get_xrefs_to_string'' = Some rpc_get_xrefs_to_string"
  "map_of rpc_arms ''get_xrefs_to_struct_field'' = Some rpc_get_xrefs_to_struct_field"
  "map_of rpc_arms ''build_callgraph'' = Some rpc_build_callgraph"
  "map_of rpc_arms ''find_control_flow_paths'' = Some rpc_find_control_flow_paths"
  "map_of rpc_arms ''search_instructions'' = Some rpc_search_instructions"
  by (rule arm_lookup; unfold rpc_arms_def list.set; (rule insertI1 | rule insertI2)+)+

definition calls :: "(any_call list, 'r) state \<Rightarrow> any_call list" where
  "calls m = snd (run_state m [])"

abbreviation watch :: "any_call list worker" where
  "watch \<equiv> recorder (\<lambda>_. Inr []) (\<lambda>_. Inr JNull)"

lemma calls_simps [simp]:
  "calls (map_state f m) = calls m" "calls (record_call c r) = [c]"
  "calls (value_result v) = calls v" "calls (bytes_result b) = calls b"
  by (simp_all add: calls_def value_result_def bytes_result_def)

lemma range_params:
  "de_PseudocodeAtRequest (JObj [(''address'', v), (''end_addr'', e)]) = Some (PseudocodeAtRequest None v None)"
  "de_LookupFuncsRequest (JObj [(''queries'', v)]) = Some (LookupFuncsRequest None v)"
  by (simp_all add: de_PseudocodeAtRequest_def de_LookupFuncsRequest_def struct_fields_def field_value_def
      field_at_def opt_field_def req_field_def)

text \<open>
  C35. Requests lose parameters in router mode. The server sends the end of a pseudocode range
  under a name the worker does not read, so the worker is asked for the start address alone,
  whatever the range; a lookup given as one text, which direct mode splits into names, reaches
  the worker as an empty list; and an immediate written in hexadecimal is searched as zero.
\<close>

theorem routed_requests_lose_parameters:
  "calls (tool_get_pseudocode_at h (routed i h watch) (PseudocodeAtRequest db v end_address)) =
     [ValueCall (Func (w_pseudocode_at (address_or_zero v) None))] \<and>
   calls (tool_batch_lookup_functions h (routed i h watch) (LookupFuncsRequest db (JStr names))) =
     [ValueCall (Func (w_lookup_funcs []))] \<and>
   search_request ''imm'' limit timeout (fmt_hex_alt n) =
     (''search_imm'', JObj [(''imm'', JNum 0), (''max_results'', ser_opt JNum limit), (''timeout_secs'', ser_opt JNum timeout)])"
proof (intro conjI)
  show "search_request ''imm'' limit timeout (fmt_hex_alt n) =
     (''search_imm'', JObj [(''imm'', JNum 0), (''max_results'', ser_opt JNum limit), (''timeout_secs'', ser_opt JNum timeout)])"
    by (simp add: search_request_def fmt_hex_alt_def from_str_radix_def to_digit_def code_of_def unwrap_or_def)
qed (simp_all add: tool_get_pseudocode_at_def tool_batch_lookup_functions_def route_arm query_arms
    rpc_get_pseudocode_at_def rpc_batch_lookup_functions_def try_then_params range_params parse_string_list_def)













end
