(* ===== verification/Spec2Isabelle.thy ===== *)
theory Spec2Isabelle
  imports Tasks Router_Refinement Db_Refs Router_Names Warm_Pool Prewarm_Queue Route_Queue Cache_Pruning
    Insn_Search Control_Flow Tool_Search Worker_Queue Federation Lock_File Dsc_Scripts Server_Modes
begin

text \<open>
  Verification of \<open>ida-mcp\<close>, a server that gives clients of the Model Context Protocol access to IDA.

  \<^bold>\<open>The program.\<close>  A server process takes tool calls from clients (\<open>src/server/mod.rs\<close>). In direct mode
  it runs them on a worker of its own; in router mode it forwards them as JSON to worker processes,
  one per open database. The router (\<open>src/router/mod.rs\<close>) keeps the table of worker processes, counts
  the references clients hold to them, keeps some of them warm, queues background work, prunes two
  directories on disk and can hand tasks to other routers (\<open>src/federation.rs\<close>). A worker process
  reads request lines (\<open>src/main.rs\<close>), finds the method (\<open>src/rpc_dispatch.rs\<close>, with the aliases of
  \<open>src/tool_registry.rs\<close>) and calls the worker interface (\<open>src/ida/worker_trait.rs\<close>), which queues
  a request for the one thread that may call IDA (\<open>src/ida/worker.rs\<close>, \<open>src/ida/loop_impl.rs\<close>). The
  handlers of that thread (\<open>src/ida/handlers\<close>) ask IDA through the library \<open>idalib\<close>. A lock file
  keeps two workers from one database (\<open>src/ida/lock.rs\<close>).

  \<^bold>\<open>How it is modelled.\<close>  The definitions are functions of HOL that keep the names of the source. A struct
  is a record, an enum a datatype, a \<open>HashMap\<close> an association list with distinct keys (in any order: the
  step relations may permute it), a \<open>Result\<close> a sum with the error on the left, a string a list of
  bytes. State behind a mutex is passed explicitly, and each section that runs under the lock is one
  function; a step relation interleaves these sections in every way. Calls of a worker are in the state
  monad. Integers are natural numbers or integers, with the width of the Rust type written out
  where it matters: saturating sums of sizes, wrapping sums of addresses, checked parsing. The code is
  that of a release build, where overflow wraps around.

  What the program takes from outside is an argument: clocks and process numbers, the outcome of
  starting, writing to and waiting for a process, the contents of directories, what IDA answers, the
  printer and parser of \<open>serde_json\<close> and the texts of its errors, HTTP answers, and the rounding of
  doubles (of which monotonicity and exactness at 0 and 1 are assumed where ranks are compared).

  \<^bold>\<open>Shared theories.\<close>
    \<^item> \<open>Prelude\<close>: maps and sets of Rust, with the collection \<open>hm_simps\<close>.
    \<^item> \<open>Rust_Text\<close>: \<open>str\<close>, number formatting and parsing, with the round trip between the two, and paths.
    \<^item> \<open>Json\<close>: \<open>serde_json::Value\<close> and \<open>ToolError\<close> of \<open>src/error.rs\<close>.
    \<^item> \<open>Serde\<close>: what the derive attributes generate for structs.

  \<^bold>\<open>Interfaces.\<close>  Three locales hold contracts with several providers.
    \<^item> \<open>Ref_Registry\<close>: reference counting with tokens, provided by the worker table and by \<open>DbRefTracker\<close>.
    \<^item> \<open>Tenant_Queue\<close>: a queue with limits per tenant, provided by the prewarm and the route queue.
    \<^item> \<open>Evict_Scan\<close>: a pass that evicts the oldest first and spares what is pinned, provided by the
      database store and the response cache.

  \<^bold>\<open>Router.\<close>
    \<^item> \<open>Worker_Table\<close>: \<open>RouterInner\<close> and its lock sections: finding and spawning workers, references,
      dispatching and answering requests, closing, evicting, collecting, shutting down.
    \<^item> \<open>Router_Invariants\<close>, \<open>Router_Steps\<close>, \<open>Router_Props\<close>: the invariant, that every section keeps it, and
      what follows in every reachable state: each request is pending once or was answered once, the
      indexes agree, the limits hold, reference counts are exact; and what eviction, collection,
      shutdown and a routed request do.
    \<^item> \<open>Router_Refinement\<close>: the table implements a contract of open workers and held tokens.
    \<^item> \<open>Router_Names\<close>: when handles and tokens are distinct.
    \<^item> \<open>Warm_Pool\<close>: leases of warm workers and the cached runtime probe. A lock that a function takes again
      while it holds it is \<open>None\<close>, so the lemmas say exactly when these functions return.
    \<^item> \<open>Prewarm_Queue\<close>, \<open>Route_Queue\<close>: the two queues of background work. Driving a queue stops and leaves
      nothing startable; the limits that hold, and two ways in which they or a cancellation fail.
    \<^item> \<open>Federation\<close>: choosing the least loaded node and following a task given to it.
    \<^item> \<open>Tasks\<close>, \<open>Iso_Time\<close>: the registry of background tasks (\<open>src/server/task.rs\<close>): settled tasks stay
      settled, at most one running task per key; its dates are those of the Gregorian calendar.
    \<^item> \<open>Runtime_Config\<close>: choice of the backend and the limits read from the environment.

  \<^bold>\<open>Disk.\<close>
    \<^item> \<open>Disk_Caches\<close>, \<open>Cache_Pruning\<close>: the database store (\<open>src/idb_store.rs\<close>) and the response cache
      (\<open>src/server/response_cache.rs\<close>): eviction reaches the limit and never removes the database of a
      warm worker.
    \<^item> \<open>Lock_File\<close>: lock files as sequences of system calls of processes that may die in the middle. They
      exclude each other when opens and closes do not interleave, and do not when they interleave.
    \<^item> \<open>Dsc_Scripts\<close>: scripts generated for shared caches (\<open>src/dsc.rs\<close>), into which no name injects code.

  \<^bold>\<open>From a request to the worker.\<close>
    \<^item> \<open>Requests\<close>: the request structs (\<open>src/server/requests.rs\<close>), with the round trips of those forwarded.
    \<^item> \<open>Worker_Calls\<close>: the methods of the worker trait with the types of their arguments.
    \<^item> \<open>Tool_Registry\<close>, \<open>Tool_Search\<close>: the table of tools, names and aliases, the free-text search.
    \<^item> \<open>Rpc_Dispatch\<close>, \<open>Rpc_Typed\<close>, \<open>Rpc_Names\<close>, \<open>Worker_Rpc\<close>, \<open>Rpc_Props\<close>: every arm of the dispatcher and the
      loop around it. Every call is within the types of the trait, aliases lead to their tools, and
      each line is answered once and in order.
    \<^item> \<open>Server_Tools\<close>, \<open>Server_Modes\<close>: seventy-three tool handlers of the server in both modes. The
      editing tools do the same in both; other theorems state where the modes differ.
    \<^item> \<open>Worker_Queue\<close>: the bounded queue in front of the thread of IDA. Accepted requests run one at a time
      in order, and one whose caller left in time never runs.
    \<^item> \<open>Db_Refs\<close>: the references of one worker process to its database.

  \<^bold>\<open>Handlers.\<close>
    \<^item> \<open>Addresses\<close>: readers of addresses, byte patterns and patch bytes.
    \<^item> \<open>Search\<close>, \<open>Insn_Search\<close>: the chunked byte search equals the naive one; the instruction search reports
      exactly the matches.
    \<^item> \<open>Control_Flow\<close>: call graph and path search are sound, bounded, and complete within their bounds.

  \<^bold>\<open>Loops.\<close>  No definition has fuel. Loops over data are structural; the others (walks over addresses, the
  eviction of workers, the queues, the graph searches) are total, with a measure that decreases. The
  polling of a federated task and the steps of the interleavings are recursions over the list of events
  that happen.

  \<^bold>\<open>Not modelled.\<close>
    \<^item> Handlers that only copy what IDA answers (strings, disassembly, structs, types, functions, globals,
      imports, cross references, segments, memory, annotations, scripts, the debugger, opening a
      database apart from its lock): their content is that of \<open>idalib\<close>, which is not in the sources.
    \<^item> Tools of the server that open or close databases, run scripts, load shared caches or debug: they
      consist of file system checks, child processes and texts around calls of these handlers.
    \<^item> \<open>src/idat_compat.rs\<close> and \<open>src/sbpf.rs\<close>: they generate scripts for child processes or run external
      programs, and their answers are the output of these.
    \<^item> The command line client, the socket listener, the HTTP and stdio servers and signal handling:
      input and output around the router operations above.
    \<^item> \<open>src/server/tools\<close>: no module declares it.
    \<^item> Read-only reports of the router (status and metrics), which format the modelled state.
    \<^item> White space and case of characters outside ASCII.
\<close>

end
